(* ===== verification/Vault_Prelude.thy ===== *)
theory Vault_Prelude
  imports Main "HOL-Library.Word"
begin

text \<open>
  Shared vocabulary of the development: the widths of Go's integers and their
  conversions, operations on tables kept as lists of rows (lookup by predicate,
  update by predicate), and the generic lemmas about them that the component
  theories use.  The collection \<open>row_simps\<close> gathers the rewrite rules that
  describe how a table operation shows up in a lookup or a sum.
\<close>

named_theorems row_simps \<open>lookups and sums over updated tables\<close>
named_theorems go_defs \<open>definitions of Go level helpers, for evaluation\<close>

section \<open>Machine integers\<close>

type_synonym int32 = "32 word"
type_synonym int64 = "64 word"

text \<open>Go's \<open>int\<close> has 64 bits on the platforms the services are built for.\<close>

type_synonym go_int = "64 word"

text \<open>The conversion \<open>int32(x)\<close> of a Go \<open>int\<close> drops the upper half;
  \<open>int(x)\<close> of an \<open>int32\<close> extends the sign.\<close>

definition to_int32 :: "go_int \<Rightarrow> int32" where
  "to_int32 x = ucast x"

definition of_int32 :: "int32 \<Rightarrow> go_int" where
  "of_int32 x = scast x"

lemma sint_of_int32 [simp]: "sint (of_int32 x) = sint x"
  by (simp add: of_int32_def sint_up_scast is_up)

lemma to_int32_of_int32 [simp]: "to_int32 (of_int32 x) = x"
  unfolding to_int32_def of_int32_def
  by (rule bit_word_eqI) (auto simp: bit_simps)

lemma of_int32_inject [simp]: "of_int32 x = of_int32 y \<longleftrightarrow> x = y"
  by (metis to_int32_of_int32)

lemma of_int32_0 [simp]: "of_int32 0 = 0"
  by (simp add: of_int32_def)

lemma sint_32_bounds: "- (2 ^ 31) \<le> sint (x :: int32)" "sint (x :: int32) < 2 ^ 31"
  using sint_greater_eq [of x] sint_less [of x] by simp_all

lemma sint_64_bounds: "- (2 ^ 63) \<le> sint (x :: int64)" "sint (x :: int64) < 2 ^ 63"
  using sint_greater_eq [of x] sint_less [of x] by simp_all

lemma sint_word_of_int_32:
  "- (2 ^ 31) \<le> i \<Longrightarrow> i < 2 ^ 31 \<Longrightarrow> sint (word_of_int i :: int32) = i"
  by (simp add: signed_of_int signed_take_bit_int_eq_self)

lemma sint_word_of_int_64:
  "- (2 ^ 63) \<le> i \<Longrightarrow> i < 2 ^ 63 \<Longrightarrow> sint (word_of_int i :: int64) = i"
  by (simp add: signed_of_int signed_take_bit_int_eq_self)

lemma sint_to_int32:
  assumes "- (2 ^ 31) \<le> sint x" "sint x < 2 ^ 31"
  shows "sint (to_int32 x) = sint x"
proof -
  have "to_int32 x = word_of_int (sint x)"
    by (rule bit_word_eqI) (auto simp: to_int32_def bit_simps)
  then have "sint (to_int32 x) = sint (word_of_int (sint x) :: int32)"
    by (rule arg_cong)
  also have "\<dots> = sint x"
    using assms by (rule sint_word_of_int_32)
  finally show ?thesis .
qed

lemma of_int32_to_int32:
  assumes "- (2 ^ 31) \<le> sint x" "sint x < 2 ^ 31"
  shows "of_int32 (to_int32 x) = x"
  using assms by (metis sint_to_int32 sint_of_int32 signed_word_eqI)

section \<open>Tables\<close>

text \<open>\<open>UPDATE t SET f WHERE p\<close> over a table kept as the list of its rows.\<close>

definition update_where :: "('r \<Rightarrow> bool) \<Rightarrow> ('r \<Rightarrow> 'r) \<Rightarrow> 'r list \<Rightarrow> 'r list" where
  "update_where p f rs = map (\<lambda>r. if p r then f r else r) rs"

lemma update_where_Nil [simp]: "update_where p f [] = []"
  by (simp add: update_where_def)

lemma update_where_Cons [simp]:
  "update_where p f (r # rs) = (if p r then f r else r) # update_where p f rs"
  by (simp add: update_where_def)

lemma length_update_where [simp]: "length (update_where p f rs) = length rs"
  by (simp add: update_where_def)

lemma map_update_where [row_simps]:
  "(\<And>r. k (f r) = k r) \<Longrightarrow> map k (update_where p f rs) = map k rs"
  by (simp add: update_where_def)

lemma set_update_where:
  "set (update_where p f rs) = (\<lambda>r. if p r then f r else r) ` set rs"
  by (simp add: update_where_def)

text \<open>A column that identifies rows: lookups by it find at most one row.\<close>

lemma find_key_append [row_simps]:
  "find p (xs @ ys) = (case find p xs of None \<Rightarrow> find p ys | Some r \<Rightarrow> Some r)"
  by (induction xs) auto

lemma find_Some_in: "find p xs = Some r \<Longrightarrow> r \<in> set xs \<and> p r"
  by (induction xs) (auto split: if_splits)

lemma find_None_iff_notin: "find (\<lambda>r. k r = a) xs = None \<longleftrightarrow> a \<notin> k ` set xs"
  by (induction xs) auto

lemma find_unique:
  "distinct (map k rs) \<Longrightarrow> r \<in> set rs \<Longrightarrow> find (\<lambda>x. k x = k r) rs = Some r"
  by (induction rs) (auto simp: image_iff)

lemma find_update_where_same:
  "(\<And>r. k (f r) = k r) \<Longrightarrow>
   find (\<lambda>r. k r = a) (update_where (\<lambda>r. k r = a) f rs) =
   map_option f (find (\<lambda>r. k r = a) rs)"
  by (induction rs) auto

lemma find_update_where_other:
  "(\<And>r. k (f r) = k r) \<Longrightarrow> a \<noteq> b \<Longrightarrow>
   find (\<lambda>r. k r = b) (update_where (\<lambda>r. k r = a) f rs) = find (\<lambda>r. k r = b) rs"
  by (induction rs) auto

lemma update_where_notin:
  "a \<notin> k ` set rs \<Longrightarrow> update_where (\<lambda>r. k r = a) f rs = rs"
  by (induction rs) auto

text \<open>Sums over the rows that belong to a key.\<close>

definition sum_where :: "('r \<Rightarrow> bool) \<Rightarrow> ('r \<Rightarrow> int) \<Rightarrow> 'r list \<Rightarrow> int" where
  "sum_where p g rs = sum_list (map g (filter p rs))"

lemma sum_where_Nil [simp]: "sum_where p g [] = 0"
  by (simp add: sum_where_def)

lemma sum_where_append [row_simps]:
  "sum_where p g (xs @ ys) = sum_where p g xs + sum_where p g ys"
  by (simp add: sum_where_def)

lemma sum_where_Cons [row_simps]:
  "sum_where p g (x # xs) = (if p x then g x else 0) + sum_where p g xs"
  by (simp add: sum_where_def)

section \<open>Updated lists\<close>

lemma all_set_update:
  assumes "\<And>j. j < length xs \<Longrightarrow> j \<noteq> i \<Longrightarrow> P (xs ! j)" "P x"
  shows "\<forall>y \<in> set (xs[i := x]). P y"
proof -
  have "P (xs[i := x] ! j)" if "j < length xs" for j
    using that assms by (cases "j = i") simp_all
  then show ?thesis by (simp add: all_set_conv_all_nth)
qed

lemma map_list_update_same: "k x = k (xs ! i) \<Longrightarrow> map k (xs[i := x]) = map k xs"
  by (simp add: map_update) (metis list_update_id map_update)

text \<open>How many elements satisfy a predicate.\<close>

definition count_where :: "('a \<Rightarrow> bool) \<Rightarrow> 'a list \<Rightarrow> int" where
  "count_where p xs = int (length (filter p xs))"

lemma count_where_Cons: "count_where p (x # xs) = (if p x then 1 else 0) + count_where p xs"
  by (simp add: count_where_def)

lemma count_where_update:
  "i < length xs \<Longrightarrow> count_where p (xs[i := x]) =
     count_where p xs - (if p (xs ! i) then 1 else 0) + (if p x then 1 else 0)"
proof (induction xs arbitrary: i)
  case (Cons y ys)
  show ?case
  proof (cases i)
    case 0
    then show ?thesis by (simp add: count_where_Cons)
  next
    case (Suc k)
    with Cons show ?thesis by (simp add: count_where_Cons)
  qed
qed simp

lemma count_where_bounds: "0 \<le> count_where p xs" "count_where p xs \<le> int (length xs)"
  by (simp_all add: count_where_def)

section \<open>Results\<close>

text \<open>A Go function that returns \<open>(T, error)\<close> returns a sum: \<open>Inl\<close> the error.\<close>

abbreviation is_ok :: "'e + 'a \<Rightarrow> bool" where
  "is_ok r \<equiv> (\<exists>a. r = Inr a)"

text \<open>Relabelling the error and the value of a call, keeping the state after it.\<close>

definition map_result :: "('e \<Rightarrow> 'f) \<Rightarrow> ('a \<Rightarrow> 'b) \<Rightarrow> ('e + 'a) \<times> 's \<Rightarrow> ('f + 'b) \<times> 's" where
  "map_result f g r = (case r of (Inl e, s) \<Rightarrow> (Inl (f e), s) | (Inr a, s) \<Rightarrow> (Inr (g a), s))"

lemma map_result_simps [simp]:
  "map_result f g (Inl e, s) = (Inl (f e), s)"
  "map_result f g (Inr a, s) = (Inr (g a), s)"
  "map_result (\<lambda>x. x) (\<lambda>x. x) r = r"
  by (auto simp: map_result_def split: prod.split sum.split)

lemma map_result_comp [simp]:
  "map_result f g (map_result f' g' r) = map_result (\<lambda>e. f (f' e)) (\<lambda>a. g (g' a)) r"
  by (simp add: map_result_def split: prod.split sum.split)

end
