(* ===== verification/Go_Runtime.thy ===== *)
theory Go_Runtime
  imports Vault_Prelude
begin

text \<open>
  The pieces of Go's standard library that the services compute with: decimal
  printing (\<open>strconv\<close> behind \<open>encoding/json\<close> and \<open>fmt\<close>), \<open>strings.TrimSpace\<close>,
  the RFC 3339 rendering of a UTC instant, and the string encoding of
  \<open>encoding/json\<close>.  Strings are lists of bytes, as Go's strings are; text beyond
  ASCII is its UTF-8 encoding.
\<close>

section \<open>Bytes and characters\<close>

definition byte :: "char \<Rightarrow> nat" where
  "byte c = of_char c"

definition chr_of :: "nat \<Rightarrow> char" where
  "chr_of n = char_of n"

text \<open>The number of characters of a UTF-8 text: continuation bytes
  (\<open>10xxxxxx\<close>) do not start a character.  This is what \<open>VARCHAR(n)\<close> bounds.\<close>

definition char_length :: "string \<Rightarrow> nat" where
  "char_length s = length (filter (\<lambda>c. byte c div 64 \<noteq> 2) s)"

lemma char_length_le: "char_length s \<le> length s"
  by (simp add: char_length_def)

lemma char_length_Nil [simp]: "char_length [] = 0"
  by (simp add: char_length_def)

lemma char_length_append [simp]: "char_length (s @ t) = char_length s + char_length t"
  by (simp add: char_length_def)

section \<open>strings.TrimSpace\<close>

text \<open>
  The encodings of the characters for which \<open>unicode.IsSpace\<close> holds: the six ASCII
  spaces, U+0085, U+00A0, U+1680, U+2000 to U+200A, U+2028, U+2029, U+202F, U+205F
  and U+3000.
\<close>

definition is_space1 :: "nat \<Rightarrow> bool" where
  "is_space1 a \<longleftrightarrow> a \<in> {9, 10, 11, 12, 13, 32}"

definition is_space2 :: "nat \<Rightarrow> nat \<Rightarrow> bool" where
  "is_space2 a b \<longleftrightarrow> a = 194 \<and> (b = 133 \<or> b = 160)"

definition is_space3 :: "nat \<Rightarrow> nat \<Rightarrow> nat \<Rightarrow> bool" where
  "is_space3 a b c \<longleftrightarrow>
     (a = 225 \<and> b = 154 \<and> c = 128) \<or>
     (a = 226 \<and> b = 128 \<and> (128 \<le> c \<and> c \<le> 138 \<or> c = 168 \<or> c = 169 \<or> c = 175)) \<or>
     (a = 226 \<and> b = 129 \<and> c = 159) \<or>
     (a = 227 \<and> b = 128 \<and> c = 128)"

fun trim_left :: "string \<Rightarrow> string" where
  "trim_left [] = []"
| "trim_left (a # s) =
     (if is_space1 (byte a) then trim_left s
      else case s of
        [] \<Rightarrow> a # s
      | b # s' \<Rightarrow>
          (if is_space2 (byte a) (byte b) then trim_left s'
           else case s' of
             [] \<Rightarrow> a # s
           | c # s'' \<Rightarrow>
               (if is_space3 (byte a) (byte b) (byte c) then trim_left s'' else a # s)))"

text \<open>The same from the right, on the reversed string.\<close>

fun trim_left_rev :: "string \<Rightarrow> string" where
  "trim_left_rev [] = []"
| "trim_left_rev (a # s) =
     (if is_space1 (byte a) then trim_left_rev s
      else case s of
        [] \<Rightarrow> a # s
      | b # s' \<Rightarrow>
          (if is_space2 (byte b) (byte a) then trim_left_rev s'
           else case s' of
             [] \<Rightarrow> a # s
           | c # s'' \<Rightarrow>
               (if is_space3 (byte c) (byte b) (byte a) then trim_left_rev s'' else a # s)))"

definition trim_right :: "string \<Rightarrow> string" where
  "trim_right s = rev (trim_left_rev (rev s))"

definition trim_space :: "string \<Rightarrow> string" where
  "trim_space s = trim_right (trim_left s)"

section \<open>Decimal printing\<close>

fun show_nat :: "nat \<Rightarrow> string" where
  "show_nat n = (if n < 10 then [chr_of (48 + n)]
                 else show_nat (n div 10) @ [chr_of (48 + n mod 10)])"

declare show_nat.simps [simp del]

definition show_int :: "int \<Rightarrow> string" where
  "show_int i = (if i < 0 then ''-'' @ show_nat (nat (- i)) else show_nat (nat i))"

definition pad_left :: "nat \<Rightarrow> string \<Rightarrow> string" where
  "pad_left w s = replicate (w - length s) (CHR ''0'') @ s"

lemma show_nat_Suc0 [simp]: "n < 10 \<Longrightarrow> show_nat n = [chr_of (48 + n)]"
  by (subst show_nat.simps) simp

lemma show_nat_step: "\<not> n < 10 \<Longrightarrow>
    show_nat n = show_nat (n div 10) @ [chr_of (48 + n mod 10)]"
  by (subst show_nat.simps) simp

lemma show_nat_nonempty [simp]: "show_nat n \<noteq> []"
  by (subst show_nat.simps) simp

section \<open>time.Time.Format(time.RFC3339)\<close>

text \<open>
  An instant is a number of microseconds since the Unix epoch, in UTC.  The civil date
  of a day number counts in eras of 400 years that start in March.
\<close>

definition civil_of_days :: "int \<Rightarrow> int \<times> int \<times> int" where
  "civil_of_days days =
     (let z = days + 719468;
          era = z div 146097;
          doe = z - era * 146097;
          yoe = (doe - doe div 1460 + doe div 36524 - doe div 146096) div 365;
          doy = doe - (365 * yoe + yoe div 4 - yoe div 100);
          mp = (5 * doy + 2) div 153;
          d = doy - (153 * mp + 2) div 5 + 1;
          m = (if mp < 10 then mp + 3 else mp - 9);
          y = yoe + era * 400 + (if m \<le> 2 then 1 else 0)
      in (y, m, d))"

definition rfc3339 :: "int \<Rightarrow> string" where
  "rfc3339 micros =
     (let secs = micros div 1000000;
          days = secs div 86400;
          sod = secs mod 86400;
          (y, m, d) = civil_of_days days
      in pad_left 4 (show_int y) @ ''-'' @ pad_left 2 (show_int m) @ ''-'' @ pad_left 2 (show_int d)
         @ ''T'' @ pad_left 2 (show_int (sod div 3600)) @ '':''
         @ pad_left 2 (show_int (sod div 60 mod 60)) @ '':''
         @ pad_left 2 (show_int (sod mod 60)) @ ''Z'')"

section \<open>encoding/json strings\<close>

definition hex_digit :: "nat \<Rightarrow> char" where
  "hex_digit n = (if n < 10 then chr_of (48 + n) else chr_of (87 + n))"

definition backslash :: char where "backslash = chr_of 92"
definition dquote :: char where "dquote = chr_of 34"

definition json_escape_char :: "char \<Rightarrow> string" where
  "json_escape_char ch =
     (let n = byte ch in
      if n = 34 \<or> n = 92 then [backslash, ch]
      else if n = 8 then [backslash, CHR ''b'']
      else if n = 12 then [backslash, CHR ''f'']
      else if n = 10 then [backslash, CHR ''n'']
      else if n = 13 then [backslash, CHR ''r'']
      else if n = 9 then [backslash, CHR ''t'']
      else if n < 32 \<or> n = 60 \<or> n = 62 \<or> n = 38
        then backslash # ''u00'' @ [hex_digit (n div 16), hex_digit (n mod 16)]
      else [ch])"

text \<open>U+2028 and U+2029 are escaped as well; every other valid UTF-8 sequence is copied.\<close>

fun json_escape :: "string \<Rightarrow> string" where
  "json_escape (a # b # c # s) =
     (if byte a = 226 \<and> byte b = 128 \<and> (byte c = 168 \<or> byte c = 169)
      then backslash # ''u202'' @ [hex_digit (byte c - 160)] @ json_escape s
      else json_escape_char a @ json_escape (b # c # s))"
| "json_escape (a # s) = json_escape_char a @ json_escape s"
| "json_escape [] = []"

definition json_string :: "string \<Rightarrow> string" where
  "json_string s = [dquote] @ json_escape s @ [dquote]"

end
