(* ===== verification/Domain.thy ===== *)
theory Domain
  imports Go_Runtime
begin

text \<open>
  The domain package (\<open>internal/catalog/domain\<close>): its entities as records, its
  sentinel errors, and the error values the adapters build on top of them with
  \<open>fmt.Errorf("...: %w", err)\<close>.
\<close>

section \<open>Errors\<close>

text \<open>The sentinels of \<open>cabinet.go\<close> and \<open>order.go\<close>.\<close>

datatype cabinet_error = ErrNotFound | ErrInsufficientStock | ErrDuplicateReservation

datatype order_error = ErrInvalidQuantity | ErrEmptyOrder | ErrDuplicateOrder

text \<open>
  Every error value the catalog service passes around: the sentinels, what the driver
  returns (no rows, a server error with its SQLSTATE code, a client side failure, a
  commit that the server turned into a rollback, a column that cannot be scanned), a
  JSON failure, and a wrapped error with its prefix.
\<close>

datatype go_error =
    CabErr cabinet_error
  | OrdErr order_error
  | ErrNoRows
  | PgError string
  | DriverError string
  | TxCommitRollback
  | ScanError string
  | JsonError string
  | WrapError string go_error

primrec cabinet_error_text :: "cabinet_error \<Rightarrow> string" where
  "cabinet_error_text ErrNotFound = ''cabinet not found''"
| "cabinet_error_text ErrInsufficientStock = ''insufficient stock available''"
| "cabinet_error_text ErrDuplicateReservation =
     ''duplicate reservationkey with different parameters''"

primrec order_error_text :: "order_error \<Rightarrow> string" where
  "order_error_text ErrInvalidQuantity = ''order item quantity must be greater than zero''"
| "order_error_text ErrEmptyOrder = ''order must contain at least one item''"
| "order_error_text ErrDuplicateOrder =
     ''duplicate order request with different parameters with this idempotency key''"

text \<open>\<open>err.Error()\<close>; the driver's own texts are not part of the repository.\<close>

primrec error_text :: "go_error \<Rightarrow> string" where
  "error_text (CabErr e) = cabinet_error_text e"
| "error_text (OrdErr e) = order_error_text e"
| "error_text ErrNoRows = ''no rows in result set''"
| "error_text (PgError c) = c"
| "error_text (DriverError m) = m"
| "error_text TxCommitRollback = ''commit unexpectedly resulted in rollback''"
| "error_text (ScanError m) = m"
| "error_text (JsonError m) = m"
| "error_text (WrapError m e) = m @ error_text e"

text \<open>\<open>errors.Is\<close> follows the chain of wrapped errors.\<close>

fun errors_is :: "go_error \<Rightarrow> go_error \<Rightarrow> bool" where
  "errors_is (WrapError m e) target = (WrapError m e = target \<or> errors_is e target)"
| "errors_is e target = (e = target)"

text \<open>\<open>errors.As(err, &pgErr)\<close>: the code of the first server error in the chain.\<close>

fun errors_as_pg :: "go_error \<Rightarrow> string option" where
  "errors_as_pg (WrapError m e) = errors_as_pg e"
| "errors_as_pg (PgError c) = Some c"
| "errors_as_pg e = None"

text \<open>The innermost error of a chain decides which sentinel \<open>errors.Is\<close> finds.\<close>

primrec root_cause :: "go_error \<Rightarrow> go_error" where
  "root_cause (CabErr e) = CabErr e"
| "root_cause (OrdErr e) = OrdErr e"
| "root_cause ErrNoRows = ErrNoRows"
| "root_cause (PgError c) = PgError c"
| "root_cause (DriverError m) = DriverError m"
| "root_cause TxCommitRollback = TxCommitRollback"
| "root_cause (ScanError m) = ScanError m"
| "root_cause (JsonError m) = JsonError m"
| "root_cause (WrapError m e) = root_cause e"

lemma errors_is_root:
  "errors_is e (CabErr c) \<longleftrightarrow> root_cause e = CabErr c"
  "errors_is e (OrdErr d) \<longleftrightarrow> root_cause e = OrdErr d"
  "errors_is e ErrNoRows \<longleftrightarrow> root_cause e = ErrNoRows"
  by (induction e) auto

section \<open>Entities\<close>

record cabinet_image =
  Img_ID :: string
  Img_URL :: string
  Img_Alt :: string
  Img_SortOrder :: go_int

record cabinet =
  Cab_ID :: string
  Cab_Slug :: string
  Cab_Model :: string
  Cab_Type :: string
  Cab_Display :: string
  Cab_Condition :: string
  Cab_Quantity :: go_int
  Cab_Price :: int64
  Cab_Manufacturer :: string
  Cab_Year :: string
  Cab_Images :: "cabinet_image list"
  Cab_CreatedAt :: int
  Cab_UpdatedAt :: int

record reservation =
  Res_IdempotencyKey :: string
  Res_CabinetID :: string
  Res_Quantity :: go_int
  Res_CreatedAt :: int

text \<open>\<open>OrderStatus\<close> is a string type with four named constants.\<close>

type_synonym order_status = string

definition StatusPendingPayment :: order_status where
  "StatusPendingPayment = ''pending_payment''"
definition StatusPaid :: order_status where
  "StatusPaid = ''paid''"
definition StatusCancelled :: order_status where
  "StatusCancelled = ''cancelled''"
definition StatusFailed :: order_status where
  "StatusFailed = ''failed''"

lemmas status_defs =
  StatusPendingPayment_def StatusPaid_def StatusCancelled_def StatusFailed_def

record order_line =
  Line_ID :: string
  Line_OrderID :: string
  Line_CabinetID :: string
  Line_Quantity :: go_int
  Line_UnitPriceCents :: int64

record order =
  Ord_ID :: string
  Ord_UserID :: string
  Ord_Status :: order_status
  Ord_TotalCents :: int64
  Ord_IdempotencyKey :: string
  Ord_Items :: "order_line list"
  Ord_CreatedAt :: int
  Ord_UpdatedAt :: int

record outbox_event =
  Evt_ID :: string
  Evt_AggregateID :: string
  Evt_EventType :: string
  Evt_Payload :: string
  Evt_UpdatedAt :: "int option"

end
