(* ===== verification/Sql_Schema.thy ===== *)
theory Sql_Schema
  imports Domain
begin

text \<open>
  The catalog schema: the rows sqlc generates for it
  (\<open>internal/catalog/adapter/postgres/db/models.go\<close>, \<open>images.go\<close>), the tables of
  \<open>db/catalog/migrations\<close> as lists of rows in insertion order, and the constraints of
  the \<open>CREATE TABLE\<close> statements: which SQLSTATE code an \<open>INSERT\<close> fails with, and the
  invariant \<open>schema_ok\<close> that the constraints maintain.
\<close>

section \<open>Rows\<close>

text \<open>\<open>pgtype.Timestamptz\<close>: an instant, or not valid for a NULL column, in which case its
  \<open>Time\<close> field is Go's zero time (1 January of year 1).\<close>

type_synonym timestamptz = "int option"

definition go_zero_time :: int where
  "go_zero_time = -62135596800000000"

definition pg_time :: "timestamptz \<Rightarrow> int" where
  "pg_time t = (case t of None \<Rightarrow> go_zero_time | Some x \<Rightarrow> x)"

record db_cabinet =
  c_id :: string
  c_slug :: string
  c_model :: string
  c_type :: string
  c_display :: string
  c_condition :: string
  c_quantity :: int32
  c_price :: int64
  c_manufacturer :: string
  c_year :: string
  c_created_at :: timestamptz
  c_updated_at :: timestamptz

record db_cabinet_image =
  i_id :: string
  i_cabinet_id :: string
  i_url :: string
  i_alt :: string
  i_sort_order :: int32
  i_created_at :: timestamptz

record db_reservation =
  r_idempotency_key :: string
  r_cabinet_id :: string
  r_quantity :: int32
  r_created_at :: timestamptz

record db_order =
  o_id :: string
  o_user_id :: string
  o_status :: string
  o_total_cents :: int64
  o_idempotency_key :: string
  o_created_at :: timestamptz
  o_updated_at :: timestamptz

record db_order_item =
  oi_id :: string
  oi_order_id :: string
  oi_cabinet_id :: string
  oi_quantity :: int32
  oi_unit_price_cents :: int64

record db_outbox =
  ob_id :: string
  ob_aggregate_id :: string
  ob_event_type :: string
  ob_payload :: string
  ob_created_at :: timestamptz
  ob_published_at :: timestamptz

record catalog_db =
  cabinets :: "db_cabinet list"
  cabinet_images :: "db_cabinet_image list"
  reservations :: "db_reservation list"
  orders :: "db_order list"
  order_items :: "db_order_item list"
  outbox :: "db_outbox list"

section \<open>Constraints\<close>

text \<open>\<open>VARCHAR(n)\<close> bounds the number of characters.  A longer text is refused here whatever it
  holds; PostgreSQL stores the first \<open>n\<close> characters when all that follow are spaces.\<close>

definition varchar :: "nat \<Rightarrow> string \<Rightarrow> bool" where
  "varchar n s \<longleftrightarrow> char_length s \<le> n"

definition order_status_values :: "string list" where
  "order_status_values = [''pending_payment'', ''paid'', ''cancelled'', ''failed'']"

text \<open>
  The SQLSTATE code an \<open>INSERT\<close> is refused with, if any, in the order the server
  checks: the column types (22001, string too long), the \<open>CHECK\<close>s (23514), the unique
  indexes (23505) and the foreign keys (23503).
\<close>

definition cabinet_violation :: "catalog_db \<Rightarrow> db_cabinet \<Rightarrow> string option" where
  "cabinet_violation d c =
     (if \<not> (varchar 36 (c_id c) \<and> varchar 100 (c_slug c) \<and> varchar 100 (c_model c)
          \<and> varchar 50 (c_type c) \<and> varchar 50 (c_display c)
          \<and> varchar 100 (c_manufacturer c) \<and> varchar 10 (c_year c)) then Some ''22001''
      else if sint (c_quantity c) < 0 then Some ''23514''
      else if c_id c \<in> c_id ` set (cabinets d) \<or> c_slug c \<in> c_slug ` set (cabinets d)
        then Some ''23505''
      else None)"

definition image_violation :: "catalog_db \<Rightarrow> db_cabinet_image \<Rightarrow> string option" where
  "image_violation d i =
     (if \<not> (varchar 36 (i_id i) \<and> varchar 36 (i_cabinet_id i)) then Some ''22001''
      else if i_id i \<in> i_id ` set (cabinet_images d) then Some ''23505''
      else if i_cabinet_id i \<notin> c_id ` set (cabinets d) then Some ''23503''
      else None)"

definition reservation_violation :: "catalog_db \<Rightarrow> db_reservation \<Rightarrow> string option" where
  "reservation_violation d r =
     (if \<not> (varchar 255 (r_idempotency_key r) \<and> varchar 36 (r_cabinet_id r)) then Some ''22001''
      else if r_idempotency_key r \<in> r_idempotency_key ` set (reservations d) then Some ''23505''
      else if r_cabinet_id r \<notin> c_id ` set (cabinets d) then Some ''23503''
      else None)"

definition order_violation :: "catalog_db \<Rightarrow> db_order \<Rightarrow> string option" where
  "order_violation d r =
     (if \<not> (varchar 36 (o_id r) \<and> varchar 255 (o_idempotency_key r)) then Some ''22001''
      else if o_status r \<notin> set order_status_values then Some ''23514''
      else if o_id r \<in> o_id ` set (orders d)
           \<or> o_idempotency_key r \<in> o_idempotency_key ` set (orders d) then Some ''23505''
      else None)"

definition order_item_violation :: "catalog_db \<Rightarrow> db_order_item \<Rightarrow> string option" where
  "order_item_violation d r =
     (if \<not> (varchar 36 (oi_id r) \<and> varchar 36 (oi_order_id r) \<and> varchar 36 (oi_cabinet_id r))
        then Some ''22001''
      else if sint (oi_quantity r) \<le> 0 then Some ''23514''
      else if oi_id r \<in> oi_id ` set (order_items d) then Some ''23505''
      else if oi_order_id r \<notin> o_id ` set (orders d)
           \<or> oi_cabinet_id r \<notin> c_id ` set (cabinets d) then Some ''23503''
      else None)"

definition outbox_violation :: "catalog_db \<Rightarrow> db_outbox \<Rightarrow> string option" where
  "outbox_violation d r =
     (if \<not> (varchar 36 (ob_id r) \<and> varchar 36 (ob_aggregate_id r)) then Some ''22001''
      else if ob_id r \<in> ob_id ` set (outbox d) then Some ''23505''
      else None)"

section \<open>The invariant of the schema\<close>

definition cabinets_ok :: "catalog_db \<Rightarrow> bool" where
  "cabinets_ok d \<longleftrightarrow> distinct (map c_id (cabinets d)) \<and> distinct (map c_slug (cabinets d))
     \<and> (\<forall>c \<in> set (cabinets d). 0 \<le> sint (c_quantity c) \<and> varchar 36 (c_id c))"

definition images_ok :: "catalog_db \<Rightarrow> bool" where
  "images_ok d \<longleftrightarrow> distinct (map i_id (cabinet_images d))
     \<and> i_cabinet_id ` set (cabinet_images d) \<subseteq> c_id ` set (cabinets d)"

definition reservations_ok :: "catalog_db \<Rightarrow> bool" where
  "reservations_ok d \<longleftrightarrow> distinct (map r_idempotency_key (reservations d))
     \<and> r_cabinet_id ` set (reservations d) \<subseteq> c_id ` set (cabinets d)"

definition orders_ok :: "catalog_db \<Rightarrow> bool" where
  "orders_ok d \<longleftrightarrow> distinct (map o_id (orders d)) \<and> distinct (map o_idempotency_key (orders d))
     \<and> o_status ` set (orders d) \<subseteq> set order_status_values"

definition order_items_ok :: "catalog_db \<Rightarrow> bool" where
  "order_items_ok d \<longleftrightarrow> distinct (map oi_id (order_items d))
     \<and> (\<forall>i \<in> set (order_items d). 0 < sint (oi_quantity i))
     \<and> oi_order_id ` set (order_items d) \<subseteq> o_id ` set (orders d)
     \<and> oi_cabinet_id ` set (order_items d) \<subseteq> c_id ` set (cabinets d)"

definition outbox_ok :: "catalog_db \<Rightarrow> bool" where
  "outbox_ok d \<longleftrightarrow> distinct (map ob_id (outbox d))"

definition schema_ok :: "catalog_db \<Rightarrow> bool" where
  "schema_ok d \<longleftrightarrow> cabinets_ok d \<and> images_ok d \<and> reservations_ok d \<and> orders_ok d
     \<and> order_items_ok d \<and> outbox_ok d"

lemmas schema_defs = schema_ok_def cabinets_ok_def images_ok_def reservations_ok_def
  orders_ok_def order_items_ok_def outbox_ok_def

lemmas violation_defs = cabinet_violation_def image_violation_def reservation_violation_def
  order_violation_def order_item_violation_def outbox_violation_def

text \<open>The database right after the migrations: every table is empty.\<close>

definition empty_db :: catalog_db where
  "empty_db = \<lparr>cabinets = [], cabinet_images = [], reservations = [], orders = [],
     order_items = [], outbox = []\<rparr>"

lemma schema_ok_empty: "schema_ok empty_db"
  by (simp add: schema_defs empty_db_def)

text \<open>What is reserved of a cabinet, and the units it started with.\<close>

definition reserved_units :: "catalog_db \<Rightarrow> string \<Rightarrow> int" where
  "reserved_units d cid = sum_where (\<lambda>r. r_cabinet_id r = cid) (\<lambda>r. sint (r_quantity r)) (reservations d)"

definition stock_of :: "catalog_db \<Rightarrow> string \<Rightarrow> int option" where
  "stock_of d cid = map_option (\<lambda>c. sint (c_quantity c)) (find (\<lambda>c. c_id c = cid) (cabinets d))"

definition total_units :: "catalog_db \<Rightarrow> string \<Rightarrow> int option" where
  "total_units d cid = map_option (\<lambda>q. q + reserved_units d cid) (stock_of d cid)"

end
