(* ===== verification/Sql_Queries.thy ===== *)
theory Sql_Queries
  imports Sql_Schema
begin

text \<open>
  The statements of \<open>db/catalog/queries\<close> as sqlc generates them
  (\<open>internal/catalog/adapter/postgres/db/cabinets.sql.go\<close>, \<open>orders.sql.go\<close>), with the
  scanner of the image column (\<open>images.go\<close>).  A statement maps the value of \<open>NOW()\<close> and
  the database it runs on to its result and the database after it; a statement that the
  server refuses leaves the database as it was.
\<close>

section \<open>The environment\<close>

text \<open>
  What the code does not decide, as functions of a counter of external calls: whether
  the driver reports a fault at that call, whether a commit whose acknowledgement is lost
  was applied by the server, the clock, and \<open>uuid.New\<close>.  The last three fields are the
  server's rendering of the image aggregate, \<open>json.Unmarshal\<close> into \<open>CabinetImages\<close>, and
  the \<open>jsonb\<close> input function (\<open>None\<close>: not accepted), which returns the stored text.
\<close>

datatype db_fault = ServerFault string | ClientFault string

record json_image =
  ji_ID :: string
  ji_URL :: string
  ji_Alt :: string
  ji_SortOrder :: int32

record env =
  env_fault :: "nat \<Rightarrow> db_fault option"
  env_commit_applied :: "nat \<Rightarrow> bool"
  env_now :: "nat \<Rightarrow> int"
  env_uuid :: "nat \<Rightarrow> string"
  env_render_images :: "json_image list \<Rightarrow> string"
  env_unmarshal_images :: "string \<Rightarrow> string + json_image list"
  env_jsonb_in :: "string \<Rightarrow> string option"

primrec fault_error :: "db_fault \<Rightarrow> go_error" where
  "fault_error (ServerFault c) = PgError c"
| "fault_error (ClientFault m) = DriverError m"

type_synonym 'a stmt = "int \<Rightarrow> catalog_db \<Rightarrow> (go_error + 'a) \<times> catalog_db"

section \<open>images.go\<close>

text \<open>The dynamic type of the value a column is scanned from.\<close>

datatype scan_src = SrcNil | SrcBytes string | SrcString string | SrcOther string

definition scan_image_bytes :: "env \<Rightarrow> string \<Rightarrow> go_error + json_image list" where
  "scan_image_bytes E b =
     (if length b = 0 then Inr []
      else case env_unmarshal_images E b of
        Inl m \<Rightarrow> Inl (JsonError m)
      | Inr imgs \<Rightarrow> Inr imgs)"

fun CabinetImages_Scan :: "env \<Rightarrow> scan_src \<Rightarrow> go_error + json_image list" where
  "CabinetImages_Scan E SrcNil = Inr []"
| "CabinetImages_Scan E (SrcBytes v) = scan_image_bytes E v"
| "CabinetImages_Scan E (SrcString v) = scan_image_bytes E v"
| "CabinetImages_Scan E (SrcOther ty) =
     Inl (ScanError (''cannot scan '' @ ty @ '' into CabinetImages''))"

section \<open>cabinets.sql.go\<close>

record cabinet_row =
  row_ID :: string
  row_Slug :: string
  row_Model :: string
  row_Type :: string
  row_Display :: string
  row_Condition :: string
  row_Quantity :: int32
  row_Price :: int64
  row_Manufacturer :: string
  row_Year :: string
  row_CreatedAt :: timestamptz
  row_UpdatedAt :: timestamptz
  row_Images :: "json_image list"

text \<open>The images subselect: the objects of a cabinet ordered by \<open>sort_order\<close>, then
  \<open>created_at\<close>; \<open>COALESCE\<close> makes no image the empty array.\<close>

definition image_object :: "db_cabinet_image \<Rightarrow> json_image" where
  "image_object i = \<lparr>ji_ID = i_id i, ji_URL = i_url i, ji_Alt = i_alt i,
     ji_SortOrder = i_sort_order i\<rparr>"

definition images_agg :: "catalog_db \<Rightarrow> string \<Rightarrow> json_image list" where
  "images_agg d cid =
     map image_object
       (sort_key (\<lambda>i. sint (i_sort_order i))
         (sort_key (\<lambda>i. pg_time (i_created_at i))
           (filter (\<lambda>i. i_cabinet_id i = cid) (cabinet_images d))))"

text \<open>\<open>row.Scan\<close> of the thirteen columns: only the image column can fail.\<close>

definition scan_cabinet_row :: "env \<Rightarrow> db_cabinet \<Rightarrow> json_image list \<Rightarrow> go_error + cabinet_row" where
  "scan_cabinet_row E c imgs =
     (case CabinetImages_Scan E (SrcBytes (env_render_images E imgs)) of
        Inl e \<Rightarrow> Inl e
      | Inr is \<Rightarrow> Inr \<lparr>row_ID = c_id c, row_Slug = c_slug c, row_Model = c_model c,
          row_Type = c_type c, row_Display = c_display c, row_Condition = c_condition c,
          row_Quantity = c_quantity c, row_Price = c_price c,
          row_Manufacturer = c_manufacturer c, row_Year = c_year c,
          row_CreatedAt = c_created_at c, row_UpdatedAt = c_updated_at c, row_Images = is\<rparr>)"

record create_reservation_params =
  crp_IdempotencyKey :: string
  crp_CabinetID :: string
  crp_Quantity :: int32

definition q_CreateReservation :: "create_reservation_params \<Rightarrow> unit stmt" where
  "q_CreateReservation arg now d =
     (let r = \<lparr>r_idempotency_key = crp_IdempotencyKey arg, r_cabinet_id = crp_CabinetID arg,
               r_quantity = crp_Quantity arg, r_created_at = Some now\<rparr>
      in case reservation_violation d r of
           Some code \<Rightarrow> (Inl (PgError code), d)
         | None \<Rightarrow> (Inr (), d\<lparr>reservations := reservations d @ [r]\<rparr>))"

record decrement_stock_params =
  dsp_Quantity :: int32
  dsp_ID :: string

text \<open>
  \<open>UPDATE ... SET quantity = quantity - $1 WHERE id = $2 AND quantity >= $1\<close>: integer
  overflow is the error 22003, and the row after the update must satisfy
  \<open>CHECK (quantity >= 0)\<close>.
\<close>

definition decrement_matches :: "decrement_stock_params \<Rightarrow> db_cabinet \<Rightarrow> bool" where
  "decrement_matches arg c \<longleftrightarrow> c_id c = dsp_ID arg \<and> sint (dsp_Quantity arg) \<le> sint (c_quantity c)"

definition decrement_row :: "decrement_stock_params \<Rightarrow> int \<Rightarrow> db_cabinet \<Rightarrow> db_cabinet" where
  "decrement_row arg now c =
     c\<lparr>c_quantity := c_quantity c - dsp_Quantity arg, c_updated_at := Some now\<rparr>"

definition q_DecrementStock :: "env \<Rightarrow> decrement_stock_params \<Rightarrow> cabinet_row stmt" where
  "q_DecrementStock E arg now d =
     (case find (decrement_matches arg) (cabinets d) of
        None \<Rightarrow> (Inl ErrNoRows, d)
      | Some c \<Rightarrow>
          (let left = sint (c_quantity c) - sint (dsp_Quantity arg) in
           if 2 ^ 31 \<le> left then (Inl (PgError ''22003''), d)
           else if left < 0 then (Inl (PgError ''23514''), d)
           else (scan_cabinet_row E (decrement_row arg now c) (images_agg d (c_id c)),
                 d\<lparr>cabinets := update_where (decrement_matches arg) (decrement_row arg now)
                                 (cabinets d)\<rparr>)))"

definition q_GetCabinet :: "env \<Rightarrow> string \<Rightarrow> cabinet_row stmt" where
  "q_GetCabinet E cid now d =
     (case find (\<lambda>c. c_id c = cid) (cabinets d) of
        None \<Rightarrow> (Inl ErrNoRows, d)
      | Some c \<Rightarrow> (scan_cabinet_row E c (images_agg d (c_id c)), d))"

definition q_GetReservation :: "string \<Rightarrow> db_reservation stmt" where
  "q_GetReservation key now d =
     (case find (\<lambda>r. r_idempotency_key r = key) (reservations d) of
        None \<Rightarrow> (Inl ErrNoRows, d)
      | Some r \<Rightarrow> (Inr r, d))"

text \<open>The loop over \<open>rows.Next()\<close> gives up at the first row that does not scan.\<close>

fun scan_rows :: "('r \<Rightarrow> go_error + 'a) \<Rightarrow> 'r list \<Rightarrow> go_error + 'a list" where
  "scan_rows scan [] = Inr []"
| "scan_rows scan (r # rs) =
     (case scan r of
        Inl e \<Rightarrow> Inl e
      | Inr a \<Rightarrow> (case scan_rows scan rs of Inl e \<Rightarrow> Inl e | Inr as \<Rightarrow> Inr (a # as)))"

definition q_ListCabinets :: "env \<Rightarrow> cabinet_row list stmt" where
  "q_ListCabinets E now d =
     (scan_rows (\<lambda>c. scan_cabinet_row E c (images_agg d (c_id c)))
        (sort_key (\<lambda>c. - pg_time (c_created_at c)) (cabinets d)), d)"

section \<open>orders.sql.go\<close>

record create_order_params =
  cop_ID :: string
  cop_UserID :: string
  cop_Status :: string
  cop_TotalCents :: int64
  cop_IdempotencyKey :: string

definition q_CreateOrder :: "create_order_params \<Rightarrow> db_order stmt" where
  "q_CreateOrder arg now d =
     (let r = \<lparr>o_id = cop_ID arg, o_user_id = cop_UserID arg, o_status = cop_Status arg,
               o_total_cents = cop_TotalCents arg, o_idempotency_key = cop_IdempotencyKey arg,
               o_created_at = Some now, o_updated_at = Some now\<rparr>
      in case order_violation d r of
           Some code \<Rightarrow> (Inl (PgError code), d)
         | None \<Rightarrow> (Inr r, d\<lparr>orders := orders d @ [r]\<rparr>))"

record create_order_item_params =
  cip_ID :: string
  cip_OrderID :: string
  cip_CabinetID :: string
  cip_Quantity :: int32
  cip_UnitPriceCents :: int64

definition q_CreateOrderItem :: "create_order_item_params \<Rightarrow> unit stmt" where
  "q_CreateOrderItem arg now d =
     (let r = \<lparr>oi_id = cip_ID arg, oi_order_id = cip_OrderID arg, oi_cabinet_id = cip_CabinetID arg,
               oi_quantity = cip_Quantity arg, oi_unit_price_cents = cip_UnitPriceCents arg\<rparr>
      in case order_item_violation d r of
           Some code \<Rightarrow> (Inl (PgError code), d)
         | None \<Rightarrow> (Inr (), d\<lparr>order_items := order_items d @ [r]\<rparr>))"

definition q_GetOrder :: "string \<Rightarrow> db_order stmt" where
  "q_GetOrder oid now d =
     (case find (\<lambda>o1. o_id o1 = oid) (orders d) of
        None \<Rightarrow> (Inl ErrNoRows, d)
      | Some o1 \<Rightarrow> (Inr o1, d))"

definition q_GetOrderByItempotencyKey :: "string \<Rightarrow> db_order stmt" where
  "q_GetOrderByItempotencyKey key now d =
     (case find (\<lambda>o1. o_idempotency_key o1 = key) (orders d) of
        None \<Rightarrow> (Inl ErrNoRows, d)
      | Some o1 \<Rightarrow> (Inr o1, d))"

text \<open>\<open>ID\<close> is an \<open>interface{}\<close> column in sqlc's structs; the dynamic types it can hold.\<close>

datatype any_id = IdString string | IdBytes string | IdOther string

text \<open>The text form in which the driver sends such a parameter.\<close>

primrec any_id_text :: "any_id \<Rightarrow> string" where
  "any_id_text (IdString s) = s"
| "any_id_text (IdBytes s) = s"
| "any_id_text (IdOther s) = s"

record insert_outbox_params =
  iop_ID :: any_id
  iop_AggregateID :: string
  iop_EventType :: string
  iop_Payload :: string

definition q_InsertOutboxEvent :: "env \<Rightarrow> insert_outbox_params \<Rightarrow> unit stmt" where
  "q_InsertOutboxEvent E arg now d =
     (case env_jsonb_in E (iop_Payload arg) of
        None \<Rightarrow> (Inl (PgError ''22P02''), d)
      | Some payload \<Rightarrow>
          (let r = \<lparr>ob_id = any_id_text (iop_ID arg), ob_aggregate_id = iop_AggregateID arg,
                    ob_event_type = iop_EventType arg, ob_payload = payload,
                    ob_created_at = Some now, ob_published_at = None\<rparr>
           in case outbox_violation d r of
                Some code \<Rightarrow> (Inl (PgError code), d)
              | None \<Rightarrow> (Inr (), d\<lparr>outbox := outbox d @ [r]\<rparr>)))"

definition q_ListOrderItems :: "string \<Rightarrow> db_order_item list stmt" where
  "q_ListOrderItems orderID now d =
     (Inr (filter (\<lambda>i. oi_order_id i = orderID) (order_items d)), d)"

record catalog_outbox =
  co_ID :: any_id
  co_AggregateID :: string
  co_EventType :: string
  co_Payload :: string
  co_CreatedAt :: timestamptz
  co_PublishedAt :: timestamptz

text \<open>A \<open>VARCHAR\<close> scanned into an \<open>interface{}\<close> is a Go string.\<close>

definition scan_outbox_row :: "db_outbox \<Rightarrow> catalog_outbox" where
  "scan_outbox_row r = \<lparr>co_ID = IdString (ob_id r), co_AggregateID = ob_aggregate_id r,
     co_EventType = ob_event_type r, co_Payload = ob_payload r,
     co_CreatedAt = ob_created_at r, co_PublishedAt = ob_published_at r\<rparr>"

definition unpublished :: "catalog_db \<Rightarrow> db_outbox list" where
  "unpublished d = sort_key (\<lambda>r. pg_time (ob_created_at r))
     (filter (\<lambda>r. ob_published_at r = None) (outbox d))"

definition q_ListUnpublishedOutboxEvents :: "int32 \<Rightarrow> catalog_outbox list stmt" where
  "q_ListUnpublishedOutboxEvents limit now d =
     (if sint limit < 0 then (Inl (PgError ''2201W''), d)
      else (Inr (map scan_outbox_row (take (nat (sint limit)) (unpublished d))), d))"

definition q_MarkOutboxEventPublished :: "any_id \<Rightarrow> unit stmt" where
  "q_MarkOutboxEventPublished eid now d =
     (Inr (), d\<lparr>outbox := update_where (\<lambda>r. ob_id r = any_id_text eid)
                          (\<lambda>r. r\<lparr>ob_published_at := Some now\<rparr>) (outbox d)\<rparr>)"

end
