(* ===== verification/Pg_Session.thy ===== *)
theory Pg_Session
  imports Sql_Queries
begin

text \<open>
  How the adapter runs statements: on the connection pool, where each statement commits
  by itself, or on a transaction opened with \<open>pool.Begin\<close>.  \<open>db.New(pool)\<close> and
  \<open>db.New(tx)\<close> (\<open>db/db.go\<close>) give the same statements over the two; here they are
  \<open>pool_run\<close> and \<open>tx_run\<close>.  A transaction works on its own copy of the tables, which
  replaces the committed ones at \<open>Commit\<close>; after a server or connection error every
  further statement of it fails with 25P02 and its commit is a rollback, as PostgreSQL
  documents.  Which calls fail, and whether a commit was applied when its
  acknowledgement is lost, is left to the environment.  Every external call uses up one
  tick of the counter the environment is indexed with.
\<close>

record world =
  w_db :: catalog_db
  w_tick :: nat

record tx =
  tx_db :: catalog_db
  tx_now :: int
  tx_failed :: bool
  tx_tick :: nat

text \<open>The errors after which PostgreSQL ignores the rest of a transaction: not an empty
  result, and not a value the client fails to decode.\<close>

primrec aborts_tx :: "go_error \<Rightarrow> bool" where
  "aborts_tx (CabErr e) = False"
| "aborts_tx (OrdErr e) = False"
| "aborts_tx ErrNoRows = False"
| "aborts_tx (PgError c) = True"
| "aborts_tx (DriverError m) = True"
| "aborts_tx TxCommitRollback = True"
| "aborts_tx (ScanError m) = False"
| "aborts_tx (JsonError m) = False"
| "aborts_tx (WrapError m e) = aborts_tx e"

definition pool_run :: "env \<Rightarrow> 'a stmt \<Rightarrow> world \<Rightarrow> (go_error + 'a) \<times> world" where
  "pool_run E q w =
     (let n = w_tick w; (r, d) = q (env_now E n) (w_db w) in
      case env_fault E n of
        Some (ServerFault c) \<Rightarrow> (Inl (PgError c), w\<lparr>w_tick := Suc n\<rparr>)
      | Some (ClientFault m) \<Rightarrow>
          (Inl (DriverError m),
           \<lparr>w_db = (if env_commit_applied E n then d else w_db w), w_tick = Suc n\<rparr>)
      | None \<Rightarrow> (r, \<lparr>w_db = d, w_tick = Suc n\<rparr>))"

definition tx_begin :: "env \<Rightarrow> world \<Rightarrow> (go_error + tx) \<times> world" where
  "tx_begin E w =
     (let n = w_tick w; w' = w\<lparr>w_tick := Suc n\<rparr> in
      case env_fault E n of
        Some f \<Rightarrow> (Inl (fault_error f), w')
      | None \<Rightarrow> (Inr \<lparr>tx_db = w_db w, tx_now = env_now E n, tx_failed = False,
                      tx_tick = Suc n\<rparr>, w'))"

definition tx_run :: "env \<Rightarrow> 'a stmt \<Rightarrow> tx \<Rightarrow> (go_error + 'a) \<times> tx" where
  "tx_run E q t =
     (let n = tx_tick t; t' = t\<lparr>tx_tick := Suc n\<rparr> in
      if tx_failed t then (Inl (PgError ''25P02''), t')
      else case env_fault E n of
        Some f \<Rightarrow> (Inl (fault_error f), t'\<lparr>tx_failed := True\<rparr>)
      | None \<Rightarrow>
          (case q (tx_now t) (tx_db t) of
             (Inl e, d) \<Rightarrow> (Inl e, if aborts_tx e then t'\<lparr>tx_failed := True\<rparr> else t'\<lparr>tx_db := d\<rparr>)
           | (Inr a, d) \<Rightarrow> (Inr a, t'\<lparr>tx_db := d\<rparr>)))"

definition tx_commit :: "env \<Rightarrow> tx \<Rightarrow> world \<Rightarrow> (go_error + unit) \<times> world" where
  "tx_commit E t w =
     (let n = tx_tick t; done = w\<lparr>w_db := tx_db t, w_tick := Suc n\<rparr>; undone = w\<lparr>w_tick := Suc n\<rparr> in
      case env_fault E n of
        Some (ServerFault c) \<Rightarrow> (Inl (PgError c), undone)
      | Some (ClientFault m) \<Rightarrow>
          (Inl (DriverError m),
           if env_commit_applied E n \<and> \<not> tx_failed t then done else undone)
      | None \<Rightarrow> (if tx_failed t then (Inl TxCommitRollback, undone) else (Inr (), done)))"

text \<open>\<open>defer tx.Rollback(ctx)\<close>: the copy is dropped.  After \<open>Commit\<close> the transaction is
  closed and the deferred call does nothing.\<close>

definition tx_rollback :: "tx \<Rightarrow> world \<Rightarrow> world" where
  "tx_rollback t w = w\<lparr>w_tick := tx_tick t\<rparr>"

text \<open>\<open>uuid.New().String()\<close> and \<open>time.Now().UTC()\<close> inside a transaction.\<close>

definition tx_uuid :: "env \<Rightarrow> tx \<Rightarrow> string \<times> tx" where
  "tx_uuid E t = (env_uuid E (tx_tick t), t\<lparr>tx_tick := Suc (tx_tick t)\<rparr>)"

definition tx_time_now :: "env \<Rightarrow> tx \<Rightarrow> int \<times> tx" where
  "tx_time_now E t = (env_now E (tx_tick t), t\<lparr>tx_tick := Suc (tx_tick t)\<rparr>)"

end
