(* ===== verification/App_Ports.thy ===== *)
theory App_Ports
  imports Domain
begin

text \<open>
  The ports of the application layer (\<open>internal/catalog/app/repository.go\<close>,
  \<open>publisher.go\<close>).  An interface value is the record of its methods over the state of
  whatever implements it; the laws a client relies on are locales, interpreted on the
  PostgreSQL adapter and on the log publisher.
\<close>

section \<open>The interfaces\<close>

record order_item_input =
  In_CabinetID :: string
  In_Quantity :: go_int

record 'w cabinet_repository =
  GetCabinet :: "string \<Rightarrow> 'w \<Rightarrow> (go_error + cabinet) \<times> 'w"
  ListCabinets :: "'w \<Rightarrow> (go_error + cabinet list) \<times> 'w"
  ReserveStockTx :: "string \<Rightarrow> go_int \<Rightarrow> string \<Rightarrow> 'w \<Rightarrow> (go_error + cabinet) \<times> 'w"
  GetOrder :: "string \<Rightarrow> 'w \<Rightarrow> (go_error + order) \<times> 'w"
  CreateOrderTx :: "string \<Rightarrow> order_item_input list \<Rightarrow> string \<Rightarrow> 'w \<Rightarrow> (go_error + order) \<times> 'w"
  ListUnpublishedOutboxEvents :: "int32 \<Rightarrow> 'w \<Rightarrow> (go_error + outbox_event list) \<times> 'w"
  MarkOutboxEventPublished :: "string \<Rightarrow> 'w \<Rightarrow> (go_error + unit) \<times> 'w"

text \<open>A publisher returns an error or nil.\<close>

record 'p event_publisher =
  Publish :: "string \<Rightarrow> string \<Rightarrow> 'p \<Rightarrow> go_error option \<times> 'p"

text \<open>The acknowledgement of a commit can be lost: the client sees a connection error.\<close>

definition connection_error :: "go_error \<Rightarrow> bool" where
  "connection_error e \<longleftrightarrow> (\<exists>m. root_cause e = DriverError m)"

lemma connection_error_wrap [simp]: "connection_error (WrapError m e) = connection_error e"
  by (simp add: connection_error_def)

lemma not_connection_error [simp]:
  "\<not> connection_error (CabErr c)" "\<not> connection_error (OrdErr d)"
  by (simp_all add: connection_error_def)

section \<open>The contract of the repository\<close>

text \<open>
  What the use cases rely on: reading does not change what the store holds (its
  \<open>view\<close>), and an order or a reservation that fails has not changed it either, unless the
  connection broke.
\<close>

locale atomic_repository =
  fixes R :: "'w cabinet_repository" and view :: "'w \<Rightarrow> 'v"
  assumes view_GetCabinet: "GetCabinet R cid w = (r1, w') \<Longrightarrow> view w' = view w"
    and view_ListCabinets: "ListCabinets R w = (r2, w') \<Longrightarrow> view w' = view w"
    and view_GetOrder: "GetOrder R oid w = (r3, w') \<Longrightarrow> view w' = view w"
    and view_ReserveStockTx: "ReserveStockTx R cid q key w = (Inl e, w') \<Longrightarrow>
      \<not> connection_error e \<Longrightarrow> view w' = view w"
    and view_CreateOrderTx: "CreateOrderTx R uid items key w = (Inl e, w') \<Longrightarrow>
      \<not> connection_error e \<Longrightarrow> view w' = view w"

section \<open>The contract of the outbox and of the publisher\<close>

text \<open>
  \<open>pending\<close> lists the events that wait for publication, oldest first, with unique ids in
  the states the store can be in (\<open>inv\<close>).  Listing returns a prefix; marking removes one
  event, and a failed marking removes at most that one.
\<close>

locale outbox_store =
  fixes R :: "'w cabinet_repository" and inv :: "'w \<Rightarrow> bool" and pending :: "'w \<Rightarrow> outbox_event list"
  assumes pending_distinct: "inv w \<Longrightarrow> distinct (map Evt_ID (pending w))"
    and list_inv: "ListUnpublishedOutboxEvents R n w = (r, w') \<Longrightarrow> inv w \<Longrightarrow> inv w'"
    and list_ok: "ListUnpublishedOutboxEvents R n w = (Inr evs, w') \<Longrightarrow>
      evs = take (nat (sint n)) (pending w)"
    and list_pending: "ListUnpublishedOutboxEvents R n w = (r, w') \<Longrightarrow> pending w' = pending w"
    and mark_inv: "MarkOutboxEventPublished R eid w = (r1, w') \<Longrightarrow> inv w \<Longrightarrow> inv w'"
    and mark_ok: "MarkOutboxEventPublished R eid w = (Inr u, w') \<Longrightarrow>
      pending w' = filter (\<lambda>ev. Evt_ID ev \<noteq> eid) (pending w)"
    and mark_err: "MarkOutboxEventPublished R eid w = (Inl e, w') \<Longrightarrow>
      pending w' = pending w \<or> pending w' = filter (\<lambda>ev. Evt_ID ev \<noteq> eid) (pending w)"

text \<open>
  \<open>delivered\<close> lists what reached the broker.  A successful \<open>Publish\<close> delivered its event; a
  failed one may or may not have.
\<close>

locale publisher =
  fixes P :: "'p event_publisher" and delivered :: "'p \<Rightarrow> (string \<times> string) list"
  assumes publish_ok: "Publish P ty pl p = (None, p') \<Longrightarrow> delivered p' = delivered p @ [(ty, pl)]"
    and publish_err: "Publish P ty pl p = (Some e, p') \<Longrightarrow>
      delivered p' = delivered p \<or> delivered p' = delivered p @ [(ty, pl)]"

end
