(* ===== verification/Repository.thy ===== *)
theory Repository
  imports Pg_Session App_Ports
begin

text \<open>
  The PostgreSQL adapter (\<open>internal/catalog/adapter/postgres/repository.go\<close>): one
  definition per function, with the early returns of the code as branches.  A function
  over the pool maps the world to its result and the world after it; a function over an
  open transaction does the same to the transaction.
\<close>

section \<open>Mapping rows to domain values\<close>

definition mapImagesToDomain :: "json_image list \<Rightarrow> cabinet_image list" where
  "mapImagesToDomain images =
     (if length images = 0 then []
      else map (\<lambda>img. \<lparr>Img_ID = ji_ID img, Img_URL = ji_URL img, Img_Alt = ji_Alt img,
                        Img_SortOrder = of_int32 (ji_SortOrder img)\<rparr>) images)"

definition mapCabinetToDomain :: "cabinet_row \<Rightarrow> cabinet" where
  "mapCabinetToDomain c =
     \<lparr>Cab_ID = row_ID c, Cab_Slug = row_Slug c, Cab_Model = row_Model c, Cab_Type = row_Type c,
      Cab_Display = row_Display c, Cab_Condition = row_Condition c,
      Cab_Quantity = of_int32 (row_Quantity c), Cab_Price = row_Price c,
      Cab_Manufacturer = row_Manufacturer c, Cab_Year = row_Year c,
      Cab_Images = mapImagesToDomain (row_Images c),
      Cab_CreatedAt = pg_time (row_CreatedAt c), Cab_UpdatedAt = pg_time (row_UpdatedAt c)\<rparr>"

definition mapOrderLine :: "db_order_item \<Rightarrow> order_line" where
  "mapOrderLine item =
     \<lparr>Line_ID = oi_id item, Line_OrderID = oi_order_id item, Line_CabinetID = oi_cabinet_id item,
      Line_Quantity = of_int32 (oi_quantity item), Line_UnitPriceCents = oi_unit_price_cents item\<rparr>"

definition mapOrderToDomain :: "db_order \<Rightarrow> db_order_item list \<Rightarrow> order" where
  "mapOrderToDomain o1 items =
     \<lparr>Ord_ID = o_id o1, Ord_UserID = o_user_id o1, Ord_Status = o_status o1,
      Ord_TotalCents = o_total_cents o1, Ord_IdempotencyKey = o_idempotency_key o1,
      Ord_Items = map mapOrderLine items,
      Ord_CreatedAt = pg_time (o_created_at o1), Ord_UpdatedAt = pg_time (o_updated_at o1)\<rparr>"

primrec outboxID :: "any_id \<Rightarrow> string" where
  "outboxID (IdString v) = v"
| "outboxID (IdBytes v) = v"
| "outboxID (IdOther v) = v"

definition mapOutboxEventToDomain :: "catalog_outbox \<Rightarrow> outbox_event" where
  "mapOutboxEventToDomain event =
     \<lparr>Evt_ID = outboxID (co_ID event), Evt_AggregateID = co_AggregateID event,
      Evt_EventType = co_EventType event, Evt_Payload = co_Payload event,
      Evt_UpdatedAt = (case co_PublishedAt event of
                         Some t \<Rightarrow> Some t
                       | None \<Rightarrow> (case co_CreatedAt event of Some t \<Rightarrow> Some t | None \<Rightarrow> None))\<rparr>"

section \<open>Reading\<close>

definition repo_GetCabinet :: "env \<Rightarrow> string \<Rightarrow> world \<Rightarrow> (go_error + cabinet) \<times> world" where
  "repo_GetCabinet E cid w =
     (case pool_run E (q_GetCabinet E cid) w of
        (Inl err, w') \<Rightarrow>
          (if errors_is err ErrNoRows then (Inl (CabErr ErrNotFound), w')
           else (Inl (WrapError ''failed to get cabinet: '' err), w'))
      | (Inr c, w') \<Rightarrow> (Inr (mapCabinetToDomain c), w'))"

definition repo_ListCabinets :: "env \<Rightarrow> world \<Rightarrow> (go_error + cabinet list) \<times> world" where
  "repo_ListCabinets E w =
     (case pool_run E (q_ListCabinets E) w of
        (Inl err, w') \<Rightarrow> (Inl (WrapError ''failed to list cabinets: '' err), w')
      | (Inr rows, w') \<Rightarrow> (Inr (map mapCabinetToDomain rows), w'))"

definition repo_GetOrder :: "env \<Rightarrow> string \<Rightarrow> world \<Rightarrow> (go_error + order) \<times> world" where
  "repo_GetOrder E oid w =
     (case pool_run E (q_GetOrder oid) w of
        (Inl err, w1) \<Rightarrow>
          (if errors_is err ErrNoRows then (Inl (CabErr ErrNotFound), w1)
           else (Inl (WrapError ''failed to get order: '' err), w1))
      | (Inr o1, w1) \<Rightarrow>
          (case pool_run E (q_ListOrderItems (o_id o1)) w1 of
             (Inl err, w2) \<Rightarrow> (Inl (WrapError ''failed to list order items: '' err), w2)
           | (Inr items, w2) \<Rightarrow> (Inr (mapOrderToDomain o1 items), w2)))"

section \<open>Reserving stock\<close>

definition ReserveStockOnTx ::
    "env \<Rightarrow> string \<Rightarrow> go_int \<Rightarrow> string \<Rightarrow> tx \<Rightarrow> (go_error + cabinet) \<times> tx" where
  "ReserveStockOnTx E cabinetID quantity idempotencyKey t =
     (case tx_run E (q_GetReservation idempotencyKey) t of
        (Inr existingRes, t1) \<Rightarrow>
          (if r_cabinet_id existingRes \<noteq> cabinetID
              \<or> of_int32 (r_quantity existingRes) \<noteq> quantity
           then (Inl (CabErr ErrDuplicateReservation), t1)
           else (case tx_run E (q_GetCabinet E (r_cabinet_id existingRes)) t1 of
                   (Inl err, t2) \<Rightarrow>
                     (Inl (WrapError ''failed to get cabinet for existing reservation: '' err), t2)
                 | (Inr c, t2) \<Rightarrow> (Inr (mapCabinetToDomain c), t2)))
      | (Inl _, t1) \<Rightarrow>
          (case tx_run E (q_DecrementStock E \<lparr>dsp_Quantity = to_int32 quantity,
                                              dsp_ID = cabinetID\<rparr>) t1 of
             (Inl err, t2) \<Rightarrow>
               (if errors_is err ErrNoRows then (Inl (CabErr ErrInsufficientStock), t2)
                else (Inl (WrapError ''failed to decrement stock: '' err), t2))
           | (Inr c, t2) \<Rightarrow>
               (case tx_run E (q_CreateReservation
                       \<lparr>crp_IdempotencyKey = idempotencyKey, crp_CabinetID = cabinetID,
                        crp_Quantity = to_int32 quantity\<rparr>) t2 of
                  (Inl err, t3) \<Rightarrow>
                    (if errors_as_pg err = Some ''23505''
                     then (Inl (CabErr ErrDuplicateReservation), t3)
                     else (Inl (WrapError ''failed to create reservation: '' err), t3))
                | (Inr _, t3) \<Rightarrow> (Inr (mapCabinetToDomain c), t3))))"

definition repo_ReserveStockTx ::
    "env \<Rightarrow> string \<Rightarrow> go_int \<Rightarrow> string \<Rightarrow> world \<Rightarrow> (go_error + cabinet) \<times> world" where
  "repo_ReserveStockTx E cabinetID quantity idempotencyKey w =
     (case tx_begin E w of
        (Inl err, w1) \<Rightarrow> (Inl (WrapError ''failed to begin transaction: '' err), w1)
      | (Inr t, w1) \<Rightarrow>
          (case ReserveStockOnTx E cabinetID quantity idempotencyKey t of
             (Inl err, t1) \<Rightarrow> (Inl err, tx_rollback t1 w1)
           | (Inr c, t1) \<Rightarrow>
               (case tx_commit E t1 w1 of
                  (Inl err, w2) \<Rightarrow> (Inl (WrapError ''failed to commit transaction: '' err), w2)
                | (Inr _, w2) \<Rightarrow> (Inr c, w2))))"

section \<open>Creating an order\<close>

text \<open>The replay check: the map from cabinet to quantity built from the stored items, and
  the comparison of the requested items with it.\<close>

fun existing_item_map :: "db_order_item list \<Rightarrow> (string \<rightharpoonup> go_int) \<Rightarrow> (string \<rightharpoonup> go_int)" where
  "existing_item_map [] m = m"
| "existing_item_map (item # rest) m =
     existing_item_map rest (m(oi_cabinet_id item \<mapsto> of_int32 (oi_quantity item)))"

fun items_match :: "(string \<rightharpoonup> go_int) \<Rightarrow> order_item_input list \<Rightarrow> bool" where
  "items_match m [] = True"
| "items_match m (newItem # rest) =
     (case m (In_CabinetID newItem) of
        None \<Rightarrow> False
      | Some quantity \<Rightarrow>
          (if quantity \<noteq> In_Quantity newItem then False else items_match m rest))"

definition replay_order ::
    "env \<Rightarrow> string \<Rightarrow> order_item_input list \<Rightarrow> db_order \<Rightarrow> tx \<Rightarrow> (go_error + order) \<times> tx" where
  "replay_order E userID items existingOrder t =
     (case tx_run E (q_ListOrderItems (o_id existingOrder)) t of
        (Inl err, t1) \<Rightarrow> (Inl (WrapError ''failed to list existing order items: '' err), t1)
      | (Inr existingItems, t1) \<Rightarrow>
          (if o_user_id existingOrder \<noteq> userID \<or> length existingItems \<noteq> length items
           then (Inl (OrdErr ErrDuplicateOrder), t1)
           else if \<not> items_match (existing_item_map existingItems Map.empty) items
           then (Inl (OrdErr ErrDuplicateOrder), t1)
           else (Inr (mapOrderToDomain existingOrder existingItems), t1)))"

record item_snapshot =
  snap_cabinetID :: string
  snap_quantity :: go_int
  snap_unitPriceCents :: int64

text \<open>The loop over the requested items that reads the prices; \<open>totalCents\<close> wraps around as
  \<open>int64\<close> arithmetic does.\<close>

fun snapshot_items ::
    "env \<Rightarrow> order_item_input list \<Rightarrow> int64 \<Rightarrow> tx \<Rightarrow> (go_error + item_snapshot list \<times> int64) \<times> tx" where
  "snapshot_items E [] totalCents t = (Inr ([], totalCents), t)"
| "snapshot_items E (item # rest) totalCents t =
     (case tx_run E (q_GetCabinet E (In_CabinetID item)) t of
        (Inl err, t1) \<Rightarrow>
          (if errors_is err ErrNoRows then (Inl (CabErr ErrNotFound), t1)
           else (Inl (WrapError ''failed to get cabinet snapshot while creating order: '' err), t1))
      | (Inr cabinetRow, t1) \<Rightarrow>
          (case snapshot_items E rest
                  (totalCents + row_Price cabinetRow * In_Quantity item) t1 of
             (Inl err, t2) \<Rightarrow> (Inl err, t2)
           | (Inr (snaps, totalC), t2) \<Rightarrow>
               (Inr (\<lparr>snap_cabinetID = In_CabinetID item, snap_quantity = In_Quantity item,
                      snap_unitPriceCents = row_Price cabinetRow\<rparr> # snaps, totalC), t2)))"

definition stock_key :: "string \<Rightarrow> string \<Rightarrow> string" where
  "stock_key orderID cabinetID = ''order:'' @ orderID @ '':'' @ cabinetID"

fun reserve_items :: "env \<Rightarrow> string \<Rightarrow> item_snapshot list \<Rightarrow> tx \<Rightarrow> (go_error + unit) \<times> tx" where
  "reserve_items E orderID [] t = (Inr (), t)"
| "reserve_items E orderID (item # rest) t =
     (case ReserveStockOnTx E (snap_cabinetID item) (snap_quantity item)
             (stock_key orderID (snap_cabinetID item)) t of
        (Inl err, t1) \<Rightarrow> (Inl err, t1)
      | (Inr _, t1) \<Rightarrow> reserve_items E orderID rest t1)"

fun insert_items ::
    "env \<Rightarrow> string \<Rightarrow> item_snapshot list \<Rightarrow> tx \<Rightarrow> (go_error + db_order_item list) \<times> tx" where
  "insert_items E orderID [] t = (Inr [], t)"
| "insert_items E orderID (item # rest) t =
     (let (itemID, t1) = tx_uuid E t in
      case tx_run E (q_CreateOrderItem
             \<lparr>cip_ID = itemID, cip_OrderID = orderID, cip_CabinetID = snap_cabinetID item,
              cip_Quantity = to_int32 (snap_quantity item),
              cip_UnitPriceCents = snap_unitPriceCents item\<rparr>) t1 of
        (Inl err, t2) \<Rightarrow> (Inl (WrapError ''failed to insert order item line: '' err), t2)
      | (Inr _, t2) \<Rightarrow>
          (case insert_items E orderID rest t2 of
             (Inl err, t3) \<Rightarrow> (Inl err, t3)
           | (Inr dbItems, t3) \<Rightarrow>
               (Inr (\<lparr>oi_id = itemID, oi_order_id = orderID, oi_cabinet_id = snap_cabinetID item,
                      oi_quantity = to_int32 (snap_quantity item),
                      oi_unit_price_cents = snap_unitPriceCents item\<rparr> # dbItems), t3)))"

record order_created_payload =
  Pay_EventID :: string
  Pay_OrderID :: string
  Pay_UserID :: string
  Pay_AmountCents :: int64
  Pay_OccurredAt :: string

text \<open>\<open>json.Marshal\<close> of the payload: the fields in the struct's order under their tags.
  Marshalling strings and an integer cannot fail.\<close>

definition json_field :: "string \<Rightarrow> string \<Rightarrow> string" where
  "json_field name val = json_string name @ '':'' @ val"

definition marshal_payload :: "order_created_payload \<Rightarrow> go_error + string" where
  "marshal_payload p = Inr (''{'' @ json_field ''event_id'' (json_string (Pay_EventID p))
     @ '','' @ json_field ''order_id'' (json_string (Pay_OrderID p))
     @ '','' @ json_field ''user_id'' (json_string (Pay_UserID p))
     @ '','' @ json_field ''amount_cents'' (show_int (sint (Pay_AmountCents p)))
     @ '','' @ json_field ''occurred_at'' (json_string (Pay_OccurredAt p)) @ ''}'')"

definition write_outbox ::
    "env \<Rightarrow> string \<Rightarrow> string \<Rightarrow> int64 \<Rightarrow> tx \<Rightarrow> (go_error + unit) \<times> tx" where
  "write_outbox E orderID userID totalCents t =
     (let (eventID, t1) = tx_uuid E t; (nw, t2) = tx_time_now E t1 in
      case marshal_payload \<lparr>Pay_EventID = eventID, Pay_OrderID = orderID, Pay_UserID = userID,
             Pay_AmountCents = totalCents, Pay_OccurredAt = rfc3339 nw\<rparr> of
        Inl err \<Rightarrow> (Inl (WrapError ''failed to marshal outbox event payload: '' err), t2)
      | Inr payloadBytes \<Rightarrow>
          (case tx_run E (q_InsertOutboxEvent E
                  \<lparr>iop_ID = IdString eventID, iop_AggregateID = orderID,
                   iop_EventType = ''order.created'', iop_Payload = payloadBytes\<rparr>) t2 of
             (Inl err, t3) \<Rightarrow> (Inl (WrapError ''failed to insert outbox event: '' err), t3)
           | (Inr _, t3) \<Rightarrow> (Inr (), t3)))"

text \<open>Steps 7 to 12 of \<open>CreateOrderTx\<close>: everything but the replay check and the commit.\<close>

definition place_order ::
    "env \<Rightarrow> string \<Rightarrow> order_item_input list \<Rightarrow> string \<Rightarrow> tx \<Rightarrow> (go_error + order) \<times> tx" where
  "place_order E userID items idempotencyKey t =
     (case snapshot_items E items 0 t of
        (Inl err, t1) \<Rightarrow> (Inl err, t1)
      | (Inr (snapshots, totalCents), t1) \<Rightarrow>
          (let (orderID, t2) = tx_uuid E t1 in
           case reserve_items E orderID snapshots t2 of
             (Inl err, t3) \<Rightarrow> (Inl err, t3)
           | (Inr _, t3) \<Rightarrow>
               (case tx_run E (q_CreateOrder
                       \<lparr>cop_ID = orderID, cop_UserID = userID, cop_Status = StatusPendingPayment,
                        cop_TotalCents = totalCents, cop_IdempotencyKey = idempotencyKey\<rparr>) t3 of
                  (Inl err, t4) \<Rightarrow>
                    (if errors_as_pg err = Some ''23505''
                     then (Inl (OrdErr ErrDuplicateOrder), t4)
                     else (Inl (WrapError ''failed to insert order: '' err), t4))
                | (Inr createdOrderRow, t4) \<Rightarrow>
                    (case insert_items E orderID snapshots t4 of
                       (Inl err, t5) \<Rightarrow> (Inl err, t5)
                     | (Inr dbOrderItems, t5) \<Rightarrow>
                         (case write_outbox E orderID userID totalCents t5 of
                            (Inl err, t6) \<Rightarrow> (Inl err, t6)
                          | (Inr _, t6) \<Rightarrow>
                              (Inr (mapOrderToDomain createdOrderRow dbOrderItems), t6))))))"

definition repo_CreateOrderTx ::
    "env \<Rightarrow> string \<Rightarrow> order_item_input list \<Rightarrow> string \<Rightarrow> world \<Rightarrow> (go_error + order) \<times> world" where
  "repo_CreateOrderTx E userID items idempotencyKey w =
     (case tx_begin E w of
        (Inl err, w1) \<Rightarrow> (Inl (WrapError ''failed to begin transaction: '' err), w1)
      | (Inr t, w1) \<Rightarrow>
          (case tx_run E (q_GetOrderByItempotencyKey idempotencyKey) t of
             (Inr existingOrder, t1) \<Rightarrow>
               (case replay_order E userID items existingOrder t1 of
                  (r, t2) \<Rightarrow> (r, tx_rollback t2 w1))
           | (Inl _, t1) \<Rightarrow>
               (case place_order E userID items idempotencyKey t1 of
                  (Inl err, t2) \<Rightarrow> (Inl err, tx_rollback t2 w1)
                | (Inr ord, t2) \<Rightarrow>
                    (case tx_commit E t2 w1 of
                       (Inl err, w2) \<Rightarrow>
                         (Inl (WrapError ''failed to commit order creation transaction: '' err), w2)
                     | (Inr _, w2) \<Rightarrow> (Inr ord, w2)))))"

section \<open>The outbox\<close>

definition repo_ListUnpublishedOutboxEvents ::
    "env \<Rightarrow> int32 \<Rightarrow> world \<Rightarrow> (go_error + outbox_event list) \<times> world" where
  "repo_ListUnpublishedOutboxEvents E limit w =
     (case pool_run E (q_ListUnpublishedOutboxEvents limit) w of
        (Inl err, w') \<Rightarrow> (Inl (WrapError ''failed to list unpublished outbox events: '' err), w')
      | (Inr events, w') \<Rightarrow> (Inr (map mapOutboxEventToDomain events), w'))"

definition repo_MarkOutboxEventPublished :: "env \<Rightarrow> string \<Rightarrow> world \<Rightarrow> (go_error + unit) \<times> world" where
  "repo_MarkOutboxEventPublished E eid w =
     (case pool_run E (q_MarkOutboxEventPublished (IdString eid)) w of
        (Inl err, w') \<Rightarrow> (Inl (WrapError ''failed to mark outbox event published: '' err), w')
      | (Inr _, w') \<Rightarrow> (Inr (), w'))"

section \<open>The adapter as the port's implementation\<close>

definition postgres_repository :: "env \<Rightarrow> world cabinet_repository" where
  "postgres_repository E =
     \<lparr>GetCabinet = repo_GetCabinet E, ListCabinets = repo_ListCabinets E,
      ReserveStockTx = repo_ReserveStockTx E, GetOrder = repo_GetOrder E,
      CreateOrderTx = repo_CreateOrderTx E,
      ListUnpublishedOutboxEvents = repo_ListUnpublishedOutboxEvents E,
      MarkOutboxEventPublished = repo_MarkOutboxEventPublished E\<rparr>"

lemma postgres_repository_sels [simp]:
  "GetCabinet (postgres_repository E) = repo_GetCabinet E"
  "ListCabinets (postgres_repository E) = repo_ListCabinets E"
  "ReserveStockTx (postgres_repository E) = repo_ReserveStockTx E"
  "GetOrder (postgres_repository E) = repo_GetOrder E"
  "CreateOrderTx (postgres_repository E) = repo_CreateOrderTx E"
  "ListUnpublishedOutboxEvents (postgres_repository E) = repo_ListUnpublishedOutboxEvents E"
  "MarkOutboxEventPublished (postgres_repository E) = repo_MarkOutboxEventPublished E"
  by (simp_all add: postgres_repository_def)

end
