(* ===== verification/Sql_Facts.thy ===== *)
theory Sql_Facts
  imports Pg_Session
begin

text \<open>
  What the statements do to the schema: every one of them keeps \<open>schema_ok\<close>, whatever its
  parameters, and a statement that returns an error without a decoding failure changes
  nothing.  \<open>stmt_invariant\<close> is the contract between the statements and the code above
  them: a property of the tables that the six writing statements keep is kept by anything
  that runs statements, on the pool or on a transaction, whatever the environment does.
\<close>

section \<open>Frames\<close>

lemma scan_cabinet_row_fields:
  "scan_cabinet_row E c imgs = Inr row \<Longrightarrow>
     row_ID row = c_id c \<and> row_Quantity row = c_quantity c \<and> row_Price row = c_price c"
  by (auto simp: scan_cabinet_row_def split: sum.splits)

lemma scan_cabinet_row_no_abort:
  "scan_cabinet_row E c imgs = Inl e \<Longrightarrow> \<not> aborts_tx e \<and> root_cause e \<noteq> ErrNoRows"
  by (auto simp: scan_cabinet_row_def scan_image_bytes_def split: sum.splits if_splits)

text \<open>The reading statements return the database they were given.\<close>

lemma reads_keep_db [simp]:
  "snd (q_GetCabinet E cid now d) = d"
  "snd (q_GetReservation key now d) = d"
  "snd (q_ListCabinets E now d) = d"
  "snd (q_GetOrder oid now d) = d"
  "snd (q_GetOrderByItempotencyKey key now d) = d"
  "snd (q_ListOrderItems oid now d) = d"
  "snd (q_ListUnpublishedOutboxEvents lim now d) = d"
  by (auto simp: q_GetCabinet_def q_GetReservation_def q_ListCabinets_def q_GetOrder_def
      q_GetOrderByItempotencyKey_def q_ListOrderItems_def q_ListUnpublishedOutboxEvents_def
      split: option.splits)

lemma pool_run_same:
  assumes "pool_run E q w = (r, w')" "\<And>d. snd (q (env_now E (w_tick w)) d) = d"
  shows "w_db w' = w_db w" "w_tick w' = Suc (w_tick w)"
proof -
  obtain r' where "q (env_now E (w_tick w)) (w_db w) = (r', w_db w)"
    using assms(2) [of "w_db w"] by (metis prod.collapse)
  with assms(1) show "w_db w' = w_db w" "w_tick w' = Suc (w_tick w)"
    by (auto simp: pool_run_def Let_def split: option.splits db_fault.splits)
qed

lemmas pool_reads_same =
  pool_run_same [where q = "q_GetCabinet E' c" for E' c, OF _ reads_keep_db(1)]
  pool_run_same [where q = "q_ListCabinets E'" for E', OF _ reads_keep_db(3)]
  pool_run_same [where q = "q_GetOrder k" for k, OF _ reads_keep_db(4)]
  pool_run_same [where q = "q_ListOrderItems k" for k, OF _ reads_keep_db(6)]
  pool_run_same [where q = "q_ListUnpublishedOutboxEvents k" for k, OF _ reads_keep_db(7)]

text \<open>The effect of a successful decrement on the tables.\<close>

definition decrement_effect :: "int \<Rightarrow> string \<Rightarrow> int32 \<Rightarrow> catalog_db \<Rightarrow> catalog_db" where
  "decrement_effect now cid q d =
     d\<lparr>cabinets := update_where (decrement_matches \<lparr>dsp_Quantity = q, dsp_ID = cid\<rparr>)
                    (decrement_row \<lparr>dsp_Quantity = q, dsp_ID = cid\<rparr> now) (cabinets d)\<rparr>"

text \<open>When the guarded update finds its row: the cabinet exists with enough stock, and the
  difference is an \<open>int4\<close>.\<close>

definition can_decrement :: "catalog_db \<Rightarrow> string \<Rightarrow> int32 \<Rightarrow> bool" where
  "can_decrement d cid q \<longleftrightarrow>
     (case find (decrement_matches \<lparr>dsp_Quantity = q, dsp_ID = cid\<rparr>) (cabinets d) of
        None \<Rightarrow> False
      | Some c \<Rightarrow> sint (c_quantity c) - sint q < 2 ^ 31)"

lemma q_DecrementStock_cases:
  "q_DecrementStock E \<lparr>dsp_Quantity = q, dsp_ID = cid\<rparr> now d = (r, d') \<Longrightarrow>
     (can_decrement d cid q \<and> d' = decrement_effect now cid q d
        \<and> (\<exists>c. find (decrement_matches \<lparr>dsp_Quantity = q, dsp_ID = cid\<rparr>) (cabinets d) = Some c
              \<and> r = scan_cabinet_row E (decrement_row \<lparr>dsp_Quantity = q, dsp_ID = cid\<rparr> now c)
                       (images_agg d (c_id c))))
     \<or> (\<not> can_decrement d cid q \<and> d' = d \<and> (r = Inl ErrNoRows \<or> r = Inl (PgError ''22003'')))"
  by (auto simp: q_DecrementStock_def can_decrement_def decrement_effect_def Let_def
      decrement_matches_def split: option.splits if_splits dest: find_Some_in)

section \<open>Cabinets under a decrement\<close>

lemma decrement_row_id [simp]: "c_id (decrement_row arg now c) = c_id c"
  by (simp add: decrement_row_def)

lemma decrement_row_slug [simp]: "c_slug (decrement_row arg now c) = c_slug c"
  by (simp add: decrement_row_def)

lemma decrement_row_quantity [simp]:
  "c_quantity (decrement_row arg now c) = c_quantity c - dsp_Quantity arg"
  by (simp add: decrement_row_def)

lemma sint_minus_32:
  fixes a b :: int32
  assumes "sint b \<le> sint a" "sint a - sint b < 2 ^ 31"
  shows "sint (a - b) = sint a - sint b"
proof -
  have "a - b = word_of_int (sint a - sint b)"
    by simp
  then have "sint (a - b) = sint (word_of_int (sint a - sint b) :: int32)"
    by (rule arg_cong)
  also have "\<dots> = sint a - sint b"
    using assms by (intro sint_word_of_int_32) auto
  finally show ?thesis .
qed

lemma cabinet_ids_decrement [simp]:
  "map c_id (cabinets (decrement_effect now cid q d)) = map c_id (cabinets d)"
  "map c_slug (cabinets (decrement_effect now cid q d)) = map c_slug (cabinets d)"
  by (simp_all add: decrement_effect_def map_update_where)

lemma cabinet_id_set_decrement [simp]:
  "c_id ` set (cabinets (decrement_effect now cid q d)) = c_id ` set (cabinets d)"
  by (metis cabinet_ids_decrement(1) list.set_map)

lemma decrement_effect_frame [simp]:
  "cabinet_images (decrement_effect now cid q d) = cabinet_images d"
  "reservations (decrement_effect now cid q d) = reservations d"
  "orders (decrement_effect now cid q d) = orders d"
  "order_items (decrement_effect now cid q d) = order_items d"
  "outbox (decrement_effect now cid q d) = outbox d"
  by (simp_all add: decrement_effect_def)

text \<open>With unique ids the guarded update touches one row.\<close>

lemma find_decrement_matches:
  assumes "distinct (map c_id (cabinets d))"
  shows "find (decrement_matches \<lparr>dsp_Quantity = q, dsp_ID = cid\<rparr>) (cabinets d) =
    (case find (\<lambda>c. c_id c = cid) (cabinets d) of
       None \<Rightarrow> None
     | Some c \<Rightarrow> if sint q \<le> sint (c_quantity c) then Some c else None)"
proof -
  have "distinct (map c_id cs) \<Longrightarrow>
    find (decrement_matches \<lparr>dsp_Quantity = q, dsp_ID = cid\<rparr>) cs =
    (case find (\<lambda>c. c_id c = cid) cs of
       None \<Rightarrow> None
     | Some c \<Rightarrow> if sint q \<le> sint (c_quantity c) then Some c else None)" for cs
  proof (induction cs)
    case Nil
    then show ?case by simp
  next
    case (Cons c cs)
    show ?case
    proof (cases "c_id c = cid")
      case True
      with Cons.prems have "find (\<lambda>c. c_id c = cid) cs = None"
        using find_None_iff_notin [of c_id cid cs] by simp
      with True Cons show ?thesis
        by (auto simp: decrement_matches_def)
    next
      case False
      with Cons show ?thesis by (simp add: decrement_matches_def)
    qed
  qed
  with assms show ?thesis by blast
qed

lemma can_decrement_iff:
  assumes "cabinets_ok d"
  shows "can_decrement d cid q \<longleftrightarrow>
    (case stock_of d cid of None \<Rightarrow> False
     | Some s \<Rightarrow> sint q \<le> s \<and> s - sint q < 2 ^ 31)"
  using assms
  by (auto simp: can_decrement_def find_decrement_matches cabinets_ok_def stock_of_def
      split: option.splits)

lemma find_after_decrement:
  assumes "cabinets_ok d" "can_decrement d cid q"
  shows "find (\<lambda>c. c_id c = x) (cabinets (decrement_effect now cid q d)) =
    (if x = cid then map_option (decrement_row \<lparr>dsp_Quantity = q, dsp_ID = cid\<rparr> now)
                       (find (\<lambda>c. c_id c = x) (cabinets d))
     else find (\<lambda>c. c_id c = x) (cabinets d))"
proof -
  let ?m = "decrement_matches \<lparr>dsp_Quantity = q, dsp_ID = cid\<rparr>"
  let ?f = "decrement_row \<lparr>dsp_Quantity = q, dsp_ID = cid\<rparr> now"
  have enough: "\<forall>c \<in> set (cabinets d). c_id c = cid \<longrightarrow> sint q \<le> sint (c_quantity c)"
  proof (intro ballI impI)
    fix c assume c: "c \<in> set (cabinets d)" "c_id c = cid"
    with assms(1) have "find (\<lambda>c. c_id c = cid) (cabinets d) = Some c"
      using find_unique [of c_id "cabinets d" c] by (simp add: cabinets_ok_def)
    with assms show "sint q \<le> sint (c_quantity c)"
      by (simp add: can_decrement_iff stock_of_def)
  qed
  then have same: "update_where ?m ?f (cabinets d) =
      update_where (\<lambda>c. c_id c = cid) ?f (cabinets d)"
    by (auto simp: update_where_def decrement_matches_def)
  show ?thesis
    by (cases "x = cid")
      (simp_all add: decrement_effect_def same find_update_where_same find_update_where_other)
qed

lemma stock_after_decrement:
  assumes "cabinets_ok d" "can_decrement d cid q"
  shows "stock_of (decrement_effect now cid q d) x =
    (if x = cid then map_option (\<lambda>s. s - sint q) (stock_of d x) else stock_of d x)"
proof (cases "x = cid")
  case False
  with assms show ?thesis by (simp add: stock_of_def find_after_decrement)
next
  case True
  from assms obtain c where c: "find (\<lambda>c. c_id c = cid) (cabinets d) = Some c"
    "sint q \<le> sint (c_quantity c)" "sint (c_quantity c) - sint q < 2 ^ 31"
    by (auto simp: can_decrement_iff stock_of_def split: option.splits)
  with True assms show ?thesis
    by (simp add: stock_of_def find_after_decrement sint_minus_32)
qed

lemma cabinets_ok_decrement:
  assumes ok: "cabinets_ok d" and dec: "can_decrement d cid q"
  shows "cabinets_ok (decrement_effect now cid q d)"
proof -
  let ?d = "decrement_effect now cid q d"
  have "0 \<le> sint (c_quantity c)" "varchar 36 (c_id c)" if "c \<in> set (cabinets ?d)" for c
  proof -
    have "distinct (map c_id (cabinets ?d))" using ok by (simp add: cabinets_ok_def)
    with that have "find (\<lambda>x. c_id x = c_id c) (cabinets ?d) = Some c"
      by (rule find_unique [rotated])
    then have "stock_of ?d (c_id c) = Some (sint (c_quantity c))"
      by (simp add: stock_of_def)
    moreover obtain s where "stock_of d cid = Some s" "sint q \<le> s"
      using ok dec by (auto simp: can_decrement_iff split: option.splits)
    moreover have "0 \<le> u" if "stock_of d y = Some u" for y u
      using that ok by (auto simp: stock_of_def cabinets_ok_def dest: find_Some_in)
    ultimately show "0 \<le> sint (c_quantity c)"
      using ok dec by (auto simp: stock_after_decrement split: if_splits)
    have "c_id c \<in> c_id ` set (cabinets d)"
      using that by (metis cabinet_id_set_decrement imageI)
    with ok show "varchar 36 (c_id c)" by (auto simp: cabinets_ok_def)
  qed
  with ok show ?thesis by (simp add: cabinets_ok_def)
qed

section \<open>Every statement keeps the schema\<close>

definition keeps :: "(catalog_db \<Rightarrow> bool) \<Rightarrow> 'a stmt \<Rightarrow> bool" where
  "keeps I q \<longleftrightarrow> (\<forall>now d. I d \<longrightarrow> I (snd (q now d)))"

lemma reads_keep:
  "keeps I (q_GetCabinet E cid)" "keeps I (q_GetReservation key)" "keeps I (q_ListCabinets E)"
  "keeps I (q_GetOrder oid)" "keeps I (q_GetOrderByItempotencyKey key)"
  "keeps I (q_ListOrderItems oid)" "keeps I (q_ListUnpublishedOutboxEvents lim)"
  by (simp_all add: keeps_def)

lemma schema_q_CreateReservation: "keeps schema_ok (q_CreateReservation arg)"
  by (auto simp: keeps_def q_CreateReservation_def Let_def schema_defs reservation_violation_def
      split: option.splits if_splits)

lemma schema_q_DecrementStock: "keeps schema_ok (q_DecrementStock E arg)"
  unfolding keeps_def
proof (intro allI impI)
  fix now d
  assume ok: "schema_ok d"
  obtain q cid where arg: "arg = \<lparr>dsp_Quantity = q, dsp_ID = cid\<rparr>" by (cases arg) auto
  obtain r d' where rd: "q_DecrementStock E arg now d = (r, d')" by fastforce
  from q_DecrementStock_cases [OF rd [unfolded arg]]
  have "d' = d \<or> (can_decrement d cid q \<and> d' = decrement_effect now cid q d)" by blast
  with ok rd show "schema_ok (snd (q_DecrementStock E arg now d))"
    by (elim disjE conjE) (simp_all add: schema_ok_def cabinets_ok_decrement images_ok_def
        reservations_ok_def orders_ok_def order_items_ok_def outbox_ok_def)
qed

lemma schema_q_CreateOrder: "keeps schema_ok (q_CreateOrder arg)"
  by (auto simp: keeps_def q_CreateOrder_def Let_def schema_defs order_violation_def
      split: option.splits if_splits)

lemma schema_q_CreateOrderItem: "keeps schema_ok (q_CreateOrderItem arg)"
  by (auto simp: keeps_def q_CreateOrderItem_def Let_def schema_defs order_item_violation_def
      split: option.splits if_splits)

lemma schema_q_InsertOutboxEvent: "keeps schema_ok (q_InsertOutboxEvent E arg)"
  by (auto simp: keeps_def q_InsertOutboxEvent_def Let_def schema_defs outbox_violation_def
      split: option.splits if_splits)

lemma schema_q_MarkOutboxEventPublished: "keeps schema_ok (q_MarkOutboxEventPublished eid)"
  by (simp add: keeps_def q_MarkOutboxEventPublished_def schema_defs map_update_where)

section \<open>The contract of an invariant\<close>

locale stmt_invariant =
  fixes I :: "catalog_db \<Rightarrow> bool"
  assumes I_CreateReservation: "keeps I (q_CreateReservation a1)"
    and I_DecrementStock: "keeps I (q_DecrementStock E a2)"
    and I_CreateOrder: "keeps I (q_CreateOrder a3)"
    and I_CreateOrderItem: "keeps I (q_CreateOrderItem a4)"
    and I_InsertOutboxEvent: "keeps I (q_InsertOutboxEvent E a5)"
    and I_MarkOutboxEventPublished: "keeps I (q_MarkOutboxEventPublished a6)"
begin

lemma tx_run_keeps:
  assumes "keeps I q" "tx_run E q t = (r, t')" "I (tx_db t)"
  shows "I (tx_db t')"
proof -
  have "I (snd (q (tx_now t) (tx_db t)))" using assms(1,3) by (simp add: keeps_def)
  with assms(2,3) show ?thesis
    by (auto simp: tx_run_def Let_def split: if_splits option.splits prod.splits sum.splits)
qed

lemma pool_run_keeps:
  assumes "keeps I q" "pool_run E q w = (r, w')" "I (w_db w)"
  shows "I (w_db w')"
proof -
  have "I (snd (q (env_now E (w_tick w)) (w_db w)))" using assms(1,3) by (simp add: keeps_def)
  with assms(2,3) show ?thesis
    by (auto simp: pool_run_def Let_def split: option.splits prod.splits db_fault.splits if_splits)
qed

lemmas tx_keeps =
  tx_run_keeps [OF I_CreateReservation] tx_run_keeps [OF I_DecrementStock]
  tx_run_keeps [OF I_CreateOrder] tx_run_keeps [OF I_CreateOrderItem]
  tx_run_keeps [OF I_InsertOutboxEvent]
  tx_run_keeps [OF reads_keep(1)] tx_run_keeps [OF reads_keep(2)]
  tx_run_keeps [OF reads_keep(5)] tx_run_keeps [OF reads_keep(6)]

lemmas pool_keeps =
  pool_run_keeps [OF reads_keep(1)] pool_run_keeps [OF reads_keep(3)]
  pool_run_keeps [OF reads_keep(4)] pool_run_keeps [OF reads_keep(6)]
  pool_run_keeps [OF reads_keep(7)] pool_run_keeps [OF I_MarkOutboxEventPublished]

lemma begin_keeps:
  assumes "tx_begin E w = (r, w')" "I (w_db w)"
  shows "I (w_db w')" "r = Inr t \<Longrightarrow> I (tx_db t)"
  using assms by (auto simp: tx_begin_def Let_def split: option.splits)

lemma commit_keeps:
  assumes "tx_commit E t w = (r, w')" "I (w_db w)" "I (tx_db t)"
  shows "I (w_db w')"
  using assms
  by (auto simp: tx_commit_def Let_def split: option.splits db_fault.splits if_splits)

end

text \<open>The schema satisfies the contract.\<close>

interpretation schema: stmt_invariant schema_ok
  by unfold_locales
    (auto intro: schema_q_CreateReservation schema_q_DecrementStock schema_q_CreateOrder
      schema_q_CreateOrderItem schema_q_InsertOutboxEvent schema_q_MarkOutboxEventPublished)

end
