(* ===== verification/Repository_Invariants.thy ===== *)
theory Repository_Invariants
  imports Repository Sql_Facts
begin

text \<open>
  Whatever the statements keep, the repository keeps: the client side of the contract
  \<open>stmt_invariant\<close>, one lemma per function of \<open>repository.go\<close>, for every environment, so
  for every pattern of driver faults, lost acknowledgements, clocks and identifiers.
\<close>

context stmt_invariant begin

lemma ReserveStockOnTx_keeps:
  assumes "ReserveStockOnTx E cid q key t = (r, t')" "I (tx_db t)"
  shows "I (tx_db t')"
  using assms unfolding ReserveStockOnTx_def
  by (auto split: prod.splits sum.splits if_splits dest: tx_keeps)

lemma repo_ReserveStockTx_keeps:
  assumes "repo_ReserveStockTx E cid q key w = (r, w')" "I (w_db w)"
  shows "I (w_db w')"
  using assms unfolding repo_ReserveStockTx_def
  by (auto split: prod.splits sum.splits simp: tx_rollback_def
      dest: begin_keeps(1) intro: commit_keeps ReserveStockOnTx_keeps begin_keeps(2))

lemma snapshot_items_keeps:
  "snapshot_items E items tot t = (r, t') \<Longrightarrow> I (tx_db t) \<Longrightarrow> I (tx_db t')"
  by (induction E items tot t arbitrary: r t' rule: snapshot_items.induct)
    (auto split: prod.splits sum.splits if_splits dest: tx_keeps)

lemma reserve_items_keeps:
  "reserve_items E oid items t = (r, t') \<Longrightarrow> I (tx_db t) \<Longrightarrow> I (tx_db t')"
  by (induction E oid items t arbitrary: r t' rule: reserve_items.induct)
    (auto split: prod.splits sum.splits dest: ReserveStockOnTx_keeps)

lemma tx_uuid_db: "tx_uuid E t = (x, t') \<Longrightarrow> tx_db t' = tx_db t"
  by (auto simp: tx_uuid_def)

lemma tx_time_now_db: "tx_time_now E t = (x, t') \<Longrightarrow> tx_db t' = tx_db t"
  by (auto simp: tx_time_now_def)

lemma insert_items_keeps:
  "insert_items E oid items t = (r, t') \<Longrightarrow> I (tx_db t) \<Longrightarrow> I (tx_db t')"
proof (induction E oid items t arbitrary: r t' rule: insert_items.induct)
  case (1 E oid t)
  then show ?case by simp
next
  case (2 E oid item rest t)
  obtain itemID t1 where u: "tx_uuid E t = (itemID, t1)" by fastforce
  with "2.prems" have "I (tx_db t1)" by (simp add: tx_uuid_db)
  with "2.prems"(1) "2.IH" [OF u [symmetric] refl] show ?case
    by (auto simp: u split: prod.splits sum.splits intro: tx_keeps)
qed

lemma write_outbox_keeps:
  assumes "write_outbox E oid uid tot t = (r, t')" "I (tx_db t)"
  shows "I (tx_db t')"
  using assms unfolding write_outbox_def tx_uuid_def tx_time_now_def
  by (auto split: prod.splits sum.splits intro: tx_keeps)

lemma place_order_keeps:
  assumes "place_order E uid items key t = (r, t')" "I (tx_db t)"
  shows "I (tx_db t')"
proof -
  obtain r1 t1 where s: "snapshot_items E items 0 t = (r1, t1)" by fastforce
  then have t1: "I (tx_db t1)" using assms(2) by (rule snapshot_items_keeps)
  obtain oid t2 where u: "tx_uuid E t1 = (oid, t2)" by fastforce
  with t1 have t2: "I (tx_db t2)" by (simp add: tx_uuid_db)
  show ?thesis
    using assms(1) s u t1 t2 unfolding place_order_def
    by (auto split: prod.splits sum.splits if_splits
        dest: reserve_items_keeps tx_keeps insert_items_keeps write_outbox_keeps)
qed

lemma repo_CreateOrderTx_keeps:
  assumes "repo_CreateOrderTx E uid items key w = (r, w')" "I (w_db w)"
  shows "I (w_db w')"
proof -
  obtain b w1 where b: "tx_begin E w = (b, w1)" by fastforce
  note w1 = begin_keeps(1) [OF b assms(2)]
  show ?thesis
  proof (cases b)
    case (Inl e)
    with assms b w1 show ?thesis by (simp add: repo_CreateOrderTx_def)
  next
    case (Inr t)
    obtain r1 t1 where q: "tx_run E (q_GetOrderByItempotencyKey key) t = (r1, t1)" by fastforce
    have t1: "I (tx_db t1)"
      using q begin_keeps(2) [OF b assms(2) Inr] by (blast dest: tx_keeps)
    obtain r2 t2 where p: "place_order E uid items key t1 = (r2, t2)" by fastforce
    have t2: "I (tx_db t2)" using p t1 by (rule place_order_keeps)
    show ?thesis
      using assms(1) b Inr q p w1 t2 unfolding repo_CreateOrderTx_def
      by (auto simp: tx_rollback_def split: prod.splits sum.splits dest: commit_keeps)
  qed
qed

lemma repo_reads_keep:
  assumes "I (w_db w)"
  shows "repo_GetCabinet E cid w = (r1, w') \<Longrightarrow> I (w_db w')"
    and "repo_ListCabinets E w = (r2, w') \<Longrightarrow> I (w_db w')"
    and "repo_GetOrder E oid w = (r3, w') \<Longrightarrow> I (w_db w')"
    and "repo_ListUnpublishedOutboxEvents E lim w = (r4, w') \<Longrightarrow> I (w_db w')"
  using assms
  by (auto simp: repo_GetCabinet_def repo_ListCabinets_def repo_GetOrder_def
      repo_ListUnpublishedOutboxEvents_def split: prod.splits sum.splits if_splits
      dest: pool_keeps)

lemma repo_MarkOutboxEventPublished_keeps:
  assumes "repo_MarkOutboxEventPublished E eid w = (r, w')" "I (w_db w)"
  shows "I (w_db w')"
  using assms unfolding repo_MarkOutboxEventPublished_def
  by (auto split: prod.splits sum.splits dest: pool_keeps)

end

end
