(* ===== verification/Repository_Effects.thy ===== *)
theory Repository_Effects
  imports Repository_Invariants
begin

text \<open>
  The effect of the repository's transactions on the tables, as pure functions:
  \<open>reserve_accepts\<close> and \<open>reserve_db\<close> for one reservation, \<open>lines_accept\<close> and
  \<open>lines_db\<close> for the lines of an order, \<open>order_effect\<close> for a whole order.  A call that
  succeeds has exactly this effect, in every environment; a call that fails leaves the
  committed tables alone, unless the acknowledgement of its commit was lost.
\<close>

section \<open>One statement in a transaction\<close>

lemma tx_run_Inr:
  assumes "tx_run E q t = (Inr a, t')"
  shows "\<not> tx_failed t" "env_fault E (tx_tick t) = None"
    "q (tx_now t) (tx_db t) = (Inr a, tx_db t')"
    "t' = t\<lparr>tx_tick := Suc (tx_tick t), tx_db := tx_db t'\<rparr>"
  using assms by (auto simp: tx_run_def Let_def split: if_splits option.splits prod.splits sum.splits)

lemma tx_run_Inl_alive:
  assumes "tx_run E q t = (Inl e, t')" "\<not> tx_failed t'"
  shows "\<not> tx_failed t" "env_fault E (tx_tick t) = None" "\<not> aborts_tx e"
    "q (tx_now t) (tx_db t) = (Inl e, tx_db t')"
    "t' = t\<lparr>tx_tick := Suc (tx_tick t), tx_db := tx_db t'\<rparr>"
  using assms by (auto simp: tx_run_def Let_def split: if_splits option.splits prod.splits sum.splits)

lemma tx_run_failed: "tx_failed t \<Longrightarrow> \<exists>t'. tx_run E q t = (Inl (PgError ''25P02''), t') \<and> tx_failed t'"
  by (simp add: tx_run_def Let_def)

text \<open>A statement that succeeded ran in a live transaction and left it alive, with the
  same start time.\<close>

lemma tx_run_Inr_alive:
  assumes "tx_run E q t = (Inr a, t')"
  shows "\<not> tx_failed t'" "tx_now t' = tx_now t" "tx_tick t' = Suc (tx_tick t)"
  using tx_run_Inr [OF assms] by (metis tx.select_convs tx.surjective tx.update_convs)+

lemma tx_run_Inl_alive_now:
  assumes "tx_run E q t = (Inl e, t')" "\<not> tx_failed t'"
  shows "tx_now t' = tx_now t" "tx_tick t' = Suc (tx_tick t)"
  using tx_run_Inl_alive [OF assms] by (metis tx.select_convs tx.surjective tx.update_convs)+

text \<open>In an environment without faults a live transaction just runs the statement.\<close>

lemma tx_run_quiet:
  assumes "env_fault E (tx_tick t) = None" "\<not> tx_failed t"
    "q (tx_now t) (tx_db t) = (r, d)"
  shows "tx_run E q t =
    (r, case r of Inl e \<Rightarrow> if aborts_tx e then t\<lparr>tx_tick := Suc (tx_tick t), tx_failed := True\<rparr>
                           else t\<lparr>tx_tick := Suc (tx_tick t), tx_db := d\<rparr>
                | Inr a \<Rightarrow> t\<lparr>tx_tick := Suc (tx_tick t), tx_db := d\<rparr>)"
  using assms by (auto simp: tx_run_def Let_def split: sum.splits)

section \<open>One reservation\<close>

definition new_reservation :: "int \<Rightarrow> string \<Rightarrow> int32 \<Rightarrow> string \<Rightarrow> db_reservation" where
  "new_reservation now cid q key =
     \<lparr>r_idempotency_key = key, r_cabinet_id = cid, r_quantity = q, r_created_at = Some now\<rparr>"

definition reserve_effect :: "int \<Rightarrow> string \<Rightarrow> int32 \<Rightarrow> string \<Rightarrow> catalog_db \<Rightarrow> catalog_db" where
  "reserve_effect now cid q key d =
     (decrement_effect now cid q d)\<lparr>reservations := reservations d @ [new_reservation now cid q key]\<rparr>"

definition find_reservation :: "string \<Rightarrow> catalog_db \<Rightarrow> db_reservation option" where
  "find_reservation key d = find (\<lambda>r. r_idempotency_key r = key) (reservations d)"

definition reserve_accepts :: "catalog_db \<Rightarrow> string \<Rightarrow> go_int \<Rightarrow> string \<Rightarrow> bool" where
  "reserve_accepts d cid q key \<longleftrightarrow>
     (case find_reservation key d of
        Some r \<Rightarrow> r_cabinet_id r = cid \<and> of_int32 (r_quantity r) = q
      | None \<Rightarrow> can_decrement d cid (to_int32 q) \<and> varchar 255 key \<and> varchar 36 cid)"

definition reserve_db :: "int \<Rightarrow> string \<Rightarrow> go_int \<Rightarrow> string \<Rightarrow> catalog_db \<Rightarrow> catalog_db" where
  "reserve_db now cid q key d =
     (case find_reservation key d of
        Some r \<Rightarrow> d
      | None \<Rightarrow> reserve_effect now cid (to_int32 q) key d)"

lemma can_decrement_in: "can_decrement d cid q \<Longrightarrow> cid \<in> c_id ` set (cabinets d)"
  by (auto simp: can_decrement_def decrement_matches_def split: option.splits dest!: find_Some_in)

lemma new_reservation_violation:
  assumes "find_reservation key d = None" "cid \<in> c_id ` set (cabinets d)"
  shows "reservation_violation (decrement_effect n cid2 q2 d) (new_reservation now cid q key) =
    (if varchar 255 key \<and> varchar 36 cid then None else Some ''22001'')"
  using assms find_None_iff_notin [of r_idempotency_key key "reservations d"]
  by (simp add: reservation_violation_def new_reservation_def find_reservation_def)

lemma q_GetReservation_eq:
  "q_GetReservation key now d =
     (case find_reservation key d of None \<Rightarrow> (Inl ErrNoRows, d) | Some r \<Rightarrow> (Inr r, d))"
  by (simp add: q_GetReservation_def find_reservation_def)

lemma q_CreateReservation_eq:
  "q_CreateReservation \<lparr>crp_IdempotencyKey = key, crp_CabinetID = cid, crp_Quantity = q\<rparr> now d =
     (case reservation_violation d (new_reservation now cid q key) of
        Some code \<Rightarrow> (Inl (PgError code), d)
      | None \<Rightarrow> (Inr (), d\<lparr>reservations := reservations d @ [new_reservation now cid q key]\<rparr>))"
  by (simp add: q_CreateReservation_def new_reservation_def Let_def split: option.split)

lemma ReserveStockOnTx_Inr:
  assumes run: "ReserveStockOnTx E cid q key t = (Inr c, t')"
  shows "reserve_accepts (tx_db t) cid q key \<and> \<not> tx_failed t \<and> \<not> tx_failed t'
    \<and> tx_now t' = tx_now t \<and> tx_tick t < tx_tick t'
    \<and> tx_db t' = reserve_db (tx_now t) cid q key (tx_db t)"
proof -
  obtain g t1 where g: "tx_run E (q_GetReservation key) t = (g, t1)" by fastforce
  show ?thesis
  proof (cases g)
    case (Inr res)
    note r = tx_run_Inr [OF g [unfolded Inr]] and a = tx_run_Inr_alive [OF g [unfolded Inr]]
    have res: "find_reservation key (tx_db t) = Some res" "tx_db t1 = tx_db t"
      using r(3) by (auto simp: q_GetReservation_eq split: option.splits)
    from run g Inr obtain row where m: "r_cabinet_id res = cid" "of_int32 (r_quantity res) = q"
      and c2: "tx_run E (q_GetCabinet E (r_cabinet_id res)) t1 = (Inr row, t')"
      by (auto simp: ReserveStockOnTx_def split: if_splits prod.splits sum.splits)
    have "tx_db t' = tx_db t1"
      using tx_run_Inr(3) [OF c2] by (metis reads_keep_db(1) snd_conv)
    with res m r a tx_run_Inr_alive [OF c2] show ?thesis
      by (simp add: reserve_accepts_def reserve_db_def)
  next
    case (Inl e)
    from run g Inl obtain row t2 where
      d2: "tx_run E (q_DecrementStock E \<lparr>dsp_Quantity = to_int32 q, dsp_ID = cid\<rparr>) t1 = (Inr row, t2)"
      and c3: "tx_run E (q_CreateReservation \<lparr>crp_IdempotencyKey = key, crp_CabinetID = cid,
                 crp_Quantity = to_int32 q\<rparr>) t2 = (Inr (), t')"
      by (auto simp: ReserveStockOnTx_def split: if_splits prod.splits sum.splits)
    note r2 = tx_run_Inr [OF d2] and a2 = tx_run_Inr_alive [OF d2]
    note r1 = tx_run_Inl_alive [OF g [unfolded Inl] r2(1)]
      and a1 = tx_run_Inl_alive_now [OF g [unfolded Inl] r2(1)]
    note r3 = tx_run_Inr [OF c3] and a3 = tx_run_Inr_alive [OF c3]
    have none: "find_reservation key (tx_db t) = None" and t1: "tx_db t1 = tx_db t"
      using r1(4) by (auto simp: q_GetReservation_eq split: option.splits)
    from q_DecrementStock_cases [OF r2(3)] have dec: "can_decrement (tx_db t) cid (to_int32 q)"
      and t2: "tx_db t2 = decrement_effect (tx_now t) cid (to_int32 q) (tx_db t)"
      using t1 a1 by auto
    from r3(3) none dec have "varchar 255 key \<and> varchar 36 cid" and
      "tx_db t' = (tx_db t2)\<lparr>reservations := reservations (tx_db t2) @
                    [new_reservation (tx_now t) cid (to_int32 q) key]\<rparr>"
      by (auto simp: q_CreateReservation_eq t2 new_reservation_violation can_decrement_in a1 a2
          split: if_splits option.splits)
    with none dec t2 r1 a1 a2 a3 show ?thesis
      by (simp add: reserve_accepts_def reserve_db_def reserve_effect_def)
  qed
qed

text \<open>Conversely, without faults an acceptable reservation goes through.\<close>

definition quiet :: "env \<Rightarrow> bool" where
  "quiet E \<longleftrightarrow> (\<forall>n. env_fault E n = None)
     \<and> (\<forall>imgs. CabinetImages_Scan E (SrcBytes (env_render_images E imgs)) = Inr imgs)"

lemma quiet_no_fault: "quiet E \<Longrightarrow> env_fault E n = None"
  by (simp add: quiet_def)

lemma quiet_scan:
  "quiet E \<Longrightarrow> \<exists>row. scan_cabinet_row E c imgs = Inr row \<and> row_ID row = c_id c
     \<and> row_Quantity row = c_quantity c \<and> row_Price row = c_price c \<and> row_Images row = imgs"
  by (simp add: quiet_def scan_cabinet_row_def)

lemma quiet_GetCabinet:
  assumes "quiet E" "cid \<in> c_id ` set (cabinets d)"
  shows "\<exists>row. q_GetCabinet E cid now d = (Inr row, d) \<and> row_ID row = cid"
proof -
  obtain c where "find (\<lambda>c. c_id c = cid) (cabinets d) = Some c"
    using assms(2) find_None_iff_notin [of c_id cid "cabinets d"] by fastforce
  moreover from this have "c_id c = cid" by (auto dest: find_Some_in)
  ultimately show ?thesis
    using quiet_scan [OF assms(1), of c "images_agg d (c_id c)"] by (auto simp: q_GetCabinet_def)
qed

lemma ReserveStockOnTx_accepts:
  assumes "quiet E" "schema_ok (tx_db t)" "\<not> tx_failed t" "reserve_accepts (tx_db t) cid q key"
  shows "\<exists>c t'. ReserveStockOnTx E cid q key t = (Inr c, t')"
proof (cases "find_reservation key (tx_db t)")
  case (Some res)
  then have "r_cabinet_id res \<in> c_id ` set (cabinets (tx_db t))"
    using assms(2) unfolding find_reservation_def schema_defs by (auto dest!: find_Some_in)
  then obtain row where row:
    "\<And>now. q_GetCabinet E (r_cabinet_id res) now (tx_db t) = (Inr row, tx_db t)"
    using quiet_GetCabinet [OF assms(1)] by (metis (no_types) q_GetCabinet_def)
  show ?thesis
    using assms Some row
    by (auto simp: ReserveStockOnTx_def tx_run_quiet quiet_no_fault q_GetReservation_eq
        reserve_accepts_def)
next
  case None
  then have acc: "can_decrement (tx_db t) cid (to_int32 q)" "varchar 255 key" "varchar 36 cid"
    using assms(4) by (simp_all add: reserve_accepts_def)
  let ?t1 = "t\<lparr>tx_tick := Suc (tx_tick t)\<rparr>"
  obtain r d where d: "q_DecrementStock E \<lparr>dsp_Quantity = to_int32 q, dsp_ID = cid\<rparr>
      (tx_now t) (tx_db t) = (r, d)" by fastforce
  from q_DecrementStock_cases [OF d] acc quiet_scan [OF assms(1)] obtain row where
    row: "r = Inr row" "d = decrement_effect (tx_now t) cid (to_int32 q) (tx_db t)"
    by (metis (no_types))
  show ?thesis
    using assms(1,3) None acc
    by (simp add: ReserveStockOnTx_def tx_run_quiet quiet_no_fault q_GetReservation_eq d row
        q_CreateReservation_eq new_reservation_violation can_decrement_in)
qed

section \<open>The reservation transaction\<close>

lemma tx_begin_Inr:
  assumes "tx_begin E w = (Inr t, w1)"
  shows "tx_db t = w_db w" "tx_now t = env_now E (w_tick w)" "\<not> tx_failed t"
    "tx_tick t = Suc (w_tick w)" "w_db w1 = w_db w"
  using assms by (auto simp: tx_begin_def Let_def split: option.splits)

lemma tx_begin_Inl: "tx_begin E w = (Inl e, w1) \<Longrightarrow> w_db w1 = w_db w"
  by (auto simp: tx_begin_def Let_def split: option.splits)

lemma tx_commit_Inr:
  assumes "tx_commit E t w = (Inr u, w')"
  shows "w_db w' = tx_db t" "w_tick w' = Suc (tx_tick t)" "\<not> tx_failed t"
  using assms
  by (auto simp: tx_commit_def Let_def split: option.splits db_fault.splits if_splits)

lemma tx_commit_Inl:
  assumes "tx_commit E t w = (Inl e, w')"
  shows "w_db w' = w_db w \<or> (\<exists>m. e = DriverError m \<and> w_db w' = tx_db t)"
  using assms
  by (auto simp: tx_commit_def Let_def split: option.splits db_fault.splits if_splits)

lemma tx_rollback_db [simp]: "w_db (tx_rollback t w) = w_db w"
  by (simp add: tx_rollback_def)

lemma reserve_tx_Inr:
  assumes "repo_ReserveStockTx E cid q key w = (Inr c, w')"
  shows "reserve_accepts (w_db w) cid q key"
    "w_db w' = reserve_db (env_now E (w_tick w)) cid q key (w_db w)"
    "w_tick w < w_tick w'"
proof -
  from assms obtain t w1 t1 where
    b: "tx_begin E w = (Inr t, w1)" and r: "ReserveStockOnTx E cid q key t = (Inr c, t1)"
    and c: "tx_commit E t1 w1 = (Inr (), w')"
    by (auto simp: repo_ReserveStockTx_def split: prod.splits sum.splits)
  from tx_begin_Inr [OF b] ReserveStockOnTx_Inr [OF r] tx_commit_Inr [OF c]
  show "reserve_accepts (w_db w) cid q key"
    "w_db w' = reserve_db (env_now E (w_tick w)) cid q key (w_db w)" "w_tick w < w_tick w'"
    by simp_all
qed

lemma reserve_tx_Inl:
  assumes "repo_ReserveStockTx E cid q key w = (Inl e, w')"
  shows "w_db w' = w_db w
    \<or> (connection_error e \<and> reserve_accepts (w_db w) cid q key
       \<and> w_db w' = reserve_db (env_now E (w_tick w)) cid q key (w_db w))"
proof -
  obtain b w1 where b: "tx_begin E w = (b, w1)" by fastforce
  show ?thesis
  proof (cases b)
    case (Inl e')
    with assms b tx_begin_Inl show ?thesis by (auto simp: repo_ReserveStockTx_def)
  next
    case (Inr t)
    obtain r t1 where r: "ReserveStockOnTx E cid q key t = (r, t1)" by fastforce
    note bt = tx_begin_Inr [OF b [unfolded Inr]]
    show ?thesis
    proof (cases r)
      case (Inl e')
      with assms b Inr r bt show ?thesis by (auto simp: repo_ReserveStockTx_def)
    next
      case (Inr c)
      from assms b \<open>b = Inr t\<close> r Inr obtain e' where
        c: "tx_commit E t1 w1 = (Inl e', w')" "e = WrapError ''failed to commit transaction: '' e'"
        by (auto simp: repo_ReserveStockTx_def split: prod.splits sum.splits)
      with tx_commit_Inl [OF c(1)] ReserveStockOnTx_Inr [OF r [unfolded Inr]] bt
      show ?thesis by (auto simp: connection_error_def)
    qed
  qed
qed

lemma reserve_tx_quiet:
  assumes "quiet E" "schema_ok (w_db w)" "reserve_accepts (w_db w) cid q key"
  shows "\<exists>c w'. repo_ReserveStockTx E cid q key w = (Inr c, w')"
proof -
  obtain t w1 where b: "tx_begin E w = (Inr t, w1)"
    using assms(1) by (auto simp: tx_begin_def quiet_no_fault Let_def)
  note bt = tx_begin_Inr [OF b]
  from assms bt obtain c t1 where r: "ReserveStockOnTx E cid q key t = (Inr c, t1)"
    using ReserveStockOnTx_accepts [of E t cid q key] by auto
  with ReserveStockOnTx_Inr [OF r] assms(1) b show ?thesis
    by (simp add: repo_ReserveStockTx_def tx_commit_def quiet_no_fault Let_def)
qed

end
