(* ===== verification/Order_Effects.thy ===== *)
theory Order_Effects
  imports Repository_Effects
begin

text \<open>
  The effect of \<open>CreateOrderTx\<close>: the price snapshot of the requested items, the
  reservations of the order's lines one after the other, the order row, its item rows
  and its outbox row.
\<close>

section \<open>The price snapshot\<close>

definition price_of :: "catalog_db \<Rightarrow> string \<Rightarrow> int64" where
  "price_of d cid = (case find (\<lambda>c. c_id c = cid) (cabinets d) of None \<Rightarrow> 0 | Some c \<Rightarrow> c_price c)"

definition snapshot_of :: "catalog_db \<Rightarrow> order_item_input \<Rightarrow> item_snapshot" where
  "snapshot_of d item = \<lparr>snap_cabinetID = In_CabinetID item, snap_quantity = In_Quantity item,
     snap_unitPriceCents = price_of d (In_CabinetID item)\<rparr>"

definition order_total :: "catalog_db \<Rightarrow> order_item_input list \<Rightarrow> int64" where
  "order_total d items = sum_list (map (\<lambda>i. price_of d (In_CabinetID i) * In_Quantity i) items)"

definition known_cabinets :: "catalog_db \<Rightarrow> order_item_input list \<Rightarrow> bool" where
  "known_cabinets d items \<longleftrightarrow> (\<forall>i \<in> set items. In_CabinetID i \<in> c_id ` set (cabinets d))"

lemma q_GetCabinet_Inr:
  assumes "q_GetCabinet E cid now d = (Inr row, d')"
  shows "row_ID row = cid" "row_Price row = price_of d cid" "cid \<in> c_id ` set (cabinets d)"
proof -
  from assms obtain c where c: "find (\<lambda>c. c_id c = cid) (cabinets d) = Some c"
    and row: "scan_cabinet_row E c (images_agg d (c_id c)) = Inr row"
    by (auto simp: q_GetCabinet_def split: option.splits)
  from find_Some_in [OF c] have "c \<in> set (cabinets d)" "c_id c = cid" by auto
  with c scan_cabinet_row_fields [OF row] show "row_ID row = cid" "row_Price row = price_of d cid"
    "cid \<in> c_id ` set (cabinets d)" by (auto simp: price_of_def)
qed

lemma snapshot_items_Inr:
  "snapshot_items E items tot t = (Inr (snaps, tot'), t') \<Longrightarrow>
     snaps = map (snapshot_of (tx_db t)) items \<and> tot' = tot + order_total (tx_db t) items
     \<and> known_cabinets (tx_db t) items \<and> tx_db t' = tx_db t \<and> tx_now t' = tx_now t
     \<and> tx_failed t' = tx_failed t \<and> tx_tick t' = tx_tick t + length items"
proof (induction items arbitrary: tot t snaps)
  case Nil
  then show ?case by (simp add: order_total_def known_cabinets_def)
next
  case (Cons item rest)
  from Cons.prems obtain row t1 snaps' where
    g: "tx_run E (q_GetCabinet E (In_CabinetID item)) t = (Inr row, t1)"
    and rest: "snapshot_items E rest (tot + row_Price row * In_Quantity item) t1
                 = (Inr (snaps', tot'), t')"
    and snaps: "snaps = \<lparr>snap_cabinetID = In_CabinetID item, snap_quantity = In_Quantity item,
                  snap_unitPriceCents = row_Price row\<rparr> # snaps'"
    by (auto split: prod.splits sum.splits if_splits)
  have db: "tx_db t1 = tx_db t"
    using tx_run_Inr(3) [OF g] by (metis reads_keep_db(1) snd_conv)
  from q_GetCabinet_Inr [OF tx_run_Inr(3) [OF g]] Cons.IH [OF rest] snaps db
    tx_run_Inr_alive [OF g] tx_run_Inr(1) [OF g]
  show ?case
    by (simp add: order_total_def known_cabinets_def snapshot_of_def add.assoc)
qed

section \<open>The lines of an order\<close>

fun lines_accept :: "int \<Rightarrow> string \<Rightarrow> item_snapshot list \<Rightarrow> catalog_db \<Rightarrow> bool" where
  "lines_accept now oid [] d = True"
| "lines_accept now oid (l # ls) d =
     (reserve_accepts d (snap_cabinetID l) (snap_quantity l) (stock_key oid (snap_cabinetID l))
      \<and> lines_accept now oid ls
          (reserve_db now (snap_cabinetID l) (snap_quantity l) (stock_key oid (snap_cabinetID l)) d))"

fun lines_db :: "int \<Rightarrow> string \<Rightarrow> item_snapshot list \<Rightarrow> catalog_db \<Rightarrow> catalog_db" where
  "lines_db now oid [] d = d"
| "lines_db now oid (l # ls) d =
     lines_db now oid ls
       (reserve_db now (snap_cabinetID l) (snap_quantity l) (stock_key oid (snap_cabinetID l)) d)"

lemma reserve_items_Inr:
  "reserve_items E oid ls t = (Inr u, t') \<Longrightarrow>
     lines_accept (tx_now t) oid ls (tx_db t) \<and> tx_db t' = lines_db (tx_now t) oid ls (tx_db t)
     \<and> tx_now t' = tx_now t \<and> tx_failed t' = tx_failed t \<and> tx_tick t \<le> tx_tick t'"
proof (induction ls arbitrary: t)
  case Nil
  then show ?case by simp
next
  case (Cons l ls)
  from Cons.prems obtain c t1 where
    r: "ReserveStockOnTx E (snap_cabinetID l) (snap_quantity l) (stock_key oid (snap_cabinetID l)) t
          = (Inr c, t1)"
    and rest: "reserve_items E oid ls t1 = (Inr u, t')"
    by (auto split: prod.splits sum.splits)
  from ReserveStockOnTx_Inr [OF r] Cons.IH [OF rest] show ?case by simp
qed

lemma reserve_effect_frame [simp]:
  "cabinet_images (reserve_effect now cid q key d) = cabinet_images d"
  "orders (reserve_effect now cid q key d) = orders d"
  "order_items (reserve_effect now cid q key d) = order_items d"
  "outbox (reserve_effect now cid q key d) = outbox d"
  "map c_id (cabinets (reserve_effect now cid q key d)) = map c_id (cabinets d)"
  "c_id ` set (cabinets (reserve_effect now cid q key d)) = c_id ` set (cabinets d)"
  by (simp_all add: reserve_effect_def)

lemma reserve_db_frame [simp]:
  "cabinet_images (reserve_db now cid q key d) = cabinet_images d"
  "orders (reserve_db now cid q key d) = orders d"
  "order_items (reserve_db now cid q key d) = order_items d"
  "outbox (reserve_db now cid q key d) = outbox d"
  "map c_id (cabinets (reserve_db now cid q key d)) = map c_id (cabinets d)"
  "c_id ` set (cabinets (reserve_db now cid q key d)) = c_id ` set (cabinets d)"
  by (simp_all add: reserve_db_def split: option.split)

lemma lines_db_frame [simp]:
  "cabinet_images (lines_db now oid ls d) = cabinet_images d"
  "orders (lines_db now oid ls d) = orders d"
  "order_items (lines_db now oid ls d) = order_items d"
  "outbox (lines_db now oid ls d) = outbox d"
  "map c_id (cabinets (lines_db now oid ls d)) = map c_id (cabinets d)"
  "c_id ` set (cabinets (lines_db now oid ls d)) = c_id ` set (cabinets d)"
  by (induction ls arbitrary: d) simp_all

section \<open>The item rows\<close>

definition item_row :: "string \<Rightarrow> string \<Rightarrow> item_snapshot \<Rightarrow> db_order_item" where
  "item_row oid iid l = \<lparr>oi_id = iid, oi_order_id = oid, oi_cabinet_id = snap_cabinetID l,
     oi_quantity = to_int32 (snap_quantity l), oi_unit_price_cents = snap_unitPriceCents l\<rparr>"

definition item_rows :: "string \<Rightarrow> string list \<Rightarrow> item_snapshot list \<Rightarrow> db_order_item list" where
  "item_rows oid ids ls = map2 (item_row oid) ids ls"

text \<open>The identifiers a transaction draws from tick \<open>n\<close> on: every item uses one tick for
  its id and one for its \<open>INSERT\<close>.\<close>

definition item_ids :: "env \<Rightarrow> nat \<Rightarrow> nat \<Rightarrow> string list" where
  "item_ids E n k = map (\<lambda>j. env_uuid E (n + 2 * j)) [0..<k]"

lemma item_ids_Suc: "item_ids E n (Suc k) = env_uuid E n # item_ids E (n + 2) k"
  by (simp add: item_ids_def map_upt_Suc del: upt_Suc)

lemma length_item_rows [simp]:
  "length (item_rows oid ids ls) = min (length ids) (length ls)"
  by (simp add: item_rows_def)

lemma insert_items_Inr:
  "insert_items E oid ls t = (Inr rows, t') \<Longrightarrow>
     rows = item_rows oid (item_ids E (tx_tick t) (length ls)) ls
     \<and> tx_db t' = (tx_db t)\<lparr>order_items := order_items (tx_db t) @ rows\<rparr>
     \<and> tx_now t' = tx_now t \<and> tx_failed t' = tx_failed t
     \<and> (\<forall>l \<in> set ls. 0 < sint (to_int32 (snap_quantity l)))
     \<and> tx_tick t' = tx_tick t + 2 * length ls"
proof (induction ls arbitrary: t rows)
  case Nil
  then show ?case by (simp add: item_rows_def item_ids_def)
next
  case (Cons l ls)
  let ?u = "env_uuid E (tx_tick t)" and ?t1 = "t\<lparr>tx_tick := Suc (tx_tick t)\<rparr>"
  let ?arg = "\<lparr>cip_ID = ?u, cip_OrderID = oid, cip_CabinetID = snap_cabinetID l,
     cip_Quantity = to_int32 (snap_quantity l), cip_UnitPriceCents = snap_unitPriceCents l\<rparr>"
  from Cons.prems obtain t2 rows' where
    q: "tx_run E (q_CreateOrderItem ?arg) ?t1 = (Inr (), t2)"
    and rest: "insert_items E oid ls t2 = (Inr rows', t')"
    and rows: "rows = item_row oid ?u l # rows'"
    by (auto simp: tx_uuid_def item_row_def split: prod.splits sum.splits)
  from tx_run_Inr(3) [OF q]
  have db: "tx_db t2 = (tx_db t)\<lparr>order_items := order_items (tx_db t) @ [item_row oid ?u l]\<rparr>"
    and pos: "0 < sint (to_int32 (snap_quantity l))"
    by (auto simp: q_CreateOrderItem_def Let_def item_row_def order_item_violation_def
        split: option.splits if_splits)
  from Cons.IH [OF rest] rows db pos tx_run_Inr_alive [OF q] tx_run_Inr(1) [OF q]
  show ?case by (simp add: item_rows_def item_ids_Suc)
qed

section \<open>The whole order\<close>

definition new_order :: "int \<Rightarrow> string \<Rightarrow> string \<Rightarrow> string \<Rightarrow> int64 \<Rightarrow> db_order" where
  "new_order now oid uid key cents =
     \<lparr>o_id = oid, o_user_id = uid, o_status = StatusPendingPayment, o_total_cents = cents,
      o_idempotency_key = key, o_created_at = Some now, o_updated_at = Some now\<rparr>"

definition new_event :: "int \<Rightarrow> string \<Rightarrow> string \<Rightarrow> string \<Rightarrow> db_outbox" where
  "new_event now eid oid payload =
     \<lparr>ob_id = eid, ob_aggregate_id = oid, ob_event_type = ''order.created'', ob_payload = payload,
      ob_created_at = Some now, ob_published_at = None\<rparr>"

definition event_payload :: "string \<Rightarrow> string \<Rightarrow> string \<Rightarrow> int64 \<Rightarrow> int \<Rightarrow> string" where
  "event_payload eid oid uid cents at =
     projr (marshal_payload \<lparr>Pay_EventID = eid, Pay_OrderID = oid, Pay_UserID = uid,
       Pay_AmountCents = cents, Pay_OccurredAt = rfc3339 at\<rparr>)"

lemma write_outbox_Inr:
  assumes "write_outbox E oid uid cents t = (Inr u, t')"
  shows "\<exists>payload. env_jsonb_in E (event_payload (env_uuid E (tx_tick t)) oid uid cents
              (env_now E (Suc (tx_tick t)))) = Some payload
     \<and> env_uuid E (tx_tick t) \<notin> ob_id ` set (outbox (tx_db t))
     \<and> tx_db t' = (tx_db t)\<lparr>outbox := outbox (tx_db t) @
          [new_event (tx_now t) (env_uuid E (tx_tick t)) oid payload]\<rparr>"
    and "\<not> tx_failed t" "\<not> tx_failed t'" "tx_tick t < tx_tick t'"
proof -
  let ?u = "env_uuid E (tx_tick t)" and ?at = "env_now E (Suc (tx_tick t))"
  let ?t2 = "t\<lparr>tx_tick := Suc (Suc (tx_tick t))\<rparr>"
  let ?arg = "\<lparr>iop_ID = IdString ?u, iop_AggregateID = oid, iop_EventType = ''order.created'',
    iop_Payload = event_payload ?u oid uid cents ?at\<rparr>"
  from assms have q: "tx_run E (q_InsertOutboxEvent E ?arg) ?t2 = (Inr (), t')"
    by (auto simp: write_outbox_def tx_uuid_def tx_time_now_def event_payload_def marshal_payload_def
        split: prod.splits sum.splits)
  from tx_run_Inr(3) [OF q] show "\<exists>payload. env_jsonb_in E (event_payload ?u oid uid cents ?at) = Some payload
     \<and> ?u \<notin> ob_id ` set (outbox (tx_db t))
     \<and> tx_db t' = (tx_db t)\<lparr>outbox := outbox (tx_db t) @ [new_event (tx_now t) ?u oid payload]\<rparr>"
    by (auto simp: q_InsertOutboxEvent_def Let_def new_event_def outbox_violation_def
        split: option.splits if_splits)
  from tx_run_Inr(1) [OF q] tx_run_Inr_alive [OF q]
  show "\<not> tx_failed t" "\<not> tx_failed t'" "tx_tick t < tx_tick t'" by simp_all
qed

text \<open>The tables after an order was placed: the reservations of its lines, one order row,
  one row per line, and one event.\<close>

definition order_effect ::
    "int \<Rightarrow> db_order \<Rightarrow> item_snapshot list \<Rightarrow> db_order_item list \<Rightarrow> db_outbox \<Rightarrow> catalog_db \<Rightarrow> catalog_db" where
  "order_effect now ord ls rows ev d =
     (let d1 = lines_db now (o_id ord) ls d in
      d1\<lparr>orders := orders d1 @ [ord], order_items := order_items d1 @ rows,
         outbox := outbox d1 @ [ev]\<rparr>)"

text \<open>What a placed order looks like, for the request and the tables it was placed on.\<close>

definition order_placed ::
    "env \<Rightarrow> int \<Rightarrow> string \<Rightarrow> order_item_input list \<Rightarrow> string \<Rightarrow> catalog_db \<Rightarrow> order \<Rightarrow> catalog_db \<Rightarrow> bool" where
  "order_placed E now uid items key d ord d' \<longleftrightarrow>
     (\<exists>n m payload.
        let oid = env_uuid E n; ls = map (snapshot_of d) items; cents = order_total d items;
            row = new_order now oid uid key cents;
            rows = item_rows oid (item_ids E (Suc m) (length items)) ls;
            p = m + 2 * length items + 1;
            ev = new_event now (env_uuid E p) oid payload
        in n \<le> m \<and> known_cabinets d items \<and> lines_accept now oid ls d
           \<and> oid \<notin> o_id ` set (orders d) \<and> key \<notin> o_idempotency_key ` set (orders d)
           \<and> (\<forall>i \<in> set items. 0 < sint (to_int32 (In_Quantity i)))
           \<and> env_uuid E p \<notin> ob_id ` set (outbox d)
           \<and> env_jsonb_in E (event_payload (env_uuid E p) oid uid cents (env_now E (Suc p))) = Some payload
           \<and> d' = order_effect now row ls rows ev d
           \<and> ord = mapOrderToDomain row rows)"

lemma place_order_Inr:
  assumes "place_order E uid items key t = (Inr ord, t')"
  shows "order_placed E (tx_now t) uid items key (tx_db t) ord (tx_db t')"
    "\<not> tx_failed t" "\<not> tx_failed t'" "tx_tick t < tx_tick t'"
proof -
  from assms obtain ls cents t1 where s: "snapshot_items E items 0 t = (Inr (ls, cents), t1)"
    by (auto simp: place_order_def split: prod.splits sum.splits)
  note S = snapshot_items_Inr [OF s]
  let ?n = "tx_tick t1"
  let ?oid = "env_uuid E ?n" and ?t2 = "t1\<lparr>tx_tick := Suc (tx_tick t1)\<rparr>"
  let ?arg = "\<lparr>cop_ID = ?oid, cop_UserID = uid, cop_Status = StatusPendingPayment,
                cop_TotalCents = cents, cop_IdempotencyKey = key\<rparr>"
  from assms s obtain t3 row t4 rows t5 where
    r: "reserve_items E ?oid ls ?t2 = (Inr (), t3)"
    and q: "tx_run E (q_CreateOrder ?arg) t3 = (Inr row, t4)"
    and ins: "insert_items E ?oid ls t4 = (Inr rows, t5)"
    and o: "write_outbox E ?oid uid cents t5 = (Inr (), t')"
    and ord: "ord = mapOrderToDomain row rows"
    by (auto simp: place_order_def tx_uuid_def Let_def split: prod.splits sum.splits if_splits)
  note R = reserve_items_Inr [OF r]
  note Q = tx_run_Inr [OF q] tx_run_Inr_alive [OF q]
  note N = insert_items_Inr [OF ins]
  obtain payload where P: "env_jsonb_in E (event_payload (env_uuid E (tx_tick t5)) ?oid uid cents
              (env_now E (Suc (tx_tick t5)))) = Some payload"
     "env_uuid E (tx_tick t5) \<notin> ob_id ` set (outbox (tx_db t5))"
     "tx_db t' = (tx_db t5)\<lparr>outbox := outbox (tx_db t5) @
          [new_event (tx_now t5) (env_uuid E (tx_tick t5)) ?oid payload]\<rparr>"
    using write_outbox_Inr(1) [OF o] by blast
  from Q(3) R have row: "row = new_order (tx_now t) ?oid uid key cents"
    and db4: "tx_db t4 = (tx_db t3)\<lparr>orders := orders (tx_db t3) @ [row]\<rparr>"
    and fresh: "?oid \<notin> o_id ` set (orders (tx_db t))" "key \<notin> o_idempotency_key ` set (orders (tx_db t))"
    using S by (auto simp: q_CreateOrder_def Let_def new_order_def order_violation_def
        split: option.splits if_splits)
  have tick: "tx_tick t5 = tx_tick t3 + 2 * length items + 1" "?n \<le> tx_tick t3"
    "tx_tick t4 = Suc (tx_tick t3)"
    using N Q R S by simp_all
  have pos: "\<forall>i \<in> set items. 0 < sint (to_int32 (In_Quantity i))"
    using N S by (auto simp: snapshot_of_def)
  have eff: "tx_db t' = order_effect (tx_now t) row ls rows
      (new_event (tx_now t) (env_uuid E (tx_tick t5)) ?oid payload) (tx_db t)"
    using P(3) N db4 R S Q row by (simp add: order_effect_def Let_def new_order_def)
  have rows: "rows = item_rows ?oid (item_ids E (Suc (tx_tick t3)) (length items)) ls"
    using N tick S by simp
  show "order_placed E (tx_now t) uid items key (tx_db t) ord (tx_db t')"
    unfolding order_placed_def Let_def
    using S R N P fresh pos eff rows row ord tick db4
    by (intro exI [of _ ?n] exI [of _ "tx_tick t3"] exI [of _ payload]) simp
  from write_outbox_Inr(2-4) [OF o] N Q R S show "\<not> tx_failed t" "\<not> tx_failed t'" "tx_tick t < tx_tick t'"
    by simp_all
qed

end
