(* ===== verification/Order_Transaction.thy ===== *)
theory Order_Transaction
  imports Order_Effects
begin

text \<open>
  \<open>CreateOrderTx\<close> as a whole: a call that succeeds either replays the order stored under
  its idempotency key or places a new one; a call that fails leaves the tables alone,
  unless the acknowledgement of its commit was lost.  \<open>effect_invariant\<close> is the contract
  for properties that only whole transactions keep.
\<close>

definition order_of_key :: "string \<Rightarrow> catalog_db \<Rightarrow> db_order option" where
  "order_of_key key d = find (\<lambda>o1. o_idempotency_key o1 = key) (orders d)"

definition items_of :: "string \<Rightarrow> catalog_db \<Rightarrow> db_order_item list" where
  "items_of oid d = filter (\<lambda>i. oi_order_id i = oid) (order_items d)"

definition replay_matches :: "catalog_db \<Rightarrow> string \<Rightarrow> order_item_input list \<Rightarrow> db_order \<Rightarrow> bool" where
  "replay_matches d uid items o1 \<longleftrightarrow>
     o_user_id o1 = uid \<and> length (items_of (o_id o1) d) = length items
     \<and> items_match (existing_item_map (items_of (o_id o1) d) Map.empty) items"

lemma q_GetOrderByItempotencyKey_eq:
  "q_GetOrderByItempotencyKey key now d =
     (case order_of_key key d of None \<Rightarrow> (Inl ErrNoRows, d) | Some o1 \<Rightarrow> (Inr o1, d))"
  by (simp add: q_GetOrderByItempotencyKey_def order_of_key_def)

lemma q_ListOrderItems_eq: "q_ListOrderItems oid now d = (Inr (items_of oid d), d)"
  by (simp add: q_ListOrderItems_def items_of_def)

lemma replay_order_Inr:
  assumes "replay_order E uid items o1 t = (Inr ord, t')"
  shows "replay_matches (tx_db t) uid items o1
    \<and> ord = mapOrderToDomain o1 (items_of (o_id o1) (tx_db t))"
proof -
  from assms obtain its where
    l: "tx_run E (q_ListOrderItems (o_id o1)) t = (Inr its, t')"
    and m: "o_user_id o1 = uid" "length its = length items"
      "items_match (existing_item_map its Map.empty) items" "ord = mapOrderToDomain o1 its"
    by (auto simp: replay_order_def split: prod.splits sum.splits if_splits)
  from tx_run_Inr(3) [OF l] have "its = items_of (o_id o1) (tx_db t)"
    by (auto simp: q_ListOrderItems_eq)
  with m show ?thesis by (simp add: replay_matches_def)
qed

lemma replay_order_quiet:
  assumes "quiet E" "\<not> tx_failed t"
  shows "fst (replay_order E uid items o1 t) =
    (if replay_matches (tx_db t) uid items o1
     then Inr (mapOrderToDomain o1 (items_of (o_id o1) (tx_db t)))
     else Inl (OrdErr ErrDuplicateOrder))"
  using assms
  by (simp add: replay_order_def tx_run_quiet quiet_no_fault q_ListOrderItems_eq replay_matches_def)

lemma create_order_Inr:
  assumes "repo_CreateOrderTx E uid items key w = (Inr ord, w')"
  shows "(\<exists>o1. order_of_key key (w_db w) = Some o1 \<and> replay_matches (w_db w) uid items o1
            \<and> ord = mapOrderToDomain o1 (items_of (o_id o1) (w_db w)) \<and> w_db w' = w_db w)
       \<or> (order_of_key key (w_db w) = None
            \<and> order_placed E (env_now E (w_tick w)) uid items key (w_db w) ord (w_db w'))"
proof -
  from assms obtain t w1 where b: "tx_begin E w = (Inr t, w1)"
    by (auto simp: repo_CreateOrderTx_def split: prod.splits sum.splits)
  note B = tx_begin_Inr [OF b]
  obtain g t1 where g: "tx_run E (q_GetOrderByItempotencyKey key) t = (g, t1)" by fastforce
  show ?thesis
  proof (cases g)
    case (Inr o1)
    from tx_run_Inr(3) [OF g [unfolded Inr]]
    have o1: "order_of_key key (w_db w) = Some o1" "tx_db t1 = w_db w"
      using B by (auto simp: q_GetOrderByItempotencyKey_eq split: option.splits)
    from assms b g Inr obtain t2 where
      r: "replay_order E uid items o1 t1 = (Inr ord, t2)" "w' = tx_rollback t2 w1"
      by (auto simp: repo_CreateOrderTx_def split: prod.splits)
    with replay_order_Inr [OF r(1)] o1 B show ?thesis by auto
  next
    case (Inl e)
    from assms b g Inl obtain t2 where
      p: "place_order E uid items key t1 = (Inr ord, t2)" and c: "tx_commit E t2 w1 = (Inr (), w')"
      by (auto simp: repo_CreateOrderTx_def split: prod.splits sum.splits)
    note P = place_order_Inr [OF p]
    note G = tx_run_Inl_alive [OF g [unfolded Inl] P(2)] tx_run_Inl_alive_now [OF g [unfolded Inl] P(2)]
    have "order_of_key key (w_db w) = None" "tx_db t1 = w_db w"
      using G(4) B by (auto simp: q_GetOrderByItempotencyKey_eq split: option.splits)
    with P(1) G B tx_commit_Inr [OF c] show ?thesis by simp
  qed
qed

lemma create_order_Inl:
  assumes "repo_CreateOrderTx E uid items key w = (Inl e, w')"
  shows "w_db w' = w_db w
       \<or> (connection_error e \<and> order_of_key key (w_db w) = None
            \<and> (\<exists>ord. order_placed E (env_now E (w_tick w)) uid items key (w_db w) ord (w_db w')))"
proof -
  obtain b w1 where b: "tx_begin E w = (b, w1)" by fastforce
  show ?thesis
  proof (cases b)
    case (Inl e')
    with assms b tx_begin_Inl show ?thesis by (auto simp: repo_CreateOrderTx_def)
  next
    case (Inr t)
    note B = tx_begin_Inr [OF b [unfolded Inr]]
    obtain g t1 where g: "tx_run E (q_GetOrderByItempotencyKey key) t = (g, t1)" by fastforce
    obtain r t2 where p: "place_order E uid items key t1 = (r, t2)" by fastforce
    show ?thesis
    proof (cases "is_ok g \<or> \<not> is_ok r")
      case True
      with assms b Inr g p B show ?thesis
        by (cases g; cases r) (auto simp: repo_CreateOrderTx_def split: prod.splits)
    next
      case False
      then obtain e0 ord where gr: "g = Inl e0" "r = Inr ord" by (cases g; cases r) auto
      with assms b Inr g p obtain e' where c: "tx_commit E t2 w1 = (Inl e', w')"
        and e: "e = WrapError ''failed to commit order creation transaction: '' e'"
        by (auto simp: repo_CreateOrderTx_def split: prod.splits sum.splits)
      note P = place_order_Inr [OF p [unfolded gr]]
      note G = tx_run_Inl_alive [OF g [unfolded gr] P(2)] tx_run_Inl_alive_now [OF g [unfolded gr] P(2)]
      have "order_of_key key (w_db w) = None" "tx_db t1 = w_db w"
        using G(4) B by (auto simp: q_GetOrderByItempotencyKey_eq split: option.splits)
      with P(1) G B e tx_commit_Inl [OF c] show ?thesis by (auto simp: connection_error_def)
    qed
  qed
qed

section \<open>Invariants of whole transactions\<close>

text \<open>
  A property \<open>J\<close> of the tables that an accepted reservation, a placed order and the
  publication of an event keep, for the requests that satisfy \<open>R\<close>.
\<close>

locale effect_invariant =
  fixes R :: "order_item_input list \<Rightarrow> bool" and J :: "catalog_db \<Rightarrow> bool"
  assumes J_reserve: "schema_ok d \<Longrightarrow> J d \<Longrightarrow> reserve_accepts d cid q key
      \<Longrightarrow> J (reserve_db now cid q key d)"
    and J_order: "schema_ok d \<Longrightarrow> J d \<Longrightarrow> R items \<Longrightarrow> order_placed E now uid items key d ord d'
      \<Longrightarrow> J d'"
    and J_publish: "schema_ok d \<Longrightarrow> J d \<Longrightarrow> J (snd (q_MarkOutboxEventPublished eid now d))"
begin

lemma reserve_keeps:
  assumes "repo_ReserveStockTx E cid q key w = (r, w')" "schema_ok (w_db w)" "J (w_db w)"
  shows "J (w_db w')"
proof (cases r)
  case (Inl e)
  from reserve_tx_Inl [OF assms(1) [unfolded Inl]] assms(2,3) show ?thesis
    by (auto intro: J_reserve)
next
  case (Inr c)
  from reserve_tx_Inr [OF assms(1) [unfolded Inr]] assms(2,3) show ?thesis
    by (auto intro: J_reserve)
qed

lemma create_order_keeps:
  assumes "repo_CreateOrderTx E uid items key w = (r, w')" "R items" "schema_ok (w_db w)" "J (w_db w)"
  shows "J (w_db w')"
proof (cases r)
  case (Inl e)
  from create_order_Inl [OF assms(1) [unfolded Inl]] assms(2-4) show ?thesis
    by (auto intro: J_order)
next
  case (Inr ord)
  from create_order_Inr [OF assms(1) [unfolded Inr]] assms(2-4) show ?thesis
    by (auto intro: J_order)
qed

lemma mark_keeps:
  assumes "repo_MarkOutboxEventPublished E eid w = (r, w')" "schema_ok (w_db w)" "J (w_db w)"
  shows "J (w_db w')"
proof -
  have "J (snd (q_MarkOutboxEventPublished (IdString eid) (env_now E (w_tick w)) (w_db w)))"
    using assms(2,3) by (rule J_publish)
  with assms show ?thesis
    by (auto simp: repo_MarkOutboxEventPublished_def pool_run_def Let_def
        split: prod.splits sum.splits option.splits db_fault.splits if_splits)
qed

end

end
