(* ===== verification/Usecase.thy ===== *)
theory Usecase
  imports Order_Transaction
begin

text \<open>
  The use cases (\<open>internal/catalog/app/usecase.go\<close>) over any implementation of the
  repository port.  The tracing calls have no effect on results or state and are left
  out.  \<open>atomic_repository\<close> is interpreted on the PostgreSQL adapter.
\<close>

definition uc_GetCabinet :: "'w cabinet_repository \<Rightarrow> string \<Rightarrow> 'w \<Rightarrow> (go_error + cabinet) \<times> 'w" where
  "uc_GetCabinet R cid w = GetCabinet R cid w"

definition uc_ListCabinets :: "'w cabinet_repository \<Rightarrow> 'w \<Rightarrow> (go_error + cabinet list) \<times> 'w" where
  "uc_ListCabinets R w = ListCabinets R w"

definition uc_ReserveStockTx ::
    "'w cabinet_repository \<Rightarrow> string \<Rightarrow> go_int \<Rightarrow> string \<Rightarrow> 'w \<Rightarrow> (go_error + cabinet) \<times> 'w" where
  "uc_ReserveStockTx R cabinetID quantity idempotencyKey w =
     (if sint quantity \<le> 0 then (Inl (CabErr ErrInsufficientStock), w)
      else case ReserveStockTx R cabinetID quantity idempotencyKey w of
        (Inl err, w') \<Rightarrow> (Inl err, w')
      | (Inr c, w') \<Rightarrow> (Inr c, w'))"

text \<open>The loop that refuses the first item whose quantity is not positive.\<close>

fun quantities_valid :: "order_item_input list \<Rightarrow> bool" where
  "quantities_valid [] = True"
| "quantities_valid (item # rest) =
     (if sint (In_Quantity item) \<le> 0 then False else quantities_valid rest)"

definition normalize_user :: "string \<Rightarrow> string" where
  "normalize_user userID =
     (let u = trim_space userID in if u = [] then ''anonymous'' else u)"

definition uc_CreateOrder ::
    "'w cabinet_repository \<Rightarrow> string \<Rightarrow> order_item_input list \<Rightarrow> string \<Rightarrow> 'w
       \<Rightarrow> (go_error + order) \<times> 'w" where
  "uc_CreateOrder R userID items idempotencyKey w =
     (let u = normalize_user userID in
      if length items = 0 then (Inl (OrdErr ErrEmptyOrder), w)
      else if \<not> quantities_valid items then (Inl (OrdErr ErrInvalidQuantity), w)
      else case CreateOrderTx R u items idempotencyKey w of
        (Inl err, w') \<Rightarrow> (Inl (WrapError ''failed to create order: '' err), w')
      | (Inr ord, w') \<Rightarrow> (Inr ord, w'))"

definition uc_GetOrder :: "'w cabinet_repository \<Rightarrow> string \<Rightarrow> 'w \<Rightarrow> (go_error + order) \<times> 'w" where
  "uc_GetOrder R oid w = GetOrder R oid w"

lemmas usecase_defs = uc_GetCabinet_def uc_ListCabinets_def uc_ReserveStockTx_def
  uc_CreateOrder_def uc_GetOrder_def

lemma quantities_valid_iff: "quantities_valid items \<longleftrightarrow> (\<forall>i \<in> set items. 0 < sint (In_Quantity i))"
  by (induction items) auto

section \<open>What the port's contract gives the use cases\<close>

context atomic_repository begin

lemma uc_reads_keep_view:
  "uc_GetCabinet R cid w = (r1, w') \<Longrightarrow> view w' = view w"
  "uc_ListCabinets R w = (r2, w') \<Longrightarrow> view w' = view w"
  "uc_GetOrder R oid w = (r3, w') \<Longrightarrow> view w' = view w"
  by (auto simp: usecase_defs dest: view_GetCabinet view_ListCabinets view_GetOrder)

lemma uc_ReserveStockTx_atomic:
  "uc_ReserveStockTx R cid q key w = (Inl e, w') \<Longrightarrow> \<not> connection_error e \<Longrightarrow> view w' = view w"
  by (auto simp: uc_ReserveStockTx_def split: if_splits prod.splits sum.splits
      dest: view_ReserveStockTx)

lemma uc_CreateOrder_atomic:
  "uc_CreateOrder R uid items key w = (Inl e, w') \<Longrightarrow> \<not> connection_error e \<Longrightarrow> view w' = view w"
  by (auto simp: uc_CreateOrder_def Let_def split: if_splits prod.splits sum.splits
      dest: view_CreateOrderTx)

end

section \<open>The PostgreSQL adapter satisfies it\<close>

lemma repo_reads_keep_db:
  "repo_GetCabinet E cid w = (r1, w') \<Longrightarrow> w_db w' = w_db w"
  "repo_ListCabinets E w = (r2, w') \<Longrightarrow> w_db w' = w_db w"
  "repo_GetOrder E oid w = (r3, w') \<Longrightarrow> w_db w' = w_db w"
  "repo_ListUnpublishedOutboxEvents E lim w = (r4, w') \<Longrightarrow> w_db w' = w_db w"
  by (auto simp: repo_GetCabinet_def repo_ListCabinets_def repo_GetOrder_def
      repo_ListUnpublishedOutboxEvents_def split: prod.splits sum.splits if_splits
      dest!: pool_reads_same(1,3,5,7,9))

lemma repo_reserve_failed_db:
  "repo_ReserveStockTx E cid q key w = (Inl e, w') \<Longrightarrow> \<not> connection_error e \<Longrightarrow> w_db w' = w_db w"
  using reserve_tx_Inl by blast

lemma repo_create_failed_db:
  "repo_CreateOrderTx E uid items key w = (Inl e, w') \<Longrightarrow> \<not> connection_error e \<Longrightarrow> w_db w' = w_db w"
  using create_order_Inl by blast

interpretation pg: atomic_repository "postgres_repository E" w_db for E
  by unfold_locales
    (auto dest: repo_reads_keep_db repo_reserve_failed_db repo_create_failed_db)

end
