(* ===== verification/Proto.thy ===== *)
theory Proto
  imports Domain
begin

text \<open>
  The protobuf messages of \<open>catalog.v1\<close> as \<open>protoc-gen-go\<close> generates them
  (\<open>api/proto/catalog/v1/catalog.pb.go\<close>): a message is the record of its fields, a message
  pointer an \<open>option\<close>, and a getter on a nil pointer returns the zero value.  The fields
  that hold the runtime's bookkeeping are left out, and so is the wire format.
\<close>

record pb_cabinet_image =
  Pbi_Id :: string
  Pbi_Url :: string
  Pbi_Alt :: string
  Pbi_SortOrder :: int32

definition CabinetImage_GetId :: "pb_cabinet_image option \<Rightarrow> string" where
  "CabinetImage_GetId x = (case x of None \<Rightarrow> [] | Some m \<Rightarrow> Pbi_Id m)"
definition CabinetImage_GetUrl :: "pb_cabinet_image option \<Rightarrow> string" where
  "CabinetImage_GetUrl x = (case x of None \<Rightarrow> [] | Some m \<Rightarrow> Pbi_Url m)"
definition CabinetImage_GetAlt :: "pb_cabinet_image option \<Rightarrow> string" where
  "CabinetImage_GetAlt x = (case x of None \<Rightarrow> [] | Some m \<Rightarrow> Pbi_Alt m)"
definition CabinetImage_GetSortOrder :: "pb_cabinet_image option \<Rightarrow> int32" where
  "CabinetImage_GetSortOrder x = (case x of None \<Rightarrow> 0 | Some m \<Rightarrow> Pbi_SortOrder m)"

record pb_cabinet =
  Pbc_Id :: string
  Pbc_Slug :: string
  Pbc_Model :: string
  Pbc_Type :: string
  Pbc_Display :: string
  Pbc_Condition :: string
  Pbc_Quantity :: int32
  Pbc_Price :: int64
  Pbc_Manufacturer :: string
  Pbc_Year :: string
  Pbc_Images :: "pb_cabinet_image list"

definition Cabinet_GetId :: "pb_cabinet option \<Rightarrow> string" where
  "Cabinet_GetId x = (case x of None \<Rightarrow> [] | Some m \<Rightarrow> Pbc_Id m)"
definition Cabinet_GetSlug :: "pb_cabinet option \<Rightarrow> string" where
  "Cabinet_GetSlug x = (case x of None \<Rightarrow> [] | Some m \<Rightarrow> Pbc_Slug m)"
definition Cabinet_GetModel :: "pb_cabinet option \<Rightarrow> string" where
  "Cabinet_GetModel x = (case x of None \<Rightarrow> [] | Some m \<Rightarrow> Pbc_Model m)"
definition Cabinet_GetType :: "pb_cabinet option \<Rightarrow> string" where
  "Cabinet_GetType x = (case x of None \<Rightarrow> [] | Some m \<Rightarrow> Pbc_Type m)"
definition Cabinet_GetDisplay :: "pb_cabinet option \<Rightarrow> string" where
  "Cabinet_GetDisplay x = (case x of None \<Rightarrow> [] | Some m \<Rightarrow> Pbc_Display m)"
definition Cabinet_GetCondition :: "pb_cabinet option \<Rightarrow> string" where
  "Cabinet_GetCondition x = (case x of None \<Rightarrow> [] | Some m \<Rightarrow> Pbc_Condition m)"
definition Cabinet_GetQuantity :: "pb_cabinet option \<Rightarrow> int32" where
  "Cabinet_GetQuantity x = (case x of None \<Rightarrow> 0 | Some m \<Rightarrow> Pbc_Quantity m)"
definition Cabinet_GetPrice :: "pb_cabinet option \<Rightarrow> int64" where
  "Cabinet_GetPrice x = (case x of None \<Rightarrow> 0 | Some m \<Rightarrow> Pbc_Price m)"
definition Cabinet_GetManufacturer :: "pb_cabinet option \<Rightarrow> string" where
  "Cabinet_GetManufacturer x = (case x of None \<Rightarrow> [] | Some m \<Rightarrow> Pbc_Manufacturer m)"
definition Cabinet_GetYear :: "pb_cabinet option \<Rightarrow> string" where
  "Cabinet_GetYear x = (case x of None \<Rightarrow> [] | Some m \<Rightarrow> Pbc_Year m)"
definition Cabinet_GetImages :: "pb_cabinet option \<Rightarrow> pb_cabinet_image list" where
  "Cabinet_GetImages x = (case x of None \<Rightarrow> [] | Some m \<Rightarrow> Pbc_Images m)"

record pb_list_cabinets_response =
  Pblr_Cabinets :: "pb_cabinet list"

definition ListCabinetsResponse_GetCabinets :: "pb_list_cabinets_response option \<Rightarrow> pb_cabinet list" where
  "ListCabinetsResponse_GetCabinets x = (case x of None \<Rightarrow> [] | Some m \<Rightarrow> Pblr_Cabinets m)"

record pb_get_cabinet_request =
  Pbgq_Id :: string

definition GetCabinetRequest_GetId :: "pb_get_cabinet_request option \<Rightarrow> string" where
  "GetCabinetRequest_GetId x = (case x of None \<Rightarrow> [] | Some m \<Rightarrow> Pbgq_Id m)"

record pb_get_cabinet_response =
  Pbgr_Cabinet :: "pb_cabinet option"

definition GetCabinetResponse_GetCabinet :: "pb_get_cabinet_response option \<Rightarrow> pb_cabinet option" where
  "GetCabinetResponse_GetCabinet x = (case x of None \<Rightarrow> None | Some m \<Rightarrow> Pbgr_Cabinet m)"

record pb_reserve_stock_request =
  Pbrq_CabinetId :: string
  Pbrq_Quantity :: int32
  Pbrq_IdempotencyKey :: string

definition ReserveStockRequest_GetCabinetId :: "pb_reserve_stock_request option \<Rightarrow> string" where
  "ReserveStockRequest_GetCabinetId x = (case x of None \<Rightarrow> [] | Some m \<Rightarrow> Pbrq_CabinetId m)"
definition ReserveStockRequest_GetQuantity :: "pb_reserve_stock_request option \<Rightarrow> int32" where
  "ReserveStockRequest_GetQuantity x = (case x of None \<Rightarrow> 0 | Some m \<Rightarrow> Pbrq_Quantity m)"
definition ReserveStockRequest_GetIdempotencyKey :: "pb_reserve_stock_request option \<Rightarrow> string" where
  "ReserveStockRequest_GetIdempotencyKey x = (case x of None \<Rightarrow> [] | Some m \<Rightarrow> Pbrq_IdempotencyKey m)"

record pb_reserve_stock_response =
  Pbrr_Cabinet :: "pb_cabinet option"
  Pbrr_IdempotencyKey :: string

definition ReserveStockResponse_GetCabinet :: "pb_reserve_stock_response option \<Rightarrow> pb_cabinet option" where
  "ReserveStockResponse_GetCabinet x = (case x of None \<Rightarrow> None | Some m \<Rightarrow> Pbrr_Cabinet m)"
definition ReserveStockResponse_GetIdempotencyKey :: "pb_reserve_stock_response option \<Rightarrow> string" where
  "ReserveStockResponse_GetIdempotencyKey x = (case x of None \<Rightarrow> [] | Some m \<Rightarrow> Pbrr_IdempotencyKey m)"

record pb_order_item_input =
  Pbii_CabinetId :: string
  Pbii_Quantity :: int32

definition OrderItemInput_GetCabinetId :: "pb_order_item_input option \<Rightarrow> string" where
  "OrderItemInput_GetCabinetId x = (case x of None \<Rightarrow> [] | Some m \<Rightarrow> Pbii_CabinetId m)"
definition OrderItemInput_GetQuantity :: "pb_order_item_input option \<Rightarrow> int32" where
  "OrderItemInput_GetQuantity x = (case x of None \<Rightarrow> 0 | Some m \<Rightarrow> Pbii_Quantity m)"

record pb_create_order_request =
  Pbcq_IdempotencyKey :: string
  Pbcq_Items :: "pb_order_item_input list"

definition CreateOrderRequest_GetIdempotencyKey :: "pb_create_order_request option \<Rightarrow> string" where
  "CreateOrderRequest_GetIdempotencyKey x = (case x of None \<Rightarrow> [] | Some m \<Rightarrow> Pbcq_IdempotencyKey m)"
definition CreateOrderRequest_GetItems :: "pb_create_order_request option \<Rightarrow> pb_order_item_input list" where
  "CreateOrderRequest_GetItems x = (case x of None \<Rightarrow> [] | Some m \<Rightarrow> Pbcq_Items m)"

record pb_order_line =
  Pbl_CabinetId :: string
  Pbl_Quantity :: int32
  Pbl_UnitPriceCents :: int64

definition OrderLine_GetCabinetId :: "pb_order_line option \<Rightarrow> string" where
  "OrderLine_GetCabinetId x = (case x of None \<Rightarrow> [] | Some m \<Rightarrow> Pbl_CabinetId m)"
definition OrderLine_GetQuantity :: "pb_order_line option \<Rightarrow> int32" where
  "OrderLine_GetQuantity x = (case x of None \<Rightarrow> 0 | Some m \<Rightarrow> Pbl_Quantity m)"
definition OrderLine_GetUnitPriceCents :: "pb_order_line option \<Rightarrow> int64" where
  "OrderLine_GetUnitPriceCents x = (case x of None \<Rightarrow> 0 | Some m \<Rightarrow> Pbl_UnitPriceCents m)"

record pb_order =
  Pbo_Id :: string
  Pbo_UserId :: string
  Pbo_Status :: string
  Pbo_TotalCents :: int64
  Pbo_Items :: "pb_order_line list"
  Pbo_IdempotencyKey :: string

definition Order_GetId :: "pb_order option \<Rightarrow> string" where
  "Order_GetId x = (case x of None \<Rightarrow> [] | Some m \<Rightarrow> Pbo_Id m)"
definition Order_GetUserId :: "pb_order option \<Rightarrow> string" where
  "Order_GetUserId x = (case x of None \<Rightarrow> [] | Some m \<Rightarrow> Pbo_UserId m)"
definition Order_GetStatus :: "pb_order option \<Rightarrow> string" where
  "Order_GetStatus x = (case x of None \<Rightarrow> [] | Some m \<Rightarrow> Pbo_Status m)"
definition Order_GetTotalCents :: "pb_order option \<Rightarrow> int64" where
  "Order_GetTotalCents x = (case x of None \<Rightarrow> 0 | Some m \<Rightarrow> Pbo_TotalCents m)"
definition Order_GetItems :: "pb_order option \<Rightarrow> pb_order_line list" where
  "Order_GetItems x = (case x of None \<Rightarrow> [] | Some m \<Rightarrow> Pbo_Items m)"
definition Order_GetIdempotencyKey :: "pb_order option \<Rightarrow> string" where
  "Order_GetIdempotencyKey x = (case x of None \<Rightarrow> [] | Some m \<Rightarrow> Pbo_IdempotencyKey m)"

record pb_create_order_response =
  Pbcr_Order :: "pb_order option"

definition CreateOrderResponse_GetOrder :: "pb_create_order_response option \<Rightarrow> pb_order option" where
  "CreateOrderResponse_GetOrder x = (case x of None \<Rightarrow> None | Some m \<Rightarrow> Pbcr_Order m)"

record pb_get_order_request =
  Pbgoq_Id :: string

definition GetOrderRequest_GetId :: "pb_get_order_request option \<Rightarrow> string" where
  "GetOrderRequest_GetId x = (case x of None \<Rightarrow> [] | Some m \<Rightarrow> Pbgoq_Id m)"

record pb_get_order_response =
  Pbgor_Order :: "pb_order option"

definition GetOrderResponse_GetOrder :: "pb_get_order_response option \<Rightarrow> pb_order option" where
  "GetOrderResponse_GetOrder x = (case x of None \<Rightarrow> None | Some m \<Rightarrow> Pbgor_Order m)"

lemmas getter_defs =
  CabinetImage_GetId_def CabinetImage_GetUrl_def CabinetImage_GetAlt_def
  CabinetImage_GetSortOrder_def Cabinet_GetId_def Cabinet_GetSlug_def
  Cabinet_GetModel_def Cabinet_GetType_def Cabinet_GetDisplay_def
  Cabinet_GetCondition_def Cabinet_GetQuantity_def Cabinet_GetPrice_def
  Cabinet_GetManufacturer_def Cabinet_GetYear_def Cabinet_GetImages_def
  ListCabinetsResponse_GetCabinets_def GetCabinetRequest_GetId_def GetCabinetResponse_GetCabinet_def
  ReserveStockRequest_GetCabinetId_def ReserveStockRequest_GetQuantity_def ReserveStockRequest_GetIdempotencyKey_def
  ReserveStockResponse_GetCabinet_def ReserveStockResponse_GetIdempotencyKey_def OrderItemInput_GetCabinetId_def
  OrderItemInput_GetQuantity_def CreateOrderRequest_GetIdempotencyKey_def CreateOrderRequest_GetItems_def
  OrderLine_GetCabinetId_def OrderLine_GetQuantity_def OrderLine_GetUnitPriceCents_def
  Order_GetId_def Order_GetUserId_def Order_GetStatus_def
  Order_GetTotalCents_def Order_GetItems_def Order_GetIdempotencyKey_def
  CreateOrderResponse_GetOrder_def GetOrderRequest_GetId_def GetOrderResponse_GetOrder_def

end
