(* ===== verification/Grpc_Handler.thy ===== *)
theory Grpc_Handler
  imports Usecase Proto
begin

text \<open>
  The gRPC adapter of the catalog (\<open>internal/catalog/adapter/grpc/handler.go\<close>): the five
  handlers over any implementation of the repository port, and the mapping of domain
  values to messages.  A handler returns a response message or a status, and the state of
  the repository after the call.
\<close>

section \<open>Status\<close>

datatype grpc_code = OK | InvalidArgument | NotFound | AlreadyExists | FailedPrecondition | Internal

record grpc_status =
  St_Code :: grpc_code
  St_Message :: string

definition status_error :: "grpc_code \<Rightarrow> string \<Rightarrow> grpc_status" where
  "status_error c msg = \<lparr>St_Code = c, St_Message = msg\<rparr>"

text \<open>\<open>status.Errorf(c, "<prefix>: %v", err)\<close>.\<close>

definition status_errorf :: "grpc_code \<Rightarrow> string \<Rightarrow> go_error \<Rightarrow> grpc_status" where
  "status_errorf c prefix err = \<lparr>St_Code = c, St_Message = prefix @ error_text err\<rparr>"

lemmas status_constructor_defs = status_error_def status_errorf_def

section \<open>The caller\<close>

text \<open>The metadata of an incoming request, if there is any: header names in lower case, as
  HTTP/2 transmits them, with their values.\<close>

type_synonym incoming_md = "(string \<rightharpoonup> string list) option"

definition md_Get :: "(string \<rightharpoonup> string list) \<Rightarrow> string \<Rightarrow> string list" where
  "md_Get md k = (case md k of None \<Rightarrow> [] | Some vs \<Rightarrow> vs)"

definition extractUserIDFromContext :: "incoming_md \<Rightarrow> string" where
  "extractUserIDFromContext ctx =
     (case ctx of
        None \<Rightarrow> ''anonymous''
      | Some md \<Rightarrow>
          (let values = md_Get md ''x-user-id'' in
           if length values = 0 \<or> values ! 0 = [] then ''anonymous'' else values ! 0))"

section \<open>Mapping domain values to messages\<close>

definition mapLineToProto :: "order_line \<Rightarrow> pb_order_line" where
  "mapLineToProto item = \<lparr>Pbl_CabinetId = Line_CabinetID item,
     Pbl_Quantity = to_int32 (Line_Quantity item), Pbl_UnitPriceCents = Line_UnitPriceCents item\<rparr>"

definition mapOrderToProto :: "order \<Rightarrow> pb_order" where
  "mapOrderToProto o1 = \<lparr>Pbo_Id = Ord_ID o1, Pbo_UserId = Ord_UserID o1, Pbo_Status = Ord_Status o1,
     Pbo_TotalCents = Ord_TotalCents o1, Pbo_Items = map mapLineToProto (Ord_Items o1),
     Pbo_IdempotencyKey = Ord_IdempotencyKey o1\<rparr>"

definition mapImageToProto :: "cabinet_image \<Rightarrow> pb_cabinet_image" where
  "mapImageToProto img = \<lparr>Pbi_Id = Img_ID img, Pbi_Url = Img_URL img, Pbi_Alt = Img_Alt img,
     Pbi_SortOrder = to_int32 (Img_SortOrder img)\<rparr>"

definition mapCabinetToProto :: "cabinet \<Rightarrow> pb_cabinet" where
  "mapCabinetToProto c = \<lparr>Pbc_Id = Cab_ID c, Pbc_Slug = Cab_Slug c, Pbc_Model = Cab_Model c,
     Pbc_Type = Cab_Type c, Pbc_Display = Cab_Display c, Pbc_Condition = Cab_Condition c,
     Pbc_Quantity = to_int32 (Cab_Quantity c), Pbc_Price = Cab_Price c,
     Pbc_Manufacturer = Cab_Manufacturer c, Pbc_Year = Cab_Year c,
     Pbc_Images = map mapImageToProto (Cab_Images c)\<rparr>"

section \<open>The handlers\<close>

definition h_ListCabinets ::
    "'w cabinet_repository \<Rightarrow> 'w \<Rightarrow> (grpc_status + pb_list_cabinets_response) \<times> 'w" where
  "h_ListCabinets R w =
     (case uc_ListCabinets R w of
        (Inl err, w') \<Rightarrow> (Inl (status_errorf Internal ''failed to list cabinets: '' err), w')
      | (Inr cabs, w') \<Rightarrow> (Inr \<lparr>Pblr_Cabinets = map mapCabinetToProto cabs\<rparr>, w'))"

definition h_GetCabinet ::
    "'w cabinet_repository \<Rightarrow> pb_get_cabinet_request \<Rightarrow> 'w \<Rightarrow> (grpc_status + pb_get_cabinet_response) \<times> 'w" where
  "h_GetCabinet R req w =
     (case uc_GetCabinet R (Pbgq_Id req) w of
        (Inl err, w') \<Rightarrow>
          (if errors_is err (CabErr ErrNotFound)
           then (Inl (status_errorf NotFound ''cabinet not found: '' err), w')
           else (Inl (status_errorf Internal ''failed to get cabinet: '' err), w'))
      | (Inr cab, w') \<Rightarrow> (Inr \<lparr>Pbgr_Cabinet = Some (mapCabinetToProto cab)\<rparr>, w'))"

text \<open>The \<open>switch\<close> over the errors of a reservation.\<close>

definition reserve_status :: "go_error \<Rightarrow> grpc_status" where
  "reserve_status err =
     (if errors_is err (CabErr ErrInsufficientStock)
        then status_error FailedPrecondition ''insufficient stock''
      else if errors_is err (CabErr ErrDuplicateReservation)
        then status_error AlreadyExists ''duplicate reservation''
      else if errors_is err (CabErr ErrNotFound)
        then status_error NotFound ''cabinet not found''
      else status_errorf Internal ''failed to reserve stock: '' err)"

definition h_ReserveStock ::
    "'w cabinet_repository \<Rightarrow> pb_reserve_stock_request \<Rightarrow> 'w \<Rightarrow> (grpc_status + pb_reserve_stock_response) \<times> 'w" where
  "h_ReserveStock R req w =
     (case uc_ReserveStockTx R (Pbrq_CabinetId req) (of_int32 (Pbrq_Quantity req))
             (Pbrq_IdempotencyKey req) w of
        (Inl err, w') \<Rightarrow> (Inl (reserve_status err), w')
      | (Inr c, w') \<Rightarrow>
          (Inr \<lparr>Pbrr_Cabinet = Some (mapCabinetToProto c),
                Pbrr_IdempotencyKey = Pbrq_IdempotencyKey req\<rparr>, w'))"

definition h_GetOrder ::
    "'w cabinet_repository \<Rightarrow> pb_get_order_request \<Rightarrow> 'w \<Rightarrow> (grpc_status + pb_get_order_response) \<times> 'w" where
  "h_GetOrder R req w =
     (case uc_GetOrder R (Pbgoq_Id req) w of
        (Inl err, w') \<Rightarrow>
          (if errors_is err (CabErr ErrNotFound)
           then (Inl (status_errorf NotFound ''order not found: '' err), w')
           else (Inl (status_errorf Internal ''failed to get order: '' err), w'))
      | (Inr ord, w') \<Rightarrow> (Inr \<lparr>Pbgor_Order = Some (mapOrderToProto ord)\<rparr>, w'))"

text \<open>The \<open>switch\<close> over the errors of an order.\<close>

definition order_error_status :: "go_error \<Rightarrow> grpc_status" where
  "order_error_status err =
     (if errors_is err (OrdErr ErrInvalidQuantity) then status_error InvalidArgument ''invalid quantity''
      else if errors_is err (OrdErr ErrEmptyOrder) then status_error InvalidArgument ''empty order''
      else if errors_is err (OrdErr ErrDuplicateOrder) then status_error AlreadyExists ''duplicate order''
      else if errors_is err (CabErr ErrNotFound) then status_error NotFound ''cabinet not found''
      else if errors_is err (CabErr ErrInsufficientStock)
        then status_error FailedPrecondition ''insufficient stock''
      else status_errorf Internal ''failed to create order: '' err)"

definition item_payload :: "pb_order_item_input \<Rightarrow> order_item_input" where
  "item_payload item = \<lparr>In_CabinetID = Pbii_CabinetId item, In_Quantity = of_int32 (Pbii_Quantity item)\<rparr>"

definition h_CreateOrder ::
    "'w cabinet_repository \<Rightarrow> incoming_md \<Rightarrow> pb_create_order_request \<Rightarrow> 'w
       \<Rightarrow> (grpc_status + pb_create_order_response) \<times> 'w" where
  "h_CreateOrder R ctx req w =
     (let userID = extractUserIDFromContext ctx; itemsPayload = map item_payload (Pbcq_Items req) in
      case uc_CreateOrder R userID itemsPayload (Pbcq_IdempotencyKey req) w of
        (Inl err, w') \<Rightarrow> (Inl (order_error_status err), w')
      | (Inr ord, w') \<Rightarrow> (Inr \<lparr>Pbcr_Order = Some (mapOrderToProto ord)\<rparr>, w'))"

lemmas handler_defs = h_ListCabinets_def h_GetCabinet_def h_ReserveStock_def h_GetOrder_def
  h_CreateOrder_def

section \<open>Codes\<close>

text \<open>Only the innermost error counts.\<close>

lemma reserve_status_code:
  "St_Code (reserve_status err) =
     (case root_cause err of
        CabErr ErrInsufficientStock \<Rightarrow> FailedPrecondition
      | CabErr ErrDuplicateReservation \<Rightarrow> AlreadyExists
      | CabErr ErrNotFound \<Rightarrow> NotFound
      | _ \<Rightarrow> Internal)"
  by (auto simp: reserve_status_def status_constructor_defs errors_is_root
      split: go_error.split cabinet_error.split)

lemma order_error_status_code:
  "St_Code (order_error_status err) =
     (case root_cause err of
        OrdErr ErrInvalidQuantity \<Rightarrow> InvalidArgument
      | OrdErr ErrEmptyOrder \<Rightarrow> InvalidArgument
      | OrdErr ErrDuplicateOrder \<Rightarrow> AlreadyExists
      | CabErr ErrNotFound \<Rightarrow> NotFound
      | CabErr ErrInsufficientStock \<Rightarrow> FailedPrecondition
      | _ \<Rightarrow> Internal)"
  by (auto simp: order_error_status_def status_constructor_defs errors_is_root
      split: go_error.split cabinet_error.split order_error.split)

lemma extractUserID_nonempty: "extractUserIDFromContext ctx \<noteq> []"
  by (auto simp: extractUserIDFromContext_def Let_def split: option.split)

lemma normalize_user_nonempty: "normalize_user u \<noteq> []"
  by (simp add: normalize_user_def Let_def)

section \<open>What the port's contract gives the handlers\<close>

context atomic_repository begin

lemma h_reads_keep_view:
  "h_ListCabinets R w = (r1, w') \<Longrightarrow> view w' = view w"
  "h_GetCabinet R q1 w = (r2, w') \<Longrightarrow> view w' = view w"
  "h_GetOrder R q2 w = (r3, w') \<Longrightarrow> view w' = view w"
  by (auto simp: handler_defs split: prod.splits sum.splits if_splits dest: uc_reads_keep_view)

text \<open>A status other than \<open>Internal\<close> means that nothing was changed.\<close>

lemma h_ReserveStock_atomic:
  assumes "h_ReserveStock R req w = (Inl st, w')" "St_Code st \<noteq> Internal"
  shows "view w' = view w"
proof -
  from assms(1) obtain err where u: "uc_ReserveStockTx R (Pbrq_CabinetId req)
      (of_int32 (Pbrq_Quantity req)) (Pbrq_IdempotencyKey req) w = (Inl err, w')"
    and st: "st = reserve_status err"
    by (auto simp: h_ReserveStock_def split: prod.splits sum.splits)
  from assms(2) st have "\<not> connection_error err"
    by (auto simp: reserve_status_code connection_error_def)
  with u show ?thesis by (rule uc_ReserveStockTx_atomic)
qed

lemma h_CreateOrder_atomic:
  assumes "h_CreateOrder R ctx req w = (Inl st, w')" "St_Code st \<noteq> Internal"
  shows "view w' = view w"
proof -
  from assms(1) obtain err where u: "uc_CreateOrder R (extractUserIDFromContext ctx)
      (map item_payload (Pbcq_Items req)) (Pbcq_IdempotencyKey req) w = (Inl err, w')"
    and st: "st = order_error_status err"
    by (auto simp: h_CreateOrder_def Let_def split: prod.splits sum.splits)
  from assms(2) st have "\<not> connection_error err"
    by (auto simp: order_error_status_code connection_error_def)
  with u show ?thesis by (rule uc_CreateOrder_atomic)
qed

end

end
