(* ===== verification/Outbox_Worker.thy ===== *)
theory Outbox_Worker
  imports Repository
begin

text \<open>
  The outbox worker (\<open>internal/catalog/app/outbox_worker.go\<close>) over the two ports it is
  built from, and the log publisher (\<open>internal/catalog/adapter/publisher\<close>).  The state
  holds the store, the publisher and the error lines of the logger.
\<close>

record ('w, 'p) worker =
  wk_store :: 'w
  wk_publisher :: 'p
  wk_log :: "(string \<times> go_error) list"

definition log_error :: "string \<Rightarrow> go_error \<Rightarrow> ('w, 'p) worker \<Rightarrow> ('w, 'p) worker" where
  "log_error m e s = s\<lparr>wk_log := wk_log s @ [(m, e)]\<rparr>"

definition process_event ::
    "'w cabinet_repository \<Rightarrow> 'p event_publisher \<Rightarrow> outbox_event \<Rightarrow> ('w, 'p) worker \<Rightarrow> ('w, 'p) worker" where
  "process_event R P ev s =
     (case Publish P (Evt_EventType ev) (Evt_Payload ev) (wk_publisher s) of
        (Some err, p') \<Rightarrow> log_error ''failed to publish event'' err (s\<lparr>wk_publisher := p'\<rparr>)
      | (None, p') \<Rightarrow>
          (case MarkOutboxEventPublished R (Evt_ID ev) (wk_store s) of
             (Inl err, w') \<Rightarrow>
               log_error ''failed to mark event as published'' err
                 (s\<lparr>wk_publisher := p', wk_store := w'\<rparr>)
           | (Inr _, w') \<Rightarrow> s\<lparr>wk_publisher := p', wk_store := w'\<rparr>))"

fun process_events ::
    "'w cabinet_repository \<Rightarrow> 'p event_publisher \<Rightarrow> outbox_event list \<Rightarrow> ('w, 'p) worker \<Rightarrow> ('w, 'p) worker" where
  "process_events R P [] s = s"
| "process_events R P (ev # evs) s = process_events R P evs (process_event R P ev s)"

definition batch_limit :: int32 where
  "batch_limit = 25"

definition ProcessBatch ::
    "'w cabinet_repository \<Rightarrow> 'p event_publisher \<Rightarrow> ('w, 'p) worker \<Rightarrow> ('w, 'p) worker" where
  "ProcessBatch R P s =
     (case ListUnpublishedOutboxEvents R batch_limit (wk_store s) of
        (Inl err, w') \<Rightarrow> log_error ''failed to list unpublished outbox events'' err (s\<lparr>wk_store := w'\<rparr>)
      | (Inr pendentEvents, w') \<Rightarrow> process_events R P pendentEvents (s\<lparr>wk_store := w'\<rparr>))"

text \<open>\<open>Run\<close>: the signals the \<open>select\<close> picks, in order; it returns at the first \<open>ctx.Done()\<close>.\<close>

datatype run_signal = CtxDone | Tick

fun worker_run ::
    "'w cabinet_repository \<Rightarrow> 'p event_publisher \<Rightarrow> run_signal list \<Rightarrow> ('w, 'p) worker \<Rightarrow> ('w, 'p) worker" where
  "worker_run R P [] s = s"
| "worker_run R P (CtxDone # sigs) s = s"
| "worker_run R P (Tick # sigs) s = worker_run R P sigs (ProcessBatch R P s)"

section \<open>The log publisher\<close>

text \<open>Its state is the list of records it wrote; it never fails.\<close>

definition log_Publish ::
    "string \<Rightarrow> string \<Rightarrow> (string \<times> string) list \<Rightarrow> go_error option \<times> (string \<times> string) list" where
  "log_Publish eventType payload recs = (None, recs @ [(eventType, payload)])"

definition log_publisher :: "(string \<times> string) list event_publisher" where
  "log_publisher = \<lparr>Publish = log_Publish\<rparr>"

lemma log_publisher_sel [simp]: "Publish log_publisher = log_Publish"
  by (simp add: log_publisher_def)

interpretation logpub: publisher log_publisher "\<lambda>recs. recs"
  by unfold_locales (simp_all add: log_Publish_def)

section \<open>At-least-once delivery\<close>

definition event_message :: "outbox_event \<Rightarrow> string \<times> string" where
  "event_message ev = (Evt_EventType ev, Evt_Payload ev)"

locale outbox_worker = outbox_store R inv pending + publisher P delivered
  for R :: "'w cabinet_repository" and inv :: "'w \<Rightarrow> bool" and pending :: "'w \<Rightarrow> outbox_event list"
    and P :: "'p event_publisher" and delivered :: "'p \<Rightarrow> (string \<times> string) list"
begin

text \<open>One event: nothing is taken out of the outbox but, after a successful publication, the
  event itself.\<close>

lemma process_event_step:
  obtains xs where
    "delivered (wk_publisher (process_event R P ev s)) = delivered (wk_publisher s) @ xs"
    "set xs \<subseteq> {event_message ev}"
    "pending (wk_store (process_event R P ev s)) = pending (wk_store s)
     \<or> pending (wk_store (process_event R P ev s))
         = filter (\<lambda>x. Evt_ID x \<noteq> Evt_ID ev) (pending (wk_store s))
       \<and> event_message ev \<in> set xs"
proof -
  obtain r p' where pub: "Publish P (Evt_EventType ev) (Evt_Payload ev) (wk_publisher s) = (r, p')"
    by fastforce
  show thesis
  proof (cases r)
    case None
    obtain m w' where mk: "MarkOutboxEventPublished R (Evt_ID ev) (wk_store s) = (m, w')"
      by fastforce
    have s': "wk_publisher (process_event R P ev s) = p'" "wk_store (process_event R P ev s) = w'"
      using pub None mk by (auto simp: process_event_def log_error_def split: sum.splits)
    have "pending w' = pending (wk_store s)
        \<or> pending w' = filter (\<lambda>x. Evt_ID x \<noteq> Evt_ID ev) (pending (wk_store s))"
      using mk by (cases m) (auto dest: mark_ok mark_err)
    then show thesis
      using publish_ok [OF pub [unfolded None]] s' by (intro that [of "[event_message ev]"])
        (auto simp: event_message_def)
  next
    case (Some err)
    have s': "wk_publisher (process_event R P ev s) = p'"
      "wk_store (process_event R P ev s) = wk_store s"
      using pub Some by (simp_all add: process_event_def log_error_def)
    from publish_err [OF pub [unfolded Some]] show thesis
    proof
      assume "delivered p' = delivered (wk_publisher s)"
      then show thesis using s' by (intro that [of "[]"]) auto
    next
      assume "delivered p' = delivered (wk_publisher s) @ [(Evt_EventType ev, Evt_Payload ev)]"
      then show thesis using s' by (intro that [of "[event_message ev]"])
          (auto simp: event_message_def)
    qed
  qed
qed

lemma process_event_inv: "inv (wk_store s) \<Longrightarrow> inv (wk_store (process_event R P ev s))"
  by (auto simp: process_event_def log_error_def split: option.splits prod.splits sum.splits
      dest: mark_inv)

lemma process_events_inv: "inv (wk_store s) \<Longrightarrow> inv (wk_store (process_events R P evs s))"
  by (induction evs arbitrary: s) (simp_all add: process_event_inv)

lemma ProcessBatch_inv: "inv (wk_store s) \<Longrightarrow> inv (wk_store (ProcessBatch R P s))"
proof -
  assume inv: "inv (wk_store s)"
  obtain r w' where l: "ListUnpublishedOutboxEvents R batch_limit (wk_store s) = (r, w')" by fastforce
  then have "inv w'" using inv by (rule list_inv)
  then have "inv (wk_store (process_events R P evs (s\<lparr>wk_store := w'\<rparr>)))" for evs
    by (intro process_events_inv) simp
  with l \<open>inv w'\<close> show ?thesis by (cases r) (simp_all add: ProcessBatch_def log_error_def)
qed

lemma worker_run_inv: "inv (wk_store s) \<Longrightarrow> inv (wk_store (worker_run R P sigs s))"
proof (induction sigs arbitrary: s)
  case (Cons sig sigs)
  then show ?case by (cases sig) (simp_all add: ProcessBatch_inv)
qed simp

text \<open>
  Delivery between two states: some messages reached the broker, the outbox did not grow,
  and every event that left it is among the messages.
\<close>

lemma process_events_delivery:
  assumes "distinct (map Evt_ID P0)" "set evs \<subseteq> set P0" "set (pending (wk_store s)) \<subseteq> set P0"
  shows "\<exists>xs. delivered (wk_publisher (process_events R P evs s)) = delivered (wk_publisher s) @ xs
     \<and> set xs \<subseteq> event_message ` set evs
     \<and> set (pending (wk_store (process_events R P evs s))) \<subseteq> set (pending (wk_store s))
     \<and> (\<forall>ev \<in> set (pending (wk_store s)) - set (pending (wk_store (process_events R P evs s))).
          event_message ev \<in> set xs)"
  using assms(2,3)
proof (induction evs arbitrary: s)
  case Nil
  then show ?case by simp
next
  case (Cons ev evs)
  let ?s1 = "process_event R P ev s"
  obtain xs where xs: "delivered (wk_publisher ?s1) = delivered (wk_publisher s) @ xs"
    "set xs \<subseteq> {event_message ev}"
    "pending (wk_store ?s1) = pending (wk_store s)
     \<or> pending (wk_store ?s1) = filter (\<lambda>x. Evt_ID x \<noteq> Evt_ID ev) (pending (wk_store s))
       \<and> event_message ev \<in> set xs"
    by (rule process_event_step)
  have same: "x = ev" if "x \<in> set (pending (wk_store s))" "Evt_ID x = Evt_ID ev" for x
    using that assms(1) Cons.prems by (auto simp: distinct_map dest: inj_onD)
  have sub: "set (pending (wk_store ?s1)) \<subseteq> set (pending (wk_store s))" using xs(3) by auto
  with Cons.prems Cons.IH [of ?s1] obtain ys where
    ys: "delivered (wk_publisher (process_events R P evs ?s1)) = delivered (wk_publisher ?s1) @ ys"
    "set ys \<subseteq> event_message ` set evs"
    "set (pending (wk_store (process_events R P evs ?s1))) \<subseteq> set (pending (wk_store ?s1))"
    "\<forall>x \<in> set (pending (wk_store ?s1)) - set (pending (wk_store (process_events R P evs ?s1))).
          event_message x \<in> set ys"
    by auto
  have "event_message x \<in> set (xs @ ys)"
    if "x \<in> set (pending (wk_store s))" "x \<notin> set (pending (wk_store (process_events R P evs ?s1)))" for x
    using that ys(4) xs(3) same by (cases "Evt_ID x = Evt_ID ev") auto
  with xs ys sub show ?case by (intro exI [of _ "xs @ ys"]) auto
qed

lemma ProcessBatch_delivery:
  assumes "inv (wk_store s)"
  shows "\<exists>xs. delivered (wk_publisher (ProcessBatch R P s)) = delivered (wk_publisher s) @ xs
     \<and> set xs \<subseteq> event_message ` set (take 25 (pending (wk_store s)))
     \<and> set (pending (wk_store (ProcessBatch R P s))) \<subseteq> set (pending (wk_store s))
     \<and> (\<forall>ev \<in> set (pending (wk_store s)) - set (pending (wk_store (ProcessBatch R P s))).
          event_message ev \<in> set xs)"
proof -
  obtain r w' where l: "ListUnpublishedOutboxEvents R batch_limit (wk_store s) = (r, w')" by fastforce
  show ?thesis
  proof (cases r)
    case (Inl err)
    with l list_pending [OF l] show ?thesis by (simp add: ProcessBatch_def log_error_def)
  next
    case (Inr evs)
    have evs: "evs = take 25 (pending (wk_store s))"
      using list_ok [OF l [unfolded Inr]] by (simp add: batch_limit_def)
    have "set evs \<subseteq> set (pending (wk_store s))" by (simp add: evs set_take_subset)
    with process_events_delivery [OF pending_distinct [OF assms], of evs "s\<lparr>wk_store := w'\<rparr>"]
      list_pending [OF l] l Inr evs
    show ?thesis by (simp add: ProcessBatch_def)
  qed
qed

text \<open>The whole run.\<close>

lemma worker_run_delivery:
  assumes "inv (wk_store s)"
  shows "\<exists>xs. delivered (wk_publisher (worker_run R P sigs s)) = delivered (wk_publisher s) @ xs
     \<and> set xs \<subseteq> event_message ` set (pending (wk_store s))
     \<and> set (pending (wk_store (worker_run R P sigs s))) \<subseteq> set (pending (wk_store s))
     \<and> (\<forall>ev \<in> set (pending (wk_store s)) - set (pending (wk_store (worker_run R P sigs s))).
          event_message ev \<in> set xs)"
  using assms
proof (induction sigs arbitrary: s)
  case Nil
  then show ?case by simp
next
  case (Cons sig sigs)
  show ?case
  proof (cases sig)
    case CtxDone
    then show ?thesis by simp
  next
    case Tick
    let ?s1 = "ProcessBatch R P s"
    obtain xs where xs: "delivered (wk_publisher ?s1) = delivered (wk_publisher s) @ xs"
      "set xs \<subseteq> event_message ` set (take 25 (pending (wk_store s)))"
      "set (pending (wk_store ?s1)) \<subseteq> set (pending (wk_store s))"
      "\<forall>ev \<in> set (pending (wk_store s)) - set (pending (wk_store ?s1)). event_message ev \<in> set xs"
      using ProcessBatch_delivery [OF Cons.prems] by blast
    obtain ys where ys: "delivered (wk_publisher (worker_run R P sigs ?s1)) = delivered (wk_publisher ?s1) @ ys"
      "set ys \<subseteq> event_message ` set (pending (wk_store ?s1))"
      "set (pending (wk_store (worker_run R P sigs ?s1))) \<subseteq> set (pending (wk_store ?s1))"
      "\<forall>ev \<in> set (pending (wk_store ?s1)) - set (pending (wk_store (worker_run R P sigs ?s1))).
         event_message ev \<in> set ys"
      using Cons.IH [OF ProcessBatch_inv [OF Cons.prems]] by blast
    have "set xs \<subseteq> event_message ` set (pending (wk_store s))"
      using xs(2) set_take_subset by fast
    moreover have "set ys \<subseteq> event_message ` set (pending (wk_store s))"
      using ys(2) xs(3) by fast
    ultimately show ?thesis using xs ys Tick by (intro exI [of _ "xs @ ys"]) auto
  qed
qed

end

section \<open>A blocked and a drained outbox\<close>

context outbox_store begin

text \<open>
  A publisher that refuses every event of the oldest batch, whatever its state, stops the
  outbox: the events behind that batch are never tried.
\<close>

lemma process_events_refused:
  assumes "\<And>ev p. ev \<in> set evs \<Longrightarrow> \<exists>e p'. Publish P (Evt_EventType ev) (Evt_Payload ev) p = (Some e, p')"
  shows "wk_store (process_events R P evs s) = wk_store s"
  using assms
proof (induction evs arbitrary: s)
  case Nil
  then show ?case by simp
next
  case (Cons ev evs)
  obtain e p' where "Publish P (Evt_EventType ev) (Evt_Payload ev) (wk_publisher s) = (Some e, p')"
    using Cons.prems by (meson list.set_intros(1))
  with Cons show ?case by (simp add: process_event_def log_error_def)
qed

lemma worker_run_blocked:
  assumes "\<And>ev p. ev \<in> set (take 25 (pending (wk_store s))) \<Longrightarrow>
      \<exists>e p'. Publish P (Evt_EventType ev) (Evt_Payload ev) p = (Some e, p')"
  shows "pending (wk_store (worker_run R P sigs s)) = pending (wk_store s)"
  using assms
proof (induction sigs arbitrary: s)
  case Nil
  then show ?case by simp
next
  case (Cons sig sigs)
  obtain r w' where l: "ListUnpublishedOutboxEvents R batch_limit (wk_store s) = (r, w')" by fastforce
  have "pending (wk_store (ProcessBatch R P s)) = pending (wk_store s)"
  proof (cases r)
    case (Inl err)
    with l list_pending [OF l] show ?thesis by (simp add: ProcessBatch_def log_error_def)
  next
    case (Inr evs)
    have "evs = take 25 (pending (wk_store s))"
      using list_ok [OF l [unfolded Inr]] by (simp add: batch_limit_def)
    with Cons.prems have "wk_store (process_events R P evs (s\<lparr>wk_store := w'\<rparr>)) = w'"
      by (subst process_events_refused) auto
    with l Inr list_pending [OF l] show ?thesis by (simp add: ProcessBatch_def)
  qed
  moreover from this Cons.prems have
    "pending (wk_store (worker_run R P sigs (ProcessBatch R P s))) = pending (wk_store (ProcessBatch R P s))"
    by (intro Cons.IH) simp
  ultimately show ?case by (cases sig) simp_all
qed

text \<open>
  When the store and the publisher always succeed, a batch publishes the 25 oldest events
  and takes exactly them out of the outbox.
\<close>

lemma process_events_drain:
  assumes mark: "\<And>eid w. \<exists>w'. MarkOutboxEventPublished R eid w = (Inr (), w')"
    and pub: "\<And>ty pl p. \<exists>p'. Publish P ty pl p = (None, p')"
  shows "pending (wk_store (process_events R P evs s)) =
    filter (\<lambda>x. Evt_ID x \<notin> Evt_ID ` set evs) (pending (wk_store s))"
proof (induction evs arbitrary: s)
  case Nil
  then show ?case by simp
next
  case (Cons ev evs)
  obtain p' where "Publish P (Evt_EventType ev) (Evt_Payload ev) (wk_publisher s) = (None, p')"
    using pub by blast
  moreover obtain w' where m: "MarkOutboxEventPublished R (Evt_ID ev) (wk_store s) = (Inr (), w')"
    using mark by blast
  ultimately have "wk_store (process_event R P ev s) = w'" by (simp add: process_event_def)
  with mark_ok [OF m] Cons.IH show ?case by (simp add: filter_filter conj_commute)
qed

lemma ProcessBatch_drain:
  assumes "inv (wk_store s)" "\<And>n w. 0 \<le> sint n \<Longrightarrow> \<exists>evs w'. ListUnpublishedOutboxEvents R n w = (Inr evs, w')"
    and mark: "\<And>eid w. \<exists>w'. MarkOutboxEventPublished R eid w = (Inr (), w')"
    and pub: "\<And>ty pl p. \<exists>p'. Publish P ty pl p = (None, p')"
  shows "pending (wk_store (ProcessBatch R P s)) = drop 25 (pending (wk_store s))"
proof -
  obtain evs w' where l: "ListUnpublishedOutboxEvents R batch_limit (wk_store s) = (Inr evs, w')"
    using assms(2) [of batch_limit "wk_store s"] by (auto simp: batch_limit_def)
  have evs: "evs = take 25 (pending (wk_store s))"
    using list_ok [OF l] by (simp add: batch_limit_def)
  have "filter (\<lambda>x. Evt_ID x \<notin> Evt_ID ` set (take 25 xs)) xs = drop 25 xs"
    if "distinct (map Evt_ID xs)" for xs
  proof -
    have "distinct (map Evt_ID (take 25 xs @ drop 25 xs))" using that by simp
    then have "Evt_ID ` set (take 25 xs) \<inter> Evt_ID ` set (drop 25 xs) = {}"
      by (simp only: map_append distinct_append set_map)
    then have "filter (\<lambda>x. Evt_ID x \<notin> Evt_ID ` set (take 25 xs)) (take 25 xs @ drop 25 xs) = drop 25 xs"
      unfolding filter_append by (auto simp: filter_empty_conv filter_id_conv)
    then show ?thesis by simp
  qed
  with l evs list_pending [OF l] pending_distinct [OF assms(1)] show ?thesis
    by (simp add: ProcessBatch_def process_events_drain [OF mark pub])
qed

end

text \<open>With both ports succeeding, \<open>n\<close> ticks publish the \<open>25 * n\<close> oldest events, in order.\<close>

context outbox_worker begin

lemma process_events_published:
  assumes mark: "\<And>eid w. \<exists>w'. MarkOutboxEventPublished R eid w = (Inr (), w')"
    and pub: "\<And>ty pl p. \<exists>p'. Publish P ty pl p = (None, p')"
  shows "delivered (wk_publisher (process_events R P evs s)) = delivered (wk_publisher s) @ map event_message evs"
proof (induction evs arbitrary: s)
  case Nil
  then show ?case by simp
next
  case (Cons ev evs)
  obtain p' where p: "Publish P (Evt_EventType ev) (Evt_Payload ev) (wk_publisher s) = (None, p')"
    using pub by blast
  obtain w' where "MarkOutboxEventPublished R (Evt_ID ev) (wk_store s) = (Inr (), w')"
    using mark by blast
  with p publish_ok [OF p] Cons.IH show ?case by (simp add: process_event_def event_message_def)
qed

lemma worker_run_drain:
  assumes "inv (wk_store s)"
    and list: "\<And>n w. 0 \<le> sint n \<Longrightarrow> \<exists>evs w'. ListUnpublishedOutboxEvents R n w = (Inr evs, w')"
    and mark: "\<And>eid w. \<exists>w'. MarkOutboxEventPublished R eid w = (Inr (), w')"
    and pub: "\<And>ty pl p. \<exists>p'. Publish P ty pl p = (None, p')"
  shows "pending (wk_store (worker_run R P (replicate n Tick) s)) = drop (25 * n) (pending (wk_store s))
    \<and> delivered (wk_publisher (worker_run R P (replicate n Tick) s))
        = delivered (wk_publisher s) @ map event_message (take (25 * n) (pending (wk_store s)))"
  using assms(1)
proof (induction n arbitrary: s)
  case 0
  then show ?case by simp
next
  case (Suc n)
  let ?s1 = "ProcessBatch R P s"
  obtain evs w' where l: "ListUnpublishedOutboxEvents R batch_limit (wk_store s) = (Inr evs, w')"
    using list [of batch_limit "wk_store s"] by (auto simp: batch_limit_def)
  have evs: "evs = take 25 (pending (wk_store s))" using list_ok [OF l] by (simp add: batch_limit_def)
  have "delivered (wk_publisher ?s1)
      = delivered (wk_publisher s) @ map event_message (take 25 (pending (wk_store s)))"
    using l evs by (simp add: ProcessBatch_def process_events_published [OF mark pub])
  moreover have "pending (wk_store ?s1) = drop 25 (pending (wk_store s))"
    using ProcessBatch_drain [OF Suc.prems list mark pub] .
  moreover have "take 25 xs @ take (25 * n) (drop 25 xs) = take (25 * Suc n) xs" for xs :: "outbox_event list"
    by (simp add: take_add)
  ultimately show ?case
    using Suc.IH [OF ProcessBatch_inv [OF Suc.prems]]
    by (simp add: add.commute flip: map_append)
qed

end

end
