(* ===== verification/Outbox_Postgres.thy ===== *)
theory Outbox_Postgres
  imports Outbox_Worker Usecase
begin

text \<open>
  The PostgreSQL adapter and the log publisher satisfy the contracts of the outbox
  worker: the pending events are the unpublished rows in the order of their creation
  time, and marking one takes exactly it out.
\<close>

definition pg_pending :: "world \<Rightarrow> outbox_event list" where
  "pg_pending w = map (\<lambda>r. mapOutboxEventToDomain (scan_outbox_row r)) (unpublished (w_db w))"

definition pg_outbox_inv :: "world \<Rightarrow> bool" where
  "pg_outbox_inv w \<longleftrightarrow> outbox_ok (w_db w)"

lemma outbox_event_id [simp]: "Evt_ID (mapOutboxEventToDomain (scan_outbox_row r)) = ob_id r"
  by (simp add: mapOutboxEventToDomain_def scan_outbox_row_def)

lemma filter_update_where_mark:
  "filter (\<lambda>r. ob_published_at r = None)
     (update_where (\<lambda>r. ob_id r = eid) (\<lambda>r. r\<lparr>ob_published_at := Some t\<rparr>) rs) =
   filter (\<lambda>r. ob_id r \<noteq> eid) (filter (\<lambda>r. ob_published_at r = None) rs)"
  by (induction rs) auto

lemma unpublished_mark:
  "unpublished (snd (q_MarkOutboxEventPublished (IdString eid) now d)) =
     filter (\<lambda>r. ob_id r \<noteq> eid) (unpublished d)"
  by (simp add: unpublished_def q_MarkOutboxEventPublished_def filter_update_where_mark filter_sort)

lemma distinct_unpublished: "outbox_ok d \<Longrightarrow> distinct (map ob_id (unpublished d))"
  by (simp add: outbox_ok_def unpublished_def distinct_map inj_on_def)

lemma pg_pending_db: "w_db w' = w_db w \<Longrightarrow> pg_pending w' = pg_pending w"
  by (simp add: pg_pending_def)

lemma repo_Mark_cases:
  assumes "repo_MarkOutboxEventPublished E eid w = (r, w')"
  shows "w_db w' = snd (q_MarkOutboxEventPublished (IdString eid) (env_now E (w_tick w)) (w_db w))
    \<or> \<not> is_ok r \<and> w_db w' = w_db w"
  using assms
  by (auto simp: repo_MarkOutboxEventPublished_def pool_run_def Let_def q_MarkOutboxEventPublished_def
      split: prod.splits sum.splits option.splits db_fault.splits if_splits)

lemma outbox_ok_mark: "outbox_ok d \<Longrightarrow> outbox_ok (snd (q_MarkOutboxEventPublished eid now d))"
  by (simp add: outbox_ok_def q_MarkOutboxEventPublished_def map_update_where)

lemma pg_pending_mark:
  "w_db w' = snd (q_MarkOutboxEventPublished (IdString eid) now (w_db w)) \<Longrightarrow>
     pg_pending w' = filter (\<lambda>ev. Evt_ID ev \<noteq> eid) (pg_pending w)"
  by (simp add: pg_pending_def unpublished_mark filter_map o_def)

interpretation pgout: outbox_store "postgres_repository E" pg_outbox_inv pg_pending for E
proof unfold_locales
  fix w
  assume "pg_outbox_inv w"
  then show "distinct (map Evt_ID (pg_pending w))"
    using distinct_unpublished [of "w_db w"] by (simp add: pg_pending_def pg_outbox_inv_def o_def)
next
  fix n w r w'
  assume "ListUnpublishedOutboxEvents (postgres_repository E) n w = (r, w')"
  then have "w_db w' = w_db w" by (auto dest: repo_reads_keep_db)
  then show "pg_outbox_inv w \<Longrightarrow> pg_outbox_inv w'" "pg_pending w' = pg_pending w"
    by (simp_all add: pg_outbox_inv_def pg_pending_def)
next
  fix n w evs w'
  assume "ListUnpublishedOutboxEvents (postgres_repository E) n w = (Inr evs, w')"
  then show "evs = take (nat (sint n)) (pg_pending w)"
    by (auto simp: repo_ListUnpublishedOutboxEvents_def pool_run_def Let_def pg_pending_def
        q_ListUnpublishedOutboxEvents_def take_map
        split: prod.splits sum.splits option.splits db_fault.splits if_splits)
next
  fix eid w r w'
  assume "MarkOutboxEventPublished (postgres_repository E) eid w = (r, w')" "pg_outbox_inv w"
  then show "pg_outbox_inv w'"
    using repo_Mark_cases [of E eid w r w'] by (auto simp: pg_outbox_inv_def outbox_ok_mark)
next
  fix eid w u w'
  assume "MarkOutboxEventPublished (postgres_repository E) eid w = (Inr u, w')"
  then show "pg_pending w' = filter (\<lambda>ev. Evt_ID ev \<noteq> eid) (pg_pending w)"
    using repo_Mark_cases [of E eid w "Inr u" w'] by (auto intro: pg_pending_mark)
next
  fix eid w e w'
  assume "MarkOutboxEventPublished (postgres_repository E) eid w = (Inl e, w')"
  then show "pg_pending w' = pg_pending w \<or> pg_pending w' = filter (\<lambda>ev. Evt_ID ev \<noteq> eid) (pg_pending w)"
    using repo_Mark_cases [of E eid w "Inl e" w'] by (auto intro: pg_pending_mark pg_pending_db)
qed

interpretation pgworker: outbox_worker "postgres_repository E" pg_outbox_inv pg_pending
    log_publisher "\<lambda>recs. recs" for E
  by unfold_locales

lemma quiet_list: "quiet E \<Longrightarrow> 0 \<le> sint n \<Longrightarrow>
    \<exists>evs w'. repo_ListUnpublishedOutboxEvents E n w = (Inr evs, w')"
  by (simp add: repo_ListUnpublishedOutboxEvents_def pool_run_def Let_def quiet_no_fault
      q_ListUnpublishedOutboxEvents_def)

lemma quiet_mark: "quiet E \<Longrightarrow> \<exists>w'. repo_MarkOutboxEventPublished E eid w = (Inr (), w')"
  by (simp add: repo_MarkOutboxEventPublished_def pool_run_def Let_def quiet_no_fault
      q_MarkOutboxEventPublished_def)

end
