(* ===== verification/Ledger.thy ===== *)
theory Ledger
  imports Order_Transaction
begin

text \<open>
  Properties of the tables that whole transactions keep: no unit of a cabinet appears or
  disappears (\<open>total_units\<close>), every order has exactly one event in the outbox, and the
  total of an order is the sum over its lines.  Each is shown for one reservation, lifted
  to the lines of an order, and handed to \<open>effect_invariant\<close>.
\<close>

section \<open>Accepted reservations keep the schema\<close>

lemma cabinets_ok_reservations: "cabinets_ok (d\<lparr>reservations := rs\<rparr>) = cabinets_ok d"
  by (simp add: cabinets_ok_def)

lemma reservations_ok_append:
  assumes "reservations_ok d" "r_idempotency_key r \<notin> r_idempotency_key ` set (reservations d)"
    "r_cabinet_id r \<in> c_id ` set (cabinets d)"
  shows "reservations_ok ((decrement_effect now cid q d)\<lparr>reservations := reservations d @ [r]\<rparr>)"
  using assms by (simp add: reservations_ok_def)

lemma schema_reserve_db:
  assumes ok: "schema_ok d" and acc: "reserve_accepts d cid q key"
  shows "schema_ok (reserve_db now cid q key d)"
proof (cases "find_reservation key d")
  case (Some r)
  with ok show ?thesis by (simp add: reserve_db_def)
next
  case None
  with acc have dec: "can_decrement d cid (to_int32 q)"
    by (simp add: reserve_accepts_def)
  have fresh: "key \<notin> r_idempotency_key ` set (reservations d)"
    using None find_None_iff_notin [of r_idempotency_key key "reservations d"]
    by (simp add: find_reservation_def)
  have cab: "cabinets_ok (reserve_effect now cid (to_int32 q) key d)"
    unfolding reserve_effect_def cabinets_ok_reservations
    using ok dec by (intro cabinets_ok_decrement) (simp_all only: schema_ok_def)
  have res: "reservations_ok (reserve_effect now cid (to_int32 q) key d)"
    unfolding reserve_effect_def
    by (rule reservations_ok_append)
      (use ok fresh can_decrement_in [OF dec] in \<open>simp_all add: schema_ok_def new_reservation_def\<close>)
  have "reserve_db now cid q key d = reserve_effect now cid (to_int32 q) key d"
    using None by (simp add: reserve_db_def)
  with ok cab res show ?thesis
    by (simp add: schema_ok_def images_ok_def orders_ok_def order_items_ok_def outbox_ok_def)
qed

lemma schema_lines_db:
  "schema_ok d \<Longrightarrow> lines_accept now oid ls d \<Longrightarrow> schema_ok (lines_db now oid ls d)"
  by (induction ls arbitrary: d) (simp_all add: schema_reserve_db)

section \<open>Conservation of units\<close>

lemma stock_reserve_db:
  assumes "schema_ok d" "reserve_accepts d cid q key"
  shows "stock_of (reserve_db now cid q key d) x =
    (if x = cid \<and> find_reservation key d = None
     then map_option (\<lambda>s. s - sint (to_int32 q)) (stock_of d x) else stock_of d x)"
proof (cases "find_reservation key d")
  case (Some r)
  then show ?thesis by (simp add: reserve_db_def)
next
  case None
  with assms have "can_decrement d cid (to_int32 q)" by (simp add: reserve_accepts_def)
  with assms(1) stock_after_decrement [of d cid "to_int32 q" now x] None show ?thesis
    by (simp add: reserve_db_def reserve_effect_def stock_of_def schema_ok_def)
qed

lemma reserved_reserve_db:
  "reserved_units (reserve_db now cid q key d) x =
    reserved_units d x + (if x = cid \<and> find_reservation key d = None then sint (to_int32 q) else 0)"
  by (auto simp: reserve_db_def reserve_effect_def reserved_units_def new_reservation_def
      sum_where_append sum_where_Cons split: option.split)

lemma total_units_reserve_db:
  assumes "schema_ok d" "reserve_accepts d cid q key"
  shows "total_units (reserve_db now cid q key d) x = total_units d x"
  unfolding total_units_def stock_reserve_db [OF assms] reserved_reserve_db
  by (cases "stock_of d x") auto

lemma total_units_lines_db:
  "schema_ok d \<Longrightarrow> lines_accept now oid ls d \<Longrightarrow>
     total_units (lines_db now oid ls d) x = total_units d x"
  by (induction ls arbitrary: d) (simp_all add: total_units_reserve_db schema_reserve_db)

lemma stock_order_effect [simp]:
  "stock_of (order_effect now ord ls rows ev d) x = stock_of (lines_db now (o_id ord) ls d) x"
  "reserved_units (order_effect now ord ls rows ev d) x
     = reserved_units (lines_db now (o_id ord) ls d) x"
  "total_units (order_effect now ord ls rows ev d) x
     = total_units (lines_db now (o_id ord) ls d) x"
  by (simp_all add: order_effect_def Let_def total_units_def stock_of_def reserved_units_def)

lemma order_placedE:
  assumes "order_placed E now uid items key d ord d'"
  obtains oid row rows ev payload p m where
    "row = new_order now oid uid key (order_total d items)"
    "rows = item_rows oid (item_ids E (Suc m) (length items)) (map (snapshot_of d) items)"
    "ev = new_event now (env_uuid E p) oid payload"
    "known_cabinets d items" "lines_accept now oid (map (snapshot_of d) items) d"
    "oid \<in> range (env_uuid E)"
    "oid \<notin> o_id ` set (orders d)" "key \<notin> o_idempotency_key ` set (orders d)"
    "\<forall>i \<in> set items. 0 < sint (to_int32 (In_Quantity i))"
    "env_jsonb_in E (event_payload (env_uuid E p) oid uid (order_total d items) (env_now E (Suc p)))
       = Some payload"
    "d' = order_effect now row (map (snapshot_of d) items) rows ev d"
    "ord = mapOrderToDomain row rows" "length rows = length items"
proof -
  from assms [unfolded order_placed_def Let_def] show ?thesis
    by (elim exE conjE, intro that [OF refl refl refl]) (assumption | rule rangeI | simp add: item_ids_def)+
qed

definition units_conserved :: "(string \<Rightarrow> int option) \<Rightarrow> catalog_db \<Rightarrow> bool" where
  "units_conserved base d \<longleftrightarrow> (\<forall>cid. total_units d cid = base cid)"

lemma publish_frame:
  "cabinets (snd (q_MarkOutboxEventPublished eid now d)) = cabinets d"
  "reservations (snd (q_MarkOutboxEventPublished eid now d)) = reservations d"
  "orders (snd (q_MarkOutboxEventPublished eid now d)) = orders d"
  "order_items (snd (q_MarkOutboxEventPublished eid now d)) = order_items d"
  by (simp_all add: q_MarkOutboxEventPublished_def)

interpretation units: effect_invariant "\<lambda>_. True" "units_conserved base" for base
proof unfold_locales
  fix d cid q key now
  assume "schema_ok d" "units_conserved base d" "reserve_accepts d cid q key"
  then show "units_conserved base (reserve_db now cid q key d)"
    by (simp add: units_conserved_def total_units_reserve_db)
next
  fix d items E now uid key ord d'
  assume ok: "schema_ok d" "units_conserved base d" and "order_placed E now uid items key d ord d'"
  from this(3) show "units_conserved base d'"
  proof (cases rule: order_placedE)
    case (1 oid row rows ev payload p m)
    with ok(2) total_units_lines_db [OF ok(1) 1(5)] show ?thesis
      by (simp add: units_conserved_def 1(1,11) new_order_def)
  qed
next
  fix d eid now
  assume "units_conserved base d"
  then show "units_conserved base (snd (q_MarkOutboxEventPublished eid now d))"
    by (simp add: units_conserved_def total_units_def stock_of_def reserved_units_def publish_frame)
qed

section \<open>One event per order\<close>

definition outbox_mirrors :: "catalog_db \<Rightarrow> bool" where
  "outbox_mirrors d \<longleftrightarrow> map ob_aggregate_id (outbox d) = map o_id (orders d)
     \<and> (\<forall>e \<in> set (outbox d). ob_event_type e = ''order.created'')"

interpretation mirror: effect_invariant "\<lambda>_. True" outbox_mirrors
proof unfold_locales
  fix d cid q key now
  assume "outbox_mirrors d"
  then show "outbox_mirrors (reserve_db now cid q key d)" by (simp add: outbox_mirrors_def)
next
  fix d items E now uid key ord d'
  assume ok: "outbox_mirrors d" and "order_placed E now uid items key d ord d'"
  from this(2) show "outbox_mirrors d'"
  proof (cases rule: order_placedE)
    case (1 oid row rows ev payload p m)
    from ok show ?thesis
      by (simp add: 1(1,3,11) outbox_mirrors_def order_effect_def Let_def new_order_def new_event_def)
  qed
next
  fix d eid now
  assume "outbox_mirrors d"
  then show "outbox_mirrors (snd (q_MarkOutboxEventPublished eid now d))"
    by (auto simp: outbox_mirrors_def q_MarkOutboxEventPublished_def map_update_where set_update_where)
qed

section \<open>Totals\<close>

definition line_cents :: "db_order_item \<Rightarrow> int64" where
  "line_cents i = oi_unit_price_cents i * of_int32 (oi_quantity i)"

definition totals_ok :: "catalog_db \<Rightarrow> bool" where
  "totals_ok d \<longleftrightarrow> (\<forall>o1 \<in> set (orders d).
     o_total_cents o1 = sum_list (map line_cents (items_of (o_id o1) d)))"

text \<open>Quantities that an \<open>int32\<close> can hold, as every quantity of a gRPC request.\<close>

definition fits_int32 :: "order_item_input list \<Rightarrow> bool" where
  "fits_int32 items \<longleftrightarrow> (\<forall>i \<in> set items. of_int32 (to_int32 (In_Quantity i)) = In_Quantity i)"

lemma item_rows_facts:
  "i \<in> set (item_rows oid ids ls) \<Longrightarrow> oi_order_id i = oid"
  by (auto simp: item_rows_def item_row_def set_zip)

lemma filter_item_rows:
  "filter (\<lambda>i. oi_order_id i = x) (item_rows oid ids ls) = (if x = oid then item_rows oid ids ls else [])"
  by (auto simp: filter_id_conv filter_empty_conv dest: item_rows_facts)

lemma line_cents_item_rows:
  assumes "fits_int32 items" "length ids = length items"
  shows "map line_cents (item_rows oid ids (map (snapshot_of d) items)) =
         map (\<lambda>i. price_of d (In_CabinetID i) * In_Quantity i) items"
  using assms(2,1)
  by (induction ids items rule: list_induct2)
    (simp_all add: item_rows_def item_row_def line_cents_def snapshot_of_def fits_int32_def)

lemma items_of_order_effect:
  "items_of x (order_effect now ord ls (item_rows oid ids ls') ev d) =
     items_of x d @ (if x = oid then item_rows oid ids ls' else [])"
  by (simp add: items_of_def order_effect_def Let_def filter_item_rows)

lemma items_of_fresh:
  "schema_ok d \<Longrightarrow> oid \<notin> o_id ` set (orders d) \<Longrightarrow> items_of oid d = []"
  by (auto simp: items_of_def schema_defs filter_empty_conv)

interpretation totals: effect_invariant fits_int32 totals_ok
proof unfold_locales
  fix d cid q key now
  assume "totals_ok d"
  then show "totals_ok (reserve_db now cid q key d)" by (simp add: totals_ok_def items_of_def)
next
  fix d items E now uid key ord d'
  assume ok: "schema_ok d" and tot: "totals_ok d" and fits: "fits_int32 items"
    and "order_placed E now uid items key d ord d'"
  from this(4) show "totals_ok d'"
  proof (cases rule: order_placedE)
    case (1 oid row rows ev payload p m)
    have "orders d' = orders d @ [row]" by (simp add: 1 order_effect_def Let_def)
    moreover have "items_of (o_id o1) d' = items_of (o_id o1) d" if "o1 \<in> set (orders d)" for o1
    proof -
      have "o_id o1 \<noteq> oid" using that 1(7) by auto
      then show ?thesis by (simp add: 1(2,11) items_of_order_effect)
    qed
    moreover have "items_of oid d' = rows"
      using items_of_fresh [OF ok 1(7)] by (simp add: 1(2,11) items_of_order_effect)
    moreover have "o_total_cents row = sum_list (map line_cents rows)"
      using fits by (simp add: 1(1,2) line_cents_item_rows new_order_def order_total_def item_ids_def)
    ultimately show ?thesis using tot by (auto simp: totals_ok_def 1(1) new_order_def)
  qed
next
  fix d eid now
  assume "totals_ok d"
  then show "totals_ok (snd (q_MarkOutboxEventPublished eid now d))"
    by (simp add: totals_ok_def items_of_def publish_frame)
qed

end
