(* ===== verification/Error_Paths.thy ===== *)
theory Error_Paths
  imports Ledger
begin

text \<open>
  Which errors the repository returns.  \<open>driver_error\<close> holds of the errors that carry no
  sentinel of the domain; every error of a statement is one.  In an environment without
  faults the outcome of a reservation is a function of the tables.
\<close>

section \<open>Errors of statements\<close>

definition driver_error :: "go_error \<Rightarrow> bool" where
  "driver_error e \<longleftrightarrow> (case root_cause e of CabErr c \<Rightarrow> False | OrdErr d \<Rightarrow> False | _ \<Rightarrow> True)"

lemma driver_error_simps [simp]:
  "driver_error ErrNoRows" "driver_error (PgError c)" "driver_error (DriverError m)"
  "driver_error TxCommitRollback" "driver_error (ScanError m)" "driver_error (JsonError m)"
  "driver_error (WrapError m e) = driver_error e"
  "\<not> driver_error (CabErr ce)" "\<not> driver_error (OrdErr oe)"
  by (simp_all add: driver_error_def)

lemma driver_error_fault [simp]: "driver_error (fault_error f)"
  by (cases f) simp_all

lemma driver_error_root:
  "driver_error e \<Longrightarrow> root_cause e \<noteq> CabErr c" "driver_error e \<Longrightarrow> root_cause e \<noteq> OrdErr d"
  by (auto simp: driver_error_def)

definition plain :: "'a stmt \<Rightarrow> bool" where
  "plain q \<longleftrightarrow> (\<forall>now d e d'. q now d = (Inl e, d') \<longrightarrow> driver_error e)"

lemma plain_tx_run: "tx_run E q t = (Inl e, t') \<Longrightarrow> plain q \<Longrightarrow> driver_error e"
  unfolding plain_def
  by (auto simp: tx_run_def Let_def split: if_splits option.splits prod.splits sum.splits)

lemma plain_pool_run: "pool_run E q w = (Inl e, w') \<Longrightarrow> plain q \<Longrightarrow> driver_error e"
  unfolding plain_def
  by (auto simp: pool_run_def Let_def split: option.splits prod.splits db_fault.splits)

lemma scan_cabinet_row_error: "scan_cabinet_row E c imgs = Inl e \<Longrightarrow> driver_error e"
  by (auto simp: scan_cabinet_row_def scan_image_bytes_def split: sum.splits if_splits)

lemma plain_GetCabinet: "plain (q_GetCabinet E cid)"
  by (auto simp: plain_def q_GetCabinet_def split: option.splits dest: scan_cabinet_row_error)

lemma plain_GetReservation: "plain (q_GetReservation key)"
  by (auto simp: plain_def q_GetReservation_def split: option.splits)

lemma plain_DecrementStock: "plain (q_DecrementStock E arg)"
  by (auto simp: plain_def q_DecrementStock_def Let_def split: option.splits if_splits
      dest: scan_cabinet_row_error)

lemma plain_CreateReservation: "plain (q_CreateReservation arg)"
  by (auto simp: plain_def q_CreateReservation_def Let_def split: option.splits)

lemma plain_order_stmts:
  "plain (q_CreateOrder oarg)" "plain (q_CreateOrderItem iarg)" "plain (q_GetOrder oid)"
  "plain (q_GetOrderByItempotencyKey key)" "plain (q_ListOrderItems oid)"
  "plain (q_InsertOutboxEvent E earg)"
  by (auto simp: plain_def q_CreateOrder_def q_CreateOrderItem_def q_GetOrder_def
      q_GetOrderByItempotencyKey_def q_ListOrderItems_def q_InsertOutboxEvent_def Let_def
      split: option.splits)

lemmas plain_stmts = plain_GetCabinet plain_GetReservation plain_DecrementStock
  plain_CreateReservation plain_order_stmts

lemma tx_begin_error: "tx_begin E w = (Inl e, w') \<Longrightarrow> driver_error e"
  by (auto simp: tx_begin_def Let_def split: option.splits)

lemma tx_commit_error: "tx_commit E t w = (Inl e, w') \<Longrightarrow> driver_error e"
  by (auto simp: tx_commit_def Let_def split: option.splits db_fault.splits if_splits)

section \<open>Errors of a reservation\<close>

lemma ReserveStockOnTx_error:
  assumes "ReserveStockOnTx E cid q key t = (Inl e, t')"
  shows "driver_error e \<or> e = CabErr ErrInsufficientStock \<or> e = CabErr ErrDuplicateReservation"
proof -
  obtain g t1 where g: "tx_run E (q_GetReservation key) t = (g, t1)" by fastforce
  obtain dr t2 where dr: "tx_run E (q_DecrementStock E \<lparr>dsp_Quantity = to_int32 q, dsp_ID = cid\<rparr>) t1
      = (dr, t2)" by fastforce
  show ?thesis
  proof (cases g)
    case (Inl e1)
    with assms g dr show ?thesis
      by (auto simp: ReserveStockOnTx_def split: sum.splits prod.splits if_splits
          dest: plain_tx_run [OF _ plain_CreateReservation] plain_tx_run [OF _ plain_DecrementStock])
  next
    case (Inr res)
    with assms g show ?thesis
      by (auto simp: ReserveStockOnTx_def split: sum.splits prod.splits if_splits
          dest: plain_tx_run [OF _ plain_GetCabinet])
  qed
qed

lemma reserve_tx_error:
  assumes "repo_ReserveStockTx E cid q key w = (Inl e, w')"
  shows "driver_error e \<or> e = CabErr ErrInsufficientStock \<or> e = CabErr ErrDuplicateReservation"
  using assms unfolding repo_ReserveStockTx_def
  by (auto split: prod.splits sum.splits
      dest: tx_begin_error tx_commit_error dest!: ReserveStockOnTx_error)

section \<open>Errors of an order\<close>

lemma snapshot_items_error:
  "snapshot_items E items tot t = (Inl e, t') \<Longrightarrow> driver_error e \<or> e = CabErr ErrNotFound"
  by (induction E items tot t arbitrary: t' rule: snapshot_items.induct)
    (auto split: prod.splits sum.splits if_splits dest: plain_tx_run [OF _ plain_GetCabinet])

lemma reserve_items_error:
  "reserve_items E oid ls t = (Inl e, t') \<Longrightarrow>
     driver_error e \<or> e = CabErr ErrInsufficientStock \<or> e = CabErr ErrDuplicateReservation"
  by (induction E oid ls t arbitrary: t' rule: reserve_items.induct)
    (auto split: prod.splits sum.splits dest: ReserveStockOnTx_error)

lemma insert_items_error: "insert_items E oid ls t = (Inl e, t') \<Longrightarrow> driver_error e"
proof (induction E oid ls t arbitrary: e t' rule: insert_items.induct)
  case (1 E oid t)
  then show ?case by simp
next
  case (2 E oid item rest t)
  obtain itemID t1 where u: "tx_uuid E t = (itemID, t1)" by fastforce
  from "2.prems" "2.IH" [OF u [symmetric] refl] show ?case
    by (auto simp: u split: prod.splits sum.splits dest: plain_tx_run [OF _ plain_order_stmts(2)])
qed

lemma write_outbox_error: "write_outbox E oid uid cents t = (Inl e, t') \<Longrightarrow> driver_error e"
  by (auto simp: write_outbox_def tx_uuid_def tx_time_now_def marshal_payload_def
      split: prod.splits sum.splits dest: plain_tx_run [OF _ plain_order_stmts(6)])

definition order_errors :: "go_error list" where
  "order_errors = [OrdErr ErrDuplicateOrder, CabErr ErrNotFound, CabErr ErrInsufficientStock,
     CabErr ErrDuplicateReservation]"

lemma place_order_error:
  assumes "place_order E uid items key t = (Inl e, t')"
  shows "driver_error e \<or> e \<in> set order_errors"
proof -
  obtain s t1 where s: "snapshot_items E items 0 t = (s, t1)" by fastforce
  show ?thesis
  proof (cases s)
    case (Inl e1)
    with assms s snapshot_items_error [OF s [unfolded Inl]] show ?thesis
      by (auto simp: place_order_def order_errors_def)
  next
    case (Inr sc)
    then obtain ls cents where sc: "s = Inr (ls, cents)" by (cases sc) simp
    obtain r t3 where r: "reserve_items E (env_uuid E (tx_tick t1)) ls
        (t1\<lparr>tx_tick := Suc (tx_tick t1)\<rparr>) = (r, t3)" by fastforce
    show ?thesis
    proof (cases r)
      case (Inl e1)
      with assms s sc r reserve_items_error [OF r [unfolded Inl]] show ?thesis
        by (auto simp: place_order_def tx_uuid_def order_errors_def)
    next
      case (Inr u)
      with assms s sc r show ?thesis
        by (auto simp: place_order_def tx_uuid_def Let_def order_errors_def
            split: prod.splits sum.splits if_splits
            dest: plain_tx_run [OF _ plain_order_stmts(1)] insert_items_error write_outbox_error)
    qed
  qed
qed

lemma replay_order_error:
  "replay_order E uid items o1 t = (Inl e, t') \<Longrightarrow> driver_error e \<or> e = OrdErr ErrDuplicateOrder"
  by (auto simp: replay_order_def split: prod.splits sum.splits if_splits
      dest: plain_tx_run [OF _ plain_order_stmts(5)])

lemma create_order_error:
  assumes "repo_CreateOrderTx E uid items key w = (Inl e, w')"
  shows "driver_error e \<or> e \<in> set order_errors"
  using assms unfolding repo_CreateOrderTx_def
  by (auto split: prod.splits sum.splits dest: tx_begin_error tx_commit_error place_order_error
      dest!: replay_order_error simp: order_errors_def)

end
