(* ===== verification/Reserve_Outcome.thy ===== *)
theory Reserve_Outcome
  imports Error_Paths
begin

text \<open>
  What a reservation returns: the cabinet with the stock that is left, and, in an
  environment without faults, exactly which error on which tables.
\<close>

section \<open>The cabinet returned\<close>

lemma scan_row_cabinet:
  assumes "scan_cabinet_row E c imgs = Inr row"
  shows "Cab_ID (mapCabinetToDomain row) = c_id c"
    "sint (Cab_Quantity (mapCabinetToDomain row)) = sint (c_quantity c)"
    "Cab_Price (mapCabinetToDomain row) = c_price c"
  using scan_cabinet_row_fields [OF assms] by (simp_all add: mapCabinetToDomain_def)

lemma q_GetCabinet_stock:
  assumes "q_GetCabinet E cid now d = (Inr row, d')"
  shows "Cab_ID (mapCabinetToDomain row) = cid"
    "stock_of d cid = Some (sint (Cab_Quantity (mapCabinetToDomain row)))"
  using assms by (auto simp: q_GetCabinet_def stock_of_def scan_row_cabinet
      split: option.splits dest!: find_Some_in)

lemma q_DecrementStock_stock:
  assumes "q_DecrementStock E \<lparr>dsp_Quantity = q, dsp_ID = cid\<rparr> now d = (Inr row, d')" "cabinets_ok d"
  shows "Cab_ID (mapCabinetToDomain row) = cid"
    "stock_of d' cid = Some (sint (Cab_Quantity (mapCabinetToDomain row)))"
proof -
  from q_DecrementStock_cases [OF assms(1)] obtain c where
    dec: "can_decrement d cid q" "d' = decrement_effect now cid q d"
    and c: "find (decrement_matches \<lparr>dsp_Quantity = q, dsp_ID = cid\<rparr>) (cabinets d) = Some c"
    and row: "scan_cabinet_row E (decrement_row \<lparr>dsp_Quantity = q, dsp_ID = cid\<rparr> now c)
                (images_agg d (c_id c)) = Inr row" by auto
  have cid: "c_id c = cid" and le: "sint q \<le> sint (c_quantity c)"
    using find_Some_in [OF c] by (auto simp: decrement_matches_def)
  then show "Cab_ID (mapCabinetToDomain row) = cid" using scan_row_cabinet [OF row] by simp
  have "find (\<lambda>c. c_id c = cid) (cabinets d) = Some c"
    using c assms(2) by (auto simp: cabinets_ok_def find_decrement_matches split: option.splits if_splits)
  moreover have "sint (c_quantity c) - sint q < 2 ^ 31" using dec(1) c by (simp add: can_decrement_def)
  ultimately show "stock_of d' cid = Some (sint (Cab_Quantity (mapCabinetToDomain row)))"
    using assms(2) dec le scan_row_cabinet [OF row]
    by (simp add: stock_of_def find_after_decrement sint_minus_32)
qed

lemma stock_of_reservations [simp]: "stock_of (d\<lparr>reservations := rs\<rparr>) x = stock_of d x"
  by (simp add: stock_of_def)

lemma ReserveStockOnTx_cabinet:
  assumes run: "ReserveStockOnTx E cid q key t = (Inr c, t')" and ok: "cabinets_ok (tx_db t)"
  shows "Cab_ID c = cid \<and> stock_of (tx_db t') cid = Some (sint (Cab_Quantity c))"
proof -
  obtain g t1 where g: "tx_run E (q_GetReservation key) t = (g, t1)" by fastforce
  show ?thesis
  proof (cases g)
    case (Inr res)
    from run g Inr obtain row where m: "r_cabinet_id res = cid"
      and c2: "tx_run E (q_GetCabinet E (r_cabinet_id res)) t1 = (Inr row, t')"
      and c: "c = mapCabinetToDomain row"
      by (auto simp: ReserveStockOnTx_def split: if_splits prod.splits sum.splits)
    note q = tx_run_Inr(3) [OF c2]
    have "tx_db t' = tx_db t1" using q by (metis reads_keep_db(1) snd_conv)
    with q_GetCabinet_stock [OF q] c m show ?thesis by simp
  next
    case (Inl e)
    from run g Inl obtain row t2 where
      d2: "tx_run E (q_DecrementStock E \<lparr>dsp_Quantity = to_int32 q, dsp_ID = cid\<rparr>) t1 = (Inr row, t2)"
      and c3: "tx_run E (q_CreateReservation \<lparr>crp_IdempotencyKey = key, crp_CabinetID = cid,
                 crp_Quantity = to_int32 q\<rparr>) t2 = (Inr (), t')"
      and c: "c = mapCabinetToDomain row"
      by (auto simp: ReserveStockOnTx_def split: if_splits prod.splits sum.splits)
    have t1: "tx_db t1 = tx_db t"
      using tx_run_Inl_alive(4) [OF g [unfolded Inl] tx_run_Inr(1) [OF d2]]
      by (metis reads_keep_db(2) snd_conv)
    obtain rs where "tx_db t' = (tx_db t2)\<lparr>reservations := rs\<rparr>"
      using tx_run_Inr(3) [OF c3] by (auto simp: q_CreateReservation_eq eq_commute split: option.splits)
    then have "stock_of (tx_db t') cid = stock_of (tx_db t2) cid" by simp
    with q_DecrementStock_stock [OF tx_run_Inr(3) [OF d2]] ok t1 c show ?thesis by simp
  qed
qed

lemma reserve_tx_cabinet:
  assumes "repo_ReserveStockTx E cid q key w = (Inr c, w')" "schema_ok (w_db w)"
  shows "Cab_ID c = cid" "stock_of (w_db w') cid = Some (sint (Cab_Quantity c))"
proof -
  from assms(1) obtain t w1 t1 where
    b: "tx_begin E w = (Inr t, w1)" and r: "ReserveStockOnTx E cid q key t = (Inr c, t1)"
    and c: "tx_commit E t1 w1 = (Inr (), w')"
    by (auto simp: repo_ReserveStockTx_def split: prod.splits sum.splits)
  from tx_begin_Inr [OF b] ReserveStockOnTx_cabinet [OF r] tx_commit_Inr [OF c] assms(2)
  show "Cab_ID c = cid" "stock_of (w_db w') cid = Some (sint (Cab_Quantity c))"
    by (simp_all add: schema_ok_def)
qed

section \<open>Refused reservations without faults\<close>

lemma ReserveStockOnTx_mismatch:
  assumes "quiet E" "\<not> tx_failed t" "find_reservation key (tx_db t) = Some r"
    "r_cabinet_id r \<noteq> cid \<or> of_int32 (r_quantity r) \<noteq> q"
  shows "fst (ReserveStockOnTx E cid q key t) = Inl (CabErr ErrDuplicateReservation)"
  using assms by (auto simp: ReserveStockOnTx_def tx_run_quiet quiet_no_fault q_GetReservation_eq)

text \<open>The guarded update found no row: the cabinet is unknown or has too few units.\<close>

lemma q_DecrementStock_short:
  assumes "cabinets_ok d" "case stock_of d cid of None \<Rightarrow> True | Some s \<Rightarrow> s < sint q"
  shows "q_DecrementStock E \<lparr>dsp_Quantity = q, dsp_ID = cid\<rparr> now d = (Inl ErrNoRows, d)"
  using assms
  by (auto simp: q_DecrementStock_def find_decrement_matches cabinets_ok_def stock_of_def
      split: option.splits)

lemma ReserveStockOnTx_short:
  assumes "quiet E" "\<not> tx_failed t" "cabinets_ok (tx_db t)" "find_reservation key (tx_db t) = None"
    "case stock_of (tx_db t) cid of None \<Rightarrow> True | Some s \<Rightarrow> s < sint (to_int32 q)"
  shows "fst (ReserveStockOnTx E cid q key t) = Inl (CabErr ErrInsufficientStock)"
  using assms
  by (simp add: ReserveStockOnTx_def tx_run_quiet quiet_no_fault q_GetReservation_eq
      q_DecrementStock_short)

lemma reserve_tx_fst:
  assumes "quiet E" "\<And>t. tx_db t = w_db w \<Longrightarrow> \<not> tx_failed t \<Longrightarrow> fst (ReserveStockOnTx E cid q key t) = Inl e"
  shows "fst (repo_ReserveStockTx E cid q key w) = Inl e"
proof -
  obtain t w1 where b: "tx_begin E w = (Inr t, w1)"
    using assms(1) by (auto simp: tx_begin_def quiet_no_fault Let_def)
  from assms(2) [of t] tx_begin_Inr [OF b] have "fst (ReserveStockOnTx E cid q key t) = Inl e" by simp
  with b show ?thesis by (cases "ReserveStockOnTx E cid q key t") (simp add: repo_ReserveStockTx_def)
qed

lemma reserve_tx_mismatch:
  assumes "quiet E" "find_reservation key (w_db w) = Some r"
    "r_cabinet_id r \<noteq> cid \<or> of_int32 (r_quantity r) \<noteq> q"
  shows "fst (repo_ReserveStockTx E cid q key w) = Inl (CabErr ErrDuplicateReservation)"
  using assms by (intro reserve_tx_fst ReserveStockOnTx_mismatch) auto

lemma reserve_tx_short:
  assumes "quiet E" "schema_ok (w_db w)" "find_reservation key (w_db w) = None"
    "case stock_of (w_db w) cid of None \<Rightarrow> True | Some s \<Rightarrow> s < sint (to_int32 q)"
  shows "fst (repo_ReserveStockTx E cid q key w) = Inl (CabErr ErrInsufficientStock)"
  using assms by (intro reserve_tx_fst ReserveStockOnTx_short) (auto simp: schema_ok_def)

text \<open>When the tables accept a reservation, in terms of the stock.\<close>

lemma reserve_accepts_fresh:
  assumes "schema_ok d" "find_reservation key d = None" "stock_of d cid = Some s"
    "0 < sint (to_int32 q)" "sint (to_int32 q) \<le> s" "varchar 255 key"
  shows "reserve_accepts d cid q key"
proof -
  from assms(3) obtain c where c: "c \<in> set (cabinets d)" "c_id c = cid" "s = sint (c_quantity c)"
    by (auto simp: stock_of_def dest: find_Some_in)
  have "s < 2 ^ 31" using c(3) sint_32_bounds(2) [of "c_quantity c"] by simp
  then have "can_decrement d cid (to_int32 q)"
    using assms by (simp add: can_decrement_iff schema_ok_def)
  moreover have "varchar 36 cid" using assms(1) c(1,2) by (auto simp: schema_ok_def cabinets_ok_def)
  ultimately show ?thesis using assms(2,6) by (simp add: reserve_accepts_def)
qed

text \<open>What a reservation adds to the lookups by key.\<close>

lemma find_reservation_reserve_effect:
  "find_reservation key' (reserve_effect now cid q key d) =
     (case find_reservation key' d of Some r \<Rightarrow> Some r
      | None \<Rightarrow> if key' = key then Some (new_reservation now cid q key) else None)"
  by (simp add: find_reservation_def reserve_effect_def new_reservation_def find_key_append
      split: option.split)

lemma find_reservation_reserve_db:
  "find_reservation key' (reserve_db now cid q key d) =
     (case find_reservation key' d of Some r \<Rightarrow> Some r
      | None \<Rightarrow> if key' = key then Some (new_reservation now cid (to_int32 q) key) else None)"
  by (auto simp: reserve_db_def find_reservation_reserve_effect split: option.split)

end
