(* ===== verification/Order_Success.thy ===== *)
theory Order_Success
  imports Reserve_Outcome
begin

text \<open>
  The progress side of \<open>CreateOrderTx\<close>: in an environment without faults and with fresh
  identifiers, an order whose lines the tables accept is placed, and the refusals are the
  documented ones.  \<open>lines_accept\<close> is reduced to the stock of the cabinets when no cabinet
  occurs twice; when one does, only its first line takes units.
\<close>

section \<open>Lines in terms of stock\<close>

lemma stock_key_inject: "stock_key oid c = stock_key oid c' \<longleftrightarrow> c = c'"
  by (simp add: stock_key_def)

definition line_available :: "string \<Rightarrow> catalog_db \<Rightarrow> item_snapshot \<Rightarrow> bool" where
  "line_available oid d l \<longleftrightarrow>
     find_reservation (stock_key oid (snap_cabinetID l)) d = None
     \<and> 0 < sint (to_int32 (snap_quantity l)) \<and> varchar 255 (stock_key oid (snap_cabinetID l))
     \<and> (case stock_of d (snap_cabinetID l) of None \<Rightarrow> False
        | Some s \<Rightarrow> sint (to_int32 (snap_quantity l)) \<le> s)"

lemma line_available_accepts:
  "schema_ok d \<Longrightarrow> line_available oid d l \<Longrightarrow>
     reserve_accepts d (snap_cabinetID l) (snap_quantity l) (stock_key oid (snap_cabinetID l))"
  by (auto simp: line_available_def split: option.splits intro: reserve_accepts_fresh)

lemma line_available_later:
  assumes "schema_ok d" "line_available oid d l'" "snap_cabinetID l \<noteq> snap_cabinetID l'"
    "reserve_accepts d (snap_cabinetID l) q (stock_key oid (snap_cabinetID l))"
  shows "line_available oid (reserve_db now (snap_cabinetID l) q (stock_key oid (snap_cabinetID l)) d) l'"
  using assms
  by (simp add: line_available_def find_reservation_reserve_db stock_key_inject stock_reserve_db)

lemma lines_accept_available:
  "schema_ok d \<Longrightarrow> distinct (map snap_cabinetID ls) \<Longrightarrow> \<forall>l \<in> set ls. line_available oid d l \<Longrightarrow>
     lines_accept now oid ls d"
proof (induction ls arbitrary: d)
  case (Cons l ls)
  note acc = line_available_accepts [OF Cons.prems(1), of oid l]
  from Cons.prems acc show ?case
    by (auto intro!: Cons.IH schema_reserve_db line_available_later simp: image_iff)
qed simp

text \<open>The stock after the lines of an order without a repeated cabinet.\<close>

definition ordered_units :: "item_snapshot list \<Rightarrow> string \<Rightarrow> int" where
  "ordered_units ls cid =
     sum_where (\<lambda>l. snap_cabinetID l = cid) (\<lambda>l. sint (to_int32 (snap_quantity l))) ls"

lemma stock_lines_db:
  "schema_ok d \<Longrightarrow> lines_accept now oid ls d \<Longrightarrow> distinct (map snap_cabinetID ls) \<Longrightarrow>
   \<forall>l \<in> set ls. find_reservation (stock_key oid (snap_cabinetID l)) d = None \<Longrightarrow>
     stock_of (lines_db now oid ls d) x = map_option (\<lambda>s. s - ordered_units ls x) (stock_of d x)"
proof (induction ls arbitrary: d)
  case Nil
  then show ?case by (simp add: ordered_units_def option.map_ident)
next
  case (Cons l ls)
  let ?d = "reserve_db now (snap_cabinetID l) (snap_quantity l) (stock_key oid (snap_cabinetID l)) d"
  have "\<forall>l' \<in> set ls. find_reservation (stock_key oid (snap_cabinetID l')) ?d = None"
    using Cons.prems(3,4) by (auto simp: find_reservation_reserve_db stock_key_inject image_iff)
  with Cons.IH [of ?d] Cons.prems
  have "stock_of (lines_db now oid ls ?d) x = map_option (\<lambda>s. s - ordered_units ls x) (stock_of ?d x)"
    by (simp add: schema_reserve_db)
  moreover have "ordered_units ls x = 0" if "x = snap_cabinetID l"
  proof -
    have "filter (\<lambda>l. snap_cabinetID l = x) ls = []"
      using that Cons.prems(3) by (auto simp: filter_empty_conv image_iff)
    then show ?thesis by (simp add: ordered_units_def sum_where_def)
  qed
  ultimately show ?case
    using Cons.prems
    by (auto simp: stock_reserve_db ordered_units_def sum_where_Cons option.map_comp o_def
        diff_diff_eq)
qed

text \<open>A repeated line finds the reservation of the first and takes nothing.\<close>

lemma lines_db_repeated:
  assumes "find_reservation (stock_key oid (snap_cabinetID l)) d = Some r"
  shows "lines_db now oid (l # ls) d = lines_db now oid ls d"
  using assms by (simp add: reserve_db_def)

lemma reserve_db_found:
  "find_reservation key d \<noteq> None \<Longrightarrow> reserve_db now cid q key d = d"
  by (auto simp: reserve_db_def)

section \<open>Fresh identifiers\<close>

text \<open>The identifiers of the ticks from \<open>n\<close> up to \<open>m\<close> are distinct UUIDs that no table uses.
  A call for an order of \<open>k\<close> items uses fewer than \<open>6 * k + 8\<close> ticks.\<close>

definition uuid_fresh :: "env \<Rightarrow> nat \<Rightarrow> nat \<Rightarrow> catalog_db \<Rightarrow> bool" where
  "uuid_fresh E n m d \<longleftrightarrow> inj_on (env_uuid E) {n..<m}
     \<and> (\<forall>k \<in> {n..<m}. char_length (env_uuid E k) = 36 \<and> env_uuid E k \<notin> o_id ` set (orders d)
          \<and> env_uuid E k \<notin> oi_id ` set (order_items d) \<and> env_uuid E k \<notin> ob_id ` set (outbox d)
          \<and> (\<forall>r \<in> set (reservations d). \<forall>c. r_idempotency_key r \<noteq> stock_key (env_uuid E k) c))"

definition order_ticks :: "order_item_input list \<Rightarrow> nat" where
  "order_ticks items = 6 * length items + 8"

lemma uuid_freshD:
  assumes "uuid_fresh E n m d" "n \<le> k" "k < m"
  shows "char_length (env_uuid E k) = 36" "varchar 36 (env_uuid E k)"
    "env_uuid E k \<notin> o_id ` set (orders d)" "env_uuid E k \<notin> oi_id ` set (order_items d)"
    "env_uuid E k \<notin> ob_id ` set (outbox d)"
    "find_reservation (stock_key (env_uuid E k) c) d = None"
  using assms by (auto simp: uuid_fresh_def varchar_def find_reservation_def find_None_iff)

lemma uuid_fresh_mono: "uuid_fresh E n m d \<Longrightarrow> n \<le> n' \<Longrightarrow> uuid_fresh E n' m d"
  unfolding uuid_fresh_def by (auto intro: inj_on_subset)

lemma tx_run_tick: "tx_run E q t = (r, t') \<Longrightarrow> tx_tick t' = Suc (tx_tick t)"
  by (auto simp: tx_run_def Let_def split: if_splits option.splits prod.splits sum.splits)

lemma ReserveStockOnTx_tick: "ReserveStockOnTx E cid q key t = (r, t') \<Longrightarrow> tx_tick t' \<le> tx_tick t + 3"
  by (auto simp: ReserveStockOnTx_def split: prod.splits sum.splits if_splits dest!: tx_run_tick)

lemma reserve_items_tick: "reserve_items E oid ls t = (r, t') \<Longrightarrow> tx_tick t' \<le> tx_tick t + 3 * length ls"
proof (induction ls arbitrary: t)
  case Nil
  then show ?case by simp
next
  case (Cons l ls)
  obtain c t1 where r: "ReserveStockOnTx E (snap_cabinetID l) (snap_quantity l)
      (stock_key oid (snap_cabinetID l)) t = (c, t1)" by fastforce
  from ReserveStockOnTx_tick [OF r] Cons.IH [of t1] Cons.prems r show ?case
    by (cases c) fastforce+
qed

section \<open>Progress, step by step\<close>

lemma snapshot_items_quiet:
  "quiet E \<Longrightarrow> \<not> tx_failed t \<Longrightarrow> known_cabinets (tx_db t) items \<Longrightarrow>
     \<exists>r t'. snapshot_items E items tot t = (Inr r, t')"
proof (induction items arbitrary: tot t)
  case Nil
  then show ?case by simp
next
  case (Cons item rest)
  from Cons.prems(3) have "In_CabinetID item \<in> c_id ` set (cabinets (tx_db t))"
    by (simp add: known_cabinets_def)
  from quiet_GetCabinet [OF Cons.prems(1) this] obtain row where
    "q_GetCabinet E (In_CabinetID item) (tx_now t) (tx_db t) = (Inr row, tx_db t)" by blast
  then have g: "tx_run E (q_GetCabinet E (In_CabinetID item)) t = (Inr row, t\<lparr>tx_tick := Suc (tx_tick t)\<rparr>)"
    using Cons.prems by (simp add: tx_run_quiet quiet_no_fault)
  have "\<exists>r t'. snapshot_items E rest (tot + row_Price row * In_Quantity item)
      (t\<lparr>tx_tick := Suc (tx_tick t)\<rparr>) = (Inr r, t')"
    using Cons.prems by (intro Cons.IH) (simp_all add: known_cabinets_def)
  then obtain r t' where "snapshot_items E rest (tot + row_Price row * In_Quantity item)
      (t\<lparr>tx_tick := Suc (tx_tick t)\<rparr>) = (Inr r, t')" by blast
  with g show ?case by (cases r) simp
qed

lemma reserve_items_quiet:
  "quiet E \<Longrightarrow> schema_ok (tx_db t) \<Longrightarrow> \<not> tx_failed t \<Longrightarrow> lines_accept (tx_now t) oid ls (tx_db t) \<Longrightarrow>
     \<exists>t'. reserve_items E oid ls t = (Inr (), t')"
proof (induction ls arbitrary: t)
  case Nil
  then show ?case by simp
next
  case (Cons l ls)
  then obtain c t1 where
    r: "ReserveStockOnTx E (snap_cabinetID l) (snap_quantity l) (stock_key oid (snap_cabinetID l)) t
          = (Inr c, t1)"
    using ReserveStockOnTx_accepts by fastforce
  from ReserveStockOnTx_Inr [OF r] Cons.prems have "schema_ok (tx_db t1)" "\<not> tx_failed t1"
    "lines_accept (tx_now t1) oid ls (tx_db t1)"
    by (simp_all add: schema_reserve_db)
  with Cons.IH [of t1] Cons.prems(1) r show ?case by simp
qed

lemma insert_items_quiet:
  assumes "quiet E" "uuid_fresh E n m d0"
  shows "n \<le> tx_tick t \<Longrightarrow> tx_tick t + 2 * length ls \<le> m \<Longrightarrow> \<not> tx_failed t \<Longrightarrow>
    oi_id ` set (order_items (tx_db t)) \<subseteq> oi_id ` set (order_items d0) \<union> env_uuid E ` {n..<tx_tick t} \<Longrightarrow>
    varchar 36 oid \<Longrightarrow> oid \<in> o_id ` set (orders (tx_db t)) \<Longrightarrow>
    \<forall>l \<in> set ls. 0 < sint (to_int32 (snap_quantity l)) \<and> varchar 36 (snap_cabinetID l)
       \<and> snap_cabinetID l \<in> c_id ` set (cabinets (tx_db t)) \<Longrightarrow>
    \<exists>rows t'. insert_items E oid ls t = (Inr rows, t')"
proof (induction ls arbitrary: t)
  case Nil
  then show ?case by simp
next
  case (Cons l ls)
  let ?u = "env_uuid E (tx_tick t)"
  let ?row = "item_row oid ?u l"
  let ?t2 = "t\<lparr>tx_tick := Suc (Suc (tx_tick t)),
    tx_db := (tx_db t)\<lparr>order_items := order_items (tx_db t) @ [?row]\<rparr>\<rparr>"
  have lt: "tx_tick t < m" using Cons.prems(2) by simp
  have "?u \<notin> oi_id ` set (order_items d0)"
    using uuid_freshD [OF assms(2) Cons.prems(1) lt] by simp
  moreover have "?u \<notin> env_uuid E ` {n..<tx_tick t}"
    using assms(2) Cons.prems(1) lt by (auto simp: uuid_fresh_def dest: inj_onD)
  ultimately have "?u \<notin> oi_id ` set (order_items (tx_db t))" using Cons.prems(4) by blast
  then have q: "tx_run E (q_CreateOrderItem \<lparr>cip_ID = ?u, cip_OrderID = oid,
      cip_CabinetID = snap_cabinetID l, cip_Quantity = to_int32 (snap_quantity l),
      cip_UnitPriceCents = snap_unitPriceCents l\<rparr>) (t\<lparr>tx_tick := Suc (tx_tick t)\<rparr>) = (Inr (), ?t2)"
    using Cons.prems uuid_freshD(2) [OF assms(2) Cons.prems(1) lt] assms(1)
    by (simp add: tx_run_quiet quiet_no_fault q_CreateOrderItem_def Let_def order_item_violation_def
        item_row_def)
  have "\<exists>rows t'. insert_items E oid ls ?t2 = (Inr rows, t')"
    using Cons.prems by (intro Cons.IH) (auto simp: item_row_def)
  with q show ?case by (auto simp: tx_uuid_def)
qed

lemma write_outbox_quiet:
  assumes "quiet E" "\<not> tx_failed t" "\<And>s. env_jsonb_in E s \<noteq> None" "varchar 36 oid"
    "varchar 36 (env_uuid E (tx_tick t))" "env_uuid E (tx_tick t) \<notin> ob_id ` set (outbox (tx_db t))"
  shows "\<exists>t'. write_outbox E oid uid cents t = (Inr (), t')"
proof -
  let ?p = "\<lparr>Pay_EventID = env_uuid E (tx_tick t), Pay_OrderID = oid, Pay_UserID = uid,
    Pay_AmountCents = cents, Pay_OccurredAt = rfc3339 (env_now E (Suc (tx_tick t)))\<rparr>"
  obtain s where s: "marshal_payload ?p = Inr s" by (simp add: marshal_payload_def)
  obtain payload where "env_jsonb_in E s = Some payload" using assms(3) by fastforce
  then show ?thesis
    using assms s
    by (simp add: write_outbox_def tx_uuid_def tx_time_now_def tx_run_quiet quiet_no_fault
        q_InsertOutboxEvent_def Let_def outbox_violation_def)
qed

section \<open>The whole order\<close>

lemma stock_of_known:
  "schema_ok d \<Longrightarrow> stock_of d cid = Some s \<Longrightarrow> cid \<in> c_id ` set (cabinets d) \<and> varchar 36 cid"
  by (auto simp: stock_of_def schema_ok_def cabinets_ok_def dest: find_Some_in)

lemma stock_key_varchar:
  "char_length oid = 36 \<Longrightarrow> varchar 36 cid \<Longrightarrow> varchar 255 (stock_key oid cid)"
  by (simp add: varchar_def stock_key_def char_length_def byte_def)

lemma place_order_quiet:
  assumes E: "quiet E" "\<And>s. env_jsonb_in E s \<noteq> None" "uuid_fresh E (tx_tick t) m (tx_db t)" "tx_tick t + 6 * length items + 6 \<le> m"
    and t: "schema_ok (tx_db t)" "\<not> tx_failed t"
    and key: "varchar 255 key" "key \<notin> o_idempotency_key ` set (orders (tx_db t))"
    and known: "known_cabinets (tx_db t) items"
    and pos: "\<forall>i \<in> set items. 0 < sint (to_int32 (In_Quantity i))"
    and acc: "lines_accept (tx_now t) (env_uuid E (tx_tick t + length items))
      (map (snapshot_of (tx_db t)) items) (tx_db t)"
  shows "\<exists>ord t'. place_order E uid items key t = (Inr ord, t')
    \<and> Ord_ID ord = env_uuid E (tx_tick t + length items)"
proof -
  obtain ls cents t1 where s: "snapshot_items E items 0 t = (Inr (ls, cents), t1)"
    using snapshot_items_quiet [OF E(1) t(2) known] by fastforce
  note S = snapshot_items_Inr [OF s]
  let ?n = "tx_tick t1"
  let ?oid = "env_uuid E ?n" and ?t2 = "t1\<lparr>tx_tick := Suc (tx_tick t1)\<rparr>"
  have n: "?n = tx_tick t + length items" using S by simp
  have oid: "varchar 36 ?oid" "?oid \<notin> o_id ` set (orders (tx_db t))"
    using uuid_freshD [OF E(3), of ?n] E(4) n by simp_all
  obtain t3 where r: "reserve_items E ?oid ls ?t2 = (Inr (), t3)"
    using reserve_items_quiet [of E ?t2 ?oid ls] E(1) t S acc n by auto
  note R = reserve_items_Inr [OF r]
  have tick3: "tx_tick t3 \<le> tx_tick t + 4 * length items + 1"
    using reserve_items_tick [OF r] S n by simp
  let ?row = "new_order (tx_now t) ?oid uid key cents"
  let ?t4 = "t3\<lparr>tx_tick := Suc (tx_tick t3), tx_db := (tx_db t3)\<lparr>orders := orders (tx_db t3) @ [?row]\<rparr>\<rparr>"
  have q: "tx_run E (q_CreateOrder \<lparr>cop_ID = ?oid, cop_UserID = uid, cop_Status = StatusPendingPayment,
      cop_TotalCents = cents, cop_IdempotencyKey = key\<rparr>) t3 = (Inr ?row, ?t4)"
    using E(1) R S t oid key
    by (simp add: tx_run_quiet quiet_no_fault q_CreateOrder_def Let_def order_violation_def
        new_order_def order_status_values_def StatusPendingPayment_def)
  have cabs: "\<forall>l \<in> set ls. 0 < sint (to_int32 (snap_quantity l)) \<and> varchar 36 (snap_cabinetID l)
       \<and> snap_cabinetID l \<in> c_id ` set (cabinets (tx_db ?t4))"
    using S R pos known t(1)
    by (auto simp: snapshot_of_def known_cabinets_def schema_ok_def cabinets_ok_def)
  obtain rows t5 where ins: "insert_items E ?oid ls ?t4 = (Inr rows, t5)"
    using insert_items_quiet [OF E(1) E(3), of ?t4 ls ?oid] S R t oid cabs tick3 E(4) n
    by (auto simp: new_order_def)
  note N = insert_items_Inr [OF ins]
  have "tx_tick t \<le> tx_tick t5" "tx_tick t5 < m" using N R n S tick3 E(4) by simp_all
  note last = uuid_freshD [OF E(3) this]
  have "\<exists>t'. write_outbox E ?oid uid cents t5 = (Inr (), t')"
    using E N R S t oid last by (intro write_outbox_quiet) auto
  with s r q ins n show ?thesis
    by (auto simp: place_order_def tx_uuid_def Let_def mapOrderToDomain_def new_order_def)
qed

lemma create_order_quiet:
  assumes E: "quiet E" "\<And>s. env_jsonb_in E s \<noteq> None" "uuid_fresh E (w_tick w) (w_tick w + order_ticks items) (w_db w)"
    and d: "schema_ok (w_db w)" "varchar 255 key" "order_of_key key (w_db w) = None"
    and items: "known_cabinets (w_db w) items" "\<forall>i \<in> set items. 0 < sint (to_int32 (In_Quantity i))"
    and acc: "lines_accept (env_now E (w_tick w)) (env_uuid E (w_tick w + 2 + length items))
      (map (snapshot_of (w_db w)) items) (w_db w)"
  shows "\<exists>ord w'. repo_CreateOrderTx E uid items key w = (Inr ord, w')
    \<and> Ord_ID ord = env_uuid E (w_tick w + 2 + length items)"
proof -
  obtain t w1 where b: "tx_begin E w = (Inr t, w1)"
    using E(1) by (auto simp: tx_begin_def quiet_no_fault Let_def)
  note B = tx_begin_Inr [OF b]
  let ?t1 = "t\<lparr>tx_tick := Suc (tx_tick t)\<rparr>"
  have g: "tx_run E (q_GetOrderByItempotencyKey key) t = (Inl ErrNoRows, ?t1)"
    using E(1) B d(3) by (simp add: tx_run_quiet quiet_no_fault q_GetOrderByItempotencyKey_eq)
  have fresh: "key \<notin> o_idempotency_key ` set (orders (w_db w))"
    using d(3) find_None_iff_notin [of o_idempotency_key key "orders (w_db w)"]
    by (simp add: order_of_key_def)
  have "uuid_fresh E (tx_tick ?t1) (w_tick w + order_ticks items) (tx_db ?t1)"
    using uuid_fresh_mono [OF E(3), of "tx_tick ?t1"] B by simp
  then obtain ord t2 where p: "place_order E uid items key ?t1 = (Inr ord, t2)"
      "Ord_ID ord = env_uuid E (w_tick w + 2 + length items)"
    using place_order_quiet [of E ?t1 "w_tick w + order_ticks items" items key uid] E(1,2) B d items fresh acc
    by (auto simp: order_ticks_def)
  with place_order_Inr(3) [OF p(1)] b g E(1) show ?thesis
    by (simp add: repo_CreateOrderTx_def tx_commit_def quiet_no_fault Let_def)
qed

lemma create_order_replay:
  assumes "quiet E" "order_of_key key (w_db w) = Some o1"
  shows "fst (repo_CreateOrderTx E uid items key w) =
    (if replay_matches (w_db w) uid items o1
     then Inr (mapOrderToDomain o1 (items_of (o_id o1) (w_db w)))
     else Inl (OrdErr ErrDuplicateOrder))"
    "w_db (snd (repo_CreateOrderTx E uid items key w)) = w_db w"
proof -
  obtain t w1 where b: "tx_begin E w = (Inr t, w1)"
    using assms(1) by (auto simp: tx_begin_def quiet_no_fault Let_def)
  note B = tx_begin_Inr [OF b]
  let ?t1 = "t\<lparr>tx_tick := Suc (tx_tick t)\<rparr>"
  have "tx_run E (q_GetOrderByItempotencyKey key) t = (Inr o1, ?t1)"
    using assms B by (simp add: tx_run_quiet quiet_no_fault q_GetOrderByItempotencyKey_eq)
  moreover have "fst (replay_order E uid items o1 ?t1) =
    (if replay_matches (w_db w) uid items o1
     then Inr (mapOrderToDomain o1 (items_of (o_id o1) (w_db w)))
     else Inl (OrdErr ErrDuplicateOrder))"
    using replay_order_quiet [OF assms(1), of ?t1] B by simp
  ultimately show "fst (repo_CreateOrderTx E uid items key w) =
    (if replay_matches (w_db w) uid items o1
     then Inr (mapOrderToDomain o1 (items_of (o_id o1) (w_db w)))
     else Inl (OrdErr ErrDuplicateOrder))"
    "w_db (snd (repo_CreateOrderTx E uid items key w)) = w_db w"
    using b B by (simp_all add: repo_CreateOrderTx_def case_prod_unfold)
qed

section \<open>The refusals\<close>

lemma snapshot_items_unknown:
  "quiet E \<Longrightarrow> \<not> tx_failed t \<Longrightarrow> \<not> known_cabinets (tx_db t) items \<Longrightarrow>
     fst (snapshot_items E items tot t) = Inl (CabErr ErrNotFound)"
proof (induction items arbitrary: tot t)
  case Nil
  then show ?case by (simp add: known_cabinets_def)
next
  case (Cons item rest)
  let ?t1 = "t\<lparr>tx_tick := Suc (tx_tick t)\<rparr>"
  show ?case
  proof (cases "In_CabinetID item \<in> c_id ` set (cabinets (tx_db t))")
    case False
    then have "find (\<lambda>c. c_id c = In_CabinetID item) (cabinets (tx_db t)) = None"
      using find_None_iff_notin [of c_id "In_CabinetID item" "cabinets (tx_db t)"] by simp
    with Cons.prems show ?thesis by (simp add: tx_run_quiet quiet_no_fault q_GetCabinet_def)
  next
    case True
    from quiet_GetCabinet [OF Cons.prems(1) this] obtain row where
      "q_GetCabinet E (In_CabinetID item) (tx_now t) (tx_db t) = (Inr row, tx_db t)" by blast
    then have g: "tx_run E (q_GetCabinet E (In_CabinetID item)) t = (Inr row, ?t1)"
      using Cons.prems by (simp add: tx_run_quiet quiet_no_fault)
    have "fst (snapshot_items E rest (tot + row_Price row * In_Quantity item) ?t1)
        = Inl (CabErr ErrNotFound)"
      using Cons.prems True by (intro Cons.IH) (simp_all add: known_cabinets_def)
    with g show ?thesis
      by (cases "snapshot_items E rest (tot + row_Price row * In_Quantity item) ?t1") simp
  qed
qed

definition line_short :: "catalog_db \<Rightarrow> item_snapshot \<Rightarrow> bool" where
  "line_short d l \<longleftrightarrow> (case stock_of d (snap_cabinetID l) of None \<Rightarrow> True
     | Some s \<Rightarrow> s < sint (to_int32 (snap_quantity l)))"

lemma reserve_items_short:
  "quiet E \<Longrightarrow> schema_ok (tx_db t) \<Longrightarrow> \<not> tx_failed t \<Longrightarrow> distinct (map snap_cabinetID ls) \<Longrightarrow>
   \<forall>l \<in> set ls. line_available oid (tx_db t) l
     \<or> line_short (tx_db t) l \<and> find_reservation (stock_key oid (snap_cabinetID l)) (tx_db t) = None \<Longrightarrow>
   \<exists>l \<in> set ls. line_short (tx_db t) l \<Longrightarrow>
     fst (reserve_items E oid ls t) = Inl (CabErr ErrInsufficientStock)"
proof (induction ls arbitrary: t)
  case Nil
  then show ?case by simp
next
  case (Cons l ls)
  let ?key = "stock_key oid (snap_cabinetID l)"
  show ?case
  proof (cases "line_short (tx_db t) l")
    case True
    then have "\<not> line_available oid (tx_db t) l"
      by (auto simp: line_available_def line_short_def split: option.splits)
    with Cons.prems True have "fst (ReserveStockOnTx E (snap_cabinetID l) (snap_quantity l) ?key t)
        = Inl (CabErr ErrInsufficientStock)"
      by (intro ReserveStockOnTx_short) (simp_all add: line_short_def schema_ok_def)
    then show ?thesis
      by (cases "ReserveStockOnTx E (snap_cabinetID l) (snap_quantity l) ?key t") simp
  next
    case False
    with Cons.prems have av: "line_available oid (tx_db t) l" by simp
    note acc = line_available_accepts [OF Cons.prems(2) av]
    obtain c t1 where r: "ReserveStockOnTx E (snap_cabinetID l) (snap_quantity l) ?key t = (Inr c, t1)"
      using ReserveStockOnTx_accepts [OF Cons.prems(1-3) acc] by blast
    note R = ReserveStockOnTx_Inr [OF r]
    have later: "(line_available oid (tx_db t) l' \<longrightarrow> line_available oid (tx_db t1) l')
        \<and> line_short (tx_db t1) l' = line_short (tx_db t) l'
        \<and> (find_reservation (stock_key oid (snap_cabinetID l')) (tx_db t) = None \<longrightarrow>
            find_reservation (stock_key oid (snap_cabinetID l')) (tx_db t1) = None)"
      if "l' \<in> set ls" for l'
    proof -
      have ne: "snap_cabinetID l \<noteq> snap_cabinetID l'" using that Cons.prems(4) by auto
      then show ?thesis
        using R acc Cons.prems(2) line_available_later [OF Cons.prems(2) _ ne acc]
        by (simp add: line_short_def stock_reserve_db find_reservation_reserve_db stock_key_inject)
    qed
    have "fst (reserve_items E oid ls t1) = Inl (CabErr ErrInsufficientStock)"
    proof (rule Cons.IH)
      show "schema_ok (tx_db t1)" "\<not> tx_failed t1"
        using R acc Cons.prems(2) by (simp_all add: schema_reserve_db)
      show "\<forall>l' \<in> set ls. line_available oid (tx_db t1) l' \<or> line_short (tx_db t1) l'
          \<and> find_reservation (stock_key oid (snap_cabinetID l')) (tx_db t1) = None"
        using Cons.prems(5) later by (meson list.set_intros(2))
      show "\<exists>l' \<in> set ls. line_short (tx_db t1) l'"
        using Cons.prems(6) False later by auto
    qed (use Cons.prems in auto)
    with r show ?thesis by simp
  qed
qed

lemma create_order_place_error:
  assumes "quiet E" "order_of_key key (w_db w) = None"
    "\<And>t. tx_db t = w_db w \<Longrightarrow> \<not> tx_failed t \<Longrightarrow> tx_tick t = w_tick w + 2 \<Longrightarrow>
       fst (place_order E uid items key t) = Inl e"
  shows "fst (repo_CreateOrderTx E uid items key w) = Inl e"
proof -
  obtain t w1 where b: "tx_begin E w = (Inr t, w1)"
    using assms(1) by (auto simp: tx_begin_def quiet_no_fault Let_def)
  note B = tx_begin_Inr [OF b]
  let ?t1 = "t\<lparr>tx_tick := Suc (tx_tick t)\<rparr>"
  have "tx_run E (q_GetOrderByItempotencyKey key) t = (Inl ErrNoRows, ?t1)"
    using assms(1,2) B by (simp add: tx_run_quiet quiet_no_fault q_GetOrderByItempotencyKey_eq)
  moreover have "fst (place_order E uid items key ?t1) = Inl e"
    using B by (intro assms(3)) simp_all
  ultimately show ?thesis
    using b by (cases "place_order E uid items key ?t1") (simp add: repo_CreateOrderTx_def)
qed

lemma create_order_unknown:
  assumes "quiet E" "order_of_key key (w_db w) = None" "\<not> known_cabinets (w_db w) items"
  shows "fst (repo_CreateOrderTx E uid items key w) = Inl (CabErr ErrNotFound)"
proof (rule create_order_place_error [OF assms(1,2)])
  fix t :: tx assume "tx_db t = w_db w" "\<not> tx_failed t"
  then show "fst (place_order E uid items key t) = Inl (CabErr ErrNotFound)"
    using snapshot_items_unknown [OF assms(1), of t items 0] assms(3)
    by (cases "snapshot_items E items 0 t") (simp add: place_order_def)
qed

lemma create_order_short:
  assumes "quiet E" "schema_ok (w_db w)" "order_of_key key (w_db w) = None"
    "uuid_fresh E (w_tick w) (w_tick w + order_ticks items) (w_db w)" "known_cabinets (w_db w) items"
    "distinct (map In_CabinetID items)" "\<forall>i \<in> set items. 0 < sint (to_int32 (In_Quantity i))"
    "\<exists>i \<in> set items. line_short (w_db w) (snapshot_of (w_db w) i)"
  shows "fst (repo_CreateOrderTx E uid items key w) = Inl (CabErr ErrInsufficientStock)"
proof (rule create_order_place_error [OF assms(1,3)])
  fix t :: tx assume t: "tx_db t = w_db w" "\<not> tx_failed t" "tx_tick t = w_tick w + 2"
  obtain ls cents t1 where s: "snapshot_items E items 0 t = (Inr (ls, cents), t1)"
    using snapshot_items_quiet [OF assms(1) t(2), of items 0] assms(5) t(1) by fastforce
  note S = snapshot_items_Inr [OF s]
  let ?oid = "env_uuid E (tx_tick t1)"
  have oid: "char_length ?oid = 36" "\<And>c. find_reservation (stock_key ?oid c) (w_db w) = None"
    using uuid_freshD [OF assms(4), of "tx_tick t1"] S t by (simp_all add: order_ticks_def)
  have cab: "varchar 36 (snap_cabinetID l)" "stock_of (w_db w) (snap_cabinetID l) \<noteq> None"
    if "l \<in> set ls" for l
  proof -
    have "snap_cabinetID l \<in> c_id ` set (cabinets (w_db w))"
      using that S t(1) assms(5) by (auto simp: known_cabinets_def snapshot_of_def)
    with assms(2) show "varchar 36 (snap_cabinetID l)" "stock_of (w_db w) (snap_cabinetID l) \<noteq> None"
      using find_None_iff_notin [of c_id "snap_cabinetID l" "cabinets (w_db w)"]
      by (auto simp: schema_ok_def cabinets_ok_def stock_of_def)
  qed
  have "fst (reserve_items E ?oid ls (t1\<lparr>tx_tick := Suc (tx_tick t1)\<rparr>))
      = Inl (CabErr ErrInsufficientStock)"
  proof (rule reserve_items_short [OF assms(1)])
    show "distinct (map snap_cabinetID ls)" using S assms(6) by (simp add: snapshot_of_def o_def)
    show "\<exists>l \<in> set ls. line_short (tx_db (t1\<lparr>tx_tick := Suc (tx_tick t1)\<rparr>)) l"
      using S t(1) assms(8) by auto
    show "\<forall>l \<in> set ls. line_available ?oid (tx_db (t1\<lparr>tx_tick := Suc (tx_tick t1)\<rparr>)) l
        \<or> line_short (tx_db (t1\<lparr>tx_tick := Suc (tx_tick t1)\<rparr>)) l
          \<and> find_reservation (stock_key ?oid (snap_cabinetID l)) (tx_db (t1\<lparr>tx_tick := Suc (tx_tick t1)\<rparr>)) = None"
    proof
      fix l assume l: "l \<in> set ls"
      have "0 < sint (to_int32 (snap_quantity l))" using l S assms(7) by (auto simp: snapshot_of_def)
      with cab [OF l] oid S t(1) show "line_available ?oid (tx_db (t1\<lparr>tx_tick := Suc (tx_tick t1)\<rparr>)) l
        \<or> line_short (tx_db (t1\<lparr>tx_tick := Suc (tx_tick t1)\<rparr>)) l
          \<and> find_reservation (stock_key ?oid (snap_cabinetID l)) (tx_db (t1\<lparr>tx_tick := Suc (tx_tick t1)\<rparr>)) = None"
        by (auto simp: line_available_def line_short_def stock_key_varchar)
    qed
  qed (use S t assms(2) in auto)
  with s show "fst (place_order E uid items key t) = Inl (CabErr ErrInsufficientStock)"
    by (cases "reserve_items E ?oid ls (t1\<lparr>tx_tick := Suc (tx_tick t1)\<rparr>)")
      (simp add: place_order_def tx_uuid_def)
qed

end
