(* ===== verification/Catalog_System.thy ===== *)
theory Catalog_System
  imports Grpc_Handler Outbox_Postgres Startup
begin

text \<open>
  The catalog as a whole: the handlers, the outbox worker and the start of the process
  over one database, as a step relation whose steps are whole calls.  Its invariant
  collects what every reachable state satisfies, in every environment: the schema, one
  event per order, exact totals, and that a published event was delivered and only events
  of orders were.
\<close>

type_synonym catalog_state = "(world, (string \<times> string) list) worker"

inductive sys_step :: "env \<Rightarrow> catalog_state \<Rightarrow> catalog_state \<Rightarrow> bool" for E where
  reserve: "h_ReserveStock (postgres_repository E) req1 (wk_store s) = (r1, w') \<Longrightarrow>
    sys_step E s (s\<lparr>wk_store := w'\<rparr>)"
| create: "h_CreateOrder (postgres_repository E) ctx req2 (wk_store s) = (r2, w') \<Longrightarrow>
    sys_step E s (s\<lparr>wk_store := w'\<rparr>)"
| list: "h_ListCabinets (postgres_repository E) (wk_store s) = (r3, w') \<Longrightarrow>
    sys_step E s (s\<lparr>wk_store := w'\<rparr>)"
| get: "h_GetCabinet (postgres_repository E) req4 (wk_store s) = (r4, w') \<Longrightarrow>
    sys_step E s (s\<lparr>wk_store := w'\<rparr>)"
| get_order: "h_GetOrder (postgres_repository E) req5 (wk_store s) = (r5, w') \<Longrightarrow>
    sys_step E s (s\<lparr>wk_store := w'\<rparr>)"
| batch: "sys_step E s (ProcessBatch (postgres_repository E) log_publisher s)"
| boot: "seedCabinets E (wk_store s) = (m, w') \<Longrightarrow> sys_step E s (s\<lparr>wk_store := w'\<rparr>)"

inductive_cases sys_stepE: "sys_step E s s'"

text \<open>Right after the migrations.\<close>

definition initial_state :: catalog_state where
  "initial_state = \<lparr>wk_store = \<lparr>w_db = empty_db, w_tick = 0\<rparr>, wk_publisher = [], wk_log = []\<rparr>"

definition reachable :: "env \<Rightarrow> catalog_state \<Rightarrow> bool" where
  "reachable E s \<longleftrightarrow> (sys_step E)\<^sup>*\<^sup>* initial_state s"

section \<open>What a call does to the store\<close>

lemma h_ReserveStock_store:
  assumes "h_ReserveStock R req w = (r, w')"
  shows "w' = w \<or> (\<exists>q key r0. ReserveStockTx R (Pbrq_CabinetId req) q key w = (r0, w'))"
  using assms
  by (auto simp: h_ReserveStock_def uc_ReserveStockTx_def split: prod.splits sum.splits if_splits)

lemma item_payload_fits: "fits_int32 (map item_payload items)"
  by (simp add: fits_int32_def item_payload_def)

lemma h_CreateOrder_store:
  assumes "h_CreateOrder R ctx req w = (r, w')"
  shows "w' = w \<or> (\<exists>u items r0. fits_int32 items
    \<and> CreateOrderTx R u items (Pbcq_IdempotencyKey req) w = (r0, w'))"
proof -
  let ?items = "map item_payload (Pbcq_Items req)" and ?u = "normalize_user (extractUserIDFromContext ctx)"
  have "w' = w \<or> (\<exists>r0. CreateOrderTx R ?u ?items (Pbcq_IdempotencyKey req) w = (r0, w'))"
    using assms by (auto simp: h_CreateOrder_def uc_CreateOrder_def Let_def
        split: prod.splits sum.splits if_splits)
  then show ?thesis using item_payload_fits by blast
qed

lemma h_reads_store:
  "h_ListCabinets (postgres_repository E) w = (r1, w') \<Longrightarrow> w_db w' = w_db w"
  "h_GetCabinet (postgres_repository E) q1 w = (r2, w') \<Longrightarrow> w_db w' = w_db w"
  "h_GetOrder (postgres_repository E) q2 w = (r3, w') \<Longrightarrow> w_db w' = w_db w"
  using pg.h_reads_keep_view by metis+

text \<open>The worker writes only through \<open>MarkOutboxEventPublished\<close>.\<close>

lemma ProcessBatch_keeps:
  assumes mark: "\<And>eid w r w'. repo_MarkOutboxEventPublished E eid w = (r, w') \<Longrightarrow> P (w_db w) \<Longrightarrow> P (w_db w')"
    and P: "P (w_db (wk_store s))"
  shows "P (w_db (wk_store (ProcessBatch (postgres_repository E) pub s)))"
proof -
  have event: "P (w_db (wk_store s)) \<Longrightarrow> P (w_db (wk_store (process_event (postgres_repository E) pub ev s)))"
    for ev s
    by (auto simp: process_event_def log_error_def split: option.splits prod.splits sum.splits dest: mark)
  have events: "P (w_db (wk_store s)) \<Longrightarrow> P (w_db (wk_store (process_events (postgres_repository E) pub evs s)))"
    for evs s
    by (induction evs arbitrary: s) (simp_all add: event)
  show ?thesis
    using P by (auto simp: ProcessBatch_def log_error_def split: prod.splits sum.splits
        dest!: repo_reads_keep_db(4) intro!: events)
qed

text \<open>The parts of the event rows that publication does not touch.\<close>

definition event_core :: "db_outbox \<Rightarrow> string \<times> string \<times> string \<times> string" where
  "event_core e = (ob_id e, ob_aggregate_id e, ob_event_type e, ob_payload e)"

lemma mark_core:
  assumes "repo_MarkOutboxEventPublished E eid w = (r, w')"
  shows "map event_core (outbox (w_db w')) = map event_core (outbox (w_db w))"
  using repo_Mark_cases [OF assms]
  by (auto simp: q_MarkOutboxEventPublished_def event_core_def map_update_where)

lemma ProcessBatch_core:
  "map event_core (outbox (w_db (wk_store (ProcessBatch (postgres_repository E) pub s))))
     = map event_core (outbox (w_db (wk_store s)))"
  by (rule ProcessBatch_keeps [where P = "\<lambda>d. map event_core (outbox d) = map event_core (outbox (w_db (wk_store s)))"])
    (simp_all add: mark_core)

section \<open>Delivery\<close>

definition event_text :: "db_outbox \<Rightarrow> string \<times> string" where
  "event_text e = (ob_event_type e, ob_payload e)"

definition delivery_ok :: "catalog_db \<Rightarrow> (string \<times> string) list \<Rightarrow> bool" where
  "delivery_ok d log \<longleftrightarrow>
     (\<forall>e \<in> set (outbox d). ob_published_at e \<noteq> None \<longrightarrow> event_text e \<in> set log)
     \<and> set log \<subseteq> event_text ` set (outbox d)"

lemma core_text: "event_core e = event_core e' \<Longrightarrow> event_text e = event_text e' \<and> ob_id e = ob_id e'"
  by (simp add: event_core_def event_text_def)

lemma message_of_row: "event_message (mapOutboxEventToDomain (scan_outbox_row r)) = event_text r"
  by (simp add: event_message_def event_text_def mapOutboxEventToDomain_def scan_outbox_row_def)

lemma event_core_image: "event_text ` set es = (\<lambda>(i, a, t, p). (t, p)) ` event_core ` set es"
  by (force simp: event_text_def event_core_def)

lemma batch_delivery_ok:
  assumes ok: "schema_ok (w_db (wk_store s))" and del: "delivery_ok (w_db (wk_store s)) (wk_publisher s)"
    and s'_def: "s' = ProcessBatch (postgres_repository E) log_publisher s"
  shows "delivery_ok (w_db (wk_store s')) (wk_publisher s')"
proof -
  let ?d = "w_db (wk_store s)" and ?d' = "w_db (wk_store s')"
  have inv: "pg_outbox_inv (wk_store s)" using ok by (simp add: pg_outbox_inv_def schema_ok_def)
  obtain xs where xs: "wk_publisher s' = wk_publisher s @ xs"
    "set xs \<subseteq> event_message ` set (take 25 (pg_pending (wk_store s)))"
    "\<forall>ev \<in> set (pg_pending (wk_store s)) - set (pg_pending (wk_store s')). event_message ev \<in> set xs"
    using pgworker.ProcessBatch_delivery [OF inv, of E] unfolding s'_def by auto
  have core: "map event_core (outbox ?d') = map event_core (outbox ?d)"
    unfolding s'_def by (rule ProcessBatch_core)
  then have texts: "event_text ` set (outbox ?d') = event_text ` set (outbox ?d)"
    unfolding event_core_image by (metis list.set_map)
  have pend: "pg_pending w = map (\<lambda>r. mapOutboxEventToDomain (scan_outbox_row r)) (unpublished (w_db w))" for w
    by (simp add: pg_pending_def)
  have unp: "set (unpublished d) = {r \<in> set (outbox d). ob_published_at r = None}" for d
    by (simp add: unpublished_def)
  have "event_text e' \<in> set (wk_publisher s')" if e': "e' \<in> set (outbox ?d')" "ob_published_at e' \<noteq> None" for e'
  proof -
    from e'(1) obtain k where k: "k < length (outbox ?d')" "e' = outbox ?d' ! k" by (auto simp: in_set_conv_nth)
    have len: "length (outbox ?d') = length (outbox ?d)" using core by (metis length_map)
    let ?e = "outbox ?d ! k"
    have e: "?e \<in> set (outbox ?d)" "event_core ?e = event_core e'"
      using k len core by (auto dest: arg_cong [where f = "\<lambda>xs. xs ! k"])
    show ?thesis
    proof (cases "ob_published_at ?e")
      case (Some t)
      with del e have "event_text ?e \<in> set (wk_publisher s)" by (auto simp: delivery_ok_def)
      with core_text [OF e(2)] xs(1) show ?thesis by simp
    next
      case None
      let ?ev = "mapOutboxEventToDomain (scan_outbox_row ?e)"
      have "?ev \<in> set (pg_pending (wk_store s))" using e(1) None by (auto simp: pend unp)
      moreover have "?ev \<notin> set (pg_pending (wk_store s'))"
      proof
        assume "?ev \<in> set (pg_pending (wk_store s'))"
        then obtain r where r: "r \<in> set (outbox ?d')" "ob_published_at r = None"
          "?ev = mapOutboxEventToDomain (scan_outbox_row r)" by (auto simp: pend unp)
        then have "ob_id r = ob_id e'" using core_text [OF e(2)] by (metis outbox_event_id)
        moreover have "distinct (map ob_id (outbox ?d'))"
          using pgworker.ProcessBatch_inv [OF inv, of E] by (simp add: s'_def pg_outbox_inv_def outbox_ok_def)
        ultimately have "r = e'" using r(1) e'(1) by (simp add: distinct_map inj_on_def)
        with r(2) e'(2) show False by simp
      qed
      ultimately have "event_message ?ev \<in> set xs" using xs(3) by blast
      with core_text [OF e(2)] xs(1) show ?thesis by (simp add: message_of_row)
    qed
  qed
  moreover have "set (wk_publisher s') \<subseteq> event_text ` set (outbox ?d')"
  proof -
    have "set xs \<subseteq> event_message ` set (pg_pending (wk_store s))"
      using xs(2) set_take_subset by fast
    also have "\<dots> \<subseteq> event_text ` set (outbox ?d)" by (auto simp: pend unp message_of_row)
    finally show ?thesis using del xs(1) texts by (simp add: delivery_ok_def)
  qed
  ultimately show ?thesis by (auto simp: delivery_ok_def)
qed

section \<open>The invariant\<close>

definition catalog_inv :: "catalog_state \<Rightarrow> bool" where
  "catalog_inv s \<longleftrightarrow> schema_ok (w_db (wk_store s)) \<and> outbox_mirrors (w_db (wk_store s))
     \<and> totals_ok (w_db (wk_store s)) \<and> delivery_ok (w_db (wk_store s)) (wk_publisher s)"

lemma delivery_ok_append:
  "delivery_ok d log \<Longrightarrow> outbox d' = outbox d @ new \<Longrightarrow> \<forall>e \<in> set new. ob_published_at e = None \<Longrightarrow>
     delivery_ok d' log"
  by (auto simp: delivery_ok_def)

lemma order_placed_outbox:
  assumes "order_placed E now uid items key d ord d'"
  shows "\<exists>ev. outbox d' = outbox d @ [ev] \<and> ob_published_at ev = None"
  using assms by (rule order_placedE) (simp add: order_effect_def Let_def new_event_def)

lemma catalog_inv_same: "w_db w' = w_db (wk_store s) \<Longrightarrow> catalog_inv s \<Longrightarrow> catalog_inv (s\<lparr>wk_store := w'\<rparr>)"
  by (simp add: catalog_inv_def)

lemma catalog_inv_reserve:
  assumes "h_ReserveStock (postgres_repository E) req (wk_store s) = (r, w')" "catalog_inv s"
  shows "catalog_inv (s\<lparr>wk_store := w'\<rparr>)"
proof -
  from h_ReserveStock_store [OF assms(1)] show ?thesis
  proof (elim disjE exE)
    assume "w' = wk_store s"
    with assms(2) show ?thesis by (simp add: catalog_inv_same)
  next
    fix q key r0
    assume "ReserveStockTx (postgres_repository E) (Pbrq_CabinetId req) q key (wk_store s) = (r0, w')"
    then have tx: "repo_ReserveStockTx E (Pbrq_CabinetId req) q key (wk_store s) = (r0, w')" by simp
    have "outbox (w_db w') = outbox (w_db (wk_store s))"
      using tx by (cases r0) (auto dest!: reserve_tx_Inl reserve_tx_Inr(2))
    with assms(2) show ?thesis
      using schema.repo_ReserveStockTx_keeps [OF tx] mirror.reserve_keeps [OF tx] totals.reserve_keeps [OF tx]
      by (simp add: catalog_inv_def delivery_ok_def)
  qed
qed

lemma catalog_inv_create:
  assumes "h_CreateOrder (postgres_repository E) ctx req (wk_store s) = (r, w')" "catalog_inv s"
  shows "catalog_inv (s\<lparr>wk_store := w'\<rparr>)"
proof -
  from h_CreateOrder_store [OF assms(1)] show ?thesis
  proof (elim disjE exE conjE)
    assume "w' = wk_store s"
    with assms(2) show ?thesis by (simp add: catalog_inv_same)
  next
    fix u items r0
    assume fits: "fits_int32 items"
      and "CreateOrderTx (postgres_repository E) u items (Pbcq_IdempotencyKey req) (wk_store s) = (r0, w')"
    then have tx: "repo_CreateOrderTx E u items (Pbcq_IdempotencyKey req) (wk_store s) = (r0, w')" by simp
    have "outbox (w_db w') = outbox (w_db (wk_store s))
        \<or> (\<exists>ev. outbox (w_db w') = outbox (w_db (wk_store s)) @ [ev] \<and> ob_published_at ev = None)"
      using tx by (cases r0) (auto dest!: create_order_Inl create_order_Inr order_placed_outbox)
    then have "delivery_ok (w_db w') (wk_publisher s)"
      using assms(2) by (auto simp: catalog_inv_def intro: delivery_ok_append [where new = "[]"] delivery_ok_append)
    with assms(2) fits show ?thesis
      using schema.repo_CreateOrderTx_keeps [OF tx] mirror.create_order_keeps [OF tx]
        totals.create_order_keeps [OF tx]
      by (simp add: catalog_inv_def)
  qed
qed

lemma catalog_inv_batch:
  assumes "catalog_inv s"
  shows "catalog_inv (ProcessBatch (postgres_repository E) log_publisher s)"
proof -
  let ?J = "\<lambda>d. schema_ok d \<and> outbox_mirrors d \<and> totals_ok d"
  have "?J (w_db (wk_store (ProcessBatch (postgres_repository E) log_publisher s)))"
  proof (rule ProcessBatch_keeps)
    fix eid w r w'
    assume mk: "repo_MarkOutboxEventPublished E eid w = (r, w')" and J: "?J (w_db w)"
    from J schema.repo_MarkOutboxEventPublished_keeps [OF mk] mirror.mark_keeps [OF mk] totals.mark_keeps [OF mk]
    show "?J (w_db w')" by simp
  qed (use assms in \<open>simp add: catalog_inv_def\<close>)
  moreover have "delivery_ok (w_db (wk_store (ProcessBatch (postgres_repository E) log_publisher s)))
      (wk_publisher (ProcessBatch (postgres_repository E) log_publisher s))"
    using assms by (intro batch_delivery_ok [OF _ _ refl]) (simp_all add: catalog_inv_def)
  ultimately show ?thesis by (simp add: catalog_inv_def)
qed

lemma catalog_inv_boot:
  assumes "seedCabinets E (wk_store s) = (m, w')" "catalog_inv s"
  shows "catalog_inv (s\<lparr>wk_store := w'\<rparr>)"
  using seedCabinets_db [OF assms(1)]
proof
  assume "w_db w' = w_db (wk_store s)"
  with assms(2) show ?thesis by (simp add: catalog_inv_same)
next
  assume sd: "seeded (env_now E (w_tick (wk_store s))) (w_db (wk_store s)) (w_db w')"
  with seeded_cabinets [OF sd] seeded_schema [OF sd] assms(2) show ?thesis
    by (simp add: catalog_inv_def outbox_mirrors_def totals_ok_def items_of_def delivery_ok_def)
qed

lemma catalog_inv_step: "sys_step E s s' \<Longrightarrow> catalog_inv s \<Longrightarrow> catalog_inv s'"
  by (induction rule: sys_step.induct)
    (blast intro: catalog_inv_reserve catalog_inv_create catalog_inv_batch catalog_inv_boot
      catalog_inv_same h_reads_store)+

lemma catalog_inv_initial: "catalog_inv initial_state"
  using schema_ok_empty
  by (simp add: catalog_inv_def initial_state_def outbox_mirrors_def totals_ok_def
      delivery_ok_def empty_db_def)

lemma catalog_inv_reachable: "reachable E s \<Longrightarrow> catalog_inv s"
  unfolding reachable_def
  by (induction rule: rtranclp_induct) (auto intro: catalog_inv_step catalog_inv_initial)

section \<open>Units of a cabinet\<close>

text \<open>No step changes the units of a cabinet that is there.\<close>

lemma units_step:
  assumes "sys_step E s s'" "schema_ok (w_db (wk_store s))" "total_units (w_db (wk_store s)) x = Some n"
  shows "total_units (w_db (wk_store s')) x = Some n"
proof -
  let ?base = "total_units (w_db (wk_store s))"
  have base: "units_conserved ?base (w_db (wk_store s))" by (simp add: units_conserved_def)
  have fin: "total_units d x = Some n" if "units_conserved ?base d" for d
    using that assms(3) by (simp add: units_conserved_def)
  from assms(1) show ?thesis
  proof (cases rule: sys_step.cases)
    case (reserve req1 r1 w')
    from h_ReserveStock_store [OF reserve(2)] base assms(2) show ?thesis
      using fin reserve(1) units.reserve_keeps by auto
  next
    case (create ctx req2 r2 w')
    from h_CreateOrder_store [OF create(2)] base assms(2) show ?thesis
      using fin create(1) units.create_order_keeps by auto
  next
    case batch
    have "schema_ok (w_db (wk_store s')) \<and> units_conserved ?base (w_db (wk_store s'))"
      unfolding batch
      by (rule ProcessBatch_keeps)
        (use base assms(2) in \<open>auto intro: schema.repo_MarkOutboxEventPublished_keeps units.mark_keeps\<close>)
    then show ?thesis using fin by blast
  next
    case (boot m w')
    from seedCabinets_db [OF boot(2)] show ?thesis
    proof
      assume "w_db w' = w_db (wk_store s)"
      with assms(3) boot(1) show ?thesis by simp
    next
      assume sd: "seeded (env_now E (w_tick (wk_store s))) (w_db (wk_store s)) (w_db w')"
      from assms(3) obtain k where "stock_of (w_db (wk_store s)) x = Some k"
        by (auto simp: total_units_def)
      with seeded_stock [OF sd this] seeded_cabinets(4) [OF sd] assms(3) boot(1) show ?thesis
        by (simp add: total_units_def reserved_units_def)
    qed
  qed (use assms(3) h_reads_store in auto)
qed

lemma units_reachable:
  assumes "(sys_step E)\<^sup>*\<^sup>* s s'" "catalog_inv s" "total_units (w_db (wk_store s)) x = Some n"
  shows "total_units (w_db (wk_store s')) x = Some n \<and> catalog_inv s'"
  using assms(1)
proof (induction rule: rtranclp_induct)
  case base
  with assms show ?case by simp
next
  case (step y z)
  then have "schema_ok (w_db (wk_store y))" by (simp add: catalog_inv_def)
  with step units_step catalog_inv_step show ?case by blast
qed

end
