(* ===== verification/Race.thy ===== *)
theory Race
  imports Reserve_Outcome
begin

text \<open>
  Concurrent calls of \<open>ReserveStockTx\<close>, interleaved statement by statement on one
  database under PostgreSQL's READ COMMITTED level.  A statement sees the committed
  tables and the writes of its own transaction; an \<open>UPDATE\<close> waits for the transaction that
  has changed the row it found, and an \<open>INSERT\<close> for the one that has inserted the same
  key, until that transaction ends.  \<open>client_step\<close> is one statement of one client, or no
  step when it has to wait.
\<close>

section \<open>Clients\<close>

text \<open>Where a call stands: not begun, begun, past the lookup of its key with a reservation of
  the cabinet found or with none, past the decrement, past the insert, returned.\<close>

datatype phase = Idle | Begun | Found string | Missed | Decremented cabinet | Inserted cabinet
  | Finished "go_error + cabinet"

record client =
  cl_cid :: string
  cl_quantity :: go_int
  cl_key :: string
  cl_now :: int
  cl_phase :: phase

record arena =
  ar_db :: catalog_db
  ar_clients :: "client list"
  ar_tick :: nat

definition dec_arg :: "client \<Rightarrow> decrement_stock_params" where
  "dec_arg c = \<lparr>dsp_Quantity = to_int32 (cl_quantity c), dsp_ID = cl_cid c\<rparr>"

definition res_arg :: "client \<Rightarrow> create_reservation_params" where
  "res_arg c = \<lparr>crp_IdempotencyKey = cl_key c, crp_CabinetID = cl_cid c,
     crp_Quantity = to_int32 (cl_quantity c)\<rparr>"

fun holds_row :: "phase \<Rightarrow> bool" where
  "holds_row (Decremented c) = True"
| "holds_row (Inserted c) = True"
| "holds_row p = False"

fun holds_key :: "phase \<Rightarrow> bool" where
  "holds_key (Inserted c) = True"
| "holds_key p = False"

definition row_locked :: "arena \<Rightarrow> nat \<Rightarrow> string \<Rightarrow> bool" where
  "row_locked a i cid \<longleftrightarrow> (\<exists>j < length (ar_clients a). j \<noteq> i
     \<and> holds_row (cl_phase (ar_clients a ! j)) \<and> cl_cid (ar_clients a ! j) = cid)"

definition key_pending :: "arena \<Rightarrow> nat \<Rightarrow> string \<Rightarrow> bool" where
  "key_pending a i key \<longleftrightarrow> (\<exists>j < length (ar_clients a). j \<noteq> i
     \<and> holds_key (cl_phase (ar_clients a ! j)) \<and> cl_key (ar_clients a ! j) = key)"

definition goto :: "arena \<Rightarrow> nat \<Rightarrow> phase \<Rightarrow> arena" where
  "goto a i p = a\<lparr>ar_clients := (ar_clients a)[i := (ar_clients a ! i)\<lparr>cl_phase := p\<rparr>],
                  ar_tick := Suc (ar_tick a)\<rparr>"

text \<open>What the transaction of a client sees after its decrement, and after its insert.\<close>

definition decremented_view :: "env \<Rightarrow> client \<Rightarrow> catalog_db \<Rightarrow> catalog_db" where
  "decremented_view E c d = snd (q_DecrementStock E (dec_arg c) (cl_now c) d)"

definition inserted_view :: "env \<Rightarrow> client \<Rightarrow> catalog_db \<Rightarrow> catalog_db" where
  "inserted_view E c d = snd (q_CreateReservation (res_arg c) (cl_now c) (decremented_view E c d))"

section \<open>One statement\<close>

definition step_lookup :: "client \<Rightarrow> catalog_db \<Rightarrow> phase" where
  "step_lookup c d =
     (case fst (q_GetReservation (cl_key c) (cl_now c) d) of
        Inr existingRes \<Rightarrow>
          (if r_cabinet_id existingRes \<noteq> cl_cid c \<or> of_int32 (r_quantity existingRes) \<noteq> cl_quantity c
           then Finished (Inl (CabErr ErrDuplicateReservation))
           else Found (r_cabinet_id existingRes))
      | Inl _ \<Rightarrow> Missed)"

definition step_found :: "env \<Rightarrow> client \<Rightarrow> string \<Rightarrow> catalog_db \<Rightarrow> phase" where
  "step_found E c cid d =
     (case fst (q_GetCabinet E cid (cl_now c) d) of
        Inl err \<Rightarrow> Finished (Inl (WrapError ''failed to get cabinet for existing reservation: '' err))
      | Inr row \<Rightarrow> Finished (Inr (mapCabinetToDomain row)))"

definition step_decrement :: "env \<Rightarrow> client \<Rightarrow> catalog_db \<Rightarrow> phase" where
  "step_decrement E c d =
     (case fst (q_DecrementStock E (dec_arg c) (cl_now c) d) of
        Inl err \<Rightarrow> Finished (Inl (if errors_is err ErrNoRows then CabErr ErrInsufficientStock
                                 else WrapError ''failed to decrement stock: '' err))
      | Inr row \<Rightarrow> Decremented (mapCabinetToDomain row))"

definition step_insert :: "env \<Rightarrow> client \<Rightarrow> cabinet \<Rightarrow> catalog_db \<Rightarrow> phase" where
  "step_insert E c cab d =
     (case fst (q_CreateReservation (res_arg c) (cl_now c) (decremented_view E c d)) of
        Inl err \<Rightarrow> Finished (Inl (if errors_as_pg err = Some ''23505''
                                 then CabErr ErrDuplicateReservation
                                 else WrapError ''failed to create reservation: '' err))
      | Inr _ \<Rightarrow> Inserted cab)"

definition client_step :: "env \<Rightarrow> nat \<Rightarrow> arena \<Rightarrow> arena option" where
  "client_step E i a =
     (if length (ar_clients a) \<le> i then None
      else let c = ar_clients a ! i; d = ar_db a in
        case cl_phase c of
          Idle \<Rightarrow> Some (a\<lparr>ar_clients := (ar_clients a)[i := c\<lparr>cl_now := env_now E (ar_tick a),
                                                           cl_phase := Begun\<rparr>],
                         ar_tick := Suc (ar_tick a)\<rparr>)
        | Begun \<Rightarrow> Some (goto a i (step_lookup c d))
        | Found cid \<Rightarrow> Some (goto a i (step_found E c cid d))
        | Missed \<Rightarrow>
            (if find (decrement_matches (dec_arg c)) (cabinets d) \<noteq> None \<and> row_locked a i (cl_cid c)
             then None else Some (goto a i (step_decrement E c d)))
        | Decremented cab \<Rightarrow>
            (if key_pending a i (cl_key c) then None else Some (goto a i (step_insert E c cab d)))
        | Inserted cab \<Rightarrow> Some ((goto a i (Finished (Inr cab)))\<lparr>ar_db := inserted_view E c d\<rparr>)
        | Finished r \<Rightarrow> None)"

text \<open>A step of the system: a statement of some client, a fault that ends a call and
  rolls its transaction back, or a commit whose acknowledgement is lost.\<close>

inductive arena_step :: "env \<Rightarrow> arena \<Rightarrow> arena \<Rightarrow> bool" for E where
  statement: "client_step E i a = Some a' \<Longrightarrow> arena_step E a a'"
| fault: "i < length (ar_clients a) \<Longrightarrow> \<nexists>r. cl_phase (ar_clients a ! i) = Finished r \<Longrightarrow>
    driver_error e \<Longrightarrow> arena_step E a (goto a i (Finished (Inl e)))"
| lost_ack: "i < length (ar_clients a) \<Longrightarrow> cl_phase (ar_clients a ! i) = Inserted cab \<Longrightarrow>
    arena_step E a ((goto a i (Finished (Inl (WrapError ''failed to commit transaction: ''
      (DriverError m)))))\<lparr>ar_db := inserted_view E (ar_clients a ! i) (ar_db a)\<rparr>)"

inductive_cases arena_stepE: "arena_step E a a'"

text \<open>Runs without faults, and a run along a schedule of client numbers.\<close>

inductive statement_steps :: "env \<Rightarrow> arena \<Rightarrow> arena \<Rightarrow> bool" for E where
  none: "statement_steps E a a"
| more: "statement_steps E a b \<Longrightarrow> client_step E i b = Some c \<Longrightarrow> statement_steps E a c"

fun run_schedule :: "env \<Rightarrow> nat list \<Rightarrow> arena \<Rightarrow> arena option" where
  "run_schedule E [] a = Some a"
| "run_schedule E (i # is) a =
     (case client_step E i a of None \<Rightarrow> None | Some a' \<Rightarrow> run_schedule E is a')"

lemma run_schedule_steps:
  "run_schedule E is b = Some c \<Longrightarrow> statement_steps E a b \<Longrightarrow> statement_steps E a c"
  by (induction "is" arbitrary: b) (auto split: option.splits intro: statement_steps.more)

definition start :: "catalog_db \<Rightarrow> (string \<times> go_int \<times> string) list \<Rightarrow> arena" where
  "start d reqs = \<lparr>ar_db = d, ar_clients = map (\<lambda>(cid, q, key).
     \<lparr>cl_cid = cid, cl_quantity = q, cl_key = key, cl_now = 0, cl_phase = Idle\<rparr>) reqs, ar_tick = 0\<rparr>"

end
