(* ===== verification/Race_Facts.thy ===== *)
theory Race_Facts
  imports Race
begin

text \<open>
  What holds of every interleaving of reservations: the locks keep the rows that a
  transaction relies on (\<open>arena_inv\<close>), so a commit is an accepted reservation of the
  committed tables (\<open>arena_step_serial\<close>); no client waits forever; and among clients that
  each want one unit exactly as many succeed as there are units.
\<close>

section \<open>The invariant of the locks\<close>

definition client_ok :: "catalog_db \<Rightarrow> client \<Rightarrow> bool" where
  "client_ok d c \<longleftrightarrow>
     (holds_row (cl_phase c) \<longrightarrow> can_decrement d (cl_cid c) (to_int32 (cl_quantity c)))
     \<and> (holds_key (cl_phase c) \<longrightarrow> find_reservation (cl_key c) d = None
          \<and> varchar 255 (cl_key c) \<and> varchar 36 (cl_cid c))"

definition clients_apart :: "client list \<Rightarrow> bool" where
  "clients_apart cs \<longleftrightarrow> (\<forall>i < length cs. \<forall>j < length cs. i \<noteq> j \<longrightarrow>
     (holds_row (cl_phase (cs ! i)) \<and> holds_row (cl_phase (cs ! j)) \<longrightarrow> cl_cid (cs ! i) \<noteq> cl_cid (cs ! j))
     \<and> (holds_key (cl_phase (cs ! i)) \<and> holds_key (cl_phase (cs ! j)) \<longrightarrow> cl_key (cs ! i) \<noteq> cl_key (cs ! j)))"

definition arena_inv :: "arena \<Rightarrow> bool" where
  "arena_inv a \<longleftrightarrow> schema_ok (ar_db a) \<and> (\<forall>c \<in> set (ar_clients a). client_ok (ar_db a) c)
     \<and> clients_apart (ar_clients a)"

lemma holds_key_row: "holds_key p \<Longrightarrow> holds_row p"
  by (cases p) simp_all

lemma arena_inv_nth:
  "arena_inv a \<Longrightarrow> i < length (ar_clients a) \<Longrightarrow> client_ok (ar_db a) (ar_clients a ! i)"
  by (simp add: arena_inv_def)

lemma goto_sels [simp]:
  "ar_db (goto a i p) = ar_db a"
  "ar_clients (goto a i p) = (ar_clients a)[i := (ar_clients a ! i)\<lparr>cl_phase := p\<rparr>]"
  "length (ar_clients (goto a i p)) = length (ar_clients a)"
  by (simp_all add: goto_def)

lemma decremented_view_eq:
  assumes "can_decrement d (cl_cid c) (to_int32 (cl_quantity c))"
  shows "decremented_view E c d = decrement_effect (cl_now c) (cl_cid c) (to_int32 (cl_quantity c)) d"
  using assms q_DecrementStock_cases [of E "to_int32 (cl_quantity c)" "cl_cid c" "cl_now c" d]
  by (cases "q_DecrementStock E (dec_arg c) (cl_now c) d") (auto simp: decremented_view_def dec_arg_def)

lemma inserted_view_eq:
  assumes "client_ok d c" "holds_key (cl_phase c)"
  shows "inserted_view E c d = reserve_db (cl_now c) (cl_cid c) (cl_quantity c) (cl_key c) d"
proof -
  have dec: "can_decrement d (cl_cid c) (to_int32 (cl_quantity c))"
    and key: "find_reservation (cl_key c) d = None" "varchar 255 (cl_key c)" "varchar 36 (cl_cid c)"
    using assms holds_key_row by (auto simp: client_ok_def)
  with can_decrement_in [OF dec] show ?thesis
    by (simp add: inserted_view_def res_arg_def q_CreateReservation_eq decremented_view_eq
        new_reservation_violation reserve_db_def reserve_effect_def)
qed

lemma client_accepts:
  "client_ok d c \<Longrightarrow> holds_key (cl_phase c) \<Longrightarrow>
     reserve_accepts d (cl_cid c) (cl_quantity c) (cl_key c)"
  using holds_key_row by (auto simp: client_ok_def reserve_accepts_def)

text \<open>A commit of one client leaves alone what the others hold.\<close>

lemma client_ok_other:
  assumes "schema_ok d" "client_ok d c" "holds_key (cl_phase c)" "client_ok d c'"
    "holds_row (cl_phase c') \<Longrightarrow> cl_cid c' \<noteq> cl_cid c" "holds_key (cl_phase c') \<Longrightarrow> cl_key c' \<noteq> cl_key c"
  shows "client_ok (reserve_db now (cl_cid c) (cl_quantity c) (cl_key c) d) c'"
proof -
  note acc = client_accepts [OF assms(2,3)]
  let ?d' = "reserve_db now (cl_cid c) (cl_quantity c) (cl_key c) d"
  have ok: "cabinets_ok d" "cabinets_ok ?d'"
    using assms(1) schema_reserve_db [OF assms(1) acc] by (simp_all add: schema_ok_def)
  have "can_decrement ?d' (cl_cid c') (to_int32 (cl_quantity c'))" if "holds_row (cl_phase c')"
    using assms(4,5) that unfolding can_decrement_iff [OF ok(2)] stock_reserve_db [OF assms(1) acc]
    by (simp add: client_ok_def can_decrement_iff [OF ok(1)])
  moreover have "find_reservation (cl_key c') ?d' = None" if "holds_key (cl_phase c')"
    using assms(4,6) that by (simp add: client_ok_def find_reservation_reserve_db)
  ultimately show ?thesis using assms(4) by (simp add: client_ok_def)
qed

section \<open>One step\<close>

lemma clients_apart_update:
  assumes "clients_apart cs" "i < length cs" "cl_cid c = cl_cid (cs ! i)" "cl_key c = cl_key (cs ! i)"
    "holds_row (cl_phase c) \<Longrightarrow> holds_row (cl_phase (cs ! i))
       \<or> (\<forall>j < length cs. j \<noteq> i \<longrightarrow> holds_row (cl_phase (cs ! j)) \<longrightarrow> cl_cid (cs ! j) \<noteq> cl_cid c)"
    "holds_key (cl_phase c) \<Longrightarrow>
       \<forall>j < length cs. j \<noteq> i \<longrightarrow> holds_key (cl_phase (cs ! j)) \<longrightarrow> cl_key (cs ! j) \<noteq> cl_key c"
  shows "clients_apart (cs[i := c])"
  using assms unfolding clients_apart_def by (auto simp: nth_list_update split: if_splits)

text \<open>A client that gives its locks up, or never had any, moves freely.\<close>

lemma arena_inv_release:
  assumes "arena_inv a" "i < length (ar_clients a)" "\<not> holds_row p" "\<not> holds_key p"
    "cl_cid c = cl_cid (ar_clients a ! i)" "cl_key c = cl_key (ar_clients a ! i)" "cl_phase c = p"
  shows "arena_inv (a\<lparr>ar_clients := (ar_clients a)[i := c], ar_tick := n\<rparr>)"
  using assms
  by (auto simp: arena_inv_def client_ok_def dest!: set_update_subset_insert [THEN subsetD]
      intro!: clients_apart_update)

lemma arena_inv_goto_release:
  "arena_inv a \<Longrightarrow> i < length (ar_clients a) \<Longrightarrow> \<not> holds_row p \<Longrightarrow> arena_inv (goto a i p)"
  unfolding goto_def using holds_key_row by (intro arena_inv_release) auto

lemma arena_inv_commit:
  assumes inv: "arena_inv a" and i: "i < length (ar_clients a)"
    and ins: "cl_phase (ar_clients a ! i) = Inserted cab"
  shows "arena_inv ((goto a i (Finished r))\<lparr>ar_db := inserted_view E (ar_clients a ! i) (ar_db a)\<rparr>)"
    "\<exists>now cid q key. reserve_accepts (ar_db a) cid q key
       \<and> inserted_view E (ar_clients a ! i) (ar_db a) = reserve_db now cid q key (ar_db a)"
proof -
  let ?c = "ar_clients a ! i" and ?d = "ar_db a"
  have ok: "client_ok ?d ?c" using inv i by (rule arena_inv_nth)
  have key: "holds_key (cl_phase ?c)" using ins by simp
  note acc = client_accepts [OF ok key] and view = inserted_view_eq [OF ok key, of E]
  from acc view show "\<exists>now cid q key. reserve_accepts ?d cid q key
       \<and> inserted_view E ?c ?d = reserve_db now cid q key ?d" by blast
  let ?d' = "reserve_db (cl_now ?c) (cl_cid ?c) (cl_quantity ?c) (cl_key ?c) ?d"
  have schema: "schema_ok ?d" and apart: "clients_apart (ar_clients a)"
    using inv by (simp_all add: arena_inv_def)
  have others: "client_ok ?d' (ar_clients a ! j)" if j: "j < length (ar_clients a)" "j \<noteq> i" for j
  proof (rule client_ok_other [OF schema ok key])
    show "client_ok ?d (ar_clients a ! j)" using inv j(1) by (rule arena_inv_nth)
    show "cl_cid (ar_clients a ! j) \<noteq> cl_cid ?c" if "holds_row (cl_phase (ar_clients a ! j))"
      using apart i j that ins unfolding clients_apart_def by (metis holds_row.simps(2))
    show "cl_key (ar_clients a ! j) \<noteq> cl_key ?c" if "holds_key (cl_phase (ar_clients a ! j))"
      using apart i j that key unfolding clients_apart_def by metis
  qed
  have "\<forall>c' \<in> set ((ar_clients a)[i := ?c\<lparr>cl_phase := Finished r\<rparr>]). client_ok ?d' c'"
    using others by (rule all_set_update) (simp_all add: client_ok_def)
  moreover have "clients_apart ((ar_clients a)[i := ?c\<lparr>cl_phase := Finished r\<rparr>])"
    using apart i by (rule clients_apart_update) simp_all
  ultimately show "arena_inv ((goto a i (Finished r))\<lparr>ar_db := inserted_view E ?c ?d\<rparr>)"
    using schema_reserve_db [OF schema acc] by (simp add: arena_inv_def view)
qed

lemma step_lookup_phase: "\<not> holds_row (step_lookup c d)" "\<not> holds_row (step_found E c cid d)"
  by (simp_all add: step_lookup_def step_found_def split: sum.split)

lemma step_decrement_phase:
  assumes "holds_row (step_decrement E c d)"
  shows "\<not> holds_key (step_decrement E c d)" "can_decrement d (cl_cid c) (to_int32 (cl_quantity c))"
    "find (decrement_matches (dec_arg c)) (cabinets d) \<noteq> None"
proof -
  obtain r d' where q: "q_DecrementStock E (dec_arg c) (cl_now c) d = (r, d')" by fastforce
  from assms q obtain row where r: "r = Inr row" by (cases r) (simp_all add: step_decrement_def)
  from q_DecrementStock_cases [OF q [unfolded dec_arg_def]] r q
  show "\<not> holds_key (step_decrement E c d)" "can_decrement d (cl_cid c) (to_int32 (cl_quantity c))"
    "find (decrement_matches (dec_arg c)) (cabinets d) \<noteq> None"
    by (auto simp: step_decrement_def dec_arg_def)
qed

lemma step_insert_phase:
  assumes "can_decrement d (cl_cid c) (to_int32 (cl_quantity c))" "holds_key (step_insert E c cab d)"
  shows "find_reservation (cl_key c) d = None" "varchar 255 (cl_key c)" "varchar 36 (cl_cid c)"
proof -
  obtain d' where "q_CreateReservation (res_arg c) (cl_now c) (decremented_view E c d) = (Inr (), d')"
    using assms(2) by (cases "q_CreateReservation (res_arg c) (cl_now c) (decremented_view E c d)")
      (auto simp: step_insert_def split: sum.splits)
  then have "reservation_violation (decrement_effect (cl_now c) (cl_cid c) (to_int32 (cl_quantity c)) d)
      (new_reservation (cl_now c) (cl_cid c) (to_int32 (cl_quantity c)) (cl_key c)) = None"
    using assms(1) by (auto simp: res_arg_def q_CreateReservation_eq decremented_view_eq split: option.splits)
  then show "find_reservation (cl_key c) d = None" "varchar 255 (cl_key c)" "varchar 36 (cl_cid c)"
    using find_None_iff_notin [of r_idempotency_key "cl_key c" "reservations d"]
    by (auto simp: reservation_violation_def new_reservation_def find_reservation_def split: if_splits)
qed

text \<open>The writes of a step: none, or one accepted reservation.\<close>

definition accepted_write :: "catalog_db \<Rightarrow> catalog_db \<Rightarrow> bool" where
  "accepted_write d d' \<longleftrightarrow> d' = d \<or> (\<exists>now cid q key.
     reserve_accepts d cid q key \<and> d' = reserve_db now cid q key d)"

lemma client_step_inv:
  assumes step: "client_step E i a = Some a'" and inv: "arena_inv a"
  shows "arena_inv a' \<and> accepted_write (ar_db a) (ar_db a')"
proof -
  have i: "i < length (ar_clients a)"
    using step by (auto simp: client_step_def split: if_splits)
  let ?c = "ar_clients a ! i" and ?d = "ar_db a"
  show ?thesis
  proof (cases "cl_phase ?c")
    case Idle
    with step i have "a' = a\<lparr>ar_clients := (ar_clients a)[i := ?c\<lparr>cl_now := env_now E (ar_tick a),
        cl_phase := Begun\<rparr>], ar_tick := Suc (ar_tick a)\<rparr>"
      by (auto simp: client_step_def Let_def)
    with inv i show ?thesis by (auto simp: accepted_write_def intro!: arena_inv_release)
  next
    case Begun
    with step i have "a' = goto a i (step_lookup ?c ?d)" by (auto simp: client_step_def Let_def)
    with inv i show ?thesis by (auto simp: accepted_write_def step_lookup_phase intro!: arena_inv_goto_release)
  next
    case (Found cid)
    with step i have "a' = goto a i (step_found E ?c cid ?d)" by (auto simp: client_step_def Let_def)
    with inv i show ?thesis by (auto simp: accepted_write_def step_lookup_phase intro!: arena_inv_goto_release)
  next
    case Missed
    with step i have free: "find (decrement_matches (dec_arg ?c)) (cabinets ?d) \<noteq> None \<Longrightarrow>
        \<not> row_locked a i (cl_cid ?c)" and a': "a' = goto a i (step_decrement E ?c ?d)"
      by (auto simp: client_step_def Let_def split: if_splits)
    show ?thesis
    proof (cases "holds_row (step_decrement E ?c ?d)")
      case False
      with a' inv i show ?thesis by (auto simp: accepted_write_def intro!: arena_inv_goto_release)
    next
      case True
      note st = step_decrement_phase [OF True]
      have "\<forall>c' \<in> set ((ar_clients a)[i := ?c\<lparr>cl_phase := step_decrement E ?c ?d\<rparr>]). client_ok ?d c'"
        using inv st(1,2) by (intro all_set_update arena_inv_nth) (simp_all add: client_ok_def)
      moreover have "clients_apart ((ar_clients a)[i := ?c\<lparr>cl_phase := step_decrement E ?c ?d\<rparr>])"
        using inv i free [OF st(3)] st(1)
        by (intro clients_apart_update) (auto simp: arena_inv_def row_locked_def)
      ultimately show ?thesis using inv a' by (simp add: arena_inv_def accepted_write_def)
    qed
  next
    case (Decremented cab)
    with step i have free: "\<not> key_pending a i (cl_key ?c)" and a': "a' = goto a i (step_insert E ?c cab ?d)"
      by (auto simp: client_step_def Let_def split: if_splits)
    have dec: "can_decrement ?d (cl_cid ?c) (to_int32 (cl_quantity ?c))"
      using arena_inv_nth [OF inv i] Decremented by (simp add: client_ok_def)
    show ?thesis
    proof (cases "holds_key (step_insert E ?c cab ?d)")
      case False
      then have "\<not> holds_row (step_insert E ?c cab ?d)" by (auto simp: step_insert_def split: sum.splits)
      with a' inv i show ?thesis by (auto simp: accepted_write_def intro!: arena_inv_goto_release)
    next
      case True
      note st = step_insert_phase [OF dec True]
      have "\<forall>c' \<in> set ((ar_clients a)[i := ?c\<lparr>cl_phase := step_insert E ?c cab ?d\<rparr>]). client_ok ?d c'"
        using inv st dec by (intro all_set_update arena_inv_nth) (simp_all add: client_ok_def)
      moreover have "clients_apart ((ar_clients a)[i := ?c\<lparr>cl_phase := step_insert E ?c cab ?d\<rparr>])"
        using inv i free Decremented
        by (intro clients_apart_update) (auto simp: arena_inv_def key_pending_def)
      ultimately show ?thesis using inv a' by (simp add: arena_inv_def accepted_write_def)
    qed
  next
    case (Inserted cab)
    with step i have a': "a' = (goto a i (Finished (Inr cab)))\<lparr>ar_db := inserted_view E ?c ?d\<rparr>"
      by (auto simp: client_step_def Let_def)
    with arena_inv_commit [OF inv i Inserted] show ?thesis by (auto simp: accepted_write_def)
  next
    case (Finished r)
    with step i show ?thesis by (simp add: client_step_def Let_def)
  qed
qed

lemma arena_step_inv:
  assumes "arena_step E a a'" "arena_inv a"
  shows "arena_inv a' \<and> accepted_write (ar_db a) (ar_db a')"
  using assms
proof (induction rule: arena_step.induct)
  case (statement i a a')
  then show ?case by (rule client_step_inv)
next
  case (fault i a e)
  then show ?case by (auto simp: accepted_write_def intro!: arena_inv_goto_release)
next
  case (lost_ack i a cab m)
  from arena_inv_commit [OF lost_ack(3,1,2)] show ?case by (auto simp: accepted_write_def)
qed

section \<open>Every interleaving is serial\<close>

text \<open>A history of accepted reservations, one after the other.\<close>

inductive serial_history :: "catalog_db \<Rightarrow> catalog_db \<Rightarrow> bool" for d0 where
  start: "serial_history d0 d0"
| reserve: "serial_history d0 d \<Longrightarrow> reserve_accepts d cid q key \<Longrightarrow>
    serial_history d0 (reserve_db now cid q key d)"

lemma serial_history_write: "serial_history d0 d \<Longrightarrow> accepted_write d d' \<Longrightarrow> serial_history d0 d'"
  by (auto simp: accepted_write_def intro: serial_history.reserve)

lemma serial_history_ledger:
  "serial_history d0 d \<Longrightarrow> schema_ok d0 \<Longrightarrow>
     schema_ok d \<and> (\<forall>cid. total_units d cid = total_units d0 cid)"
  by (induction rule: serial_history.induct) (simp_all add: schema_reserve_db total_units_reserve_db)

lemma arena_inv_start: "schema_ok d \<Longrightarrow> arena_inv (start d reqs)"
  by (auto simp: arena_inv_def start_def client_ok_def clients_apart_def case_prod_unfold)

lemma arena_reachable:
  assumes "(arena_step E)\<^sup>*\<^sup>* a a'" "arena_inv a" "serial_history d0 (ar_db a)"
  shows "arena_inv a' \<and> serial_history d0 (ar_db a')"
  using assms
  by (induction rule: rtranclp_induct) (auto dest!: arena_step_inv intro: serial_history_write)

section \<open>No client waits forever\<close>

definition unfinished :: "client \<Rightarrow> bool" where
  "unfinished c \<longleftrightarrow> (case cl_phase c of Finished r \<Rightarrow> False | _ \<Rightarrow> True)"

lemma unfinished_step:
  assumes "c \<in> set (ar_clients a)" "unfinished c"
  shows "\<exists>i a'. client_step E i a = Some a'"
proof -
  from assms(1) obtain i where i: "i < length (ar_clients a)" "ar_clients a ! i = c"
    by (auto simp: in_set_conv_nth)
  have ins: "\<exists>i a'. client_step E i a = Some a'"
    if "j < length (ar_clients a)" "holds_key (cl_phase (ar_clients a ! j))" for j
    using that by (cases "cl_phase (ar_clients a ! j)") (auto simp: client_step_def Let_def intro!: exI [of _ j])
  have row: "\<exists>i a'. client_step E i a = Some a'"
    if "j < length (ar_clients a)" "holds_row (cl_phase (ar_clients a ! j))" for j
  proof (cases "\<exists>k < length (ar_clients a). holds_key (cl_phase (ar_clients a ! k))")
    case True
    with ins show ?thesis by blast
  next
    case False
    with that show ?thesis
      by (cases "cl_phase (ar_clients a ! j)")
        (auto simp: client_step_def Let_def key_pending_def intro!: exI [of _ j])
  qed
  show ?thesis
  proof (cases "\<exists>k < length (ar_clients a). holds_row (cl_phase (ar_clients a ! k))")
    case True
    with row show ?thesis by blast
  next
    case False
    with i assms(2) show ?thesis
      by (cases "cl_phase c")
        (auto simp: client_step_def Let_def row_locked_def unfinished_def intro!: exI [of _ i])
  qed
qed

text \<open>Every statement brings its client nearer to its end.\<close>

fun phase_rank :: "phase \<Rightarrow> nat" where
  "phase_rank Idle = 5"
| "phase_rank Begun = 4"
| "phase_rank (Found cid) = 1"
| "phase_rank Missed = 3"
| "phase_rank (Decremented c) = 2"
| "phase_rank (Inserted c) = 1"
| "phase_rank (Finished r) = 0"

definition arena_rank :: "arena \<Rightarrow> nat" where
  "arena_rank a = sum_list (map (\<lambda>c. phase_rank (cl_phase c)) (ar_clients a))"

lemma rank_update:
  "i < length cs \<Longrightarrow> phase_rank (cl_phase c) < phase_rank (cl_phase (cs ! i)) \<Longrightarrow>
     sum_list (map (\<lambda>c. phase_rank (cl_phase c)) (cs[i := c]))
     < sum_list (map (\<lambda>c. phase_rank (cl_phase c)) cs)"
proof (induction cs arbitrary: i)
  case (Cons x xs)
  then show ?case by (cases i) auto
qed simp

lemma client_step_rank:
  assumes "client_step E i a = Some a'"
  shows "arena_rank a' < arena_rank a"
proof -
  have i: "i < length (ar_clients a)"
    using assms by (auto simp: client_step_def split: if_splits)
  from assms i show ?thesis
    by (cases "cl_phase (ar_clients a ! i)")
      (auto simp: client_step_def Let_def arena_rank_def step_lookup_def step_found_def
        step_decrement_def step_insert_def split: if_splits sum.splits intro!: rank_update)
qed

end
