(* ===== verification/Race_Count.thy ===== *)
theory Race_Count
  imports Race_Facts
begin

text \<open>
  The race that \<open>race_test.go\<close> runs, for any number of clients: each wants one unit of the
  same cabinet under a key of its own.  In every interleaving without faults that has come
  to its end, exactly as many of them succeed as there are units, and the others are told
  that the stock is insufficient.  A client that loses the race for one key is refused
  even when its parameters are those of the winner.
\<close>

definition succeeded :: "client \<Rightarrow> bool" where
  "succeeded c \<longleftrightarrow> (case cl_phase c of Finished (Inr cab) \<Rightarrow> True | _ \<Rightarrow> False)"

definition racer_ok :: "string \<Rightarrow> catalog_db \<Rightarrow> client \<Rightarrow> bool" where
  "racer_ok x d c \<longleftrightarrow> cl_cid c = x \<and> cl_quantity c = 1 \<and> varchar 255 (cl_key c)
     \<and> (\<not> succeeded c \<longrightarrow> find_reservation (cl_key c) d = None) \<and> (\<forall>cid. cl_phase c \<noteq> Found cid)
     \<and> (\<forall>e. cl_phase c = Finished (Inl e) \<longrightarrow> e = CabErr ErrInsufficientStock \<and> stock_of d x = Some 0)"

definition race_inv :: "string \<Rightarrow> int \<Rightarrow> arena \<Rightarrow> bool" where
  "race_inv x s a \<longleftrightarrow> arena_inv a \<and> (\<forall>c \<in> set (ar_clients a). racer_ok x (ar_db a) c)
     \<and> distinct (map cl_key (ar_clients a))
     \<and> stock_of (ar_db a) x = Some (s - count_where succeeded (ar_clients a))"

lemma stock_nonneg: "schema_ok d \<Longrightarrow> stock_of d x = Some s \<Longrightarrow> 0 \<le> s"
  by (auto simp: schema_ok_def cabinets_ok_def stock_of_def dest: find_Some_in)

lemma to_int32_1 [simp]: "to_int32 1 = 1"
  by (simp add: to_int32_def)

text \<open>The moves of a racer that writes nothing.\<close>

lemma race_inv_move:
  assumes inv: "race_inv x s a" and i: "i < length (ar_clients a)"
    and inv': "arena_inv a'" and a': "ar_db a' = ar_db a" "ar_clients a' = (ar_clients a)[i := c]"
    and c: "cl_key c = cl_key (ar_clients a ! i)" "racer_ok x (ar_db a) c"
      "\<not> succeeded c" "\<not> succeeded (ar_clients a ! i)"
  shows "race_inv x s a'"
proof -
  have "\<forall>c' \<in> set ((ar_clients a)[i := c]). racer_ok x (ar_db a) c'"
    using inv c(2) by (intro all_set_update) (simp_all add: race_inv_def)
  moreover have "map cl_key ((ar_clients a)[i := c]) = map cl_key (ar_clients a)"
    using c(1) by (rule map_list_update_same)
  ultimately show ?thesis
    using inv inv' a' i c(3,4) by (simp add: race_inv_def count_where_update)
qed

lemma race_inv_commit:
  assumes inv: "race_inv x s a" and i: "i < length (ar_clients a)"
    and ins: "cl_phase (ar_clients a ! i) = Inserted cab"
  shows "race_inv x s ((goto a i (Finished (Inr cab)))\<lparr>ar_db := inserted_view E (ar_clients a ! i) (ar_db a)\<rparr>)"
proof -
  let ?c = "ar_clients a ! i" and ?d = "ar_db a"
  let ?c' = "?c\<lparr>cl_phase := Finished (Inr cab)\<rparr>"
  have ainv: "arena_inv a" and st: "stock_of ?d x = Some (s - count_where succeeded (ar_clients a))"
    and dist: "distinct (map cl_key (ar_clients a))"
    using inv by (simp_all add: race_inv_def)
  have racer: "racer_ok x ?d (ar_clients a ! j)" if "j < length (ar_clients a)" for j
    using inv that by (simp add: race_inv_def)
  note ok = arena_inv_nth [OF ainv i]
  have key: "holds_key (cl_phase ?c)" using ins by simp
  note acc = client_accepts [OF ok key]
  note view = inserted_view_eq [OF ok key, of E]
  have schema: "schema_ok ?d" using ainv by (simp add: arena_inv_def)
  have c: "cl_cid ?c = x" "cl_quantity ?c = 1" "find_reservation (cl_key ?c) ?d = None"
    using racer [OF i] ins by (auto simp: racer_ok_def succeeded_def)
  have pos: "stock_of ?d x \<noteq> Some 0"
    using ok ins c schema by (auto simp: client_ok_def can_decrement_iff schema_ok_def)
  let ?d' = "reserve_db (cl_now ?c) (cl_cid ?c) (cl_quantity ?c) (cl_key ?c) ?d"
  have others: "racer_ok x ?d' (ar_clients a ! j)" if j: "j < length (ar_clients a)" "j \<noteq> i" for j
  proof -
    have "cl_key (ar_clients a ! j) \<noteq> cl_key ?c"
      using dist i j by (metis length_map nth_eq_iff_index_eq nth_map)
    with racer [OF j(1)] pos show ?thesis by (auto simp: racer_ok_def find_reservation_reserve_db)
  qed
  have "racer_ok x ?d' ?c'"
    using racer [OF i] by (auto simp: racer_ok_def succeeded_def)
  with others have "\<forall>c' \<in> set ((ar_clients a)[i := ?c']). racer_ok x ?d' c'" by (rule all_set_update)
  moreover have "map cl_key ((ar_clients a)[i := ?c']) = map cl_key (ar_clients a)"
    by (rule map_list_update_same) simp
  moreover have "stock_of ?d' x = Some (s - count_where succeeded ((ar_clients a)[i := ?c']))"
    using stock_reserve_db [OF schema acc, of "cl_now ?c" x] st c i ins
    by (simp add: count_where_update succeeded_def)
  ultimately show ?thesis
    using arena_inv_commit(1) [OF ainv i ins, of E "Inr cab"] dist by (simp add: race_inv_def view)
qed

lemma race_step:
  assumes E: "quiet E" and inv: "race_inv x s a" and step: "client_step E i a = Some a'"
  shows "race_inv x s a'"
proof -
  have i: "i < length (ar_clients a)"
    using step by (auto simp: client_step_def split: if_splits)
  let ?c = "ar_clients a ! i" and ?d = "ar_db a"
  have ainv: "arena_inv a" and schema: "schema_ok ?d"
    using inv by (simp_all add: race_inv_def arena_inv_def)
  have inv': "arena_inv a'" using client_step_inv [OF step ainv] by blast
  have r: "racer_ok x ?d ?c" using inv i by (simp add: race_inv_def)
  note move = race_inv_move [OF inv i inv']
  show ?thesis
  proof (cases "cl_phase ?c")
    case Idle
    with step i r show ?thesis
      by (intro move [of "?c\<lparr>cl_now := env_now E (ar_tick a), cl_phase := Begun\<rparr>"])
        (auto simp: client_step_def Let_def racer_ok_def succeeded_def)
  next
    case Begun
    then have "find_reservation (cl_key ?c) ?d = None" using r by (simp add: racer_ok_def succeeded_def)
    then have "step_lookup ?c ?d = Missed" by (simp add: step_lookup_def q_GetReservation_eq)
    with step i r Begun show ?thesis
      by (intro move [of "?c\<lparr>cl_phase := Missed\<rparr>"])
        (auto simp: client_step_def Let_def racer_ok_def succeeded_def)
  next
    case (Found cid)
    with r show ?thesis by (simp add: racer_ok_def)
  next
    case Missed
    obtain n where n: "stock_of ?d x = Some n" using inv by (simp add: race_inv_def)
    show ?thesis
    proof (cases "n = 0")
      case True
      have "q_DecrementStock E (dec_arg ?c) (cl_now ?c) ?d = (Inl ErrNoRows, ?d)"
        unfolding dec_arg_def using schema n True r
        by (intro q_DecrementStock_short) (simp_all add: schema_ok_def racer_ok_def)
      then have "step_decrement E ?c ?d = Finished (Inl (CabErr ErrInsufficientStock))"
        by (simp add: step_decrement_def)
      with step i r Missed n True show ?thesis
        by (intro move [of "?c\<lparr>cl_phase := Finished (Inl (CabErr ErrInsufficientStock))\<rparr>"])
          (auto simp: client_step_def Let_def racer_ok_def succeeded_def split: if_splits)
    next
      case False
      with stock_nonneg [OF schema n] have "1 \<le> n" by simp
      then have dec: "can_decrement ?d (cl_cid ?c) (to_int32 (cl_quantity ?c))"
      proof -
        obtain cab where "find (\<lambda>c. c_id c = x) (cabinets ?d) = Some cab" "n = sint (c_quantity cab)"
          using n by (auto simp: stock_of_def)
        then show ?thesis
          using schema n r \<open>1 \<le> n\<close> sint_32_bounds(2) [of "c_quantity cab"]
          by (simp add: can_decrement_iff schema_ok_def racer_ok_def)
      qed
      obtain row where "fst (q_DecrementStock E (dec_arg ?c) (cl_now ?c) ?d) = Inr row"
        using q_DecrementStock_cases [of E "to_int32 (cl_quantity ?c)" "cl_cid ?c" "cl_now ?c" ?d] dec
          quiet_scan [OF E]
        by (cases "q_DecrementStock E (dec_arg ?c) (cl_now ?c) ?d") (fastforce simp: dec_arg_def)
      then have "step_decrement E ?c ?d = Decremented (mapCabinetToDomain row)"
        by (simp add: step_decrement_def)
      with step i r Missed show ?thesis
        by (intro move [of "?c\<lparr>cl_phase := Decremented (mapCabinetToDomain row)\<rparr>"])
          (auto simp: client_step_def Let_def racer_ok_def succeeded_def split: if_splits)
    qed
  next
    case (Decremented cab)
    have dec: "can_decrement ?d (cl_cid ?c) (to_int32 (cl_quantity ?c))"
      using arena_inv_nth [OF ainv i] Decremented by (simp add: client_ok_def)
    have "cl_cid ?c \<in> c_id ` set (cabinets ?d)" using dec by (rule can_decrement_in)
    moreover from this have "varchar 36 (cl_cid ?c)" using schema by (auto simp: schema_ok_def cabinets_ok_def)
    ultimately have "step_insert E ?c cab ?d = Inserted cab"
      using r Decremented dec
      by (simp add: step_insert_def res_arg_def q_CreateReservation_eq decremented_view_eq
          new_reservation_violation racer_ok_def succeeded_def)
    with step i r Decremented show ?thesis
      by (intro move [of "?c\<lparr>cl_phase := Inserted cab\<rparr>"])
        (auto simp: client_step_def Let_def racer_ok_def succeeded_def split: if_splits)
  next
    case (Inserted cab)
    with step i have "a' = (goto a i (Finished (Inr cab)))\<lparr>ar_db := inserted_view E ?c ?d\<rparr>"
      by (auto simp: client_step_def Let_def)
    with race_inv_commit [OF inv i Inserted] show ?thesis by simp
  next
    case (Finished r)
    with step i show ?thesis by (simp add: client_step_def Let_def)
  qed
qed

lemma race_inv_steps: "statement_steps E a a' \<Longrightarrow> quiet E \<Longrightarrow> race_inv x s a \<Longrightarrow> race_inv x s a'"
  by (induction rule: statement_steps.induct) (auto intro: race_step)

definition one_each :: "string \<Rightarrow> string list \<Rightarrow> (string \<times> go_int \<times> string) list" where
  "one_each x keys = map (\<lambda>k. (x, 1, k)) keys"

lemma race_inv_start:
  assumes "schema_ok d" "stock_of d x = Some s" "distinct keys"
    "\<forall>k \<in> set keys. varchar 255 k \<and> find_reservation k d = None"
  shows "race_inv x s (start d (one_each x keys))"
  using assms arena_inv_start [OF assms(1), of "one_each x keys"]
  by (auto simp: race_inv_def start_def one_each_def racer_ok_def succeeded_def count_where_def o_def
      filter_empty_conv)

lemma race_outcome:
  assumes inv: "race_inv x s a" and fin: "\<forall>c \<in> set (ar_clients a). \<not> unfinished c"
  shows "count_where succeeded (ar_clients a) = min s (int (length (ar_clients a)))"
proof -
  let ?n = "count_where succeeded (ar_clients a)"
  have st: "stock_of (ar_db a) x = Some (s - ?n)" and schema: "schema_ok (ar_db a)"
    using inv by (simp_all add: race_inv_def arena_inv_def)
  note le = stock_nonneg [OF schema st] count_where_bounds [of succeeded "ar_clients a"]
  show ?thesis
  proof (cases "\<forall>c \<in> set (ar_clients a). succeeded c")
    case True
    then have "?n = int (length (ar_clients a))" by (simp add: count_where_def filter_id_conv)
    with le show ?thesis by simp
  next
    case False
    then obtain c where c: "c \<in> set (ar_clients a)" "\<not> succeeded c" by blast
    with fin obtain e where "cl_phase c = Finished (Inl e)"
      by (auto simp: unfinished_def succeeded_def split: phase.splits sum.splits)
    with inv c(1) have "stock_of (ar_db a) x = Some 0" by (auto simp: race_inv_def racer_ok_def)
    with st le show ?thesis by simp
  qed
qed

section \<open>Losing the race for a key\<close>

text \<open>A client that looked its key up before another call committed it.\<close>

definition key_lost :: "nat \<Rightarrow> arena \<Rightarrow> bool" where
  "key_lost i a \<longleftrightarrow> i < length (ar_clients a)
     \<and> find_reservation (cl_key (ar_clients a ! i)) (ar_db a) \<noteq> None
     \<and> (case cl_phase (ar_clients a ! i) of
          Missed \<Rightarrow> True | Decremented c \<Rightarrow> True | Finished r \<Rightarrow> \<not> is_ok r | _ \<Rightarrow> False)"

lemma accepted_write_keeps_keys:
  "accepted_write d d' \<Longrightarrow> find_reservation key d \<noteq> None \<Longrightarrow> find_reservation key d' \<noteq> None"
  by (auto simp: accepted_write_def find_reservation_reserve_db)

lemma step_insert_lost:
  assumes "find_reservation (cl_key c) d \<noteq> None"
  shows "\<exists>e. step_insert E c cab d = Finished (Inl e)"
proof -
  have "cl_key c \<in> r_idempotency_key ` set (reservations d)"
    using assms find_None_iff_notin [of r_idempotency_key "cl_key c" "reservations d"]
    by (auto simp: find_reservation_def)
  moreover have "reservations (decremented_view E c d) = reservations d"
    by (auto simp: decremented_view_def q_DecrementStock_def Let_def split: option.split)
  ultimately show ?thesis
    by (auto simp: step_insert_def res_arg_def q_CreateReservation_def Let_def
        reservation_violation_def)
qed

lemma key_lost_client_step:
  assumes "client_step E j a = Some a'" "key_lost i a" "arena_inv a"
  shows "key_lost i a'"
proof -
  have keep: "find_reservation (cl_key (ar_clients a ! i)) (ar_db a') \<noteq> None"
    using assms client_step_inv accepted_write_keeps_keys unfolding key_lost_def by blast
  have j: "j < length (ar_clients a)" using assms(1) by (auto simp: client_step_def split: if_splits)
  have i: "i < length (ar_clients a)" using assms(2) by (simp add: key_lost_def)
  show ?thesis
  proof (cases "i = j")
    case False
    have "ar_clients a' ! i = ar_clients a ! i" "length (ar_clients a') = length (ar_clients a)"
      using assms(1) j False
      by (cases "cl_phase (ar_clients a ! j)"; auto simp: client_step_def Let_def split: if_splits)+
    with assms(2) keep show ?thesis by (simp add: key_lost_def)
  next
    case True
    have ins: "\<exists>e. step_insert E (ar_clients a ! i) cab (ar_db a) = Finished (Inl e)" for cab
      using assms(2) by (intro step_insert_lost) (simp add: key_lost_def)
    show ?thesis
    proof (cases "cl_phase (ar_clients a ! i)")
      case (Decremented cab)
      with assms(1) True keep i ins [of cab] show ?thesis
        by (auto simp: key_lost_def client_step_def Let_def split: if_splits)
    qed (use assms(1,2) True keep i in \<open>auto simp: key_lost_def client_step_def Let_def
        step_decrement_def split: if_splits sum.splits\<close>)
  qed
qed

lemma key_lost_step:
  "arena_step E a a' \<Longrightarrow> key_lost i a \<Longrightarrow> arena_inv a \<Longrightarrow> key_lost i a'"
proof (induction rule: arena_step.induct)
  case (statement j a a')
  then show ?case by (rule key_lost_client_step)
next
  case (fault j a e)
  then show ?case by (auto simp: key_lost_def nth_list_update)
next
  case (lost_ack j a cab m)
  from arena_inv_commit(2) [OF lost_ack(4,1,2), of E]
  have "accepted_write (ar_db a) (inserted_view E (ar_clients a ! j) (ar_db a))"
    by (auto simp: accepted_write_def)
  note keep = accepted_write_keeps_keys [OF this]
  with lost_ack show ?case by (auto simp: key_lost_def nth_list_update)
qed

lemma key_lost_reachable:
  "(arena_step E)\<^sup>*\<^sup>* a a' \<Longrightarrow> key_lost i a \<Longrightarrow> arena_inv a \<Longrightarrow> key_lost i a' \<and> arena_inv a'"
  by (induction rule: rtranclp_induct) (auto dest: key_lost_step arena_step_inv)

end
