(* ===== verification/Samples.thy ===== *)
theory Samples
  imports Order_Success
begin

text \<open>
  Concrete inputs for the theorems: an environment without faults, with a codec for the
  image column and distinct identifiers for the first ticks; a variant whose commits lose
  their acknowledgement; and a small catalog of two cabinets.
\<close>

section \<open>A codec for the image column\<close>

definition enc_str :: "string \<Rightarrow> string" where
  "enc_str s = concat (map (\<lambda>c. [CHR ''x'', c]) s) @ ''.''"

fun dec_str :: "string \<Rightarrow> (string \<times> string) option" where
  "dec_str (m # r) =
     (if m = CHR ''.'' then Some ([], r)
      else case r of [] \<Rightarrow> None
           | c # r' \<Rightarrow> map_option (\<lambda>(s, t). (c # s, t)) (dec_str r'))"
| "dec_str [] = None"

lemma dec_enc_str: "dec_str (enc_str s @ t) = Some (s, t)"
  by (induction s) (simp_all add: enc_str_def)

definition enc_image :: "json_image \<Rightarrow> string" where
  "enc_image i = enc_str (ji_ID i) @ enc_str (ji_URL i) @ enc_str (ji_Alt i)
     @ enc_str (replicate (unat (ji_SortOrder i)) (CHR ''i''))"

fun dec_images :: "nat \<Rightarrow> string \<Rightarrow> json_image list option" where
  "dec_images 0 s = (if s = [] then Some [] else None)"
| "dec_images (Suc n) s =
     (if s = [] then Some []
      else case dec_str s of None \<Rightarrow> None | Some (a, s1) \<Rightarrow>
        (case dec_str s1 of None \<Rightarrow> None | Some (b, s2) \<Rightarrow>
        (case dec_str s2 of None \<Rightarrow> None | Some (c, s3) \<Rightarrow>
        (case dec_str s3 of None \<Rightarrow> None | Some (k, s4) \<Rightarrow>
          map_option (\<lambda>is. \<lparr>ji_ID = a, ji_URL = b, ji_Alt = c, ji_SortOrder = of_nat (length k)\<rparr> # is)
            (dec_images n s4)))))"

lemma enc_image_nonempty [simp]: "enc_image i \<noteq> []"
  by (simp add: enc_image_def enc_str_def)

lemma dec_enc_images: "length imgs \<le> n \<Longrightarrow> dec_images n (concat (map enc_image imgs)) = Some imgs"
proof (induction imgs arbitrary: n)
  case Nil
  then show ?case by (cases n) simp_all
next
  case (Cons i imgs)
  then obtain m where n: "n = Suc m" "length imgs \<le> m" by (cases n) auto
  have "enc_image i @ concat (map enc_image imgs) \<noteq> []" by simp
  with Cons.IH [OF n(2)] n(1) show ?case
    by (simp add: enc_image_def dec_enc_str)
qed

lemma length_enc_images: "length imgs \<le> length (concat (map enc_image imgs))"
proof (induction imgs)
  case (Cons i imgs)
  have "1 \<le> length (enc_image i)" by (cases "enc_image i") simp_all
  with Cons show ?case by simp
qed simp

section \<open>Environments\<close>

definition sample_uuid :: "nat \<Rightarrow> string" where
  "sample_uuid k = replicate k (CHR ''a'') @ replicate (36 - k) (CHR ''b'')"

definition sample_env :: env where
  "sample_env = \<lparr>env_fault = (\<lambda>n. None), env_commit_applied = (\<lambda>n. True), env_now = (\<lambda>n. int n),
     env_uuid = sample_uuid, env_render_images = (\<lambda>imgs. concat (map enc_image imgs)),
     env_unmarshal_images = (\<lambda>s. case dec_images (length s) s of None \<Rightarrow> Inl ''bad'' | Some is \<Rightarrow> Inr is),
     env_jsonb_in = Some\<rparr>"

lemma sample_env_sels [simp]:
  "env_fault sample_env n = None" "env_now sample_env n = int n" "env_uuid sample_env = sample_uuid"
  "env_jsonb_in sample_env s = Some s"
  by (simp_all add: sample_env_def)

lemma sample_env_quiet [simp]: "quiet sample_env"
  by (auto simp: quiet_def scan_image_bytes_def sample_env_def
      dec_enc_images [OF length_enc_images] intro: ccontr)

text \<open>The same with a commit whose acknowledgement is lost at tick \<open>k\<close>.\<close>

definition lossy_env :: "nat \<Rightarrow> env" where
  "lossy_env k = sample_env\<lparr>env_fault := (\<lambda>n. if n = k then Some (ClientFault ''connection reset'') else None)\<rparr>"

lemma sample_uuid_length [simp]: "k \<le> 36 \<Longrightarrow> char_length (sample_uuid k) = 36"
  by (simp add: sample_uuid_def char_length_def byte_def)

lemma sample_uuid_inject:
  assumes "j \<le> 36" "k \<le> 36" "sample_uuid j = sample_uuid k"
  shows "j = k"
proof -
  have c: "length (filter (\<lambda>c. c = CHR ''a'') (sample_uuid i)) = i" for i by (simp add: sample_uuid_def)
  have "length (filter (\<lambda>c. c = CHR ''a'') (sample_uuid j)) = length (filter (\<lambda>c. c = CHR ''a'') (sample_uuid k))"
    by (simp only: assms(3))
  then show ?thesis by (simp only: c)
qed

lemma sample_fresh:
  assumes "m \<le> 37" "orders d = []" "order_items d = []" "outbox d = []" "reservations d = []"
  shows "uuid_fresh sample_env n m d"
  using assms by (auto simp: uuid_fresh_def inj_on_def dest: sample_uuid_inject [rotated 2])

section \<open>A catalog\<close>

definition sample_cabinet :: "string \<Rightarrow> int32 \<Rightarrow> int64 \<Rightarrow> db_cabinet" where
  "sample_cabinet cid q price = \<lparr>c_id = cid, c_slug = cid, c_model = ''model'', c_type = ''upright'',
     c_display = ''crt'', c_condition = ''mint'', c_quantity = q, c_price = price,
     c_manufacturer = ''maker'', c_year = ''1992'', c_created_at = Some 0, c_updated_at = Some 0\<rparr>"

definition sample_db :: catalog_db where
  "sample_db = empty_db\<lparr>cabinets := [sample_cabinet ''A'' 1 100, sample_cabinet ''B'' 5 20]\<rparr>"

definition sample_world :: world where
  "sample_world = \<lparr>w_db = sample_db, w_tick = 0\<rparr>"

lemma sample_world_sels [simp]: "w_db sample_world = sample_db" "w_tick sample_world = 0"
  by (simp_all add: sample_world_def)

lemma sample_db_sels [simp]:
  "cabinets sample_db = [sample_cabinet ''A'' 1 100, sample_cabinet ''B'' 5 20]"
  "cabinet_images sample_db = []" "reservations sample_db = []" "orders sample_db = []"
  "order_items sample_db = []" "outbox sample_db = []"
  by (simp_all add: sample_db_def empty_db_def)

lemma sample_schema [simp]: "schema_ok sample_db"
  by (simp add: schema_defs sample_cabinet_def varchar_def char_length_def byte_def)

lemma sample_stock [simp]: "stock_of sample_db ''A'' = Some 1" "stock_of sample_db ''B'' = Some 5"
  "stock_of sample_db ''Z'' = None"
  by (simp_all add: stock_of_def sample_cabinet_def)

lemma sample_find [simp]: "find_reservation key sample_db = None" "order_of_key key sample_db = None"
  by (simp_all add: find_reservation_def order_of_key_def)

definition sample_items :: "order_item_input list" where
  "sample_items = [\<lparr>In_CabinetID = ''A'', In_Quantity = 1\<rparr>, \<lparr>In_CabinetID = ''B'', In_Quantity = 2\<rparr>]"

section \<open>A lost acknowledgement, evaluated\<close>

lemma lossy_sels:
  "env_fault (lossy_env k) n = (if n = k then Some (ClientFault ''connection reset'') else None)"
  "env_now (lossy_env k) = int" "env_uuid (lossy_env k) = sample_uuid"
  "env_jsonb_in (lossy_env k) = Some" "env_commit_applied (lossy_env k) n = True"
  by (simp_all add: lossy_env_def sample_env_def)

lemma lossy_scan:
  "scan_cabinet_row (lossy_env k) c [] = Inr \<lparr>row_ID = c_id c, row_Slug = c_slug c,
     row_Model = c_model c, row_Type = c_type c, row_Display = c_display c,
     row_Condition = c_condition c, row_Quantity = c_quantity c, row_Price = c_price c,
     row_Manufacturer = c_manufacturer c, row_Year = c_year c, row_CreatedAt = c_created_at c,
     row_UpdatedAt = c_updated_at c, row_Images = []\<rparr>"
  by (simp add: scan_cabinet_row_def scan_image_bytes_def lossy_env_def sample_env_def)

lemma sample_scan:
  "scan_cabinet_row sample_env c [] = Inr \<lparr>row_ID = c_id c, row_Slug = c_slug c,
     row_Model = c_model c, row_Type = c_type c, row_Display = c_display c,
     row_Condition = c_condition c, row_Quantity = c_quantity c, row_Price = c_price c,
     row_Manufacturer = c_manufacturer c, row_Year = c_year c, row_CreatedAt = c_created_at c,
     row_UpdatedAt = c_updated_at c, row_Images = []\<rparr>"
  by (simp add: scan_cabinet_row_def scan_image_bytes_def sample_env_def)

definition one_item :: "order_item_input list" where
  "one_item = [\<lparr>In_CabinetID = ''A'', In_Quantity = 1\<rparr>]"

lemma one_item_ok: "distinct (map In_CabinetID one_item)" "fits_int32 one_item"
  by (simp_all add: fits_int32_def one_item_def to_int32_def of_int32_def)

text \<open>The statements of one call, each evaluated on the tables it meets.\<close>

lemmas order_eval = repo_CreateOrderTx_def tx_begin_def tx_run_def tx_commit_def lossy_sels Let_def
  q_GetOrderByItempotencyKey_def place_order_def tx_uuid_def tx_time_now_def q_GetCabinet_def
  images_agg_def lossy_scan ReserveStockOnTx_def q_GetReservation_def q_DecrementStock_def
  decrement_matches_def decrement_row_def q_CreateReservation_def reservation_violation_def
  q_CreateOrder_def order_violation_def q_CreateOrderItem_def order_item_violation_def
  write_outbox_def marshal_payload_def q_InsertOutboxEvent_def outbox_violation_def varchar_def
  order_status_values_def StatusPendingPayment_def sample_cabinet_def

lemma lossy_order:
  "\<exists>e w1. repo_CreateOrderTx (lossy_env 13) ''u'' one_item ''k'' sample_world = (Inl e, w1)
     \<and> w_db w1 \<noteq> sample_db"
proof -
  let ?r = "repo_CreateOrderTx (lossy_env 13) ''u'' one_item ''k'' sample_world"
  have r: "(\<exists>e. fst ?r = Inl e) \<and> orders (w_db (snd ?r)) \<noteq> []"
    by (simp add: order_eval one_item_def to_int32_def stock_key_varchar [unfolded varchar_def]
        char_length_def [of "''A''"] char_length_def [of "''k''"] byte_def)
  then obtain e where e: "fst ?r = Inl e" by blast
  have "w_db (snd ?r) \<noteq> sample_db" using r by (elim conjE contrapos_nn) (simp only: sample_db_sels)
  with e show ?thesis by (intro exI [of _ e] exI [of _ "snd ?r"]) (simp add: prod_eq_iff)
qed

end
