(* ===== verification/Race_Properties.thy ===== *)
theory Race_Properties
  imports Race_Count Samples
begin

text \<open>
  What holds for concurrent calls of \<open>ReserveStockTx\<close>, whatever the interleaving of their
  statements.
\<close>

section \<open>Complete runs\<close>

text \<open>A schedule of two clients, and the arena it leads to.\<close>

definition two_clients :: arena where
  "two_clients = start sample_db [(''B'', 1, ''k''), (''B'', 1, ''k'')]"

lemma statement_arena: "statement_steps E a b \<Longrightarrow> (arena_step E)\<^sup>*\<^sup>* a b"
  by (induction rule: statement_steps.induct) (auto intro: rtranclp.rtrancl_into_rtrancl arena_step.statement)

lemma run_schedule_rank:
  "run_schedule E is a = Some b \<Longrightarrow> length is + arena_rank b \<le> arena_rank a"
proof (induction "is" arbitrary: a)
  case (Cons i "is")
  then obtain c where c: "client_step E i a = Some c" "run_schedule E is c = Some b"
    by (auto split: option.splits)
  from Cons.IH [OF c(2)] client_step_rank [OF c(1)] show ?case by simp
qed simp

lemma can_finish:
  "\<exists>js b. run_schedule E js a = Some b \<and> (\<forall>c \<in> set (ar_clients b). \<not> unfinished c)"
proof (induction "arena_rank a" arbitrary: a rule: less_induct)
  case less
  show ?case
  proof (cases "\<exists>c \<in> set (ar_clients a). unfinished c")
    case True
    then obtain i c where c: "client_step E i a = Some c" using unfinished_step by blast
    obtain js b where "run_schedule E js c = Some b" "\<forall>c \<in> set (ar_clients b). \<not> unfinished c"
      using less [OF client_step_rank [OF c]] by blast
    with c have "run_schedule E (i # js) a = Some b" by simp
    with \<open>\<forall>c \<in> set (ar_clients b). \<not> unfinished c\<close> show ?thesis by blast
  next
    case False
    then show ?thesis by (intro exI [of _ "[]"] exI [of _ a]) simp
  qed
qed

lemma rank_start: "arena_rank (start d reqs) = 5 * length reqs"
  by (induction reqs) (auto simp: arena_rank_def start_def)

text \<open>
  No deadlock and no endless run: a run takes at most five statements per call, and every
  run, wherever it stands, can be continued until all calls have returned.
\<close>
theorem race_terminates:
  assumes "run_schedule E is (start d reqs) = Some a"
  shows "length is \<le> 5 * length reqs
    \<and> (\<exists>js b. run_schedule E js a = Some b \<and> (\<forall>c \<in> set (ar_clients b). \<exists>r. cl_phase c = Finished r))"
proof -
  have "unfinished c \<longleftrightarrow> (\<nexists>r. cl_phase c = Finished r)" for c
    by (simp add: unfinished_def split: phase.splits)
  with can_finish [of E a] run_schedule_rank [OF assms] show ?thesis by (auto simp: rank_start)
qed

lemma race_terminates_witness:
  "\<exists>b. (\<forall>c \<in> set (ar_clients b). \<exists>r. cl_phase c = Finished r) \<and> (\<exists>js. run_schedule sample_env js two_clients = Some b)"
proof -
  have "run_schedule sample_env [] (start sample_db [(''B'', 1, ''k''), (''B'', 1, ''k'')])
      = Some (start sample_db [(''B'', 1, ''k''), (''B'', 1, ''k'')])" by simp
  from race_terminates [OF this] show ?thesis unfolding two_clients_def by blast
qed

section \<open>The stock\<close>

text \<open>
  C14. No oversell and no undersell: when any number of clients each reserve one unit of a
  cabinet under keys of their own, then, however their statements interleave, exactly as
  many succeed as there are units, or all when there are enough.
\<close>
theorem race_exact:
  assumes "quiet E" "schema_ok d" "stock_of d x = Some s" "distinct keys"
    "\<forall>k \<in> set keys. varchar 255 k \<and> find_reservation k d = None"
    "statement_steps E (start d (one_each x keys)) a" "\<forall>c \<in> set (ar_clients a). \<not> unfinished c"
  shows "count_where succeeded (ar_clients a) = min s (int (length keys))
    \<and> stock_of (ar_db a) x = Some (s - min s (int (length keys)))"
proof -
  have inv: "race_inv x s a"
    by (rule race_inv_steps [OF assms(6,1) race_inv_start [OF assms(2-5)]])
  have "length (ar_clients b) = length (ar_clients c)" if "client_step E i b = Some c" for i b c
    using that by (auto simp: client_step_def Let_def split: if_splits phase.splits)
  with assms(6) have "length (ar_clients a) = length (ar_clients (start d (one_each x keys)))"
    by (induction rule: statement_steps.induct) auto
  then have "length (ar_clients a) = length keys" by (simp add: start_def one_each_def)
  with race_outcome [OF inv assms(7)] inv show ?thesis by (simp add: race_inv_def)
qed

lemma race_exact_witness:
  "\<exists>a. statement_steps sample_env (start sample_db (one_each ''A'' [''k1'', ''k2''])) a
     \<and> count_where succeeded (ar_clients a) = 1 \<and> stock_of (ar_db a) ''A'' = Some 0"
proof -
  obtain js b where b: "run_schedule sample_env js (start sample_db (one_each ''A'' [''k1'', ''k2''])) = Some b"
    "\<forall>c \<in> set (ar_clients b). \<not> unfinished c" using can_finish by blast
  have steps: "statement_steps sample_env (start sample_db (one_each ''A'' [''k1'', ''k2''])) b"
    by (rule run_schedule_steps [OF b(1) statement_steps.none])
  have "\<forall>k \<in> set [''k1'', ''k2'']. varchar 255 k \<and> find_reservation k sample_db = None"
    by (simp add: varchar_def char_length_def)
  with race_exact [OF sample_env_quiet sample_schema sample_stock(1) _ _ steps b(2)] steps show ?thesis by auto
qed

text \<open>
  C15. Every interleaving is serial: with any mix of requests, faults and lost acknowledgements
  the tables are always those of some sequence of accepted reservations, one after the
  other, so they satisfy the schema and no unit is lost or created.
\<close>
theorem race_serial:
  assumes "(arena_step E)\<^sup>*\<^sup>* (start d reqs) a" "schema_ok d"
  shows "serial_history d (ar_db a) \<and> schema_ok (ar_db a) \<and> total_units (ar_db a) cid = total_units d cid"
proof -
  have "serial_history d (ar_db a)"
    using arena_reachable [OF assms(1) arena_inv_start [OF assms(2)], of d]
    by (simp add: start_def serial_history.intros)
  with serial_history_ledger [OF this assms(2)] show ?thesis by blast
qed

lemma race_serial_witness:
  "\<exists>a. (arena_step sample_env)\<^sup>*\<^sup>* two_clients a \<and> (\<forall>c \<in> set (ar_clients a). \<not> unfinished c)
     \<and> total_units (ar_db a) ''B'' = Some 5"
proof -
  obtain js b where b: "run_schedule sample_env js two_clients = Some b" "\<forall>c \<in> set (ar_clients b). \<not> unfinished c"
    using can_finish by blast
  have steps: "(arena_step sample_env)\<^sup>*\<^sup>* two_clients b"
    by (rule statement_arena [OF run_schedule_steps [OF b(1) statement_steps.none]])
  have "total_units sample_db ''B'' = Some 5" by (simp add: total_units_def reserved_units_def)
  with race_serial [OF steps [unfolded two_clients_def] sample_schema, of "''B''"] steps b(2) show ?thesis by auto
qed

section \<open>Two calls with one key\<close>

lemmas race_eval = client_step_def goto_def step_lookup_def step_found_def step_decrement_def step_insert_def
  decremented_view_def inserted_view_def row_locked_def key_pending_def dec_arg_def res_arg_def
  q_GetReservation_def q_DecrementStock_def decrement_matches_def decrement_row_def Let_def
  q_CreateReservation_def reservation_violation_def sample_scan images_agg_def sample_cabinet_def
  two_clients_def start_def varchar_def char_length_def byte_def to_int32_def nth_Cons'

lemma two_clients_run:
  "\<exists>a b. run_schedule sample_env [0, 0, 1, 1, 0, 0, 0] two_clients = Some a
     \<and> cl_phase (ar_clients a ! 1) = Missed \<and> length (ar_clients a) = 2
     \<and> find_reservation (cl_key (ar_clients a ! 1)) (ar_db a) \<noteq> None
     \<and> run_schedule sample_env [1, 1] a = Some b
     \<and> cl_phase (ar_clients b ! 1) = Finished (Inl (CabErr ErrDuplicateReservation))"
  by (simp add: race_eval find_reservation_def)

text \<open>
  C16. The loser of a race for a key fails: a call that looked its key up before another call
  committed a reservation under it never returns the reservation, even with the same
  parameters; whatever happens next it ends with an error.
\<close>
theorem race_same_key_loser:
  assumes "(arena_step E)\<^sup>*\<^sup>* (start d reqs) a" "schema_ok d" "i < length (ar_clients a)"
    "cl_phase (ar_clients a ! i) = Missed" "find_reservation (cl_key (ar_clients a ! i)) (ar_db a) \<noteq> None"
    "(arena_step E)\<^sup>*\<^sup>* a b" "cl_phase (ar_clients b ! i) = Finished r"
  shows "\<not> is_ok r"
proof -
  have "arena_inv a" using arena_reachable [OF assms(1) arena_inv_start [OF assms(2)], of d]
    by (simp add: start_def serial_history.intros)
  moreover have "key_lost i a" using assms(3-5) by (simp add: key_lost_def)
  ultimately have "key_lost i b" using key_lost_reachable [OF assms(6)] by blast
  with assms(7) show ?thesis by (simp add: key_lost_def)
qed

lemma race_same_key_loser_witness:
  "\<exists>b. (arena_step sample_env)\<^sup>*\<^sup>* two_clients b
     \<and> cl_phase (ar_clients b ! 1) = Finished (Inl (CabErr ErrDuplicateReservation))
     \<and> \<not> is_ok (Inl (CabErr ErrDuplicateReservation) :: go_error + cabinet)"
proof -
  obtain a b where a: "run_schedule sample_env [0, 0, 1, 1, 0, 0, 0] two_clients = Some a"
    "cl_phase (ar_clients a ! 1) = Missed" "length (ar_clients a) = 2"
    "find_reservation (cl_key (ar_clients a ! 1)) (ar_db a) \<noteq> None"
    and b: "run_schedule sample_env [1, 1] a = Some b"
      "cl_phase (ar_clients b ! 1) = Finished (Inl (CabErr ErrDuplicateReservation))"
    using two_clients_run by blast
  have sa: "(arena_step sample_env)\<^sup>*\<^sup>* two_clients a" and sb: "(arena_step sample_env)\<^sup>*\<^sup>* a b"
    by (rule statement_arena [OF run_schedule_steps [OF _ statement_steps.none]], fact)+
  have "1 < length (ar_clients a)" using a(3) by simp
  from race_same_key_loser [OF sa [unfolded two_clients_def] sample_schema this a(2,4) sb b(2)] sa sb b(2)
  show ?thesis by (metis rtranclp_trans)
qed

end
