(* ===== verification/Call_Tree.thy ===== *)
theory Call_Tree
  imports Repository
begin

text \<open>
  The two writing functions of the repository as trees of statements: a call is finished,
  or it waits for the result of a statement, for an identifier or for the time, and goes on
  with it.  Run alone inside a transaction the trees are the functions of \<open>Repository\<close>; as
  trees they can be interleaved statement by statement.
\<close>

section \<open>Statements\<close>

datatype sql_stmt =
    SGetReservation string
  | SGetCabinet string
  | SDecrementStock decrement_stock_params
  | SCreateReservation create_reservation_params
  | SGetOrderByKey string
  | SListOrderItems string
  | SCreateOrder create_order_params
  | SCreateOrderItem create_order_item_params
  | SInsertOutbox insert_outbox_params

datatype sql_row =
    RowReservation (row_reservation: db_reservation)
  | RowCabinet (row_cabinet: cabinet_row)
  | RowOrder (row_order: db_order)
  | RowItems (row_items: "db_order_item list")
  | RowNone

definition map_stmt :: "('a \<Rightarrow> 'b) \<Rightarrow> 'a stmt \<Rightarrow> 'b stmt" where
  "map_stmt f q now d = (case q now d of (r, d') \<Rightarrow> (map_sum (\<lambda>e. e) f r, d'))"

primrec run_stmt :: "env \<Rightarrow> sql_stmt \<Rightarrow> sql_row stmt" where
  "run_stmt E (SGetReservation key) = map_stmt RowReservation (q_GetReservation key)"
| "run_stmt E (SGetCabinet cid) = map_stmt RowCabinet (q_GetCabinet E cid)"
| "run_stmt E (SDecrementStock arg) = map_stmt RowCabinet (q_DecrementStock E arg)"
| "run_stmt E (SCreateReservation arg) = map_stmt (\<lambda>_. RowNone) (q_CreateReservation arg)"
| "run_stmt E (SGetOrderByKey key) = map_stmt RowOrder (q_GetOrderByItempotencyKey key)"
| "run_stmt E (SListOrderItems oid) = map_stmt RowItems (q_ListOrderItems oid)"
| "run_stmt E (SCreateOrder arg) = map_stmt RowOrder (q_CreateOrder arg)"
| "run_stmt E (SCreateOrderItem arg) = map_stmt (\<lambda>_. RowNone) (q_CreateOrderItem arg)"
| "run_stmt E (SInsertOutbox arg) = map_stmt (\<lambda>_. RowNone) (q_InsertOutboxEvent E arg)"

section \<open>Calls\<close>

datatype 'r call =
    Return "go_error + 'r"
  | Exec sql_stmt "go_error + sql_row \<Rightarrow> 'r call"
  | NewUuid "string \<Rightarrow> 'r call"
  | TimeNow "int \<Rightarrow> 'r call"

primrec and_then :: "'a call \<Rightarrow> (go_error + 'a \<Rightarrow> 'b call) \<Rightarrow> 'b call" where
  "and_then (Return r) k = k r"
| "and_then (Exec s c) k = Exec s (\<lambda>r. and_then (c r) k)"
| "and_then (NewUuid c) k = NewUuid (\<lambda>u. and_then (c u) k)"
| "and_then (TimeNow c) k = TimeNow (\<lambda>t. and_then (c t) k)"

text \<open>\<open>if err != nil { return nil, err }\<close>.\<close>

definition or_return :: "'a call \<Rightarrow> ('a \<Rightarrow> 'b call) \<Rightarrow> 'b call" where
  "or_return c k = and_then c (\<lambda>r. case r of Inl err \<Rightarrow> Return (Inl err) | Inr a \<Rightarrow> k a)"

primrec run_call :: "env \<Rightarrow> 'r call \<Rightarrow> tx \<Rightarrow> (go_error + 'r) \<times> tx" where
  "run_call E (Return r) t = (r, t)"
| "run_call E (Exec s c) t = (case tx_run E (run_stmt E s) t of (r, t') \<Rightarrow> run_call E (c r) t')"
| "run_call E (NewUuid c) t = (case tx_uuid E t of (u, t') \<Rightarrow> run_call E (c u) t')"
| "run_call E (TimeNow c) t = (case tx_time_now E t of (n, t') \<Rightarrow> run_call E (c n) t')"

section \<open>The functions of the repository\<close>

definition reserve_call :: "string \<Rightarrow> go_int \<Rightarrow> string \<Rightarrow> cabinet call" where
  "reserve_call cabinetID quantity idempotencyKey =
     Exec (SGetReservation idempotencyKey) (\<lambda>r. case r of
       Inr existing \<Rightarrow>
         (let existingRes = row_reservation existing in
          if r_cabinet_id existingRes \<noteq> cabinetID \<or> of_int32 (r_quantity existingRes) \<noteq> quantity
          then Return (Inl (CabErr ErrDuplicateReservation))
          else Exec (SGetCabinet (r_cabinet_id existingRes)) (\<lambda>r. case r of
            Inl err \<Rightarrow> Return (Inl (WrapError ''failed to get cabinet for existing reservation: '' err))
          | Inr c \<Rightarrow> Return (Inr (mapCabinetToDomain (row_cabinet c)))))
     | Inl _ \<Rightarrow>
         Exec (SDecrementStock \<lparr>dsp_Quantity = to_int32 quantity, dsp_ID = cabinetID\<rparr>) (\<lambda>r. case r of
           Inl err \<Rightarrow> Return (Inl (if errors_is err ErrNoRows then CabErr ErrInsufficientStock
                                  else WrapError ''failed to decrement stock: '' err))
         | Inr c \<Rightarrow>
             Exec (SCreateReservation \<lparr>crp_IdempotencyKey = idempotencyKey, crp_CabinetID = cabinetID,
                crp_Quantity = to_int32 quantity\<rparr>) (\<lambda>r. case r of
               Inl err \<Rightarrow> Return (Inl (if errors_as_pg err = Some ''23505'' then CabErr ErrDuplicateReservation
                                      else WrapError ''failed to create reservation: '' err))
             | Inr _ \<Rightarrow> Return (Inr (mapCabinetToDomain (row_cabinet c))))))"

definition replay_call :: "string \<Rightarrow> order_item_input list \<Rightarrow> db_order \<Rightarrow> order call" where
  "replay_call userID items existingOrder =
     Exec (SListOrderItems (o_id existingOrder)) (\<lambda>r. case r of
       Inl err \<Rightarrow> Return (Inl (WrapError ''failed to list existing order items: '' err))
     | Inr rows \<Rightarrow>
         (let existingItems = row_items rows in
          if o_user_id existingOrder \<noteq> userID \<or> length existingItems \<noteq> length items
             \<or> \<not> items_match (existing_item_map existingItems Map.empty) items
          then Return (Inl (OrdErr ErrDuplicateOrder))
          else Return (Inr (mapOrderToDomain existingOrder existingItems))))"

fun snapshot_call :: "order_item_input list \<Rightarrow> int64 \<Rightarrow> (item_snapshot list \<times> int64) call" where
  "snapshot_call [] totalCents = Return (Inr ([], totalCents))"
| "snapshot_call (item # rest) totalCents =
     Exec (SGetCabinet (In_CabinetID item)) (\<lambda>r. case r of
       Inl err \<Rightarrow> Return (Inl (if errors_is err ErrNoRows then CabErr ErrNotFound
                              else WrapError ''failed to get cabinet snapshot while creating order: '' err))
     | Inr row \<Rightarrow>
         or_return (snapshot_call rest (totalCents + row_Price (row_cabinet row) * In_Quantity item))
           (\<lambda>(snaps, totalC). Return (Inr (\<lparr>snap_cabinetID = In_CabinetID item,
              snap_quantity = In_Quantity item, snap_unitPriceCents = row_Price (row_cabinet row)\<rparr> # snaps, totalC))))"

fun reserve_items_call :: "string \<Rightarrow> item_snapshot list \<Rightarrow> unit call" where
  "reserve_items_call orderID [] = Return (Inr ())"
| "reserve_items_call orderID (item # rest) =
     or_return (reserve_call (snap_cabinetID item) (snap_quantity item) (stock_key orderID (snap_cabinetID item)))
       (\<lambda>_. reserve_items_call orderID rest)"

fun insert_items_call :: "string \<Rightarrow> item_snapshot list \<Rightarrow> db_order_item list call" where
  "insert_items_call orderID [] = Return (Inr [])"
| "insert_items_call orderID (item # rest) =
     NewUuid (\<lambda>itemID. Exec (SCreateOrderItem \<lparr>cip_ID = itemID, cip_OrderID = orderID,
         cip_CabinetID = snap_cabinetID item, cip_Quantity = to_int32 (snap_quantity item),
         cip_UnitPriceCents = snap_unitPriceCents item\<rparr>) (\<lambda>r. case r of
       Inl err \<Rightarrow> Return (Inl (WrapError ''failed to insert order item line: '' err))
     | Inr _ \<Rightarrow> or_return (insert_items_call orderID rest) (\<lambda>dbItems.
         Return (Inr (\<lparr>oi_id = itemID, oi_order_id = orderID, oi_cabinet_id = snap_cabinetID item,
           oi_quantity = to_int32 (snap_quantity item),
           oi_unit_price_cents = snap_unitPriceCents item\<rparr> # dbItems)))))"

definition outbox_call :: "string \<Rightarrow> string \<Rightarrow> int64 \<Rightarrow> unit call" where
  "outbox_call orderID userID totalCents =
     NewUuid (\<lambda>eventID. TimeNow (\<lambda>now.
       case marshal_payload \<lparr>Pay_EventID = eventID, Pay_OrderID = orderID, Pay_UserID = userID,
              Pay_AmountCents = totalCents, Pay_OccurredAt = rfc3339 now\<rparr> of
         Inl err \<Rightarrow> Return (Inl (WrapError ''failed to marshal outbox event payload: '' err))
       | Inr payloadBytes \<Rightarrow>
           Exec (SInsertOutbox \<lparr>iop_ID = IdString eventID, iop_AggregateID = orderID,
              iop_EventType = ''order.created'', iop_Payload = payloadBytes\<rparr>) (\<lambda>r. case r of
             Inl err \<Rightarrow> Return (Inl (WrapError ''failed to insert outbox event: '' err))
           | Inr _ \<Rightarrow> Return (Inr ()))))"

definition place_call :: "string \<Rightarrow> order_item_input list \<Rightarrow> string \<Rightarrow> order call" where
  "place_call userID items idempotencyKey =
     or_return (snapshot_call items 0) (\<lambda>(snapshots, totalCents).
       NewUuid (\<lambda>orderID. or_return (reserve_items_call orderID snapshots) (\<lambda>_.
         Exec (SCreateOrder \<lparr>cop_ID = orderID, cop_UserID = userID, cop_Status = StatusPendingPayment,
            cop_TotalCents = totalCents, cop_IdempotencyKey = idempotencyKey\<rparr>) (\<lambda>r. case r of
           Inl err \<Rightarrow> Return (Inl (if errors_as_pg err = Some ''23505'' then OrdErr ErrDuplicateOrder
                                  else WrapError ''failed to insert order: '' err))
         | Inr created \<Rightarrow>
             or_return (insert_items_call orderID snapshots) (\<lambda>dbOrderItems.
               or_return (outbox_call orderID userID totalCents) (\<lambda>_.
                 Return (Inr (mapOrderToDomain (row_order created) dbOrderItems))))))))"

definition create_order_call :: "string \<Rightarrow> order_item_input list \<Rightarrow> string \<Rightarrow> order call" where
  "create_order_call userID items idempotencyKey =
     Exec (SGetOrderByKey idempotencyKey) (\<lambda>r. case r of
       Inr existing \<Rightarrow> replay_call userID items (row_order existing)
     | Inl _ \<Rightarrow> place_call userID items idempotencyKey)"

text \<open>What a client asks of the repository, and what it is answered.\<close>

datatype request =
    OrderRequest string "order_item_input list" string
  | ReserveRequest string go_int string

datatype answer = OrderAnswer order | CabinetAnswer cabinet

definition answering :: "('a \<Rightarrow> 'b) \<Rightarrow> 'a call \<Rightarrow> 'b call" where
  "answering f c = and_then c (\<lambda>r. Return (map_sum (\<lambda>e. e) f r))"

primrec request_call :: "request \<Rightarrow> answer call" where
  "request_call (OrderRequest uid items key) = answering OrderAnswer (create_order_call uid items key)"
| "request_call (ReserveRequest cid q key) = answering CabinetAnswer (reserve_call cid q key)"

section \<open>Run alone they are the functions\<close>

lemma tx_run_map_stmt:
  "tx_run E (map_stmt f q) t = (case tx_run E q t of (Inl e, t') \<Rightarrow> (Inl e, t') | (Inr a, t') \<Rightarrow> (Inr (f a), t'))"
  by (auto simp: tx_run_def map_stmt_def Let_def split: prod.splits sum.splits option.splits)

lemma run_and_then:
  "run_call E (and_then c k) t = (case run_call E c t of (r, t') \<Rightarrow> run_call E (k r) t')"
  by (induction c arbitrary: t) (simp_all split: prod.split)

lemma run_or_return:
  "run_call E (or_return c k) t = (case run_call E c t of (Inl err, t') \<Rightarrow> (Inl err, t')
     | (Inr a, t') \<Rightarrow> run_call E (k a) t')"
  by (simp add: or_return_def run_and_then split: prod.split sum.split)

lemmas run_defs = run_or_return tx_run_map_stmt Let_def

lemma run_reserve_call: "run_call E (reserve_call cid q key) t = ReserveStockOnTx E cid q key t"
  by (simp add: reserve_call_def ReserveStockOnTx_def run_defs split: prod.split sum.split)

lemma run_replay_call: "run_call E (replay_call uid items o1) t = replay_order E uid items o1 t"
  by (simp add: replay_call_def replay_order_def run_defs split: prod.split sum.split)

lemma run_snapshot_call: "run_call E (snapshot_call items tot) t = snapshot_items E items tot t"
  by (induction items arbitrary: tot t) (simp_all add: run_defs split: prod.split sum.split)

lemma run_reserve_items_call: "run_call E (reserve_items_call oid ls) t = reserve_items E oid ls t"
  by (induction ls arbitrary: t) (simp_all add: run_defs run_reserve_call split: prod.split sum.split)

lemma run_insert_items_call: "run_call E (insert_items_call oid ls) t = insert_items E oid ls t"
  by (induction ls arbitrary: t) (simp_all add: run_defs split: prod.split sum.split)

lemma run_outbox_call: "run_call E (outbox_call oid uid cents) t = write_outbox E oid uid cents t"
  by (simp add: outbox_call_def write_outbox_def run_defs split: prod.split sum.split)

lemma run_place_call: "run_call E (place_call uid items key) t = place_order E uid items key t"
  by (simp add: place_call_def place_order_def run_defs run_snapshot_call run_reserve_items_call
      run_insert_items_call run_outbox_call split: prod.split sum.split)

lemma run_create_order_call:
  "run_call E (create_order_call uid items key) t =
     (case tx_run E (q_GetOrderByItempotencyKey key) t of
        (Inr o1, t1) \<Rightarrow> replay_order E uid items o1 t1
      | (Inl _, t1) \<Rightarrow> place_order E uid items key t1)"
  by (simp add: create_order_call_def run_defs run_replay_call run_place_call split: prod.split sum.split)

lemma run_answering: "run_call E (answering f c) t = map_prod (map_sum (\<lambda>e. e) f) (\<lambda>t. t) (run_call E c t)"
  by (simp add: answering_def run_and_then split: prod.split)

lemma run_answeringD:
  "run_call E (answering f c) t = (r, t') \<Longrightarrow> \<exists>r0. run_call E c t = (r0, t') \<and> r = map_sum (\<lambda>e. e) f r0"
  by (cases "run_call E c t") (auto simp: run_answering)

end
