(* ===== verification/Interleaving.thy ===== *)
theory Interleaving
  imports Call_Tree Sql_Facts Error_Paths
begin

text \<open>
  Concurrent transactions of the repository, given by their call trees and interleaved
  statement by statement under READ COMMITTED: orders and reservations, in any mixture.
  A session has its call, and the statements by which its transaction has written; it sees
  the committed tables with those applied.  An \<open>UPDATE\<close> waits for the session that holds the
  row it found, an \<open>INSERT\<close> for the one that has inserted the same key, until that
  transaction ends.  (The share lock that a foreign key takes on a cabinet does not conflict
  with an update of its stock.)  A transaction that fails gives up its writes and its locks.
\<close>

section \<open>Sessions\<close>

datatype 'r session_phase = NotBegun | InTx | Closed "go_error + 'r"

text \<open>\<open>ss_commit\<close> is the text of the error that wraps a failed commit.\<close>

record 'r session =
  ss_call :: "'r call"
  ss_commit :: string
  ss_phase :: "'r session_phase"
  ss_now :: int
  ss_failed :: bool
  ss_writes :: "sql_stmt list"

record 'r field =
  fd_db :: catalog_db
  fd_sessions :: "'r session list"
  fd_tick :: nat

primrec apply_writes :: "env \<Rightarrow> int \<Rightarrow> sql_stmt list \<Rightarrow> catalog_db \<Rightarrow> catalog_db" where
  "apply_writes E now [] d = d"
| "apply_writes E now (s # ws) d = apply_writes E now ws (snd (run_stmt E s now d))"

definition session_view :: "env \<Rightarrow> 'r session \<Rightarrow> catalog_db \<Rightarrow> catalog_db" where
  "session_view E ss d = apply_writes E (ss_now ss) (ss_writes ss) d"

primrec is_write :: "sql_stmt \<Rightarrow> bool" where
  "is_write (SGetReservation key) = False"
| "is_write (SGetCabinet cid) = False"
| "is_write (SDecrementStock arg) = True"
| "is_write (SCreateReservation arg) = True"
| "is_write (SGetOrderByKey key) = False"
| "is_write (SListOrderItems oid) = False"
| "is_write (SCreateOrder arg) = True"
| "is_write (SCreateOrderItem arg) = True"
| "is_write (SInsertOutbox arg) = True"

text \<open>A statement has written unless it failed or found no row.\<close>

definition has_written :: "sql_stmt \<Rightarrow> go_error + sql_row \<Rightarrow> bool" where
  "has_written s r \<longleftrightarrow> is_write s \<and> (case r of Inl e \<Rightarrow> \<not> aborts_tx e \<and> e \<noteq> ErrNoRows | Inr a \<Rightarrow> True)"

section \<open>Waiting\<close>

fun locked_rows :: "sql_stmt list \<Rightarrow> string list" where
  "locked_rows [] = []"
| "locked_rows (SDecrementStock arg # ws) = dsp_ID arg # locked_rows ws"
| "locked_rows (s # ws) = locked_rows ws"

text \<open>Two inserts of the same unique key.\<close>

fun same_key :: "sql_stmt \<Rightarrow> sql_stmt \<Rightarrow> bool" where
  "same_key (SCreateReservation a) (SCreateReservation b) \<longleftrightarrow> crp_IdempotencyKey a = crp_IdempotencyKey b"
| "same_key (SCreateOrder a) (SCreateOrder b) \<longleftrightarrow>
     cop_ID a = cop_ID b \<or> cop_IdempotencyKey a = cop_IdempotencyKey b"
| "same_key (SCreateOrderItem a) (SCreateOrderItem b) \<longleftrightarrow> cip_ID a = cip_ID b"
| "same_key (SInsertOutbox a) (SInsertOutbox b) \<longleftrightarrow> any_id_text (iop_ID a) = any_id_text (iop_ID b)"
| "same_key _ _ \<longleftrightarrow> False"

text \<open>Whether a statement of a session whose view is \<open>v\<close> has to wait for one with the writes \<open>ws\<close>.\<close>

definition waits_on :: "catalog_db \<Rightarrow> sql_stmt \<Rightarrow> sql_stmt list \<Rightarrow> bool" where
  "waits_on v s ws \<longleftrightarrow>
     (case s of SDecrementStock arg \<Rightarrow>
        find (decrement_matches arg) (cabinets v) \<noteq> None \<and> dsp_ID arg \<in> set (locked_rows ws)
      | _ \<Rightarrow> list_ex (same_key s) ws)"

lemma waits_on_writes: "waits_on v s ws \<Longrightarrow> ws \<noteq> []"
  by (auto simp: waits_on_def split: sql_stmt.splits)

lemma waits_on_Nil [simp]: "\<not> waits_on v s []"
  using waits_on_writes by blast

definition blocked :: "env \<Rightarrow> 'r field \<Rightarrow> nat \<Rightarrow> sql_stmt \<Rightarrow> bool" where
  "blocked E a i s \<longleftrightarrow> (\<exists>j < length (fd_sessions a). j \<noteq> i
     \<and> waits_on (session_view E (fd_sessions a ! i) (fd_db a)) s (ss_writes (fd_sessions a ! j)))"

text \<open>Session \<open>i\<close> waits for session \<open>j\<close>.\<close>

definition waits_for :: "env \<Rightarrow> 'r field \<Rightarrow> nat \<Rightarrow> nat \<Rightarrow> bool" where
  "waits_for E a i j \<longleftrightarrow> i < length (fd_sessions a) \<and> j < length (fd_sessions a) \<and> i \<noteq> j
     \<and> ss_phase (fd_sessions a ! i) = InTx \<and> \<not> ss_failed (fd_sessions a ! i)
     \<and> (case ss_call (fd_sessions a ! i) of
          Exec s k \<Rightarrow> waits_on (session_view E (fd_sessions a ! i) (fd_db a)) s (ss_writes (fd_sessions a ! j))
        | _ \<Rightarrow> False)"

section \<open>Steps\<close>

definition put_session :: "'r field \<Rightarrow> nat \<Rightarrow> 'r session \<Rightarrow> 'r field" where
  "put_session a i ss = a\<lparr>fd_sessions := (fd_sessions a)[i := ss], fd_tick := Suc (fd_tick a)\<rparr>"

definition close :: "'r session \<Rightarrow> go_error + 'r \<Rightarrow> 'r session" where
  "close ss r = ss\<lparr>ss_phase := Closed r, ss_writes := []\<rparr>"

definition commit_error :: "'r session \<Rightarrow> go_error \<Rightarrow> go_error" where
  "commit_error ss e = WrapError (ss_commit ss) e"

text \<open>One statement; in a failed transaction every further one is refused.\<close>

definition fail_session :: "'r session \<Rightarrow> 'r call \<Rightarrow> 'r session" where
  "fail_session ss c = ss\<lparr>ss_call := c, ss_failed := True, ss_writes := []\<rparr>"

definition exec_step ::
    "env \<Rightarrow> 'r session \<Rightarrow> catalog_db \<Rightarrow> sql_stmt \<Rightarrow> (go_error + sql_row \<Rightarrow> 'r call) \<Rightarrow> 'r session" where
  "exec_step E ss d s k =
     (if ss_failed ss then ss\<lparr>ss_call := k (Inl (PgError ''25P02''))\<rparr>
      else let r = fst (run_stmt E s (ss_now ss) (session_view E ss d)) in
        if (case r of Inl e \<Rightarrow> aborts_tx e | Inr _ \<Rightarrow> False) then fail_session ss (k r)
        else ss\<lparr>ss_call := k r,
           ss_writes := (if has_written s r then ss_writes ss @ [s] else ss_writes ss)\<rparr>)"

definition commit :: "env \<Rightarrow> 'r field \<Rightarrow> nat \<Rightarrow> go_error + 'r \<Rightarrow> 'r field" where
  "commit E a i r = (let ss = fd_sessions a ! i in
     (put_session a i (close ss r))\<lparr>fd_db := session_view E ss (fd_db a)\<rparr>)"

definition session_step :: "env \<Rightarrow> nat \<Rightarrow> 'r field \<Rightarrow> 'r field option" where
  "session_step E i a =
     (if length (fd_sessions a) \<le> i then None
      else let ss = fd_sessions a ! i in
        case ss_phase ss of
          NotBegun \<Rightarrow> Some (put_session a i (ss\<lparr>ss_phase := InTx, ss_now := env_now E (fd_tick a)\<rparr>))
        | Closed r \<Rightarrow> None
        | InTx \<Rightarrow>
            (case ss_call ss of
               Exec s k \<Rightarrow>
                 (if \<not> ss_failed ss \<and> blocked E a i s then None
                  else Some (put_session a i (exec_step E ss (fd_db a) s k)))
             | NewUuid k \<Rightarrow> Some (put_session a i (ss\<lparr>ss_call := k (env_uuid E (fd_tick a))\<rparr>))
             | TimeNow k \<Rightarrow> Some (put_session a i (ss\<lparr>ss_call := k (env_now E (fd_tick a))\<rparr>))
             | Return (Inl e) \<Rightarrow> Some (put_session a i (close ss (Inl e)))
             | Return (Inr r) \<Rightarrow>
                 (if ss_failed ss then Some (put_session a i (close ss (Inl (commit_error ss TxCommitRollback))))
                  else Some (commit E a i (Inr r)))))"

text \<open>
  A replayed order returns without a commit; committing no writes comes to the same.  A
  step of the system: a statement of a session; a statement that fails, on the server, on
  the connection, or as the victim of a deadlock; a commit that fails, or whose
  acknowledgement is lost.
\<close>

inductive field_step :: "env \<Rightarrow> 'r field \<Rightarrow> 'r field \<Rightarrow> bool" for E where
  statement: "session_step E i a = Some a' \<Longrightarrow> field_step E a a'"
| fault: "i < length (fd_sessions a) \<Longrightarrow> ss_phase (fd_sessions a ! i) = InTx \<Longrightarrow>
    ss_call (fd_sessions a ! i) = Exec s k \<Longrightarrow>
    field_step E a (put_session a i (fail_session (fd_sessions a ! i) (k (Inl (fault_error f)))))"
| commit_fault: "i < length (fd_sessions a) \<Longrightarrow> ss_phase (fd_sessions a ! i) = InTx \<Longrightarrow>
    ss_call (fd_sessions a ! i) = Return (Inr ord) \<Longrightarrow> ss_writes (fd_sessions a ! i) \<noteq> [] \<Longrightarrow>
    field_step E a (put_session a i (close (fd_sessions a ! i) (Inl (commit_error (fd_sessions a ! i) (fault_error f)))))"
| lost_commit: "i < length (fd_sessions a) \<Longrightarrow> ss_phase (fd_sessions a ! i) = InTx \<Longrightarrow>
    ss_call (fd_sessions a ! i) = Return (Inr ord) \<Longrightarrow> ss_writes (fd_sessions a ! i) \<noteq> [] \<Longrightarrow>
    \<not> ss_failed (fd_sessions a ! i) \<Longrightarrow>
    field_step E a (commit E a i (Inl (commit_error (fd_sessions a ! i) (DriverError m))))"

fun run_sessions :: "env \<Rightarrow> nat list \<Rightarrow> 'r field \<Rightarrow> 'r field option" where
  "run_sessions E [] a = Some a"
| "run_sessions E (i # is) a =
     (case session_step E i a of None \<Rightarrow> None | Some a' \<Rightarrow> run_sessions E is a')"

lemma run_sessions_steps: "run_sessions E is a = Some b \<Longrightarrow> (field_step E)\<^sup>*\<^sup>* a b"
  by (induction "is" arbitrary: a)
    (auto split: option.splits intro: converse_rtranclp_into_rtranclp field_step.statement)

lemma run_sessions_append:
  "run_sessions E (is @ js) a = (case run_sessions E is a of None \<Rightarrow> None | Some b \<Rightarrow> run_sessions E js b)"
  by (induction "is" arbitrary: a) (auto split: option.split)

definition new_session :: "'r call \<Rightarrow> string \<Rightarrow> 'r session" where
  "new_session c txt = \<lparr>ss_call = c, ss_commit = txt, ss_phase = NotBegun, ss_now = 0, ss_failed = False,
     ss_writes = []\<rparr>"

lemma new_session_sels [simp]:
  "ss_call (new_session c txt) = c" "ss_commit (new_session c txt) = txt" "ss_phase (new_session c txt) = NotBegun"
  "ss_failed (new_session c txt) = False" "ss_writes (new_session c txt) = []"
  by (simp_all add: new_session_def)

primrec commit_text :: "request \<Rightarrow> string" where
  "commit_text (OrderRequest uid items key) = ''failed to commit order creation transaction: ''"
| "commit_text (ReserveRequest cid q key) = ''failed to commit transaction: ''"

definition request_session :: "request \<Rightarrow> answer session" where
  "request_session req = new_session (request_call req) (commit_text req)"

lemma request_session_writes [simp]: "ss_writes (request_session req) = []"
  by (simp add: request_session_def)

definition open_field :: "catalog_db \<Rightarrow> request list \<Rightarrow> answer field" where
  "open_field d reqs = \<lparr>fd_db = d, fd_sessions = map request_session reqs, fd_tick = 0\<rparr>"

lemma open_field_sels [simp]:
  "fd_db (open_field d reqs) = d" "fd_sessions (open_field d reqs) = map request_session reqs"
  "fd_tick (open_field d reqs) = 0"
  by (simp_all add: open_field_def)

lemma fail_session_sels [simp]:
  "ss_commit (fail_session ss c) = ss_commit ss" "ss_call (fail_session ss c) = c" "ss_phase (fail_session ss c) = ss_phase ss" "ss_failed (fail_session ss c)"
  "ss_writes (fail_session ss c) = []"
  by (simp_all add: fail_session_def)

lemma close_sels [simp]: "ss_phase (close ss r) = Closed r" "ss_writes (close ss r) = []"
  by (simp_all add: close_def)

lemma exec_step_sels [simp]:
  "ss_phase (exec_step E ss d s k) = ss_phase ss" "ss_commit (exec_step E ss d s k) = ss_commit ss"
  by (auto simp: exec_step_def Let_def)

lemma exec_step_call: "\<exists>r. ss_call (exec_step E ss d s k) = k r"
  by (auto simp: exec_step_def Let_def)

lemma put_session_sels [simp]:
  "fd_sessions (put_session a i ss) = (fd_sessions a)[i := ss]" "fd_tick (put_session a i ss) = Suc (fd_tick a)"
  by (simp_all add: put_session_def)

lemma commit_sels [simp]:
  "fd_sessions (commit E a i r) = (fd_sessions a)[i := close (fd_sessions a ! i) r]"
  "fd_tick (commit E a i r) = Suc (fd_tick a)"
  by (simp_all add: commit_def Let_def)

text \<open>A field whose session \<open>i\<close> has taken \<open>n\<close> steps while the others stand still.\<close>

definition at :: "'r field \<Rightarrow> nat \<Rightarrow> 'r session \<Rightarrow> nat \<Rightarrow> 'r field" where
  "at a i ss n = a\<lparr>fd_sessions := (fd_sessions a)[i := ss], fd_tick := fd_tick a + n\<rparr>"

lemma at_sels [simp]:
  "fd_db (at a i ss n) = fd_db a" "fd_sessions (at a i ss n) = (fd_sessions a)[i := ss]"
  "fd_tick (at a i ss n) = fd_tick a + n"
  by (simp_all add: at_def)

lemma put_at: "put_session (at a i ss n) i ss' = at a i ss' (Suc n)"
  by (simp add: at_def put_session_def)

end
