(* ===== verification/Interleaving_Facts.thy ===== *)
theory Interleaving_Facts
  imports Interleaving Reserve_Outcome
begin

text \<open>
  What interleaved orders keep: a row is locked by one session, the decrements of every
  session still apply when it commits, and so the committed stock is the initial stock
  less the committed decrements.
\<close>

section \<open>Replaying writes\<close>

fun units_of :: "string \<Rightarrow> sql_stmt list \<Rightarrow> int" where
  "units_of x [] = 0"
| "units_of x (SDecrementStock arg # ws) =
     (if dsp_ID arg = x then sint (dsp_Quantity arg) else 0) + units_of x ws"
| "units_of x (s # ws) = units_of x ws"

fun booked :: "string \<Rightarrow> sql_stmt list \<Rightarrow> int" where
  "booked x [] = 0"
| "booked x (SCreateReservation arg # ws) =
     (if crp_CabinetID arg = x then sint (crp_Quantity arg) else 0) + booked x ws"
| "booked x (s # ws) = booked x ws"

text \<open>The cabinets a statement has locked, and the reservation keys it has inserted.\<close>

primrec locks :: "sql_stmt \<Rightarrow> (string + string) set" where
  "locks (SDecrementStock arg) = {Inl (dsp_ID arg)}"
| "locks (SCreateReservation arg) = {Inr (crp_IdempotencyKey arg)}"
| "locks (SGetReservation key) = {}"
| "locks (SGetCabinet cid) = {}"
| "locks (SGetOrderByKey key) = {}"
| "locks (SListOrderItems oid) = {}"
| "locks (SCreateOrder oa) = {}"
| "locks (SCreateOrderItem ia) = {}"
| "locks (SInsertOutbox ea) = {}"

definition locks_of :: "sql_stmt list \<Rightarrow> (string + string) set" where
  "locks_of ws = \<Union> (locks ` set ws)"

lemma locks_of_simps [simp]:
  "locks_of [] = {}" "locks_of (s # ws) = locks s \<union> locks_of ws" "locks_of (ws @ ws') = locks_of ws \<union> locks_of ws'"
  by (simp_all add: locks_of_def)

lemma locked_rows_locks: "x \<in> set (locked_rows ws) \<longleftrightarrow> Inl x \<in> locks_of ws"
  by (induction ws rule: locked_rows.induct) auto

lemma same_key_locks: "Inr key \<in> locks_of ws \<longleftrightarrow> list_ex (same_key (SCreateReservation arg)) ws"
  if "crp_IdempotencyKey arg = key"
proof (induction ws)
  case (Cons s ws)
  with that show ?case by (cases s) auto
qed simp

lemma units_of_append [simp]: "units_of x (ws @ ws') = units_of x ws + units_of x ws'"
  by (induction x ws rule: units_of.induct) simp_all

lemma booked_append [simp]: "booked x (ws @ ws') = booked x ws + booked x ws'"
  by (induction x ws rule: booked.induct) simp_all

lemma units_of_Cons: "units_of x (s # ws) = units_of x [s] + units_of x ws"
  using units_of_append [of x "[s]" ws] by simp

lemma booked_Cons: "booked x (s # ws) = booked x [s] + booked x ws"
  using booked_append [of x "[s]" ws] by simp

text \<open>Whether the writes can be applied: decrements find their units, keys are new.\<close>

primrec stmt_fits :: "catalog_db \<Rightarrow> sql_stmt \<Rightarrow> bool" where
  "stmt_fits d (SDecrementStock arg) = can_decrement d (dsp_ID arg) (dsp_Quantity arg)"
| "stmt_fits d (SCreateReservation arg) =
     (reservation_violation d (new_reservation 0 (crp_CabinetID arg) (crp_Quantity arg) (crp_IdempotencyKey arg)) = None)"
| "stmt_fits d (SGetReservation key) = True"
| "stmt_fits d (SGetCabinet cid) = True"
| "stmt_fits d (SGetOrderByKey key) = True"
| "stmt_fits d (SListOrderItems oid) = True"
| "stmt_fits d (SCreateOrder oa) = True"
| "stmt_fits d (SCreateOrderItem ia) = True"
| "stmt_fits d (SInsertOutbox ea) = True"

primrec writes_fit :: "env \<Rightarrow> int \<Rightarrow> sql_stmt list \<Rightarrow> catalog_db \<Rightarrow> bool" where
  "writes_fit E now [] d = True"
| "writes_fit E now (s # ws) d = (stmt_fits d s \<and> writes_fit E now ws (snd (run_stmt E s now d)))"

lemma snd_map_stmt [simp]: "snd (map_stmt f q now d) = snd (q now d)"
  by (simp add: map_stmt_def split: prod.split)

lemma fst_map_stmt: "fst (map_stmt f q now d) = map_sum (\<lambda>e. e) f (fst (q now d))"
  by (simp add: map_stmt_def split: prod.split)

lemma apply_writes_snoc [simp]:
  "apply_writes E now (ws @ [s]) d = snd (run_stmt E s now (apply_writes E now ws d))"
  by (induction ws arbitrary: d) simp_all

lemma writes_fit_snoc [simp]:
  "writes_fit E now (ws @ [s]) d \<longleftrightarrow> writes_fit E now ws d \<and> stmt_fits (apply_writes E now ws d) s"
  by (induction ws arbitrary: d) auto

lemma dec_arg_eta: "arg = \<lparr>dsp_Quantity = dsp_Quantity arg, dsp_ID = dsp_ID arg\<rparr>"
  for arg :: decrement_stock_params
  by (cases arg) simp

lemma run_dec_cases:
  obtains "can_decrement d (dsp_ID arg) (dsp_Quantity arg)"
      "snd (run_stmt E (SDecrementStock arg) now d) = decrement_effect now (dsp_ID arg) (dsp_Quantity arg) d"
    | "\<not> can_decrement d (dsp_ID arg) (dsp_Quantity arg)" "snd (run_stmt E (SDecrementStock arg) now d) = d"
      "fst (run_stmt E (SDecrementStock arg) now d) \<in> {Inl ErrNoRows, Inl (PgError ''22003'')}"
proof -
  obtain r d' where q: "q_DecrementStock E arg now d = (r, d')" by fastforce
  then have "q_DecrementStock E \<lparr>dsp_Quantity = dsp_Quantity arg, dsp_ID = dsp_ID arg\<rparr> now d = (r, d')"
    by (simp flip: dec_arg_eta)
  from q_DecrementStock_cases [OF this] q show thesis
    by (auto simp: fst_map_stmt intro: that)
qed

lemma run_dec_written:
  assumes "can_decrement d (dsp_ID arg) (dsp_Quantity arg)"
  shows "has_written (SDecrementStock arg) (fst (run_stmt E (SDecrementStock arg) now d))"
proof -
  obtain r d' where q: "q_DecrementStock E arg now d = (r, d')" by fastforce
  then have "q_DecrementStock E \<lparr>dsp_Quantity = dsp_Quantity arg, dsp_ID = dsp_ID arg\<rparr> now d = (r, d')"
    by (simp flip: dec_arg_eta)
  from q_DecrementStock_cases [OF this] assms have "r = Inl e \<Longrightarrow> \<not> aborts_tx e \<and> root_cause e \<noteq> ErrNoRows" for e
    using scan_cabinet_row_no_abort by (auto dest: sym)
  with q show ?thesis by (cases r) (auto simp: fst_map_stmt has_written_def)
qed

lemma reservation_violation_now:
  "reservation_violation d (new_reservation now cid q key) = reservation_violation d (new_reservation 0 cid q key)"
  by (simp add: reservation_violation_def new_reservation_def)

lemma run_reservation:
  "run_stmt E (SCreateReservation arg) now d =
     (if stmt_fits d (SCreateReservation arg)
      then (Inr RowNone, d\<lparr>reservations := reservations d
              @ [new_reservation now (crp_CabinetID arg) (crp_Quantity arg) (crp_IdempotencyKey arg)]\<rparr>)
      else (Inl (PgError (the (reservation_violation d
              (new_reservation 0 (crp_CabinetID arg) (crp_Quantity arg) (crp_IdempotencyKey arg))))), d))"
  using reservation_violation_now [of d now "crp_CabinetID arg" "crp_Quantity arg" "crp_IdempotencyKey arg"]
  by (cases arg) (auto simp: map_stmt_def q_CreateReservation_eq split: option.split)

text \<open>What a statement does to the cabinets and the reservations.\<close>

lemma other_stmt_frame:
  assumes "locks s = {}"
  shows "cabinets (snd (run_stmt E s now d)) = cabinets d" "reservations (snd (run_stmt E s now d)) = reservations d"
    "stmt_fits d s" "units_of x [s] = 0" "booked x [s] = 0"
  using assms
  by (cases s; simp_all add: q_GetReservation_def q_GetCabinet_def q_GetOrderByItempotencyKey_def
      q_ListOrderItems_def q_CreateOrder_def q_CreateOrderItem_def q_InsertOutboxEvent_def Let_def split: option.splits)+

lemma stmt_cases:
  obtains (dec) arg where "s = SDecrementStock arg" | (res) arg where "s = SCreateReservation arg" | (other) "locks s = {}"
  by (cases s) auto

abbreviation res_keys :: "catalog_db \<Rightarrow> string set" where
  "res_keys d \<equiv> r_idempotency_key ` set (reservations d)"

abbreviation cabinet_ids :: "catalog_db \<Rightarrow> string set" where
  "cabinet_ids d \<equiv> c_id ` set (cabinets d)"

lemma cabinets_eq_stock: "cabinets d' = cabinets d \<Longrightarrow> stock_of d' x = stock_of d x"
  "cabinets d' = cabinets d \<Longrightarrow> cabinets_ok d' = cabinets_ok d"
  by (simp_all add: stock_of_def cabinets_ok_def)

lemma run_stmt_cabinets_ok:
  assumes "cabinets_ok d" shows "cabinets_ok (snd (run_stmt E s now d))"
proof (cases s rule: stmt_cases)
  case (dec arg)
  show ?thesis unfolding dec
    by (rule run_dec_cases [of d arg E now]) (simp_all add: assms cabinets_ok_decrement)
next
  case (res arg)
  with assms show ?thesis by (simp only: run_reservation split: if_split) (simp add: cabinets_ok_def)
next
  case other
  with assms show ?thesis using cabinets_eq_stock(2) [OF other_stmt_frame(1) [OF other]] by simp
qed

lemma run_stmt_ids: "cabinet_ids (snd (run_stmt E s now d)) = cabinet_ids d"
proof (cases s rule: stmt_cases)
  case (dec arg)
  show ?thesis unfolding dec by (rule run_dec_cases [of d arg E now]) simp_all
next
  case (res arg)
  then show ?thesis by (simp only: run_reservation split: if_split) simp
next
  case other
  then show ?thesis by (simp add: other_stmt_frame)
qed

lemma run_stmt_stock:
  assumes "cabinets_ok d"
  shows "stock_of (snd (run_stmt E s now d)) x =
    (if stmt_fits d s then map_option (\<lambda>n. n - units_of x [s]) (stock_of d x) else stock_of d x)"
proof (cases s rule: stmt_cases)
  case (dec arg)
  show ?thesis unfolding dec
    by (rule run_dec_cases [of d arg E now])
      (auto simp: stock_after_decrement [OF assms] option.map_ident)
next
  case (res arg)
  then show ?thesis
    by (simp only: run_reservation split: if_split) (simp add: stock_of_def option.map_ident)
next
  case other
  then show ?thesis
    using cabinets_eq_stock(1) [OF other_stmt_frame(1) [OF other]] by (simp add: other_stmt_frame option.map_ident)
qed

lemma run_stmt_reserved:
  "reserved_units (snd (run_stmt E s now d)) x = reserved_units d x + (if stmt_fits d s then booked x [s] else 0)"
  "Inr key \<notin> locks s \<Longrightarrow> key \<in> res_keys (snd (run_stmt E s now d)) \<longleftrightarrow> key \<in> res_keys d"
  "stmt_fits d s \<Longrightarrow> key \<in> res_keys (snd (run_stmt E s now d)) \<longleftrightarrow> key \<in> res_keys d \<or> Inr key \<in> locks s"
proof -
  have "reserved_units (snd (run_stmt E s now d)) x = reserved_units d x + (if stmt_fits d s then booked x [s] else 0)
    \<and> (Inr key \<notin> locks s \<longrightarrow> (key \<in> res_keys (snd (run_stmt E s now d)) \<longleftrightarrow> key \<in> res_keys d))
    \<and> (stmt_fits d s \<longrightarrow> (key \<in> res_keys (snd (run_stmt E s now d)) \<longleftrightarrow> key \<in> res_keys d \<or> Inr key \<in> locks s))"
  proof (cases s rule: stmt_cases)
    case (dec arg)
    show ?thesis unfolding dec
      by (rule run_dec_cases [of d arg E now]) (simp_all add: reserved_units_def)
  next
    case (res arg)
    then show ?thesis
      by (simp only: run_reservation split: if_split)
        (auto simp: reserved_units_def new_reservation_def row_simps)
  next
    case other
    then show ?thesis by (simp add: other_stmt_frame reserved_units_def)
  qed
  then show "reserved_units (snd (run_stmt E s now d)) x = reserved_units d x + (if stmt_fits d s then booked x [s] else 0)"
    "Inr key \<notin> locks s \<Longrightarrow> key \<in> res_keys (snd (run_stmt E s now d)) \<longleftrightarrow> key \<in> res_keys d"
    "stmt_fits d s \<Longrightarrow> key \<in> res_keys (snd (run_stmt E s now d)) \<longleftrightarrow> key \<in> res_keys d \<or> Inr key \<in> locks s"
    by blast+
qed

text \<open>Whether writes fit depends only on the rows and keys that they lock.\<close>

definition agree :: "(string + string) set \<Rightarrow> catalog_db \<Rightarrow> catalog_db \<Rightarrow> bool" where
  "agree L d d' \<longleftrightarrow> cabinets_ok d \<and> cabinets_ok d' \<and> cabinet_ids d = cabinet_ids d'
     \<and> (\<forall>x. Inl x \<in> L \<longrightarrow> stock_of d x = stock_of d' x)
     \<and> (\<forall>key. Inr key \<in> L \<longrightarrow> (key \<in> res_keys d \<longleftrightarrow> key \<in> res_keys d'))"

lemma stmt_fits_local: "agree L d d' \<Longrightarrow> locks s \<subseteq> L \<Longrightarrow> stmt_fits d s = stmt_fits d' s"
  by (cases s) (auto simp: agree_def can_decrement_iff reservation_violation_def new_reservation_def)

lemma agree_run:
  assumes "agree L d d'" "locks s \<subseteq> L" "stmt_fits d s"
  shows "agree L (snd (run_stmt E s now d)) (snd (run_stmt E s now d'))"
  using assms stmt_fits_local [OF assms(1,2)] unfolding agree_def
  by (simp add: run_stmt_cabinets_ok run_stmt_ids run_stmt_stock run_stmt_reserved(3))

lemma writes_fit_local:
  "agree L d d' \<Longrightarrow> locks_of ws \<subseteq> L \<Longrightarrow> writes_fit E now ws d = writes_fit E now ws d'"
proof (induction ws arbitrary: d d')
  case (Cons s ws)
  then have "stmt_fits d s = stmt_fits d' s" by (intro stmt_fits_local) auto
  with Cons.prems Cons.IH [OF agree_run [OF Cons.prems(1)]] show ?case by auto
qed simp

text \<open>The effect of writes that fit.\<close>

lemma apply_writes_frame:
  "cabinets_ok d \<Longrightarrow> cabinets_ok (apply_writes E now ws d)"
  "cabinet_ids (apply_writes E now ws d) = cabinet_ids d"
  by (induction ws arbitrary: d) (simp_all add: run_stmt_cabinets_ok run_stmt_ids)

lemma writes_fit_effect:
  "cabinets_ok d \<Longrightarrow> writes_fit E now ws d \<Longrightarrow>
     stock_of (apply_writes E now ws d) x = map_option (\<lambda>n. n - units_of x ws) (stock_of d x)
     \<and> reserved_units (apply_writes E now ws d) x = reserved_units d x + booked x ws"
proof (induction ws arbitrary: d)
  case Nil
  then show ?case by (simp add: option.map_ident)
next
  case (Cons s ws)
  then show ?case
    using Cons.IH [of "snd (run_stmt E s now d)"] units_of_Cons [of x s ws] booked_Cons [of x s ws]
    by (cases "stock_of d x") (simp_all add: run_stmt_cabinets_ok run_stmt_stock run_stmt_reserved(1))
qed

lemma unlocked_units: "Inl x \<notin> locks_of ws \<Longrightarrow> units_of x ws = 0"
  by (induction x ws rule: units_of.induct) auto

lemma unlocked_keys: "Inr key \<notin> locks_of ws \<Longrightarrow> key \<in> res_keys (apply_writes E now ws d) \<longleftrightarrow> key \<in> res_keys d"
  by (induction ws arbitrary: d) (simp_all add: run_stmt_reserved(2))

lemma apply_writes_agree:
  assumes "cabinets_ok d" "writes_fit E now ws d" "L \<inter> locks_of ws = {}"
  shows "agree L d (apply_writes E now ws d)"
proof -
  have "stock_of d x = stock_of (apply_writes E now ws d) x" if "Inl x \<in> L" for x
  proof -
    have "units_of x ws = 0" using that assms(3) by (intro unlocked_units) auto
    then show ?thesis using writes_fit_effect [OF assms(1,2), of x] by (simp add: option.map_ident)
  qed
  moreover have "key \<in> res_keys (apply_writes E now ws d) \<longleftrightarrow> key \<in> res_keys d" if "Inr key \<in> L" for key
    using that assms(3) by (intro unlocked_keys) auto
  ultimately show ?thesis using assms(1) by (simp add: agree_def apply_writes_frame)
qed

end
