(* ===== verification/Call_Logic.thy ===== *)
theory Call_Logic
  imports Interleaving_Facts
begin

text \<open>
  A logic for call trees.  \<open>along G P c ws us\<close>: whatever the results of its statements, a call
  that has written \<open>ws\<close> and drawn the identifiers \<open>us\<close> only executes statements that \<open>G\<close>
  admits, and ends with a result that \<open>P\<close> admits.  The two contracts of \<open>CreateOrderTx\<close> that
  concurrency needs: it books what it takes, and it locks in the order of its lines.
\<close>

section \<open>Histories\<close>

type_synonym guard = "sql_stmt list \<Rightarrow> string list \<Rightarrow> sql_stmt \<Rightarrow> bool"
type_synonym 'r ending = "sql_stmt list \<Rightarrow> string list \<Rightarrow> go_error + 'r \<Rightarrow> bool"

primrec along :: "guard \<Rightarrow> 'r ending \<Rightarrow> 'r call \<Rightarrow> sql_stmt list \<Rightarrow> string list \<Rightarrow> bool" where
  "along G P (Return r) ws us = P ws us r"
| "along G P (Exec s c) ws us \<longleftrightarrow> G ws us s
     \<and> (\<forall>r. along G P (c r) (if has_written s r then ws @ [s] else ws) us)"
| "along G P (NewUuid c) ws us \<longleftrightarrow> (\<forall>u. along G P (c u) ws (us @ [u]))"
| "along G P (TimeNow c) ws us \<longleftrightarrow> (\<forall>t. along G P (c t) ws us)"

lemma along_mono:
  "along G P c ws us \<Longrightarrow> (\<And>ws us r. P ws us r \<Longrightarrow> Q ws us r) \<Longrightarrow> along G Q c ws us"
  by (induction c arbitrary: ws us) auto

lemma along_and_then:
  "along G P c ws us \<Longrightarrow> (\<And>ws us r. P ws us r \<Longrightarrow> along G Q (k r) ws us) \<Longrightarrow> along G Q (and_then c k) ws us"
  by (induction c arbitrary: ws us) auto

text \<open>Sequencing: an error ends the call.\<close>

lemma along_or_return:
  assumes "along G P c ws us"
    "\<And>ws us e. P ws us (Inl e) \<Longrightarrow> Q ws us (Inl e)"
    "\<And>ws us a. P ws us (Inr a) \<Longrightarrow> along G Q (k a) ws us"
  shows "along G Q (or_return c k) ws us"
  unfolding or_return_def by (rule along_and_then [OF assms(1)]) (auto simp: assms(2,3) split: sum.split)

lemma has_written_Inr [simp]: "has_written s (Inr a) = is_write s"
  by (simp add: has_written_def)

section \<open>What is taken is booked\<close>

definition balance :: "string \<Rightarrow> sql_stmt list \<Rightarrow> int" where
  "balance x ws = units_of x ws - booked x ws"

lemma balance_Nil [simp]: "balance x [] = 0"
  by (simp add: balance_def)

lemma balance_append [simp]: "balance x (ws @ ws') = balance x ws + balance x ws'"
  by (simp add: balance_def)

lemma balance_Cons [simp]: "balance x (s # s' # ws) = balance x [s] + balance x (s' # ws)"
  using balance_append [of x "[s]" "s' # ws"] by simp

lemma balance_stmt [simp]:
  "balance x [SDecrementStock da] = (if dsp_ID da = x then sint (dsp_Quantity da) else 0)"
  "balance x [SCreateReservation ra] = - (if crp_CabinetID ra = x then sint (crp_Quantity ra) else 0)"
  "balance x [SCreateOrder oa] = 0" "balance x [SCreateOrderItem ia] = 0" "balance x [SInsertOutbox ea] = 0"
  by (simp_all add: balance_def)

abbreviation any_stmt :: guard where
  "any_stmt \<equiv> (\<lambda>_ _ _. True)"

definition settles :: "sql_stmt list \<Rightarrow> 'r ending" where
  "settles ws0 ws us r \<longleftrightarrow> (case r of Inl e \<Rightarrow> True | Inr a \<Rightarrow> \<forall>x. balance x ws = balance x ws0)"

lemma settles_simps [simp]:
  "settles ws0 ws us (Inl e)" "settles ws0 ws us (Inr a) \<longleftrightarrow> (\<forall>x. balance x ws = balance x ws0)"
  by (simp_all add: settles_def)

lemma reserve_call_settles: "along any_stmt (settles ws) (reserve_call cid q key) ws us"
  by (simp add: reserve_call_def Let_def has_written_def split: sum.split)

lemma replay_call_settles: "along any_stmt (settles ws) (replay_call uid items o1) ws us"
  by (simp add: replay_call_def Let_def has_written_def split: sum.split)

lemma snapshot_call_settles: "along any_stmt (settles ws) (snapshot_call items tot) ws us"
proof (induction items arbitrary: tot ws us)
  case (Cons item items)
  then show ?case
    by (auto simp: has_written_def split: sum.split intro!: along_or_return [where P = "settles ws"])
qed simp

lemma reserve_items_call_settles: "along any_stmt (settles ws) (reserve_items_call oid ls) ws us"
proof (induction ls arbitrary: ws us)
  case (Cons l ls)
  show ?case unfolding reserve_items_call.simps
  proof (rule along_or_return [OF reserve_call_settles])
    fix ws' us' a
    assume eq: "settles ws ws' us' (Inr a)"
    then show "along any_stmt (settles ws) (reserve_items_call oid ls) ws' us'"
      by (intro along_mono [OF Cons.IH]) (auto simp: settles_def split: sum.splits)
  qed simp
qed simp

lemma insert_items_call_settles: "along any_stmt (settles ws) (insert_items_call oid ls) ws us"
proof (induction ls arbitrary: ws us)
  case (Cons l ls)
  have "along any_stmt (settles ws) (insert_items_call oid ls) (ws @ [SCreateOrderItem ia]) us'" for ia us'
    by (rule along_mono [OF Cons.IH]) (auto simp: settles_def split: sum.splits)
  then show ?case
    by (auto split: sum.split intro!: along_or_return [where P = "settles ws"])
qed simp

lemma outbox_call_settles: "along any_stmt (settles ws) (outbox_call oid uid cents) ws us"
  by (simp add: outbox_call_def split: sum.split)

lemma place_call_settles: "along any_stmt (settles ws) (place_call uid items key) ws us"
proof -
  have seq: "along any_stmt (settles ws) (or_return c k) ws' us'"
    if "\<And>us. along any_stmt (settles ws') c ws' us" "\<forall>x. balance x ws' = balance x ws"
      "\<And>a ws' us. \<forall>x. balance x ws' = balance x ws \<Longrightarrow> along any_stmt (settles ws) (k a) ws' us"
    for c :: "'b call" and k :: "'b \<Rightarrow> order call" and ws' us'
    by (rule along_or_return [OF that(1)]) (use that(2,3) in auto)
  show ?thesis
    unfolding place_call_def
    by (auto intro!: seq snapshot_call_settles reserve_items_call_settles insert_items_call_settles
        outbox_call_settles split: sum.split)
qed

text \<open>An order that succeeds has taken from the stock what it has booked as reserved.\<close>

lemma create_order_call_settles: "along any_stmt (settles ws) (create_order_call uid items key) ws us"
  by (auto simp: create_order_call_def has_written_def place_call_settles replay_call_settles split: sum.split)

lemma answering_settles:
  "along any_stmt (settles ws) c ws us \<Longrightarrow> along any_stmt (settles ws) (answering f c) ws us"
  unfolding answering_def by (erule along_and_then) (auto simp: settles_def split: sum.splits)

lemma request_call_settles: "along any_stmt (settles ws) (request_call req) ws us"
  by (cases req) (simp_all add: answering_settles create_order_call_settles reserve_call_settles)

section \<open>Locks are taken in order\<close>

text \<open>
  A statement uses keys made from the identifiers of its own transaction, or the key that
  came with a reservation, at most as long as an identifier.  It locks a row after the rows
  of lower rank, and before the order or the reservation of such a key is inserted.
\<close>

definition own_stock_key :: "string list \<Rightarrow> string \<Rightarrow> bool" where
  "own_stock_key us key \<longleftrightarrow> (\<exists>oid \<in> set us. \<exists>cid. key = stock_key oid cid)"

lemma own_stock_keyI [simp]: "oid \<in> set us \<Longrightarrow> own_stock_key us (stock_key oid cid)"
  by (auto simp: own_stock_key_def)

primrec own_keys :: "string list \<Rightarrow> sql_stmt \<Rightarrow> bool" where
  "own_keys us (SDecrementStock da) = True"
| "own_keys us (SCreateReservation ra) = (own_stock_key us (crp_IdempotencyKey ra) \<or> length (crp_IdempotencyKey ra) \<le> 36)"
| "own_keys us (SCreateOrder oa) = (cop_ID oa \<in> set us)"
| "own_keys us (SCreateOrderItem ia) = (cip_ID ia \<in> set us)"
| "own_keys us (SInsertOutbox ea) = (any_id_text (iop_ID ea) \<in> set us)"
| "own_keys us (SGetReservation key) = True"
| "own_keys us (SGetCabinet cid) = True"
| "own_keys us (SGetOrderByKey key) = True"
| "own_keys us (SListOrderItems oid) = True"

primrec inserts_last :: "string list \<Rightarrow> sql_stmt \<Rightarrow> bool" where
  "inserts_last us (SCreateOrder oa) = True"
| "inserts_last us (SDecrementStock da) = False"
| "inserts_last us (SCreateReservation ra) = (\<not> own_stock_key us (crp_IdempotencyKey ra))"
| "inserts_last us (SCreateOrderItem ia) = False"
| "inserts_last us (SInsertOutbox ea) = False"
| "inserts_last us (SGetReservation key) = False"
| "inserts_last us (SGetCabinet cid) = False"
| "inserts_last us (SGetOrderByKey key) = False"
| "inserts_last us (SListOrderItems oid) = False"

definition below :: "(string \<Rightarrow> nat) \<Rightarrow> string list \<Rightarrow> sql_stmt list \<Rightarrow> string \<Rightarrow> bool" where
  "below f us ws cid \<longleftrightarrow> (\<forall>x. Inl x \<in> locks_of ws \<longrightarrow> f x < f cid) \<and> \<not> list_ex (inserts_last us) ws"

definition in_order :: "(string \<Rightarrow> nat) \<Rightarrow> guard" where
  "in_order f ws us s \<longleftrightarrow> own_keys us s
     \<and> (\<forall>da. s = SDecrementStock da \<longrightarrow> below f us ws (dsp_ID da))
     \<and> (inserts_last us s \<longrightarrow> \<not> list_ex (inserts_last us) ws)"

lemma in_order_simps [simp]:
  "in_order f ws us (SDecrementStock da) \<longleftrightarrow> below f us ws (dsp_ID da)"
  "in_order f ws us (SCreateReservation ra) \<longleftrightarrow> (if own_stock_key us (crp_IdempotencyKey ra) then True
     else length (crp_IdempotencyKey ra) \<le> 36 \<and> \<not> list_ex (inserts_last us) ws)"
  "in_order f ws us (SCreateOrder oa) \<longleftrightarrow> cop_ID oa \<in> set us \<and> \<not> list_ex (inserts_last us) ws"
  "in_order f ws us (SCreateOrderItem ia) \<longleftrightarrow> cip_ID ia \<in> set us"
  "in_order f ws us (SInsertOutbox ea) \<longleftrightarrow> any_id_text (iop_ID ea) \<in> set us"
  "in_order f ws us (SGetReservation key)" "in_order f ws us (SGetCabinet cid)"
  "in_order f ws us (SGetOrderByKey key)" "in_order f ws us (SListOrderItems oid)"
  by (auto simp: in_order_def)

definition no_more :: "string set \<Rightarrow> sql_stmt list \<Rightarrow> string list \<Rightarrow> 'r ending" where
  "no_more X ws0 us0 ws us r \<longleftrightarrow> us = us0 \<and> (list_ex (inserts_last us0) ws \<longrightarrow> list_ex (inserts_last us0) ws0)
     \<and> (\<forall>x. Inl x \<in> locks_of ws \<longrightarrow> Inl x \<in> locks_of ws0 \<or> x \<in> X)"

lemma reserve_call_ordered:
  assumes "oid \<in> set us" "below f us ws cid"
  shows "along (in_order f) (no_more {cid} ws us) (reserve_call cid q (stock_key oid cid)) ws us"
  using assms by (auto simp: reserve_call_def Let_def has_written_def no_more_def split: sum.split)

lemma snapshot_call_ordered:
  "along (in_order f) (\<lambda>ws' us' r. ws' = ws \<and> us' = us
     \<and> (case r of Inl e \<Rightarrow> True | Inr (snaps, tot) \<Rightarrow> map snap_cabinetID snaps = map In_CabinetID items))
     (snapshot_call items tot) ws us"
proof (induction items arbitrary: tot)
  case (Cons item items)
  then show ?case
    by (auto simp: has_written_def split: sum.split prod.splits intro!: along_or_return [OF Cons])
qed simp

lemma below_more: "no_more {x} ws us ws' us' r \<Longrightarrow> below f us ws y \<Longrightarrow> f x < f y \<Longrightarrow> below f us ws' y"
  by (auto simp: no_more_def below_def)

lemma reserve_items_call_ordered:
  "oid \<in> set us \<Longrightarrow> sorted_wrt (<) (map f (map snap_cabinetID ls)) \<Longrightarrow>
     \<forall>l \<in> set ls. below f us ws (snap_cabinetID l) \<Longrightarrow> \<not> list_ex (inserts_last us) ws \<Longrightarrow>
     along (in_order f) (\<lambda>ws' us' r. us' = us \<and> \<not> list_ex (inserts_last us) ws') (reserve_items_call oid ls) ws us"
proof (induction ls arbitrary: ws)
  case (Cons l ls)
  then have first: "below f us ws (snap_cabinetID l)" by simp
  show ?case unfolding reserve_items_call.simps
  proof (rule along_or_return [OF reserve_call_ordered [OF Cons.prems(1) first]])
    fix ws' us' a
    assume more: "no_more {snap_cabinetID l} ws us ws' us' (Inr a)"
    with Cons.prems show "along (in_order f) (\<lambda>ws' us' r. us' = us \<and> \<not> list_ex (inserts_last us) ws')
        (reserve_items_call oid ls) ws' us'"
      using Cons.IH [of ws'] below_more [OF more] by (auto simp: no_more_def)
  qed (use Cons.prems in \<open>auto simp: no_more_def\<close>)
qed simp

lemma insert_items_call_ordered:
  "along (in_order f) (\<lambda>_ _ _. True) (insert_items_call oid ls) ws us"
proof (induction ls arbitrary: ws us)
  case (Cons l ls)
  then show ?case by (auto split: sum.split intro!: along_or_return [where P = "\<lambda>_ _ _. True"])
qed simp

lemma outbox_call_ordered: "along (in_order f) (\<lambda>_ _ _. True) (outbox_call oid uid cents) ws us"
  by (simp add: outbox_call_def split: sum.split)

lemma place_call_ordered:
  assumes "sorted_wrt (<) (map f (map In_CabinetID items))"
  shows "along (in_order f) (\<lambda>_ _ _. True) (place_call uid items key) [] us"
proof -
  have seq: "along (in_order f) (\<lambda>_ _ _. True) (or_return c k) ws' us'"
    if "along (in_order f) (\<lambda>ws us r. us = us' \<and> \<not> list_ex (inserts_last us') ws) c ws' us'"
      "\<And>a ws. \<not> list_ex (inserts_last us') ws \<Longrightarrow> along (in_order f) (\<lambda>_ _ _. True) (k a) ws us'"
    for c :: "unit call" and k :: "unit \<Rightarrow> order call" and ws' us'
    by (rule along_or_return [OF that(1)]) (use that(2) in auto)
  show ?thesis unfolding place_call_def
  proof (rule along_or_return [OF snapshot_call_ordered], goal_cases)
    case (2 ws us' a)
    then have "sorted_wrt (<) (map f (map snap_cabinetID (fst a)))" "ws = []"
      using assms by (auto simp del: map_map)
    then show ?case
      by (auto simp: below_def has_written_def split: prod.split sum.split
          intro!: seq reserve_items_call_ordered along_or_return [OF insert_items_call_ordered]
            along_or_return [OF outbox_call_ordered])
  qed simp
qed

lemma create_order_call_ordered:
  assumes "sorted_wrt (<) (map f (map In_CabinetID items))"
  shows "along (in_order f) (\<lambda>_ _ _. True) (create_order_call uid items key) [] []"
  by (auto simp: create_order_call_def has_written_def replay_call_def Let_def
      place_call_ordered [OF assms] split: sum.split)

text \<open>A reservation on its own, under a key that no order makes.\<close>

lemma lone_reserve_call_ordered:
  "length key \<le> 36 \<Longrightarrow> along (in_order f) (\<lambda>_ _ _. True) (reserve_call cid q key) [] []"
  by (auto simp: reserve_call_def Let_def has_written_def below_def split: sum.split)

text \<open>The lines of an order follow the ranks \<open>f\<close>.\<close>

fun request_sorted :: "(string \<Rightarrow> nat) \<Rightarrow> request \<Rightarrow> bool" where
  "request_sorted f (OrderRequest uid items key) \<longleftrightarrow> sorted_wrt (<) (map f (map In_CabinetID items))"
| "request_sorted f (ReserveRequest cid q key) \<longleftrightarrow> length key \<le> 36"

lemma answering_along: "along G (\<lambda>_ _ _. True) c ws us \<Longrightarrow> along G (\<lambda>_ _ _. True) (answering f c) ws us"
  unfolding answering_def by (erule along_and_then) simp

lemma request_call_ordered: "request_sorted f req \<Longrightarrow> along (in_order f) (\<lambda>_ _ _. True) (request_call req) [] []"
  by (cases req) (simp_all add: answering_along create_order_call_ordered lone_reserve_call_ordered)

section \<open>The number of steps\<close>

primrec within :: "'r call \<Rightarrow> nat \<Rightarrow> bool" where
  "within (Return r) n = True"
| "within (Exec s c) n = (\<exists>m. n = Suc m \<and> (\<forall>r. within (c r) m))"
| "within (NewUuid c) n = (\<exists>m. n = Suc m \<and> (\<forall>u. within (c u) m))"
| "within (TimeNow c) n = (\<exists>m. n = Suc m \<and> (\<forall>t. within (c t) m))"

lemma within_Suc [simp]:
  "within (Exec s c) (Suc n) = (\<forall>r. within (c r) n)"
  "within (NewUuid cu) (Suc n) = (\<forall>u. within (cu u) n)"
  "within (TimeNow ct) (Suc n) = (\<forall>t. within (ct t) n)"
  by simp_all

lemma Suc_le_ex: "Suc n \<le> m \<longleftrightarrow> (\<exists>k. m = Suc k \<and> n \<le> k)"
  by (cases m) auto

lemma within_mono: "within c n \<Longrightarrow> n \<le> m \<Longrightarrow> within c m"
  by (induction c arbitrary: n m) (fastforce simp: Suc_le_ex)+

lemma within_and_then: "within c n \<Longrightarrow> \<forall>r. within (k r) m \<Longrightarrow> within (and_then c k) (n + m)"
  by (induction c arbitrary: n) (auto intro: within_mono [of _ m])

lemma within_or_return: "within c n \<Longrightarrow> \<forall>a. within (k a) m \<Longrightarrow> within (or_return c k) (n + m)"
  unfolding or_return_def by (rule within_and_then) (auto split: sum.split)

lemma within_reserve_call: "within (reserve_call cid q key) 3"
  by (auto simp: reserve_call_def Let_def eval_nat_numeral split: sum.split)

lemma within_replay_call: "within (replay_call uid items o1) 1"
  by (auto simp: replay_call_def Let_def split: sum.split)

lemma within_snapshot_call: "within (snapshot_call items tot) (length items)"
proof (induction items arbitrary: tot)
  case (Cons item items)
  then show ?case
    by (auto split: sum.split intro!: within_or_return [of _ "length items" _ 0, simplified])
qed simp

lemma within_reserve_items_call: "within (reserve_items_call oid ls) (3 * length ls)"
proof (induction ls)
  case (Cons l ls)
  then show ?case
    using within_or_return [OF within_reserve_call, of "\<lambda>_. reserve_items_call oid ls" "3 * length ls"]
    by simp
qed simp

lemma within_insert_items_call: "within (insert_items_call oid ls) (2 * length ls)"
proof (induction ls)
  case (Cons l ls)
  then show ?case
    by (auto split: sum.split intro!: within_or_return [of _ "2 * length ls" _ 0, simplified])
qed simp

lemma within_outbox_call: "within (outbox_call oid uid cents) 3"
  by (auto simp: outbox_call_def eval_nat_numeral split: sum.split)

lemma within_results:
  "within c n \<Longrightarrow> along G P c ws us \<Longrightarrow> (\<And>ws us r. P ws us r \<Longrightarrow> within (k r) m) \<Longrightarrow>
     within (and_then c k) (n + m)"
  by (induction c arbitrary: n ws us) (auto intro: within_mono [of _ m], (fastforce)+)

text \<open>
  Two statements for the prices and reservations of an order besides those of its lines: the
  lookup of the key, three identifiers and times, two inserts.
\<close>

lemma within_place_call: "within (place_call uid items key) (6 * length items + 5)"
  unfolding place_call_def or_return_def [of "snapshot_call items 0"]
proof (rule within_mono [OF within_results [OF within_snapshot_call
    snapshot_call_ordered [where f = "\<lambda>_. 0" and ws = "[]" and us = "[]"], where m = "5 * length items + 5"]], goal_cases)
  case (1 ws us r)
  have tail: "within (or_return (insert_items_call oid ls) (\<lambda>b. or_return (outbox_call oid uid cents)
      (\<lambda>_. Return (r b)))) (2 * length ls + 3)" for oid cents ls and r :: "db_order_item list \<Rightarrow> go_error + order"
    by (intro within_or_return [OF within_insert_items_call] allI
        within_or_return [OF within_outbox_call, of _ 0, simplified]) simp
  show ?case
  proof (cases r)
    case (Inr a)
    with 1 have len: "length (fst a) = length items" by (auto dest: map_eq_imp_length_eq)
    have body: "within (or_return (reserve_items_call oid (fst a)) k) (4 + 5 * length items)"
      if "\<forall>a. within (k a) (Suc (3 + 2 * length items))" for oid and k :: "unit \<Rightarrow> order call"
      using within_or_return [OF within_reserve_items_call that, of oid "fst a"] len by (simp add: add.commute)
    from Inr tail [of _ "fst a"] len show ?thesis
      by (auto simp: split_beta add.commute split: sum.split intro!: body
          exI [of _ "5 * length items + 4"])
  qed simp
qed simp

lemma within_create_order_call:
  "within (create_order_call uid items key) (6 * length items + 6)"
proof -
  have "within (create_order_call uid items key) (Suc (6 * length items + 5))"
    unfolding create_order_call_def within_Suc
    by (auto split: sum.split intro: within_mono [OF within_replay_call] within_place_call
        simp del: add_Suc_right)
  then show ?thesis by (simp add: add.commute)
qed

lemma within_answering: "within c n \<Longrightarrow> within (answering f c) n"
  unfolding answering_def using within_and_then [of c n "\<lambda>r. Return (map_sum (\<lambda>e. e) f r)" 0] by simp

end
