(* ===== verification/Order_Interleaving.thy ===== *)
theory Order_Interleaving
  imports Call_Logic Race_Count
begin

text \<open>
  The invariant of interleaved requests: sessions hold different rows and keys, the writes of
  every session still fit the committed tables, and a commit books what it takes.
\<close>

section \<open>Moves of a session\<close>

text \<open>A step changes one session, drawing at most one identifier, or commits it.\<close>

inductive session_move :: "env \<Rightarrow> 'r field \<Rightarrow> nat \<Rightarrow> string list \<Rightarrow> 'r session \<Rightarrow> bool" for E a i where
  begins: "ss_phase (fd_sessions a ! i) = NotBegun \<Longrightarrow>
    session_move E a i [] ((fd_sessions a ! i)\<lparr>ss_phase := InTx, ss_now := n\<rparr>)"
| executes: "ss_phase (fd_sessions a ! i) = InTx \<Longrightarrow> ss_call (fd_sessions a ! i) = Exec s k \<Longrightarrow>
    ss_failed (fd_sessions a ! i) \<or> \<not> blocked E a i s \<Longrightarrow>
    session_move E a i [] (exec_step E (fd_sessions a ! i) (fd_db a) s k)"
| draws: "ss_phase (fd_sessions a ! i) = InTx \<Longrightarrow> ss_call (fd_sessions a ! i) = NewUuid ku \<Longrightarrow>
    session_move E a i [env_uuid E (fd_tick a)] ((fd_sessions a ! i)\<lparr>ss_call := ku (env_uuid E (fd_tick a))\<rparr>)"
| reads_clock: "ss_phase (fd_sessions a ! i) = InTx \<Longrightarrow> ss_call (fd_sessions a ! i) = TimeNow kt \<Longrightarrow>
    session_move E a i [] ((fd_sessions a ! i)\<lparr>ss_call := kt n\<rparr>)"
| fails: "ss_phase (fd_sessions a ! i) = InTx \<Longrightarrow> ss_call (fd_sessions a ! i) = Exec s k \<Longrightarrow>
    session_move E a i [] (fail_session (fd_sessions a ! i) (k r))"
| closes: "ss_phase (fd_sessions a ! i) = InTx \<Longrightarrow> ss_call (fd_sessions a ! i) = Return r \<Longrightarrow>
    session_move E a i [] (close (fd_sessions a ! i) r')"

inductive_cases session_moveE: "session_move E a i us s'"

lemma field_stepE:
  assumes "field_step E a b"
  obtains (move) i us s' where "i < length (fd_sessions a)" "session_move E a i us s'" "b = put_session a i s'"
  | (commits) i ord r where "i < length (fd_sessions a)" "ss_phase (fd_sessions a ! i) = InTx"
      "ss_call (fd_sessions a ! i) = Return (Inr ord)" "\<not> ss_failed (fd_sessions a ! i)" "b = commit E a i r"
  using assms
proof (cases rule: field_step.cases)
  case (statement i)
  then have i: "i < length (fd_sessions a)" by (simp add: session_step_def split: if_splits)
  show thesis
  proof (cases "ss_phase (fd_sessions a ! i)")
    case NotBegun
    with statement i have "b = put_session a i ((fd_sessions a ! i)\<lparr>ss_phase := InTx, ss_now := env_now E (fd_tick a)\<rparr>)"
      by (simp add: session_step_def Let_def)
    then show thesis by (rule move [OF i begins [OF NotBegun]])
  next
    case InTx
    with statement i show thesis
      by (cases "ss_call (fd_sessions a ! i)")
        (auto simp: session_step_def Let_def split: sum.splits if_splits
          intro: move [OF i] commits session_move.intros)
  next
    case (Closed r)
    with statement i show thesis by (simp add: session_step_def Let_def)
  qed
qed (auto intro: move commits session_move.intros)

section \<open>The invariant\<close>

definition live :: "'r session \<Rightarrow> bool" where
  "live ss \<longleftrightarrow> \<not> ss_failed ss \<and> (case ss_phase ss of Closed r \<Rightarrow> False | _ \<Rightarrow> True)"

lemma live_simps [simp]:
  "ss_phase ss = InTx \<Longrightarrow> live ss \<longleftrightarrow> \<not> ss_failed ss" "ss_phase ss = NotBegun \<Longrightarrow> live ss \<longleftrightarrow> \<not> ss_failed ss"
  "ss_phase ss = Closed r \<Longrightarrow> \<not> live ss"
  by (simp_all add: live_def)

definition session_ok :: "env \<Rightarrow> catalog_db \<Rightarrow> 'r session \<Rightarrow> bool" where
  "session_ok E d ss \<longleftrightarrow> writes_fit E (ss_now ss) (ss_writes ss) d
     \<and> (ss_phase ss \<noteq> InTx \<or> ss_failed ss \<longrightarrow> ss_writes ss = [])
     \<and> (live ss \<longrightarrow> (\<exists>us. along any_stmt (settles []) (ss_call ss) (ss_writes ss) us))"

definition apart :: "'r session list \<Rightarrow> bool" where
  "apart ss \<longleftrightarrow> (\<forall>i < length ss. \<forall>j < length ss. i \<noteq> j \<longrightarrow>
     locks_of (ss_writes (ss ! i)) \<inter> locks_of (ss_writes (ss ! j)) = {})"

definition field_inv :: "env \<Rightarrow> catalog_db \<Rightarrow> 'r field \<Rightarrow> bool" where
  "field_inv E d0 a \<longleftrightarrow> cabinets_ok (fd_db a) \<and> apart (fd_sessions a)
     \<and> (\<forall>ss \<in> set (fd_sessions a). session_ok E (fd_db a) ss)
     \<and> (\<forall>x. total_units (fd_db a) x = total_units d0 x)"

lemma apart_update:
  assumes "apart ss" "i < length ss"
    "\<And>j. j < length ss \<Longrightarrow> j \<noteq> i \<Longrightarrow> locks_of (ss_writes s') \<inter> locks_of (ss_writes (ss ! j)) = {}"
  shows "apart (ss[i := s'])"
  using assms by (auto simp: apart_def nth_list_update)

lemma field_invD:
  assumes "field_inv E d0 a" "i < length (fd_sessions a)"
  shows "session_ok E (fd_db a) (fd_sessions a ! i)"
    "j < length (fd_sessions a) \<Longrightarrow> j \<noteq> i \<Longrightarrow>
       locks_of (ss_writes (fd_sessions a ! i)) \<inter> locks_of (ss_writes (fd_sessions a ! j)) = {}"
  using assms by (auto simp: field_inv_def apart_def)

lemma field_inv_put:
  assumes "field_inv E d0 a" "i < length (fd_sessions a)" "session_ok E (fd_db a) s'"
    "\<And>j. j < length (fd_sessions a) \<Longrightarrow> j \<noteq> i \<Longrightarrow>
       locks_of (ss_writes s') \<inter> locks_of (ss_writes (fd_sessions a ! j)) = {}"
  shows "field_inv E d0 (put_session a i s')"
  using assms set_update_subset_insert [of "fd_sessions a" i s']
  by (auto simp: field_inv_def put_session_def intro: apart_update)

text \<open>A statement that has written fits, and has waited for what it locks.\<close>

lemma has_written_fits:
  assumes "has_written s (fst (run_stmt E s now d))"
  shows "stmt_fits d s"
proof (cases s rule: stmt_cases)
  case (dec arg)
  show ?thesis
    by (rule run_dec_cases [of d arg E now]) (use assms dec in \<open>auto simp: has_written_def\<close>)
next
  case (res arg)
  with assms show ?thesis by (auto simp: run_reservation has_written_def simp del: run_stmt.simps split: if_splits)
next
  case other
  then show ?thesis by (rule other_stmt_frame)
qed

lemma not_blocked_apart:
  assumes "\<not> blocked E a i s" "stmt_fits (session_view E (fd_sessions a ! i) (fd_db a)) s"
    "j < length (fd_sessions a)" "j \<noteq> i"
  shows "locks s \<inter> locks_of (ss_writes (fd_sessions a ! j)) = {}"
proof (cases s rule: stmt_cases)
  case (dec arg)
  with assms show ?thesis
    by (auto simp: blocked_def waits_on_def can_decrement_def locked_rows_locks
        simp flip: dec_arg_eta split: option.splits)
next
  case (res arg)
  with assms show ?thesis
    by (auto simp: blocked_def waits_on_def same_key_locks [OF refl, of arg])
qed simp

lemma exec_step_failed [simp]:
  "ss_failed ss \<Longrightarrow> exec_step E ss d s k = ss\<lparr>ss_call := k (Inl (PgError ''25P02''))\<rparr>"
  by (simp add: exec_step_def)

lemma field_inv_exec:
  assumes inv: "field_inv E d0 a" and i: "i < length (fd_sessions a)" "ss_phase (fd_sessions a ! i) = InTx"
    and call: "ss_call (fd_sessions a ! i) = Exec s k"
    and free: "ss_failed (fd_sessions a ! i) \<or> \<not> blocked E a i s"
  shows "field_inv E d0 (put_session a i (exec_step E (fd_sessions a ! i) (fd_db a) s k))"
proof (cases "ss_failed (fd_sessions a ! i)")
  case True
  with field_invD [OF inv i(1)] i(2) show ?thesis
    by (intro field_inv_put [OF inv i(1)]) (auto simp: session_ok_def)
next
  case ok: False
  let ?ss = "fd_sessions a ! i"
  let ?v = "session_view E ?ss (fd_db a)"
  let ?r = "fst (run_stmt E s (ss_now ?ss) ?v)"
  obtain us where fits: "writes_fit E (ss_now ?ss) (ss_writes ?ss) (fd_db a)"
    and "along any_stmt (settles []) (ss_call ?ss) (ss_writes ?ss) us"
    using field_invD(1) [OF inv i(1)] i(2) ok by (auto simp: session_ok_def)
  then have next_ok: "along any_stmt (settles []) (k ?r)
      (if has_written s ?r then ss_writes ?ss @ [s] else ss_writes ?ss) us"
    by (simp add: call)
  show ?thesis
  proof (cases "case ?r of Inl e \<Rightarrow> aborts_tx e | Inr _ \<Rightarrow> False")
    case True
    with i(2) ok show ?thesis
      by (intro field_inv_put [OF inv i(1)]) (auto simp: exec_step_def Let_def fail_session_def session_ok_def)
  next
    case goes_on: False
    then have step: "exec_step E ?ss (fd_db a) s k = ?ss\<lparr>ss_call := k ?r,
        ss_writes := (if has_written s ?r then ss_writes ?ss @ [s] else ss_writes ?ss)\<rparr>"
      using ok by (simp add: exec_step_def Let_def)
    show ?thesis
    proof (cases "has_written s ?r")
      case True
      note sf = has_written_fits [OF True]
      have "locks_of (ss_writes ?ss @ [s]) \<inter> locks_of (ss_writes (fd_sessions a ! j)) = {}"
        if j: "j < length (fd_sessions a)" "j \<noteq> i" for j
        using not_blocked_apart [OF _ sf j] field_invD(2) [OF inv i(1) j] free ok by auto
      with True next_ok fits sf i(2) ok show ?thesis unfolding step
        by (intro field_inv_put [OF inv i(1)]) (auto simp: session_ok_def session_view_def)
    next
      case False
      with next_ok fits i(2) ok field_invD(2) [OF inv i(1)] show ?thesis unfolding step
        by (intro field_inv_put [OF inv i(1)]) (auto simp: session_ok_def)
    qed
  qed
qed

lemma field_inv_move:
  assumes inv: "field_inv E d0 a" and i: "i < length (fd_sessions a)" and "session_move E a i us s'"
  shows "field_inv E d0 (put_session a i s')"
  using assms(3)
proof cases
  case (executes s k)
  then show ?thesis using field_inv_exec [OF inv i] by simp
next
  case (draws ku)
  with field_invD [OF inv i] show ?thesis
    by (intro field_inv_put [OF inv i]) (auto simp: session_ok_def)
next
  case (reads_clock kt n)
  with field_invD [OF inv i] show ?thesis
    by (intro field_inv_put [OF inv i]) (auto simp: session_ok_def)
next
  case (begins n)
  with field_invD(1) [OF inv i] show ?thesis
    by (intro field_inv_put [OF inv i]) (auto simp: session_ok_def)
qed (auto intro!: field_inv_put [OF inv i] simp: session_ok_def fail_session_def close_def)

lemma field_inv_commit:
  assumes inv: "field_inv E d0 a" and i: "i < length (fd_sessions a)"
    and call: "ss_phase (fd_sessions a ! i) = InTx" "ss_call (fd_sessions a ! i) = Return (Inr ord)"
      "\<not> ss_failed (fd_sessions a ! i)"
  shows "field_inv E d0 (commit E a i r)"
proof -
  let ?ss = "fd_sessions a ! i"
  let ?v = "session_view E ?ss (fd_db a)"
  have ok: "cabinets_ok (fd_db a)" using inv by (simp add: field_inv_def)
  have fits: "writes_fit E (ss_now ?ss) (ss_writes ?ss) (fd_db a)"
    and bal: "units_of x (ss_writes ?ss) = booked x (ss_writes ?ss)" for x
    using field_invD(1) [OF inv i] call by (auto simp: session_ok_def settles_def balance_def)
  have "total_units ?v x = total_units (fd_db a) x" for x
    using writes_fit_effect [OF ok fits, of x] bal [of x]
    by (cases "stock_of (fd_db a) x") (simp_all add: total_units_def session_view_def)
  moreover have "session_ok E ?v (fd_sessions a ! j)" if j: "j < length (fd_sessions a)" "j \<noteq> i" for j
  proof -
    have "agree (locks_of (ss_writes (fd_sessions a ! j))) (fd_db a) ?v"
      using apply_writes_agree [OF ok fits] field_invD(2) [OF inv i j] by (auto simp: session_view_def)
    from writes_fit_local [OF this order_refl] field_invD(1) [OF inv j(1)] show ?thesis
      by (auto simp: session_ok_def)
  qed
  then have "\<forall>s \<in> set ((fd_sessions a)[i := close ?ss r]). session_ok E ?v s"
    using i by (intro all_set_update) (auto simp: session_ok_def close_def)
  moreover have "apart ((fd_sessions a)[i := close ?ss r])"
    using inv i by (intro apart_update) (auto simp: field_inv_def close_def)
  ultimately show ?thesis
    using inv by (simp add: field_inv_def commit_def Let_def put_session_def session_view_def apply_writes_frame)
qed

lemma field_step_inv: "field_step E a b \<Longrightarrow> field_inv E d0 a \<Longrightarrow> field_inv E d0 b"
  by (erule field_stepE) (auto intro: field_inv_move field_inv_commit)

lemma field_reachable_inv: "(field_step E)\<^sup>*\<^sup>* a b \<Longrightarrow> field_inv E d0 a \<Longrightarrow> field_inv E d0 b"
  by (induction rule: rtranclp_induct) (auto intro: field_step_inv)

text \<open>A field of new sessions satisfies it, whatever calls they are, when each books what it takes.\<close>

lemma field_inv_new:
  assumes "cabinets_ok d" "fd_db a = d"
    "\<And>ss. ss \<in> set (fd_sessions a) \<Longrightarrow> \<exists>c txt. ss = new_session c txt \<and> along any_stmt (settles []) c [] []"
  shows "field_inv E d a"
proof -
  have "session_ok E d ss" if "ss \<in> set (fd_sessions a)" for ss
    using assms(3) [OF that] by (auto simp: session_ok_def)
  moreover have "ss_writes (fd_sessions a ! i) = []" if "i < length (fd_sessions a)" for i
    using assms(3) [OF nth_mem [OF that]] by auto
  ultimately show ?thesis using assms(1,2) by (auto simp: field_inv_def apart_def)
qed

lemma field_inv_open: "cabinets_ok d \<Longrightarrow> field_inv E d (open_field d reqs)"
  using request_call_settles by (intro field_inv_new) (auto simp: request_session_def)

end
