(* ===== verification/Order_Alone.thy ===== *)
theory Order_Alone
  imports Order_Interleaving
begin

text \<open>
  A session that runs while no other holds a lock is the function of \<open>Repository\<close>: the
  interleaved model and the model of whole calls agree.
\<close>

section \<open>A statement in a session and in a transaction\<close>

definition matches_tx :: "env \<Rightarrow> catalog_db \<Rightarrow> 'r session \<Rightarrow> tx \<Rightarrow> bool" where
  "matches_tx E d ss t \<longleftrightarrow> ss_now ss = tx_now t \<and> ss_failed ss = tx_failed t
     \<and> (if tx_failed t then ss_writes ss = [] else session_view E ss d = tx_db t)"

lemma unwritten_stmt:
  assumes "run_stmt E s now d = (r, d')" "\<not> has_written s r" "\<forall>e. r = Inl e \<longrightarrow> \<not> aborts_tx e"
  shows "d' = d"
proof (cases s rule: stmt_cases)
  case (dec arg)
  show ?thesis
  proof (rule run_dec_cases [of d arg E now])
    assume "can_decrement d (dsp_ID arg) (dsp_Quantity arg)"
    from run_dec_written [OF this, of E now] assms(1,2) dec show ?thesis by simp
  qed (use assms(1) dec in \<open>simp del: run_stmt.simps\<close>)
next
  case (res arg)
  with assms show ?thesis
    by (simp only: run_reservation split: if_splits) (auto simp: has_written_def)
next
  case other
  with assms show ?thesis
    by (cases s) (auto simp: has_written_def map_stmt_def q_GetReservation_def q_GetCabinet_def
        q_GetOrderByItempotencyKey_def q_ListOrderItems_def q_CreateOrder_def q_CreateOrderItem_def
        q_InsertOutboxEvent_def Let_def split: option.splits sum.splits)
qed

lemma exec_step_tx:
  assumes "env_fault E (tx_tick t) = None" "matches_tx E d ss t" "tx_run E (run_stmt E s) t = (r, t')"
  shows "ss_call (exec_step E ss d s k) = k r \<and> matches_tx E d (exec_step E ss d s k) t'
    \<and> tx_tick t' = Suc (tx_tick t)"
proof (cases "tx_failed t")
  case True
  with assms show ?thesis by (auto simp: matches_tx_def tx_run_def Let_def)
next
  case False
  obtain r1 d1 where run: "run_stmt E s (tx_now t) (tx_db t) = (r1, d1)" by fastforce
  from False assms have view: "session_view E ss d = tx_db t" "ss_now ss = tx_now t" "\<not> ss_failed ss"
    by (simp_all add: matches_tx_def)
  from assms(1,3) False run have r: "r = r1"
    "if (case r1 of Inl e \<Rightarrow> aborts_tx e | Inr _ \<Rightarrow> False) then tx_failed t' else \<not> tx_failed t' \<and> tx_db t' = d1"
    and t': "tx_tick t' = Suc (tx_tick t)" "tx_now t' = tx_now t"
    by (auto simp: tx_run_def Let_def split: sum.splits if_splits)
  show ?thesis
  proof (cases "case r1 of Inl e \<Rightarrow> aborts_tx e | Inr _ \<Rightarrow> False")
    case True
    with r run view t' show ?thesis
      by (auto simp: exec_step_def Let_def matches_tx_def fail_session_def)
  next
    case no: False
    show ?thesis
    proof (cases "has_written s r1")
      case True
      with no r run view t' show ?thesis
        by (auto simp: exec_step_def Let_def matches_tx_def session_view_def)
    next
      case False
      then have "d1 = tx_db t" using unwritten_stmt [OF run False] no by (auto split: sum.splits)
      with False no r run view t' show ?thesis
        by (auto simp: exec_step_def Let_def matches_tx_def session_view_def)
    qed
  qed
qed

section \<open>A whole call\<close>

text \<open>No other session holds a lock.\<close>

definition undisturbed :: "'r field \<Rightarrow> nat \<Rightarrow> bool" where
  "undisturbed a i \<longleftrightarrow> i < length (fd_sessions a)
     \<and> (\<forall>j < length (fd_sessions a). j \<noteq> i \<longrightarrow> ss_writes (fd_sessions a ! j) = [])"

lemma undisturbed_not_blocked: "undisturbed a i \<Longrightarrow> \<not> blocked E (at a i ss n) i s"
  by (auto simp: blocked_def undisturbed_def)

lemma undisturbed_length [simp]: "undisturbed a i \<Longrightarrow> i < length (fd_sessions a)" "undisturbed a i \<Longrightarrow> \<not> length (fd_sessions a) \<le> i"
  by (simp_all add: undisturbed_def)

lemma alone_exec:
  assumes "undisturbed a i" "ss_phase ss = InTx" "ss_call ss = Exec s k"
  shows "session_step E i (at a i ss n) = Some (at a i (exec_step E ss (fd_db a) s k) (Suc n))"
  using assms(2,3) undisturbed_length(1) [OF assms(1)] undisturbed_not_blocked [OF assms(1), of E ss n s]
  by (simp add: session_step_def Let_def put_at)

lemma alone_steps:
  assumes "\<forall>n. env_fault E n = None" "undisturbed a i" "ss_phase ss = InTx" "matches_tx E (fd_db a) ss t"
    "run_call E (ss_call ss) t = (r, t')" "tx_tick t = fd_tick a + m"
  shows "\<exists>n ss'. run_sessions E (replicate n i) (at a i ss m) = Some (at a i ss' (m + n))
    \<and> ss_phase ss' = InTx \<and> ss_call ss' = Return r \<and> ss_commit ss' = ss_commit ss \<and> matches_tx E (fd_db a) ss' t'"
  using assms(3-)
proof (induction "ss_call ss" arbitrary: ss t m)
  case (Return r0)
  then show ?case
    using Return(1) [symmetric] by (intro exI [of _ 0] exI [of _ ss]) auto
next
  case (Exec s c)
  obtain r1 t1 where run: "tx_run E (run_stmt E s) t = (r1, t1)" by fastforce
  have "env_fault E (tx_tick t) = None" using assms(1) by blast
  note step = exec_step_tx [OF this Exec.prems(2) run, of c]
  let ?ss = "exec_step E ss (fd_db a) s c"
  have call: "ss_call ?ss \<in> range c" and rest: "run_call E (ss_call ?ss) t1 = (r, t')"
    using step Exec.prems(3) Exec.hyps(2) [symmetric] run by auto
  obtain n ss' where n: "run_sessions E (replicate n i) (at a i ?ss (Suc m)) = Some (at a i ss' (Suc m + n))"
    "ss_phase ss' = InTx" "ss_call ss' = Return r" "ss_commit ss' = ss_commit ss" "matches_tx E (fd_db a) ss' t'"
    using Exec.hyps(1) [OF call _ _ rest, of "Suc m"] step Exec.prems(1,4) by auto
  have "session_step E i (at a i ss m) = Some (at a i ?ss (Suc m))"
    using Exec.prems(1) Exec.hyps(2) [symmetric] by (intro alone_exec [OF assms(2)]) simp_all
  with n show ?case by (intro exI [of _ "Suc n"] exI [of _ ss']) simp
next
  case (NewUuid c)
  let ?ss = "ss\<lparr>ss_call := c (env_uuid E (tx_tick t))\<rparr>" and ?t = "t\<lparr>tx_tick := Suc (tx_tick t)\<rparr>"
  obtain n ss' where n: "run_sessions E (replicate n i) (at a i ?ss (Suc m)) = Some (at a i ss' (Suc m + n))"
    "ss_phase ss' = InTx" "ss_call ss' = Return r" "ss_commit ss' = ss_commit ss" "matches_tx E (fd_db a) ss' t'"
    using NewUuid.hyps(1) [of ?ss ?t "Suc m"] NewUuid.prems NewUuid.hyps(2) [symmetric]
    by (auto simp: tx_uuid_def matches_tx_def session_view_def)
  have "session_step E i (at a i ss m) = Some (at a i ?ss (Suc m))"
    using assms(2) NewUuid.prems(1,4) NewUuid.hyps(2) [symmetric] by (simp add: session_step_def Let_def put_at)
  with n show ?case by (intro exI [of _ "Suc n"] exI [of _ ss']) simp
next
  case (TimeNow c)
  let ?ss = "ss\<lparr>ss_call := c (env_now E (tx_tick t))\<rparr>" and ?t = "t\<lparr>tx_tick := Suc (tx_tick t)\<rparr>"
  obtain n ss' where n: "run_sessions E (replicate n i) (at a i ?ss (Suc m)) = Some (at a i ss' (Suc m + n))"
    "ss_phase ss' = InTx" "ss_call ss' = Return r" "ss_commit ss' = ss_commit ss" "matches_tx E (fd_db a) ss' t'"
    using TimeNow.hyps(1) [of ?ss ?t "Suc m"] TimeNow.prems TimeNow.hyps(2) [symmetric]
    by (auto simp: tx_time_now_def matches_tx_def session_view_def)
  have "session_step E i (at a i ss m) = Some (at a i ?ss (Suc m))"
    using assms(2) TimeNow.prems(1,4) TimeNow.hyps(2) [symmetric] by (simp add: session_step_def Let_def put_at)
  with n show ?case by (intro exI [of _ "Suc n"] exI [of _ ss']) simp
qed

text \<open>The answer of a call that has ended, and what it commits.\<close>

definition settle_tx :: "string \<Rightarrow> catalog_db \<Rightarrow> go_error + 'r \<Rightarrow> tx \<Rightarrow> (go_error + 'r) \<times> catalog_db" where
  "settle_tx txt d r t = (case r of
     Inl e \<Rightarrow> (Inl e, d)
   | Inr x \<Rightarrow> if tx_failed t then (Inl (WrapError txt TxCommitRollback), d) else (Inr x, tx_db t))"

text \<open>Session \<open>i\<close> has returned \<open>r\<close> and the committed tables are \<open>d\<close>; nothing else has changed.\<close>

definition returned :: "'r field \<Rightarrow> nat \<Rightarrow> go_error + 'r \<Rightarrow> catalog_db \<Rightarrow> 'r field \<Rightarrow> bool" where
  "returned a i r d b \<longleftrightarrow> fd_db b = d
     \<and> (\<exists>ss. fd_sessions b = (fd_sessions a)[i := ss] \<and> ss_phase ss = Closed r \<and> ss_writes ss = [])"

lemma returned_close:
  "fd_sessions b = (fd_sessions a)[i := close ss r] \<Longrightarrow> fd_db b = d \<Longrightarrow> returned a i r d b"
  by (auto simp: returned_def intro!: exI [of _ "close ss r"])

lemma alone_last_step:
  assumes "undisturbed a i" "ss_phase ss = InTx" "ss_call ss = Return r" "matches_tx E (fd_db a) ss t"
    "settle_tx (ss_commit ss) (fd_db a) r t = (r', d')"
  shows "\<exists>b. session_step E i (at a i ss n) = Some b \<and> returned a i r' d' b"
  using assms
  by (cases r) (auto simp: session_step_def Let_def settle_tx_def commit_def commit_error_def matches_tx_def
      put_session_def split: if_splits intro!: returned_close)

lemma alone_call:
  assumes "\<forall>n. env_fault E n = None" "undisturbed a i" "fd_sessions a ! i = new_session c txt"
    "run_call E c \<lparr>tx_db = fd_db a, tx_now = env_now E (fd_tick a), tx_failed = False, tx_tick = Suc (fd_tick a)\<rparr> = (r, t')"
    "settle_tx txt (fd_db a) r t' = (r', d')"
  shows "\<exists>n b. run_sessions E (replicate n i) a = Some b \<and> returned a i r' d' b"
proof -
  let ?ss = "\<lparr>ss_call = c, ss_commit = txt, ss_phase = InTx, ss_now = env_now E (fd_tick a), ss_failed = False, ss_writes = []\<rparr>"
  let ?t = "\<lparr>tx_db = fd_db a, tx_now = env_now E (fd_tick a), tx_failed = False, tx_tick = Suc (fd_tick a)\<rparr>"
  have "matches_tx E (fd_db a) ?ss ?t" by (simp add: matches_tx_def session_view_def)
  then obtain n ss' where n: "run_sessions E (replicate n i) (at a i ?ss 1) = Some (at a i ss' (1 + n))"
    "ss_phase ss' = InTx" "ss_call ss' = Return r" "ss_commit ss' = txt" "matches_tx E (fd_db a) ss' t'"
    using alone_steps [OF assms(1,2), of ?ss ?t r t' 1] assms(4) by auto
  obtain b where b: "session_step E i (at a i ss' (1 + n)) = Some b" "returned a i r' d' b"
    using alone_last_step [OF assms(2) n(2,3,5)] n(4) assms(5) by blast
  have "session_step E i a = Some (at a i ?ss 1)"
    using assms(2,3) by (simp add: session_step_def put_session_def at_def new_session_def)
  moreover have "run_sessions E (replicate n i @ [i]) (at a i ?ss 1) = Some b"
    using n(1) b(1) by (simp add: run_sessions_append)
  moreover have "replicate n i @ [i] = replicate (Suc n) i" by (simp add: replicate_append_same)
  ultimately have "run_sessions E (replicate (Suc (Suc n)) i) a = Some b" by simp
  with b show ?thesis by blast
qed

text \<open>The same in the words of \<open>Repository\<close>: a replayed order writes nothing.\<close>

lemma quiet_begin: "env_fault E (w_tick w) = None \<Longrightarrow> tx_begin E w =
    (Inr \<lparr>tx_db = w_db w, tx_now = env_now E (w_tick w), tx_failed = False, tx_tick = Suc (w_tick w)\<rparr>, w\<lparr>w_tick := Suc (w_tick w)\<rparr>)"
  by (simp add: tx_begin_def Let_def)

lemma quiet_lookup:
  assumes "env_fault E (tx_tick t) = None" "\<not> tx_failed t" "tx_run E (q_GetOrderByItempotencyKey key) t = (Inr o1, t1)"
  shows "\<not> tx_failed t1 \<and> tx_db t1 = tx_db t"
  using assms by (auto simp: tx_run_def Let_def q_GetOrderByItempotencyKey_def split: sum.splits prod.splits option.splits)

lemma quiet_replay:
  assumes "env_fault E (tx_tick t) = None" "\<not> tx_failed t" "replay_order E uid items o1 t = (r, t')"
  shows "\<not> tx_failed t' \<and> tx_db t' = tx_db t"
  using assms by (auto simp: replay_order_def tx_run_def Let_def q_ListOrderItems_def split: if_splits)

lemma repo_CreateOrderTx_settles:
  assumes "\<forall>n. env_fault E n = None" "run_call E (create_order_call uid items key)
      \<lparr>tx_db = w_db w, tx_now = env_now E (w_tick w), tx_failed = False, tx_tick = Suc (w_tick w)\<rparr> = (r, t')"
  shows "map_prod (\<lambda>r. r) w_db (repo_CreateOrderTx E uid items key w) = settle_tx (commit_text (OrderRequest uid items key)) (w_db w) r t'"
proof -
  let ?t = "\<lparr>tx_db = w_db w, tx_now = env_now E (w_tick w), tx_failed = False, tx_tick = Suc (w_tick w)\<rparr>"
  obtain r1 t1 where l: "tx_run E (q_GetOrderByItempotencyKey key) ?t = (r1, t1)" by fastforce
  note starts = quiet_begin [OF spec [OF assms(1)], of w]
  show ?thesis
  proof (cases r1)
    case (Inl e)
    with assms l have "place_order E uid items key t1 = (r, t')" by (simp add: run_create_order_call)
    with Inl l assms(1) starts show ?thesis
      by (auto simp: repo_CreateOrderTx_def settle_tx_def tx_commit_def tx_rollback_def Let_def
           split: sum.splits)
  next
    case (Inr o1)
    with assms l have rep: "replay_order E uid items o1 t1 = (r, t')" by (simp add: run_create_order_call)
    have "\<not> tx_failed t' \<and> tx_db t' = w_db w"
      using quiet_replay [OF _ _ rep] quiet_lookup [of E ?t key o1 t1] l Inr assms(1) by simp
    with Inr l rep starts show ?thesis
      by (auto simp: repo_CreateOrderTx_def settle_tx_def tx_rollback_def split: sum.splits)
  qed
qed

text \<open>A request as a whole call.\<close>

primrec run_request :: "env \<Rightarrow> request \<Rightarrow> world \<Rightarrow> (go_error + answer) \<times> world" where
  "run_request E (OrderRequest uid items key) w =
     map_prod (map_sum (\<lambda>e. e) OrderAnswer) (\<lambda>w. w) (repo_CreateOrderTx E uid items key w)"
| "run_request E (ReserveRequest cid q key) w =
     map_prod (map_sum (\<lambda>e. e) CabinetAnswer) (\<lambda>w. w) (repo_ReserveStockTx E cid q key w)"

lemma settle_answering: "settle_tx txt d (map_sum (\<lambda>e. e) f r) t = map_prod (map_sum (\<lambda>e. e) f) (\<lambda>d. d) (settle_tx txt d r t)"
  by (simp add: settle_tx_def split: sum.split)

lemma repo_ReserveStockTx_settles:
  assumes "\<forall>n. env_fault E n = None" "run_call E (reserve_call cid q key)
      \<lparr>tx_db = w_db w, tx_now = env_now E (w_tick w), tx_failed = False, tx_tick = Suc (w_tick w)\<rparr> = (r, t')"
  shows "map_prod (\<lambda>r. r) w_db (repo_ReserveStockTx E cid q key w) = settle_tx (commit_text (ReserveRequest cid q key)) (w_db w) r t'"
proof -
  note starts = quiet_begin [OF spec [OF assms(1)], of w]
  show ?thesis
    using assms starts by (cases r) (auto simp: repo_ReserveStockTx_def run_reserve_call settle_tx_def
        tx_commit_def tx_rollback_def Let_def)
qed

lemma request_settles:
  assumes "\<forall>n. env_fault E n = None" "run_call E (request_call req)
      \<lparr>tx_db = w_db w, tx_now = env_now E (w_tick w), tx_failed = False, tx_tick = Suc (w_tick w)\<rparr> = (r, t')"
  shows "settle_tx (commit_text req) (w_db w) r t' = map_prod (\<lambda>r. r) w_db (run_request E req w)"
proof (cases req)
  case (OrderRequest uid items key)
  obtain r0 where run: "run_call E (create_order_call uid items key)
      \<lparr>tx_db = w_db w, tx_now = env_now E (w_tick w), tx_failed = False, tx_tick = Suc (w_tick w)\<rparr> = (r0, t')"
    and r: "r = map_sum (\<lambda>e. e) OrderAnswer r0"
    using run_answeringD [OF assms(2) [unfolded OrderRequest request_call.simps]] by blast
  show ?thesis
    unfolding r settle_answering OrderRequest 
      repo_CreateOrderTx_settles [OF assms(1) run, symmetric]
    by (simp add: map_prod_def split_beta)
next
  case (ReserveRequest cid q key)
  obtain r0 where run: "run_call E (reserve_call cid q key)
      \<lparr>tx_db = w_db w, tx_now = env_now E (w_tick w), tx_failed = False, tx_tick = Suc (w_tick w)\<rparr> = (r0, t')"
    and r: "r = map_sum (\<lambda>e. e) CabinetAnswer r0"
    using run_answeringD [OF assms(2) [unfolded ReserveRequest request_call.simps]] by blast
  show ?thesis
    unfolding r settle_answering ReserveRequest 
      repo_ReserveStockTx_settles [OF assms(1) run, symmetric]
    by (simp add: map_prod_def split_beta)
qed

end
