(* ===== verification/Order_Progress.thy ===== *)
theory Order_Progress
  imports Order_Interleaving Order_Success "HOL-Library.Product_Lexorder"
begin

text \<open>
  Progress of interleaved requests.  Every call has a bounded number of steps.  When the
  lines of all orders are sorted by one order of the cabinets, and no reservation comes with
  a key as long as those that orders make, no sessions wait for each other in a circle, so
  that some session can always take a step.
\<close>

section \<open>Bounds\<close>

definition steps_left :: "'r session \<Rightarrow> nat \<Rightarrow> bool" where
  "steps_left ss n = (case ss_phase ss of
     NotBegun \<Rightarrow> (\<exists>m. n = Suc (Suc m) \<and> within (ss_call ss) m)
   | InTx \<Rightarrow> (\<exists>m. n = Suc m \<and> within (ss_call ss) m)
   | Closed r \<Rightarrow> True)"

definition budget :: "nat \<Rightarrow> 'r field \<Rightarrow> bool" where
  "budget N a \<longleftrightarrow> (\<exists>ns. length ns = length (fd_sessions a) \<and> fd_tick a + sum_list ns \<le> N
     \<and> (\<forall>i < length (fd_sessions a). steps_left (fd_sessions a ! i) (ns ! i)))"

lemma session_move_steps:
  assumes "session_move E a i us s'" "steps_left (fd_sessions a ! i) n"
  shows "\<exists>m. n = Suc m \<and> steps_left s' m"
  using assms(1)
proof cases
  case (executes s k)
  obtain r where "ss_call s' = k r"
    using executes(2) exec_step_call [of E "fd_sessions a ! i" "fd_db a" s k] by auto
  with executes assms(2) show ?thesis by (auto simp: steps_left_def)
qed (use assms(2) in \<open>auto simp: steps_left_def\<close>)

lemma budget_spend:
  assumes "budget N a" "i < length (fd_sessions a)" "fd_sessions b = (fd_sessions a)[i := s']" "fd_tick b = Suc (fd_tick a)"
    "\<And>n. steps_left (fd_sessions a ! i) n \<Longrightarrow> \<exists>m. n = Suc m \<and> steps_left s' m"
  shows "budget N b" "fd_tick a < N"
proof -
  obtain ns where ns: "length ns = length (fd_sessions a)" "fd_tick a + sum_list ns \<le> N"
    "\<forall>i < length (fd_sessions a). steps_left (fd_sessions a ! i) (ns ! i)"
    using assms(1) by (auto simp: budget_def)
  then obtain m where m: "ns ! i = Suc m" "steps_left s' m" using assms(2,5) by blast
  have le: "Suc m \<le> sum_list ns" using elem_le_sum_list [of i ns] ns(1) assms(2) m(1) by simp
  with ns(2) show "fd_tick a < N" by simp
  have "sum_list (ns[i := m]) = sum_list ns - 1" using ns(1) assms(2) m(1) by (simp add: sum_list_update)
  with ns le m assms(2-4) show "budget N b"
    unfolding budget_def by (intro exI [of _ "ns[i := m]"]) (auto simp: nth_list_update)
qed

lemma budget_step:
  assumes "field_step E a b" "budget N a"
  shows "budget N b \<and> fd_tick a < N \<and> fd_tick b = Suc (fd_tick a)"
  using assms(1)
proof (cases rule: field_stepE)
  case (move i us s')
  with budget_spend [OF assms(2) move(1), of b s'] session_move_steps [OF move(2)] show ?thesis by simp
next
  case (commits i ord r)
  then have "steps_left (fd_sessions a ! i) n \<Longrightarrow> \<exists>m. n = Suc m \<and> steps_left (close (fd_sessions a ! i) r) m" for n
    by (auto simp: steps_left_def)
  with budget_spend [OF assms(2) commits(1), of b] commits(5) show ?thesis by simp
qed

lemma session_step_field: "session_step E i a = Some b \<Longrightarrow> field_step E a b"
  by (rule field_step.statement)

lemma run_sessions_budget:
  "run_sessions E is a = Some b \<Longrightarrow> budget N a \<Longrightarrow> fd_tick b = fd_tick a + length is \<and> fd_tick b \<le> N \<and> budget N b"
proof (induction "is" arbitrary: a)
  case Nil
  then show ?case by (auto simp: budget_def)
next
  case (Cons i "is")
  then obtain c where c: "session_step E i a = Some c" "run_sessions E is c = Some b"
    by (auto split: option.splits)
  with budget_step [OF session_step_field [OF c(1)] Cons.prems(2)] Cons.IH [OF c(2)] show ?case by auto
qed

text \<open>The steps of a session: those of its call, the begin, and the commit or rollback.\<close>

primrec request_ticks :: "request \<Rightarrow> nat" where
  "request_ticks (OrderRequest uid items key) = order_ticks items"
| "request_ticks (ReserveRequest cid q key) = 5"

lemma within_request_call: "\<exists>n. request_ticks req = Suc (Suc n) \<and> within (request_call req) n"
  using within_answering [OF within_create_order_call] within_answering [OF within_reserve_call]
  by (cases req) (simp_all add: order_ticks_def add.commute)

definition requests_ticks :: "request list \<Rightarrow> nat" where
  "requests_ticks reqs = sum_list (map request_ticks reqs)"

lemma steps_left_request: "steps_left (request_session req) (request_ticks req)"
  using within_request_call [of req] by (auto simp: request_session_def steps_left_def)

lemma budget_open: "budget (requests_ticks reqs) (open_field d reqs)"
  unfolding budget_def
  by (intro exI [of _ "map request_ticks reqs"]) (simp add: requests_ticks_def steps_left_request)

section \<open>Order of the locks\<close>

text \<open>Identifiers that differ and have one length, so that keys made of them differ too.\<close>

definition fresh_ids :: "env \<Rightarrow> nat \<Rightarrow> bool" where
  "fresh_ids E N \<longleftrightarrow> inj_on (env_uuid E) {..<N} \<and> (\<forall>k < N. length (env_uuid E k) = 36)"

definition tracked :: "(string \<Rightarrow> nat) \<Rightarrow> env \<Rightarrow> nat \<Rightarrow> string list \<Rightarrow> 'r session \<Rightarrow> bool" where
  "tracked f E t us ss \<longleftrightarrow> (ss_phase ss \<noteq> InTx \<longrightarrow> ss_writes ss = [])
     \<and> (live ss \<longrightarrow> along (in_order f) (\<lambda>_ _ _. True) (ss_call ss) (ss_writes ss) us)
     \<and> (\<forall>s \<in> set (ss_writes ss). own_keys us s) \<and> set us \<subseteq> env_uuid E ` {..<t}"

definition tracks :: "(string \<Rightarrow> nat) \<Rightarrow> env \<Rightarrow> string list list \<Rightarrow> 'r field \<Rightarrow> bool" where
  "tracks f E uss a \<longleftrightarrow> length uss = length (fd_sessions a)
     \<and> (\<forall>i < length (fd_sessions a). tracked f E (fd_tick a) (uss ! i) (fd_sessions a ! i))
     \<and> (\<forall>i < length (fd_sessions a). \<forall>j < length (fd_sessions a). i \<noteq> j \<longrightarrow> set (uss ! i) \<inter> set (uss ! j) = {})"

definition ordered_inv :: "(string \<Rightarrow> nat) \<Rightarrow> env \<Rightarrow> 'r field \<Rightarrow> bool" where
  "ordered_inv f E a \<longleftrightarrow> (\<exists>uss. tracks f E uss a)"

lemma own_keys_mono: "own_keys us s \<Longrightarrow> own_keys (us @ us') s"
  by (cases s) (auto simp: own_stock_key_def)

lemma tracked_later: "tracked f E t us ss \<Longrightarrow> t \<le> t' \<Longrightarrow> tracked f E t' us ss"
  by (fastforce simp: tracked_def)

lemma tracked_exec:
  assumes "tracked f E t us ss" "ss_phase ss = InTx" "ss_call ss = Exec s k"
  shows "tracked f E t us (exec_step E ss d s k)"
proof (cases "ss_failed ss")
  case True
  with assms show ?thesis by (auto simp: tracked_def)
next
  case False
  with assms have "in_order f (ss_writes ss) us s"
    "\<forall>r. along (in_order f) (\<lambda>_ _ _. True) (k r) (if has_written s r then ss_writes ss @ [s] else ss_writes ss) us"
    by (simp_all add: tracked_def)
  with assms False show ?thesis by (auto simp: tracked_def exec_step_def Let_def in_order_def)
qed

lemma tracked_move:
  assumes "session_move E a i us' s'" "tracked f E (fd_tick a) us (fd_sessions a ! i)"
  shows "tracked f E (Suc (fd_tick a)) (us @ us') s'"
proof -
  have later: ?thesis if "us' = []" "tracked f E (fd_tick a) us s'"
    using tracked_later [OF that(2)] that(1) by simp
  from assms(1) show ?thesis
  proof cases
    case (executes s k)
    with assms(2) show ?thesis by (intro later) (simp_all add: tracked_exec)
  next
    case (draws ku)
    have "env_uuid E ` {..<fd_tick a} \<subseteq> env_uuid E ` {..<Suc (fd_tick a)}" by auto
    with assms(2) draws show ?thesis by (auto simp: tracked_def intro: own_keys_mono)
  qed (use assms(2) in \<open>auto simp: tracked_def live_def split: session_phase.splits intro!: later\<close>)
qed

lemma session_move_draws: "session_move E a i us s' \<Longrightarrow> set us \<subseteq> {env_uuid E (fd_tick a)}"
  by (erule session_move.cases) simp_all

lemma ordered_inv_update:
  assumes uss: "length uss = length (fd_sessions a)"
      "\<forall>i < length (fd_sessions a). tracked f E (fd_tick a) (uss ! i) (fd_sessions a ! i)"
      "\<forall>i < length (fd_sessions a). \<forall>j < length (fd_sessions a). i \<noteq> j \<longrightarrow> set (uss ! i) \<inter> set (uss ! j) = {}"
    and i: "i < length (fd_sessions a)" and b: "fd_sessions b = (fd_sessions a)[i := s']" "fd_tick b = Suc (fd_tick a)"
    and t: "tracked f E (fd_tick b) (uss ! i @ us) s'" and new: "set us \<subseteq> {env_uuid E (fd_tick a)}"
    and inj: "inj_on (env_uuid E) {..<Suc (fd_tick a)}"
  shows "ordered_inv f E b"
proof -
  have "\<forall>j < length (fd_sessions a). set us \<inter> set (uss ! j) = {}"
  proof (intro allI impI)
    fix j assume that: "j < length (fd_sessions a)"
    have "set (uss ! j) \<subseteq> env_uuid E ` {..<fd_tick a}" using uss(2) that by (simp add: tracked_def)
    moreover have "env_uuid E (fd_tick a) \<notin> env_uuid E ` {..<fd_tick a}"
      by (auto dest: inj_onD [OF inj])
    ultimately show "set us \<inter> set (uss ! j) = {}" using new by auto
  qed
  with uss(3) i uss(1) have "\<forall>j < length (fd_sessions a). \<forall>k < length (fd_sessions a). j \<noteq> k \<longrightarrow>
      set (uss[i := uss ! i @ us] ! j) \<inter> set (uss[i := uss ! i @ us] ! k) = {}"
    by (simp add: nth_list_update Int_Un_distrib Int_Un_distrib2 Int_commute)
  moreover have "\<forall>j < length (fd_sessions a). tracked f E (fd_tick b) (uss[i := uss ! i @ us] ! j) (fd_sessions b ! j)"
    using uss(1,2) i b t by (auto simp: nth_list_update intro: tracked_later [where t = "fd_tick a"])
  ultimately show ?thesis
    unfolding ordered_inv_def tracks_def using uss(1) b(1) by (intro exI [of _ "uss[i := uss ! i @ us]"]) simp
qed

lemma ordered_inv_step:
  assumes "field_step E a b" "ordered_inv f E a" "budget N a" "fresh_ids E N"
  shows "ordered_inv f E b"
proof -
  obtain uss where uss: "length uss = length (fd_sessions a)"
      "\<forall>i < length (fd_sessions a). tracked f E (fd_tick a) (uss ! i) (fd_sessions a ! i)"
      "\<forall>i < length (fd_sessions a). \<forall>j < length (fd_sessions a). i \<noteq> j \<longrightarrow> set (uss ! i) \<inter> set (uss ! j) = {}"
    using assms(2) by (auto simp: ordered_inv_def tracks_def)
  have "fd_tick a < N" using budget_step [OF assms(1,3)] by blast
  with assms(4) have inj: "inj_on (env_uuid E) {..<Suc (fd_tick a)}"
    by (auto simp: fresh_ids_def intro: inj_on_subset)
  from assms(1) show ?thesis
  proof (cases rule: field_stepE)
    case (move i us s')
    have "tracked f E (Suc (fd_tick a)) (uss ! i @ us) s'"
      using tracked_move [OF move(2)] uss(2) move(1) by blast
    with move(3) show ?thesis
      by (intro ordered_inv_update [OF uss move(1) _ _ _ session_move_draws [OF move(2)] inj]) simp_all
  next
    case (commits i ord r)
    have "tracked f E (fd_tick a) (uss ! i) (fd_sessions a ! i)" using uss(2) commits(1) by blast
    then have "tracked f E (fd_tick a) (uss ! i @ []) (close (fd_sessions a ! i) r)"
      by (auto simp: tracked_def live_def)
    then have "tracked f E (Suc (fd_tick a)) (uss ! i @ []) (close (fd_sessions a ! i) r)"
      by (rule tracked_later) simp
    with commits(5) show ?thesis
      by (intro ordered_inv_update [OF uss commits(1) _ _ _ _ inj, where us = "[]"]) simp_all
  qed
qed

lemma ordered_reachable:
  "(field_step E)\<^sup>*\<^sup>* a b \<Longrightarrow> fresh_ids E N \<Longrightarrow> ordered_inv f E a \<Longrightarrow> budget N a \<Longrightarrow> ordered_inv f E b \<and> budget N b"
  by (induction rule: rtranclp_induct) (auto dest: ordered_inv_step budget_step)

lemma tracked_new: "along (in_order f) (\<lambda>_ _ _. True) c [] [] \<Longrightarrow> tracked f E n [] (new_session c txt)"
  by (simp add: tracked_def)

lemma ordered_open:
  assumes "\<forall>req \<in> set reqs. request_sorted f req"
  shows "ordered_inv f E (open_field d reqs)"
  unfolding ordered_inv_def tracks_def
  using assms
  by (intro exI [of _ "replicate (length reqs) []"])
    (auto simp: request_session_def intro!: tracked_new request_call_ordered)

section \<open>No circular waiting\<close>

lemma stock_key_owner: "length o1 = length o2 \<Longrightarrow> stock_key o1 c1 = stock_key o2 c2 \<Longrightarrow> o1 = o2"
  by (simp add: stock_key_def)

lemma stock_keys_apart:
  assumes "set us \<inter> set us' = {}" "\<forall>u \<in> set us \<union> set us'. length u = 36" "own_stock_key us key"
  shows "\<not> own_stock_key us' key" "36 < length key"
proof -
  obtain o1 c1 where o1: "o1 \<in> set us" "key = stock_key o1 c1" using assms(3) by (auto simp: own_stock_key_def)
  with assms(2) show "36 < length key" by (simp add: stock_key_def)
  show "\<not> own_stock_key us' key"
  proof
    assume "own_stock_key us' key"
    then obtain o2 c2 where o2: "o2 \<in> set us'" "key = stock_key o2 c2" by (auto simp: own_stock_key_def)
    have "length o1 = length o2" using assms(2) o1(1) o2(1) by simp
    from stock_key_owner [OF this] o1 o2 assms(1) show False by blast
  qed
qed

lemma same_key_own:
  assumes "own_keys us s" "own_keys us' s'" "same_key s s'" "set us \<inter> set us' = {}"
    "\<forall>u \<in> set us \<union> set us'. length u = 36"
  shows "inserts_last us s \<and> inserts_last us' s'"
  using assms(3)
proof (cases rule: same_key.elims(2))
  case (1 a b)
  have "set us' \<inter> set us = {}" "\<forall>u \<in> set us' \<union> set us. length u = 36" using assms(4,5) by auto
  note apart = stock_keys_apart [OF assms(4,5)] stock_keys_apart [OF this]
  from assms(1,2) 1 apart show ?thesis by fastforce
next
  case (3 a b)
  with assms(1,2,4) show ?thesis by auto
next
  case (4 a b)
  with assms(1,2,4) show ?thesis by auto
qed simp_all

text \<open>A session waits for a row, or for the order or the reservation that another has inserted.\<close>

lemma waits_for_cases:
  assumes inv: "tracks f E uss a" "budget N a" "fresh_ids E N" and w: "waits_for E a i j"
  obtains s k where "ss_call (fd_sessions a ! i) = Exec s k" "in_order f (ss_writes (fd_sessions a ! i)) (uss ! i) s"
    "(\<exists>da. s = SDecrementStock da \<and> Inl (dsp_ID da) \<in> locks_of (ss_writes (fd_sessions a ! j)))
     \<or> inserts_last (uss ! i) s \<and> list_ex (inserts_last (uss ! j)) (ss_writes (fd_sessions a ! j))"
proof -
  let ?i = "fd_sessions a ! i" and ?j = "fd_sessions a ! j"
  note uss = inv(1) [unfolded tracks_def]
  have ij: "i < length (fd_sessions a)" "j < length (fd_sessions a)" "i \<noteq> j" "live ?i"
    using w by (auto simp: waits_for_def)
  obtain s k where s: "ss_call ?i = Exec s k" "waits_on (session_view E ?i (fd_db a)) s (ss_writes ?j)"
    using w by (auto simp: waits_for_def split: call.splits)
  have ti: "tracked f E (fd_tick a) (uss ! i) ?i" and tj: "tracked f E (fd_tick a) (uss ! j) ?j"
    using uss ij by blast+
  have ord: "in_order f (ss_writes ?i) (uss ! i) s" using ti ij(4) s(1) by (simp add: tracked_def)
  have "fd_tick a \<le> N" using inv(2) by (auto simp: budget_def)
  then have "length u = 36" if "u \<in> env_uuid E ` {..<fd_tick a}" for u
    using that inv(3) by (auto simp: fresh_ids_def)
  moreover have "set (uss ! i) \<union> set (uss ! j) \<subseteq> env_uuid E ` {..<fd_tick a}"
    using ti tj by (simp add: tracked_def)
  ultimately have len: "\<forall>u \<in> set (uss ! i) \<union> set (uss ! j). length u = 36" by blast
  have "inserts_last (uss ! i) s \<and> inserts_last (uss ! j) s'" if "s' \<in> set (ss_writes ?j)" "same_key s s'" for s'
  proof (rule same_key_own [OF _ _ that(2) _ len])
    show "own_keys (uss ! i) s" using ord by (simp add: in_order_def)
    show "own_keys (uss ! j) s'" using tj that(1) by (simp add: tracked_def)
    show "set (uss ! i) \<inter> set (uss ! j) = {}" using uss ij by blast
  qed
  then have other: "inserts_last (uss ! i) s \<and> list_ex (inserts_last (uss ! j)) (ss_writes ?j)"
    if "list_ex (same_key s) (ss_writes ?j)"
    using that unfolding list_ex_iff by blast
  have "(\<exists>da. s = SDecrementStock da \<and> Inl (dsp_ID da) \<in> locks_of (ss_writes ?j))
     \<or> inserts_last (uss ! i) s \<and> list_ex (inserts_last (uss ! j)) (ss_writes ?j)"
  proof (cases "\<exists>da. s = SDecrementStock da")
    case True
    with s(2) show ?thesis by (auto simp: waits_on_def locked_rows_locks)
  next
    case False
    then have "list_ex (same_key s) (ss_writes ?j)" using s(2) by (cases s) (simp_all add: waits_on_def)
    with other show ?thesis by blast
  qed
  with s(1) ord show thesis by (rule that)
qed

definition next_lock :: "(string \<Rightarrow> nat) \<Rightarrow> 'r session \<Rightarrow> nat \<times> nat" where
  "next_lock f ss = (case ss_call ss of Exec (SDecrementStock da) k \<Rightarrow> (0, f (dsp_ID da)) | _ \<Rightarrow> (1, 0))"

lemma waits_for_rises:
  assumes inv: "ordered_inv f E a" "budget N a" "fresh_ids E N" and "waits_for E a i j" "waits_for E a j k"
  shows "next_lock f (fd_sessions a ! i) < next_lock f (fd_sessions a ! j)"
proof -
  obtain uss where uss: "tracks f E uss a" using inv(1) by (auto simp: ordered_inv_def)
  obtain s c where s: "ss_call (fd_sessions a ! i) = Exec s c"
    "(\<exists>da. s = SDecrementStock da \<and> Inl (dsp_ID da) \<in> locks_of (ss_writes (fd_sessions a ! j)))
     \<or> inserts_last (uss ! i) s \<and> list_ex (inserts_last (uss ! j)) (ss_writes (fd_sessions a ! j))"
    using waits_for_cases [OF uss inv(2,3) assms(4)] by metis
  obtain s' c' where s': "ss_call (fd_sessions a ! j) = Exec s' c'"
    "in_order f (ss_writes (fd_sessions a ! j)) (uss ! j) s'" "(\<exists>da. s' = SDecrementStock da) \<or> inserts_last (uss ! j) s'"
    using waits_for_cases [OF uss inv(2,3) assms(5)] by metis
  from s' have "\<not> list_ex (inserts_last (uss ! j)) (ss_writes (fd_sessions a ! j))"
    by (auto simp: in_order_def below_def)
  with s(2) obtain da where da: "s = SDecrementStock da" "Inl (dsp_ID da) \<in> locks_of (ss_writes (fd_sessions a ! j))"
    by blast
  show ?thesis
  proof (cases "\<exists>da'. s' = SDecrementStock da'")
    case True
    with s(1) da s' show ?thesis by (auto simp: next_lock_def below_def)
  next
    case False
    with s(1) da s'(1) show ?thesis by (cases s') (auto simp: next_lock_def)
  qed
qed

definition waiting :: "env \<Rightarrow> 'r field \<Rightarrow> (nat \<times> nat) set" where
  "waiting E a = {(i, j). waits_for E a i j}"

lemma waiting_acyclic:
  assumes inv: "ordered_inv f E a" "budget N a" "fresh_ids E N"
  shows "acyclic (waiting E a)"
proof -
  have rises: "j \<in> Domain (waiting E a) \<longrightarrow> next_lock f (fd_sessions a ! i) < next_lock f (fd_sessions a ! j)"
    if "(i, j) \<in> (waiting E a)\<^sup>+" for i j
    using that
  proof (induction rule: trancl_induct)
    case (base j)
    then show ?case using waits_for_rises [OF inv] by (auto simp: waiting_def)
  next
    case (step j k)
    then have "j \<in> Domain (waiting E a)" by blast
    with step show ?case using waits_for_rises [OF inv] by (fastforce simp: waiting_def)
  qed
  show ?thesis
  proof (rule acyclicI, intro allI notI)
    fix i assume c: "(i, i) \<in> (waiting E a)\<^sup>+"
    then have "i \<in> Domain (waiting E a)" by (auto dest: tranclD)
    with rises [OF c] show False by simp
  qed
qed

lemma not_waiting_steps:
  assumes "i < length (fd_sessions a)" "\<nexists>r. ss_phase (fd_sessions a ! i) = Closed r" "\<forall>j. \<not> waits_for E a i j"
  shows "\<exists>b. session_step E i a = Some b"
proof (cases "ss_phase (fd_sessions a ! i)")
  case InTx
  show ?thesis
  proof (cases "ss_call (fd_sessions a ! i)")
    case (Return r)
    with assms(1) InTx show ?thesis by (cases r) (simp_all add: session_step_def Let_def)
  next
    case (Exec s k)
    with assms InTx have "ss_failed (fd_sessions a ! i) \<or> \<not> blocked E a i s"
      by (auto simp: blocked_def waits_for_def)
    with assms(1) InTx Exec show ?thesis by (auto simp: session_step_def Let_def)
  qed (use assms(1) InTx in \<open>simp_all add: session_step_def Let_def\<close>)
qed (use assms in \<open>simp_all add: session_step_def Let_def\<close>)

text \<open>Some session is not waiting, as long as one is not closed.\<close>

lemma some_step:
  assumes inv: "ordered_inv f E a" "budget N a" "fresh_ids E N"
    and "i < length (fd_sessions a)" "\<nexists>r. ss_phase (fd_sessions a ! i) = Closed r"
  shows "\<exists>j b. session_step E j a = Some b"
proof -
  let ?open = "{i. i < length (fd_sessions a) \<and> (\<nexists>r. ss_phase (fd_sessions a ! i) = Closed r)}"
  have "waiting E a \<subseteq> {..<length (fd_sessions a)} \<times> {..<length (fd_sessions a)}"
    by (auto simp: waiting_def waits_for_def)
  then have "wf ((waiting E a)\<inverse>)"
    using waiting_acyclic [OF inv] by (intro finite_acyclic_wf_converse) (auto intro: finite_subset)
  moreover have "i \<in> ?open" using assms(4,5) by simp
  ultimately obtain m where m: "m \<in> ?open" "\<And>j. (j, m) \<in> (waiting E a)\<inverse> \<Longrightarrow> j \<notin> ?open"
    by (rule wfE_min) blast
  have "\<not> waits_for E a m j" for j
  proof
    assume w: "waits_for E a m j"
    then have j: "j < length (fd_sessions a)" "ss_writes (fd_sessions a ! j) \<noteq> []"
      by (auto simp: waits_for_def split: call.splits dest: waits_on_writes)
    then have "ss_phase (fd_sessions a ! j) = InTx" using inv(1) by (auto simp: ordered_inv_def tracks_def tracked_def)
    with j m(2) [of j] w show False by (simp add: waiting_def)
  qed
  with not_waiting_steps [of m a E] m(1) show ?thesis by blast
qed

lemma orders_finish:
  assumes "ordered_inv f E a" "budget N a" "fresh_ids E N"
  shows "\<exists>js b. run_sessions E js a = Some b \<and> (\<forall>ss \<in> set (fd_sessions b). \<exists>r. ss_phase ss = Closed r)"
  using assms(1,2)
proof (induction "N - fd_tick a" arbitrary: a rule: less_induct)
  case less
  show ?case
  proof (cases "\<forall>ss \<in> set (fd_sessions a). \<exists>r. ss_phase ss = Closed r")
    case True
    then show ?thesis by (intro exI [of _ "[]"] exI [of _ a]) simp
  next
    case False
    then obtain i where "i < length (fd_sessions a)" "\<nexists>r. ss_phase (fd_sessions a ! i) = Closed r"
      by (auto simp: in_set_conv_nth)
    from some_step [OF less.prems assms(3) this] obtain j c where c: "session_step E j a = Some c" by blast
    note step = session_step_field [OF c]
    note bud = budget_step [OF step less.prems(2)]
    have "N - fd_tick c < N - fd_tick a" using bud by linarith
    then obtain js b where "run_sessions E js c = Some b" "\<forall>ss \<in> set (fd_sessions b). \<exists>r. ss_phase ss = Closed r"
      using less.hyps [of c] ordered_inv_step [OF step less.prems assms(3)] bud by blast
    with c have "run_sessions E (j # js) a = Some b" by simp
    with \<open>\<forall>ss \<in> set (fd_sessions b). \<exists>r. ss_phase ss = Closed r\<close> show ?thesis by blast
  qed
qed

end
