(* ===== verification/Order_Deadlock.thy ===== *)
theory Order_Deadlock
  imports Order_Progress
begin

text \<open>
  Without a common order of the lines two orders can wait for each other: each runs up to
  the decrement of its second cabinet while the other holds that row.
\<close>

section \<open>One session of many\<close>

abbreviation in_tx :: "string \<Rightarrow> int \<Rightarrow> sql_stmt list \<Rightarrow> 'r call \<Rightarrow> 'r session" where
  "in_tx txt now ws c \<equiv> \<lparr>ss_call = c, ss_commit = txt, ss_phase = InTx, ss_now = now, ss_failed = False, ss_writes = ws\<rparr>"

lemma read_at:
  assumes "i < length (fd_sessions a)" "\<not> is_write s"
    "fst (run_stmt E s now (apply_writes E now ws (fd_db a))) = r" "\<forall>e. r = Inl e \<longrightarrow> \<not> aborts_tx e"
  shows "session_step E i (at a i (in_tx txt now ws (Exec s k)) n) = Some (at a i (in_tx txt now ws (k r)) (Suc n))"
proof -
  have "\<not> waits_on v s w" for v w using assms(2) by (cases s) (simp_all add: waits_on_def list_ex_iff)
  with assms show ?thesis
    by (auto simp: session_step_def blocked_def exec_step_def put_at has_written_def session_view_def
        split: sum.split)
qed

lemma write_at:
  assumes "i < length (fd_sessions a)" "is_write s"
    "fst (run_stmt E s now (apply_writes E now ws (fd_db a))) = Inr row"
    "\<And>j v. j < length (fd_sessions a) \<Longrightarrow> j \<noteq> i \<Longrightarrow> \<not> waits_on v s (ss_writes (fd_sessions a ! j))"
  shows "session_step E i (at a i (in_tx txt now ws (Exec s k)) n) = Some (at a i (in_tx txt now (ws @ [s]) (k (Inr row))) (Suc n))"
  using assms by (auto simp: session_step_def blocked_def exec_step_def put_at session_view_def Let_def)

lemma uuid_at:
  "i < length (fd_sessions a) \<Longrightarrow>
     session_step E i (at a i (in_tx txt now ws (NewUuid k)) n) = Some (at a i (in_tx txt now ws (k (env_uuid E (fd_tick a + n)))) (Suc n))"
  by (simp add: session_step_def put_at)

lemma quiet_decrement:
  assumes "quiet E" "can_decrement d x q"
  shows "\<exists>row. fst (run_stmt E (SDecrementStock \<lparr>dsp_Quantity = q, dsp_ID = x\<rparr>) now d) = Inr (RowCabinet row)"
proof -
  obtain r d' where d: "q_DecrementStock E \<lparr>dsp_Quantity = q, dsp_ID = x\<rparr> now d = (r, d')" by fastforce
  from q_DecrementStock_cases [OF d] assms(2) quiet_scan [OF assms(1)] obtain row where "r = Inr row" by metis
  with d show ?thesis by (simp add: fst_map_stmt)
qed

lemma key_lookup: "fst (run_stmt E (SGetReservation key) now d) =
    (if key \<in> res_keys d then Inr (RowReservation (the (find_reservation key d))) else Inl ErrNoRows)"
  using find_None_iff_notin [of r_idempotency_key key "reservations d"]
  by (auto simp: fst_map_stmt q_GetReservation_eq find_reservation_def split: option.splits)

section \<open>Up to the second line\<close>

definition two_lines :: "string \<Rightarrow> go_int \<Rightarrow> string \<Rightarrow> go_int \<Rightarrow> order_item_input list" where
  "two_lines x qx y qy = [\<lparr>In_CabinetID = x, In_Quantity = qx\<rparr>, \<lparr>In_CabinetID = y, In_Quantity = qy\<rparr>]"

definition holds_first :: "env \<Rightarrow> string \<Rightarrow> string \<Rightarrow> go_int \<Rightarrow> string \<Rightarrow> go_int \<Rightarrow> answer session \<Rightarrow> bool" where
  "holds_first E oid x qx y qy ss \<longleftrightarrow> ss_phase ss = InTx \<and> \<not> ss_failed ss
     \<and> ss_writes ss = [SDecrementStock \<lparr>dsp_Quantity = to_int32 qx, dsp_ID = x\<rparr>,
          SCreateReservation \<lparr>crp_IdempotencyKey = stock_key oid x, crp_CabinetID = x, crp_Quantity = to_int32 qx\<rparr>]
     \<and> (\<exists>k. ss_call ss = Exec (SDecrementStock \<lparr>dsp_Quantity = to_int32 qy, dsp_ID = y\<rparr>) k)"

lemma run_to_second_line:
  assumes E: "quiet E" and i: "i < length (fd_sessions a)"
    and ss: "fd_sessions a ! i = request_session (OrderRequest uid (two_lines x qx y qy) key)"
    and d: "order_of_key key (fd_db a) = None" "can_decrement (fd_db a) x (to_int32 qx)"
      "y \<in> cabinet_ids (fd_db a)" "varchar 36 x" "x \<noteq> y"
    and oid: "oid = env_uuid E (fd_tick a + 4)" "char_length oid = 36"
      "\<And>c. find_reservation (stock_key oid c) (fd_db a) = None"
    and free: "\<And>j. j < length (fd_sessions a) \<Longrightarrow> j \<noteq> i \<Longrightarrow>
      {Inl x, Inr (stock_key oid x)} \<inter> locks_of (ss_writes (fd_sessions a ! j)) = {}"
  shows "\<exists>ss. run_sessions E (replicate 9 i) a = Some (at a i ss 9) \<and> holds_first E oid x qx y qy ss"
proof -
  let ?now = "env_now E (fd_tick a)" and ?txt = "''failed to commit order creation transaction: ''"
  let ?dec = "SDecrementStock \<lparr>dsp_Quantity = to_int32 qx, dsp_ID = x\<rparr>"
  let ?res = "SCreateReservation \<lparr>crp_IdempotencyKey = stock_key oid x, crp_CabinetID = x, crp_Quantity = to_int32 qx\<rparr>"
  have x: "x \<in> cabinet_ids (fd_db a)" using can_decrement_in [OF d(2)] by simp
  obtain rx where rx: "fst (run_stmt E (SGetCabinet x) ?now (fd_db a)) = Inr (RowCabinet rx)"
    using quiet_GetCabinet [OF E x, of ?now] by (auto simp: fst_map_stmt)
  obtain ry where ry: "fst (run_stmt E (SGetCabinet y) ?now (fd_db a)) = Inr (RowCabinet ry)"
    using quiet_GetCabinet [OF E d(3), of ?now] by (auto simp: fst_map_stmt)
  obtain rd where rd: "fst (run_stmt E ?dec ?now (fd_db a)) = Inr (RowCabinet rd)"
    using quiet_decrement [OF E d(2)] by blast
  have unused: "stock_key oid c \<notin> res_keys (fd_db a)" for c
    using oid(3) [of c] find_None_iff_notin [of r_idempotency_key "stock_key oid c" "reservations (fd_db a)"]
    by (simp add: find_reservation_def)
  have fresh: "stock_key oid c \<notin> res_keys (apply_writes E ?now ws (fd_db a))" if "Inr (stock_key oid c) \<notin> locks_of ws" for c ws
    using unlocked_keys [OF that, of E ?now "fd_db a"] unused by simp
  have fits: "stmt_fits (apply_writes E ?now [?dec] (fd_db a)) ?res"
    using fresh [of x "[?dec]"] stock_key_varchar [OF oid(2) d(4)] x d(4)
    by (simp add: reservation_violation_def new_reservation_def run_stmt_ids del: run_stmt.simps)
  have s1: "session_step E i a = Some (at a i (in_tx ?txt ?now [] (request_call (OrderRequest uid (two_lines x qx y qy) key))) (Suc 0))"
    using i ss by (simp add: session_step_def Let_def at_def put_session_def request_session_def new_session_def)
  have s2: "session_step E i (at a i (in_tx ?txt ?now [] (Exec (SGetOrderByKey key) k)) n)
      = Some (at a i (in_tx ?txt ?now [] (k (Inl ErrNoRows))) (Suc n))" for k n
    using d(1) by (intro read_at [OF i]) (simp_all add: fst_map_stmt q_GetOrderByItempotencyKey_eq)
  have s3: "session_step E i (at a i (in_tx ?txt ?now [] (Exec (SGetCabinet x) k)) n)
      = Some (at a i (in_tx ?txt ?now [] (k (Inr (RowCabinet rx)))) (Suc n))" for k n
    using rx by (intro read_at [OF i]) (simp_all del: run_stmt.simps)
  have s4: "session_step E i (at a i (in_tx ?txt ?now [] (Exec (SGetCabinet y) k)) n)
      = Some (at a i (in_tx ?txt ?now [] (k (Inr (RowCabinet ry)))) (Suc n))" for k n
    using ry by (intro read_at [OF i]) (simp_all del: run_stmt.simps)
  have s5: "session_step E i (at a i (in_tx ?txt ?now [] (NewUuid k)) (Suc (Suc (Suc (Suc 0)))))
      = Some (at a i (in_tx ?txt ?now [] (k oid)) (Suc (Suc (Suc (Suc (Suc 0))))))" for k
    using uuid_at [OF i] oid(1) by (simp add: eval_nat_numeral)
  have s6: "session_step E i (at a i (in_tx ?txt ?now ws (Exec (SGetReservation (stock_key oid c)) k)) n)
      = Some (at a i (in_tx ?txt ?now ws (k (Inl ErrNoRows))) (Suc n))" if "Inr (stock_key oid c) \<notin> locks_of ws" for ws k n c
    using fresh [OF that] by (intro read_at [OF i]) (simp_all add: key_lookup del: run_stmt.simps)
  have s7: "session_step E i (at a i (in_tx ?txt ?now [] (Exec ?dec k)) n)
      = Some (at a i (in_tx ?txt ?now [?dec] (k (Inr (RowCabinet rd)))) (Suc n))" for k n
    using rd free write_at [OF i, of ?dec E ?now "[]"]
    by (simp add: waits_on_def locked_rows_locks del: run_stmt.simps)
  have s8: "session_step E i (at a i (in_tx ?txt ?now [?dec] (Exec ?res k)) n)
      = Some (at a i (in_tx ?txt ?now [?dec, ?res] (k (Inr RowNone))) (Suc n))" for k n
    using fits free write_at [OF i, of ?res E ?now "[?dec]"]
    by (simp add: waits_on_def run_reservation flip: same_key_locks [OF refl] del: run_stmt.simps)
  have "stock_key oid y \<noteq> stock_key oid x" using d(5) by (simp add: stock_key_def)
  then show ?thesis
    by (simp add: eval_nat_numeral s1 s2 s3 s4 s5 s6 s7 s8 create_order_call_def place_call_def two_lines_def
        answering_def or_return_def reserve_call_def holds_first_def) (rule exI, rule conjI, rule refl, simp)
qed

section \<open>Two orders in opposite order\<close>

lemma unlocked_stock:
  "cabinets_ok d \<Longrightarrow> Inl x \<notin> locks_of ws \<Longrightarrow> stock_of (apply_writes E now ws d) x = stock_of d x"
  by (induction ws arbitrary: d)
    (simp_all add: run_stmt_cabinets_ok run_stmt_stock unlocked_units option.map_ident)

lemma holds_first_locks:
  "holds_first E oid x qx y qy ss \<Longrightarrow> locks_of (ss_writes ss) = {Inl x, Inr (stock_key oid x)}"
  by (auto simp: holds_first_def)

lemma waits_for_blocks: "waits_for E a i j \<Longrightarrow> session_step E i a = None"
  by (auto simp: waits_for_def session_step_def blocked_def Let_def split: call.splits)

lemma opposite_orders_wait:
  assumes E: "quiet E" "fresh_ids E 18" "\<forall>k < 18. char_length (env_uuid E k) = 36"
      "\<forall>k < 18. \<forall>c. find_reservation (stock_key (env_uuid E k) c) d = None"
    and d: "cabinets_ok d" "order_of_key k1 d = None" "order_of_key k2 d = None" "varchar 36 x" "varchar 36 y" "x \<noteq> y"
    and stock: "can_decrement d x (to_int32 q1)" "can_decrement d y (to_int32 q2)"
      "can_decrement d y (to_int32 q3)" "can_decrement d x (to_int32 q4)"
  shows "\<exists>a. run_sessions E (replicate 9 0 @ replicate 9 1)
        (open_field d [OrderRequest u1 (two_lines x q1 y q2) k1, OrderRequest u2 (two_lines y q3 x q4) k2]) = Some a
     \<and> length (fd_sessions a) = 2 \<and> waits_for E a 0 1 \<and> waits_for E a 1 0"
proof -
  let ?a = "open_field d [OrderRequest u1 (two_lines x q1 y q2) k1, OrderRequest u2 (two_lines y q3 x q4) k2]"
  have cabs: "x \<in> cabinet_ids d" "y \<in> cabinet_ids d" using stock(1,2) can_decrement_in by blast+
  obtain s0 where s0: "run_sessions E (replicate 9 0) ?a = Some (at ?a 0 s0 9)" "holds_first E (env_uuid E 4) x q1 y q2 s0"
    using run_to_second_line [of E 0 ?a u1 x q1 y q2 k1 "env_uuid E 4"] E d stock cabs
    by (auto simp: open_field_def nth_Cons' less_Suc_eq)
  let ?b = "at ?a 0 s0 9"
  have "env_uuid E 4 \<noteq> env_uuid E 13"
    using E(2) inj_onD [of "env_uuid E" "{..<18}" 4 13] by (auto simp: fresh_ids_def)
  then have keys: "stock_key (env_uuid E 13) y \<noteq> stock_key (env_uuid E 4) x"
    using E(2) stock_key_owner [of "env_uuid E 13" "env_uuid E 4" y x] by (auto simp: fresh_ids_def)
  obtain s1 where s1: "run_sessions E (replicate 9 1) ?b = Some (at ?b 1 s1 9)" "holds_first E (env_uuid E 13) y q3 x q4 s1"
    using run_to_second_line [of E 1 ?b u2 y q3 x q4 k2 "env_uuid E 13"] E d stock cabs keys
      holds_first_locks [OF s0(2)]
    by (auto simp: open_field_def nth_Cons' less_Suc_eq)
  let ?c = "at ?b 1 s1 9"
  have c: "fd_sessions ?c = [s0, s1]" "fd_db ?c = d" by (simp_all add: open_field_def)
  have waits: "waits_on (session_view E ss d) (SDecrementStock \<lparr>dsp_Quantity = q', dsp_ID = v\<rparr>) (ss_writes ss')"
    if "can_decrement d v q'" "Inl v \<notin> locks_of (ss_writes ss)" "Inl v \<in> locks_of (ss_writes ss')" for ss ss' q' v
  proof -
    have "can_decrement (session_view E ss d) v q'"
      using that(1) d(1) unlocked_stock [OF d(1) that(2), of E "ss_now ss"]
      by (simp add: session_view_def can_decrement_iff apply_writes_frame)
    with that(3) show ?thesis
      by (auto simp: waits_on_def can_decrement_def locked_rows_locks split: option.splits)
  qed
  have "waits_for E ?c 0 1" "waits_for E ?c 1 0"
    using waits [OF stock(2), of s0 s1] waits [OF stock(4), of s1 s0] s0(2) s1(2) c d(6)
    by (auto simp: waits_for_def holds_first_def)
  moreover have "run_sessions E (replicate 9 0 @ replicate 9 1) ?a = Some ?c"
    using s0(1) s1(1) by (simp add: run_sessions_append)
  ultimately show ?thesis using c(1) by (intro exI [of _ ?c]) simp
qed

lemma two_waiting_stuck:
  assumes "length (fd_sessions a) = 2" "waits_for E a 0 1" "waits_for E a 1 0"
  shows "session_step E i a = None"
proof -
  consider "i = 0" | "i = 1" | "2 \<le> i" by linarith
  then show ?thesis
  proof cases
    case 3
    with assms(1) show ?thesis by (simp add: session_step_def)
  qed (use waits_for_blocks [OF assms(2)] waits_for_blocks [OF assms(3)] in simp_all)
qed

end
