(* ===== verification/Interleaving_Properties.thy ===== *)
theory Interleaving_Properties
  imports Order_Alone Order_Deadlock Samples
begin

text \<open>
  What holds for concurrent orders and reservations, interleaved statement by statement.
\<close>

section \<open>Concurrent requests\<close>

definition three_requests :: "request list" where
  "three_requests = [OrderRequest ''u'' (two_lines ''A'' 1 ''B'' 1) ''k'', ReserveRequest ''B'' 2 ''r'',
     ReserveRequest ''A'' 1 ''s'']"

lemma sample_fresh_ids: "N \<le> 37 \<Longrightarrow> fresh_ids sample_env N"
proof -
  have "length (sample_uuid k) = 36" if "k \<le> 36" for k using that by (simp add: sample_uuid_def)
  then show "N \<le> 37 \<Longrightarrow> fresh_ids sample_env N"
    by (auto simp: fresh_ids_def inj_on_def dest: sample_uuid_inject [rotated 2])
qed

lemma three_requests_sorted: "\<forall>req \<in> set three_requests. request_sorted (\<lambda>c. if c = ''A'' then 0 else 1) req"
  by (simp add: three_requests_def two_lines_def)

lemma three_requests_ticks: "requests_ticks three_requests = 30"
  by (simp add: requests_ticks_def three_requests_def order_ticks_def two_lines_def)

section \<open>Properties\<close>

text \<open>
  C17. No lost update: however the statements of any orders and reservations interleave,
  whichever of them fail and whichever commits lose their acknowledgement, at every moment no
  committed stock is negative, and for every cabinet the stock plus the reserved units is
  what it was.
\<close>
theorem requests_conserve_units:
  assumes "(field_step E)\<^sup>*\<^sup>* (open_field d reqs) a" "cabinets_ok d"
  shows "(\<forall>c \<in> set (cabinets (fd_db a)). 0 \<le> sint (c_quantity c))
    \<and> total_units (fd_db a) cid = total_units d cid"
  using field_reachable_inv [OF assms(1) field_inv_open [OF assms(2)]]
  by (simp add: field_inv_def cabinets_ok_def)

text \<open>
  C18. Orders whose lines follow a common order of the cabinets, and reservations whose
  keys are at most as long as an identifier, never wait for each other in a circle: whatever
  has happened, faults included, every run can be continued until all calls have returned.
  A run takes at most \<open>6 * n + 8\<close> steps for an order of \<open>n\<close> lines, and five for a reservation.
\<close>
theorem sorted_requests_finish:
  assumes "(field_step E)\<^sup>*\<^sup>* (open_field d reqs) a" "fresh_ids E (requests_ticks reqs)"
    "\<forall>req \<in> set reqs. request_sorted f req"
  shows "acyclic (waiting E a)
    \<and> (\<exists>js b. run_sessions E js a = Some b \<and> (\<forall>ss \<in> set (fd_sessions b). \<exists>r. ss_phase ss = Closed r))
    \<and> (\<forall>js b. run_sessions E js a = Some b \<longrightarrow> length js \<le> requests_ticks reqs)"
proof -
  have inv: "ordered_inv f E a" "budget (requests_ticks reqs) a"
    using ordered_reachable [OF assms(1,2) ordered_open [OF assms(3)] budget_open] by blast+
  then show ?thesis
    using waiting_acyclic [OF inv assms(2)] orders_finish [OF inv assms(2)]
      run_sessions_budget [of E _ a _ "requests_ticks reqs"] by fastforce
qed

lemma sorted_requests_finish_witness:
  "\<exists>js b. run_sessions sample_env js (open_field sample_db three_requests) = Some b
     \<and> (\<forall>ss \<in> set (fd_sessions b). \<exists>r. ss_phase ss = Closed r) \<and> length js \<le> 30"
proof -
  have fresh: "fresh_ids sample_env (requests_ticks three_requests)"
    by (simp add: three_requests_ticks sample_fresh_ids)
  from sorted_requests_finish [OF rtranclp.rtrancl_refl fresh three_requests_sorted, of sample_db]
  show ?thesis by (metis three_requests_ticks)
qed

lemma requests_conserve_units_witness:
  "\<exists>a. (field_step sample_env)\<^sup>*\<^sup>* (open_field sample_db three_requests) a
     \<and> (\<forall>ss \<in> set (fd_sessions a). \<exists>r. ss_phase ss = Closed r) \<and> total_units (fd_db a) ''B'' = Some 5"
proof -
  have fresh: "fresh_ids sample_env (requests_ticks three_requests)"
    by (simp add: three_requests_ticks sample_fresh_ids)
  obtain js b where b: "run_sessions sample_env js (open_field sample_db three_requests) = Some b"
    "\<forall>ss \<in> set (fd_sessions b). \<exists>r. ss_phase ss = Closed r"
    using orders_finish [OF ordered_open [OF three_requests_sorted] budget_open fresh] by blast
  have ok: "cabinets_ok sample_db" using sample_schema by (simp only: schema_ok_def)
  have "total_units sample_db ''B'' = Some 5" by (simp add: total_units_def reserved_units_def)
  with requests_conserve_units [OF run_sessions_steps [OF b(1)] ok, of "''B''"] run_sessions_steps [OF b(1)] b(2)
  show ?thesis by auto
qed

text \<open>
  C19. Two orders for the same two cabinets in opposite order can deadlock: in every catalog
  that has the units, and without any fault, there is an interleaving after which each
  transaction holds the row the other waits for, and neither can take a step.
\<close>
theorem opposite_orders_deadlock:
  assumes "quiet E" "fresh_ids E 18" "uuid_fresh E 0 18 d" "cabinets_ok d"
    "order_of_key k1 d = None" "order_of_key k2 d = None" "varchar 36 x" "varchar 36 y" "x \<noteq> y"
    "can_decrement d x (to_int32 q1)" "can_decrement d y (to_int32 q2)"
    "can_decrement d y (to_int32 q3)" "can_decrement d x (to_int32 q4)"
  shows "\<exists>is a. run_sessions E is (open_field d [OrderRequest u1 (two_lines x q1 y q2) k1, OrderRequest u2 (two_lines y q3 x q4) k2]) = Some a
    \<and> waits_for E a 0 1 \<and> waits_for E a 1 0 \<and> (\<forall>i. session_step E i a = None)"
proof -
  have ids: "\<forall>k < 18. char_length (env_uuid E k) = 36"
    "\<forall>k < 18. \<forall>c. find_reservation (stock_key (env_uuid E k) c) d = None"
    using uuid_freshD [OF assms(3)] by auto
  from opposite_orders_wait [OF assms(1,2) ids assms(4-13), of u1 u2] two_waiting_stuck show ?thesis by blast
qed

lemma opposite_orders_deadlock_witness:
  "\<exists>is a. run_sessions sample_env is (open_field sample_db
       [OrderRequest ''u'' (two_lines ''A'' 1 ''B'' 1) ''k1'', OrderRequest ''v'' (two_lines ''B'' 1 ''A'' 1) ''k2'']) = Some a
     \<and> waits_for sample_env a 0 1 \<and> waits_for sample_env a 1 0 \<and> (\<forall>i. session_step sample_env i a = None)"
proof (rule opposite_orders_deadlock [OF sample_env_quiet sample_fresh_ids sample_fresh])
  show ok: "cabinets_ok sample_db" using sample_schema by (simp only: schema_ok_def)
  have one: "to_int32 1 = 1" by (simp add: to_int32_def)
  show "can_decrement sample_db ''A'' (to_int32 1)" "can_decrement sample_db ''B'' (to_int32 1)"
    "can_decrement sample_db ''B'' (to_int32 1)" "can_decrement sample_db ''A'' (to_int32 1)"
    by (simp_all add: can_decrement_iff [OF ok] one)
qed (simp_all add: varchar_def char_length_def byte_def)

text \<open>
  C20. The two models of a transaction agree: whatever else is going on, a session that runs
  its order or its reservation without a break and without faults, while no other
  transaction holds a lock, returns what the function of the repository returns on the
  tables committed before, and commits the tables that it leaves.
\<close>
theorem request_alone:
  assumes "\<forall>n. env_fault E n = None" "undisturbed a i" "fd_sessions a ! i = request_session req"
    "w_db w = fd_db a" "w_tick w = fd_tick a"
  shows "\<exists>n b ss. run_sessions E (replicate n i) a = Some b \<and> fd_sessions b = (fd_sessions a)[i := ss]
    \<and> ss_phase ss = Closed (fst (run_request E req w)) \<and> fd_db b = w_db (snd (run_request E req w))"
proof -
  obtain r t' where run: "run_call E (request_call req)
      \<lparr>tx_db = w_db w, tx_now = env_now E (w_tick w), tx_failed = False, tx_tick = Suc (w_tick w)\<rparr> = (r, t')"
    by fastforce
  have "settle_tx (commit_text req) (fd_db a) r t'
      = (fst (run_request E req w), w_db (snd (run_request E req w)))"
    using request_settles [OF assms(1) run] assms(4) by (simp add: map_prod_def split_beta)
  from alone_call [OF assms(1,2) assms(3) [unfolded request_session_def] _ this] run assms(4,5)
  show ?thesis by (auto simp: returned_def)
qed

lemma request_alone_witness:
  "\<exists>n b ss. run_sessions sample_env (replicate n 1) (open_field sample_db three_requests) = Some b
     \<and> ss_phase ss = Closed (fst (run_request sample_env (ReserveRequest ''B'' 2 ''r'') sample_world))
     \<and> fd_sessions b = (map request_session three_requests)[1 := ss]
     \<and> fd_db b = w_db (snd (run_request sample_env (ReserveRequest ''B'' 2 ''r'') sample_world))"
proof -
  have 1: "\<forall>n. env_fault sample_env n = None" by simp
  have 2: "undisturbed (open_field sample_db three_requests) 1"
    by (auto simp: undisturbed_def three_requests_def less_Suc_eq)
  have 3: "fd_sessions (open_field sample_db three_requests) ! 1 = request_session (ReserveRequest ''B'' 2 ''r'')"
    by (simp add: three_requests_def)
  from request_alone [OF 1 2 3, of sample_world] show ?thesis by auto
qed

end
