(* ===== verification/Order_Replay.thy ===== *)
theory Order_Replay
  imports Order_Success "HOL-Library.Multiset"
begin

text \<open>
  What is found again of a placed order: its row under its key and its id, its lines, and
  with them the outcome of a repeated request.  The replay check compares a request with
  the map from cabinets to quantities, which is exact for orders without a repeated
  cabinet and loose otherwise.
\<close>

section \<open>The placed order in the tables\<close>

lemma order_placed_found:
  assumes ok: "schema_ok d" and placed: "order_placed E now uid items key d ord d'"
  obtains row rows where
    "order_of_key key d' = Some row" "find (\<lambda>o1. o_id o1 = o_id row) (orders d') = Some row"
    "items_of (o_id row) d' = rows" "ord = mapOrderToDomain row rows" "length rows = length items"
    "o_user_id row = uid" "orders d' = orders d @ [row]" "o_id row \<notin> o_id ` set (orders d)"
    "\<exists>ids. length ids = length items \<and> rows = item_rows (o_id row) ids (map (snapshot_of d) items)"
    "row = new_order now (o_id row) uid key (order_total d items)"
proof -
  from placed show thesis
  proof (cases rule: order_placedE)
    case (1 oid row rows ev payload p m)
    have oid: "o_id row = oid" "o_idempotency_key row = key" "o_user_id row = uid"
      by (simp_all add: 1(1) new_order_def)
    have orders: "orders d' = orders d @ [row]" by (simp add: 1(11) order_effect_def Let_def)
    have "order_of_key key d' = Some row"
      using 1(8) find_None_iff_notin [of o_idempotency_key key "orders d"]
      by (simp add: order_of_key_def orders find_key_append oid)
    moreover have "find (\<lambda>o1. o_id o1 = o_id row) (orders d') = Some row"
      using 1(7) find_None_iff_notin [of o_id oid "orders d"]
      by (simp add: orders find_key_append oid)
    moreover have "items_of (o_id row) d' = rows"
      using items_of_fresh [OF ok 1(7)] by (simp add: 1(2,11) items_of_order_effect oid)
    moreover have "\<exists>ids. length ids = length items \<and> rows = item_rows (o_id row) ids (map (snapshot_of d) items)"
      using 1(2) oid by (intro exI [of _ "item_ids E (Suc m) (length items)"]) (simp add: item_ids_def)
    moreover have "row = new_order now (o_id row) uid key (order_total d items)"
      by (simp add: 1(1) new_order_def)
    ultimately show thesis using that 1(7,12,13) orders oid by blast
  qed
qed

section \<open>The comparison of a request with the stored lines\<close>

lemma existing_item_map_other:
  "c \<notin> oi_cabinet_id ` set its \<Longrightarrow> existing_item_map its m c = m c"
  by (induction its m rule: existing_item_map.induct) auto

lemma existing_item_map_distinct:
  "distinct (map oi_cabinet_id its) \<Longrightarrow> i \<in> set its \<Longrightarrow>
     existing_item_map its m (oi_cabinet_id i) = Some (of_int32 (oi_quantity i))"
proof (induction its m rule: existing_item_map.induct)
  case (2 item rest m)
  show ?case
  proof (cases "i = item")
    case True
    with "2.prems" show ?thesis by (simp add: existing_item_map_other)
  next
    case False
    have "existing_item_map rest (m(oi_cabinet_id item \<mapsto> of_int32 (oi_quantity item))) (oi_cabinet_id i)
        = Some (of_int32 (oi_quantity i))"
      using "2.prems" False by (intro "2.IH") auto
    then show ?thesis by (simp only: existing_item_map.simps)
  qed
qed simp

lemma items_match_iff:
  "items_match m items \<longleftrightarrow> (\<forall>i \<in> set items. m (In_CabinetID i) = Some (In_Quantity i))"
  by (induction m items rule: items_match.induct) (auto split: option.splits)

lemma item_rows_nth:
  assumes "length ids = length items" "k < length items"
  shows "item_rows oid ids (map (snapshot_of d) items) ! k = item_row oid (ids ! k) (snapshot_of d (items ! k))"
  using assms by (simp add: item_rows_def)

lemma map_item_rows:
  assumes "length ids = length items"
  shows "map oi_cabinet_id (item_rows oid ids (map (snapshot_of d) items)) = map In_CabinetID items"
    "map oi_quantity (item_rows oid ids (map (snapshot_of d) items)) = map (\<lambda>i. to_int32 (In_Quantity i)) items"
    "map oi_unit_price_cents (item_rows oid ids (map (snapshot_of d) items))
       = map (\<lambda>i. price_of d (In_CabinetID i)) items"
  using assms
  by (induction ids items rule: list_induct2) (simp_all add: item_rows_def item_row_def snapshot_of_def)

lemma placed_matches:
  assumes rows: "length ids = length items" "rows = item_rows oid ids (map (snapshot_of d) items)"
    and items: "distinct (map In_CabinetID items)" "fits_int32 items"
  shows "items_match (existing_item_map rows Map.empty) items"
  unfolding items_match_iff
proof
  fix i assume "i \<in> set items"
  then obtain k where k: "k < length items" "items ! k = i" by (auto simp: in_set_conv_nth)
  let ?r = "rows ! k"
  have r: "?r = item_row oid (ids ! k) (snapshot_of d i)"
    using item_rows_nth [OF rows(1) k(1)] k(2) rows(2) by simp
  have "?r \<in> set rows" using k(1) rows by (intro nth_mem) simp
  moreover have "distinct (map oi_cabinet_id rows)" using items(1) map_item_rows(1) [OF rows(1)] rows(2) by simp
  ultimately have "existing_item_map rows Map.empty (oi_cabinet_id ?r) = Some (of_int32 (oi_quantity ?r))"
    by (intro existing_item_map_distinct)
  with items(2) \<open>i \<in> set items\<close> show "existing_item_map rows Map.empty (In_CabinetID i) = Some (In_Quantity i)"
    by (simp add: r item_row_def snapshot_of_def fits_int32_def)
qed

lemma placed_replays:
  assumes "schema_ok d" "order_placed E now uid items key d ord d'"
    "distinct (map In_CabinetID items)" "fits_int32 items"
  shows "\<exists>row. order_of_key key d' = Some row \<and> replay_matches d' uid items row
    \<and> ord = mapOrderToDomain row (items_of (o_id row) d')"
proof -
  obtain row rows where r: "order_of_key key d' = Some row" "items_of (o_id row) d' = rows"
    "ord = mapOrderToDomain row rows" "length rows = length items" "o_user_id row = uid"
    "\<exists>ids. length ids = length items \<and> rows = item_rows (o_id row) ids (map (snapshot_of d) items)"
    using order_placed_found [OF assms(1,2)] by metis
  from r(6) placed_matches [OF _ _ assms(3,4)] have "items_match (existing_item_map rows Map.empty) items"
    by blast
  with r show ?thesis by (auto simp: replay_matches_def)
qed

text \<open>A replayed order matches too: the tables have not changed.\<close>

lemma create_then_replay:
  assumes first: "repo_CreateOrderTx E uid items key w = (Inr ord, w1)" and ok: "schema_ok (w_db w)"
    and items: "distinct (map In_CabinetID items)" "fits_int32 items"
    and E': "quiet E'" "w_db w2 = w_db w1"
  shows "fst (repo_CreateOrderTx E' uid items key w2) = Inr ord
    \<and> w_db (snd (repo_CreateOrderTx E' uid items key w2)) = w_db w1"
proof -
  have "\<exists>row. order_of_key key (w_db w1) = Some row \<and> replay_matches (w_db w1) uid items row
    \<and> ord = mapOrderToDomain row (items_of (o_id row) (w_db w1))"
    using create_order_Inr [OF first] placed_replays [OF ok _ items] by fastforce
  then obtain row where row: "order_of_key key (w_db w2) = Some row" "replay_matches (w_db w2) uid items row"
    "ord = mapOrderToDomain row (items_of (o_id row) (w_db w2))" using E'(2) by auto
  from create_order_replay [OF E'(1) row(1)] row(2,3) E'(2) show ?thesis by simp
qed

text \<open>The same when the acknowledgement of the first commit was lost after the server applied it.\<close>

lemma lost_then_retry:
  assumes first: "repo_CreateOrderTx E uid items key w = (Inl e, w1)" and ok: "schema_ok (w_db w)"
    and applied: "w_db w1 \<noteq> w_db w"
    and items: "distinct (map In_CabinetID items)" "fits_int32 items"
    and E': "quiet E'" "w_db w2 = w_db w1"
  shows "connection_error e \<and> is_ok (fst (repo_CreateOrderTx E' uid items key w2))
    \<and> w_db (snd (repo_CreateOrderTx E' uid items key w2)) = w_db w1"
proof -
  from create_order_Inl [OF first] applied obtain ord where "connection_error e"
    "order_placed E (env_now E (w_tick w)) uid items key (w_db w) ord (w_db w1)" by auto
  moreover from placed_replays [OF ok this(2) items] obtain row where
    "order_of_key key (w_db w2) = Some row" "replay_matches (w_db w2) uid items row" using E'(2) by auto
  ultimately show ?thesis
    using create_order_replay [OF E'(1), of key w2 row uid items] E'(2) by auto
qed

section \<open>Reading an order back\<close>

lemma repo_GetOrder_found:
  assumes "quiet E" "find (\<lambda>o1. o_id o1 = oid) (orders (w_db w)) = Some row"
  shows "fst (repo_GetOrder E oid w) = Inr (mapOrderToDomain row (items_of (o_id row) (w_db w)))"
  using assms
  by (simp add: repo_GetOrder_def pool_run_def Let_def quiet_no_fault q_GetOrder_def q_ListOrderItems_eq)

lemma repo_GetOrder_missing:
  assumes "quiet E" "find (\<lambda>o1. o_id o1 = oid) (orders (w_db w)) = None"
  shows "fst (repo_GetOrder E oid w) = Inl (CabErr ErrNotFound)"
  using assms
  by (simp add: repo_GetOrder_def pool_run_def Let_def quiet_no_fault q_GetOrder_def)

lemma create_then_get:
  assumes "repo_CreateOrderTx E uid items key w = (Inr ord, w1)" "schema_ok (w_db w)"
    "quiet E'" "w_db w2 = w_db w1"
  shows "fst (repo_GetOrder E' (Ord_ID ord) w2) = Inr ord"
proof -
  have "\<exists>row. find (\<lambda>o1. o_id o1 = Ord_ID ord) (orders (w_db w1)) = Some row
      \<and> ord = mapOrderToDomain row (items_of (o_id row) (w_db w1))"
    using create_order_Inr [OF assms(1)]
  proof (elim disjE exE conjE)
    fix o1 assume o1: "order_of_key key (w_db w) = Some o1"
      "ord = mapOrderToDomain o1 (items_of (o_id o1) (w_db w))" "w_db w1 = w_db w"
    then have "o1 \<in> set (orders (w_db w))" by (auto simp: order_of_key_def dest: find_Some_in)
    then have "find (\<lambda>x. o_id x = o_id o1) (orders (w_db w)) = Some o1"
      using assms(2) by (intro find_unique) (simp_all add: schema_ok_def orders_ok_def)
    with o1 show ?thesis by (auto simp: mapOrderToDomain_def)
  next
    assume "order_placed E (env_now E (w_tick w)) uid items key (w_db w) ord (w_db w1)"
    then obtain row rows where
      "find (\<lambda>o1. o_id o1 = o_id row) (orders (w_db w1)) = Some row"
      "items_of (o_id row) (w_db w1) = rows" "ord = mapOrderToDomain row rows"
      using order_placed_found [OF assms(2)] by metis
    then show ?thesis by (intro exI [of _ row]) (simp add: mapOrderToDomain_def)
  qed
  with repo_GetOrder_found [OF assms(3)] assms(4) show ?thesis by auto
qed

section \<open>Repeated cabinets\<close>

lemma repeated_line_effect:
  assumes ok: "schema_ok d" and acc: "lines_accept now oid [l, l] d"
    and fresh: "find_reservation (stock_key oid (snap_cabinetID l)) d = None"
    and q: "stock_of d (snap_cabinetID l) = Some s"
  shows "stock_of (lines_db now oid [l, l] d) (snap_cabinetID l) = Some (s - sint (to_int32 (snap_quantity l)))"
proof -
  let ?key = "stock_key oid (snap_cabinetID l)"
  let ?d1 = "reserve_db now (snap_cabinetID l) (snap_quantity l) ?key d"
  from acc have acc1: "reserve_accepts d (snap_cabinetID l) (snap_quantity l) ?key" by simp
  have "find_reservation ?key ?d1 \<noteq> None" using fresh by (simp add: find_reservation_reserve_db)
  then have "reserve_db now (snap_cabinetID l) (snap_quantity l) ?key ?d1 = ?d1" by (rule reserve_db_found)
  with stock_reserve_db [OF ok acc1] fresh q show ?thesis by simp
qed

text \<open>The second line of a repeated cabinet with another quantity is refused.\<close>

lemma repeated_line_mismatch:
  assumes "quiet E" "schema_ok (tx_db t)" "\<not> tx_failed t" "line_available oid (tx_db t) l"
    "snap_cabinetID l' = snap_cabinetID l" "snap_quantity l' \<noteq> of_int32 (to_int32 (snap_quantity l))"
  shows "fst (reserve_items E oid (l # l' # ls) t) = Inl (CabErr ErrDuplicateReservation)"
proof -
  let ?key = "stock_key oid (snap_cabinetID l)"
  note acc = line_available_accepts [OF assms(2,4)]
  obtain c t1 where r: "ReserveStockOnTx E (snap_cabinetID l) (snap_quantity l) ?key t = (Inr c, t1)"
    using ReserveStockOnTx_accepts [OF assms(1-3) acc] by blast
  note R = ReserveStockOnTx_Inr [OF r]
  have "find_reservation ?key (tx_db t1)
      = Some (new_reservation (tx_now t) (snap_cabinetID l) (to_int32 (snap_quantity l)) ?key)"
    using R assms(4) by (simp add: find_reservation_reserve_db line_available_def)
  then have "fst (ReserveStockOnTx E (snap_cabinetID l') (snap_quantity l')
      (stock_key oid (snap_cabinetID l')) t1) = Inl (CabErr ErrDuplicateReservation)"
    using R assms(1,5,6) by (intro ReserveStockOnTx_mismatch) (auto simp: new_reservation_def)
  with r show ?thesis
    by (cases "ReserveStockOnTx E (snap_cabinetID l') (snap_quantity l')
      (stock_key oid (snap_cabinetID l')) t1") simp
qed

section \<open>Summaries of a placed order\<close>

lemma snapshot_sels [simp]:
  "snap_cabinetID (snapshot_of d i) = In_CabinetID i" "snap_quantity (snapshot_of d i) = In_Quantity i"
  "map (snap_cabinetID \<circ> snapshot_of d) items = map In_CabinetID items"
  by (simp_all add: snapshot_of_def o_def)

lemma placed_lines:
  assumes "length ids = length items" "fits_int32 items"
  shows "map (\<lambda>l. (Line_CabinetID l, Line_Quantity l, Line_UnitPriceCents l))
      (Ord_Items (mapOrderToDomain row (item_rows oid ids (map (snapshot_of d) items))))
    = map (\<lambda>i. (In_CabinetID i, In_Quantity i, price_of d (In_CabinetID i))) items"
  using assms
  by (induction ids items rule: list_induct2)
    (simp_all add: item_rows_def item_row_def snapshot_of_def mapOrderToDomain_def mapOrderLine_def
      fits_int32_def)

lemma placed_event:
  assumes "order_placed E now uid items key d ord d'"
  shows "\<exists>ev. outbox d' = outbox d @ [ev] \<and> ob_aggregate_id ev = Ord_ID ord
    \<and> ob_event_type ev = ''order.created'' \<and> ob_published_at ev = None"
  using assms
  by (rule order_placedE)
    (simp add: order_effect_def Let_def new_event_def mapOrderToDomain_def new_order_def)

lemma placed_tables:
  assumes "order_placed E now uid items key d ord d'"
  shows "\<exists>row rows. orders d' = orders d @ [row] \<and> order_items d' = order_items d @ rows
    \<and> ord = mapOrderToDomain row rows \<and> (\<forall>r \<in> set rows. oi_order_id r = o_id row)"
  using assms
  by (rule order_placedE)
    (auto simp: order_effect_def Let_def item_rows_def item_row_def new_order_def)

lemma map_map2: "length xs = length ys \<Longrightarrow> \<forall>x y. f (g x y) = h y \<Longrightarrow> map f (map2 g xs ys) = map h ys"
  by (induction xs ys rule: list_induct2) simp_all

lemma placed_rows:
  assumes "order_placed E now uid items key d ord d'"
  shows "\<exists>row rows. orders d' = orders d @ [row] \<and> order_items d' = order_items d @ rows
    \<and> row = new_order now (Ord_ID ord) uid key (order_total d items)
    \<and> map (\<lambda>l. (oi_order_id l, oi_cabinet_id l, oi_quantity l, oi_unit_price_cents l)) rows
        = map (\<lambda>i. (Ord_ID ord, In_CabinetID i, to_int32 (In_Quantity i), price_of d (In_CabinetID i))) items"
  using assms
proof (cases rule: order_placedE)
  case (1 oid row rows ev payload p m)
  have "map (\<lambda>l. (oi_order_id l, oi_cabinet_id l, oi_quantity l, oi_unit_price_cents l)) rows
      = map (\<lambda>l. (oid, snap_cabinetID l, to_int32 (snap_quantity l), snap_unitPriceCents l)) (map (snapshot_of d) items)"
    unfolding 1(2) item_rows_def by (rule map_map2) (simp_all add: item_row_def item_ids_def)
  moreover have "Ord_ID ord = oid" using 1 by (simp add: new_order_def mapOrderToDomain_def)
  ultimately show ?thesis
    using 1(1,11) by (intro exI [of _ row] exI [of _ rows]) (simp add: order_effect_def Let_def snapshot_of_def comp_def)
qed

lemma placed_stock:
  assumes ok: "schema_ok d" and placed: "order_placed E now uid items key d ord d'"
    and unused: "\<And>c. find_reservation (stock_key (Ord_ID ord) c) d = None"
  obtains oid where "lines_accept now oid (map (snapshot_of d) items) d"
    "\<And>c. find_reservation (stock_key oid c) d = None"
    "\<And>x. stock_of d' x = stock_of (lines_db now oid (map (snapshot_of d) items) d) x"
    "Ord_ID ord = oid"
proof -
  from placed show thesis
  proof (cases rule: order_placedE)
    case (1 oid row rows ev payload p m)
    have "find_reservation (stock_key oid c) d = None" for c
      using unused [of c] 1 by (simp add: new_order_def mapOrderToDomain_def)
    with 1 show thesis by (intro that [of oid]) (simp_all add: new_order_def mapOrderToDomain_def)
  qed
qed

lemma placed_stock_distinct:
  assumes "schema_ok d" "order_placed E now uid items key d ord d'" "distinct (map In_CabinetID items)"
    "\<And>c. find_reservation (stock_key (Ord_ID ord) c) d = None"
  shows "stock_of d' x = map_option (\<lambda>s. s - sum_where (\<lambda>i. In_CabinetID i = x)
    (\<lambda>i. sint (to_int32 (In_Quantity i))) items) (stock_of d x)"
proof -
  obtain oid where o: "lines_accept now oid (map (snapshot_of d) items) d"
    "\<And>c. find_reservation (stock_key oid c) d = None"
    "\<And>x. stock_of d' x = stock_of (lines_db now oid (map (snapshot_of d) items) d) x"
    using placed_stock [OF assms(1,2,4)] by metis
  have "stock_of d' x = map_option (\<lambda>s. s - ordered_units (map (snapshot_of d) items) x) (stock_of d x)"
    using stock_lines_db [OF assms(1) o(1), of x] o(2,3) assms(3) by simp
  moreover have "ordered_units (map (snapshot_of d) items) x
      = sum_where (\<lambda>i. In_CabinetID i = x) (\<lambda>i. sint (to_int32 (In_Quantity i))) items"
    by (simp add: ordered_units_def sum_where_def snapshot_of_def filter_map o_def)
  ultimately show ?thesis by simp
qed

lemma placed_stock_repeated:
  assumes "schema_ok d" "order_placed E now uid [i, i] key d ord d'"
    "\<And>c. find_reservation (stock_key (Ord_ID ord) c) d = None"
    "stock_of d (In_CabinetID i) = Some s"
  shows "stock_of d' (In_CabinetID i) = Some (s - sint (to_int32 (In_Quantity i)))"
proof -
  obtain oid where o: "lines_accept now oid (map (snapshot_of d) [i, i]) d"
    "\<And>c. find_reservation (stock_key oid c) d = None"
    "\<And>x. stock_of d' x = stock_of (lines_db now oid (map (snapshot_of d) [i, i]) d) x"
    using placed_stock [OF assms(1-3)] by metis
  with repeated_line_effect [OF assms(1), of now oid "snapshot_of d i"] o assms(4) show ?thesis by simp
qed

section \<open>Progress in terms of the stock\<close>

definition in_stock :: "catalog_db \<Rightarrow> order_item_input \<Rightarrow> bool" where
  "in_stock d i \<longleftrightarrow> 0 < sint (to_int32 (In_Quantity i))
     \<and> (case stock_of d (In_CabinetID i) of None \<Rightarrow> False | Some s \<Rightarrow> sint (to_int32 (In_Quantity i)) \<le> s)"

lemma in_stock_line:
  assumes "schema_ok d" "in_stock d i" "char_length oid = 36"
    "find_reservation (stock_key oid (In_CabinetID i)) d = None"
  shows "line_available oid d (snapshot_of d i)" "In_CabinetID i \<in> c_id ` set (cabinets d)"
proof -
  obtain s where s: "stock_of d (In_CabinetID i) = Some s" "sint (to_int32 (In_Quantity i)) \<le> s"
    using assms(2) by (auto simp: in_stock_def split: option.splits)
  from stock_of_known [OF assms(1) s(1)] show "In_CabinetID i \<in> c_id ` set (cabinets d)" by blast
  from stock_of_known [OF assms(1) s(1)] stock_key_varchar [OF assms(3)] s assms(2,4)
  show "line_available oid d (snapshot_of d i)"
    by (simp add: line_available_def snapshot_of_def in_stock_def)
qed

lemma create_order_available:
  assumes E: "quiet E" "\<And>s. env_jsonb_in E s \<noteq> None"
      "uuid_fresh E (w_tick w) (w_tick w + order_ticks items) (w_db w)"
    and d: "schema_ok (w_db w)" "varchar 255 key" "order_of_key key (w_db w) = None"
    and items: "distinct (map In_CabinetID items)" "\<forall>i \<in> set items. in_stock (w_db w) i"
  shows "\<exists>ord w'. repo_CreateOrderTx E uid items key w = (Inr ord, w')
    \<and> (\<forall>c. find_reservation (stock_key (Ord_ID ord) c) (w_db w) = None)"
proof -
  let ?oid = "env_uuid E (w_tick w + 2 + length items)"
  note F = uuid_freshD [OF E(3), of "w_tick w + 2 + length items"]
  have oid: "char_length ?oid = 36" "\<And>c. find_reservation (stock_key ?oid c) (w_db w) = None"
    using F by (simp_all add: order_ticks_def)
  note L = in_stock_line [OF d(1) _ oid]
  have "known_cabinets (w_db w) items" using L(2) items(2) by (simp add: known_cabinets_def)
  moreover have "\<forall>i \<in> set items. 0 < sint (to_int32 (In_Quantity i))" using items(2) by (simp add: in_stock_def)
  moreover have "lines_accept (env_now E (w_tick w)) ?oid (map (snapshot_of (w_db w)) items) (w_db w)"
    using d(1) L(1) items by (intro lines_accept_available) auto
  ultimately show ?thesis using create_order_quiet [OF E d, of uid] oid(2) by metis
qed

text \<open>A repeated cabinet needs its units only once.\<close>

lemma create_order_repeated:
  assumes E: "quiet E" "\<And>s. env_jsonb_in E s \<noteq> None"
      "uuid_fresh E (w_tick w) (w_tick w + order_ticks [i, i]) (w_db w)"
    and d: "schema_ok (w_db w)" "varchar 255 key" "order_of_key key (w_db w) = None"
    and i: "in_stock (w_db w) i" "fits_int32 [i]"
  shows "\<exists>ord w'. repo_CreateOrderTx E uid [i, i] key w = (Inr ord, w')"
proof -
  let ?oid = "env_uuid E (w_tick w + 2 + length [i, i])" and ?l = "snapshot_of (w_db w) i"
  note F = uuid_freshD [OF E(3), of "w_tick w + 2 + length [i, i]"]
  have oid: "char_length ?oid = 36" "\<And>c. find_reservation (stock_key ?oid c) (w_db w) = None"
    using F by (simp_all add: order_ticks_def)
  note L = in_stock_line [OF d(1) i(1) oid]
  have known: "known_cabinets (w_db w) [i, i]" "\<forall>j \<in> set [i, i]. 0 < sint (to_int32 (In_Quantity j))"
    using L(2) i(1) by (simp_all add: known_cabinets_def in_stock_def)
  have same: "of_int32 (to_int32 (snap_quantity ?l)) = snap_quantity ?l"
    using i(2) by (simp add: fits_int32_def snapshot_of_def)
  have "lines_accept (env_now E (w_tick w)) ?oid (map (snapshot_of (w_db w)) [i, i]) (w_db w)"
    using line_available_accepts [OF d(1) L(1)] same L(1)
    by (simp add: reserve_accepts_def [of "reserve_db n c q k d" for n c q k d]
        find_reservation_reserve_db line_available_def new_reservation_def)
  from create_order_quiet [OF E d known this] show ?thesis by blast
qed

lemma create_order_mismatch:
  assumes E: "quiet E" "uuid_fresh E (w_tick w) (w_tick w + order_ticks (i # j # items)) (w_db w)"
    and d: "schema_ok (w_db w)" "order_of_key key (w_db w) = None" "known_cabinets (w_db w) (i # j # items)"
    and i: "in_stock (w_db w) i" "In_CabinetID j = In_CabinetID i"
      "In_Quantity j \<noteq> of_int32 (to_int32 (In_Quantity i))"
  shows "fst (repo_CreateOrderTx E uid (i # j # items) key w) = Inl (CabErr ErrDuplicateReservation)"
proof (rule create_order_place_error [OF E(1) d(2)])
  fix t :: tx assume t: "tx_db t = w_db w" "\<not> tx_failed t" "tx_tick t = w_tick w + 2"
  obtain ls cents t1 where s: "snapshot_items E (i # j # items) 0 t = (Inr (ls, cents), t1)"
    using snapshot_items_quiet [OF E(1) t(2), of "i # j # items" 0] d(3) t(1) by fastforce
  note S = snapshot_items_Inr [OF s]
  let ?oid = "env_uuid E (tx_tick t1)" and ?t = "t1\<lparr>tx_tick := Suc (tx_tick t1)\<rparr>"
  have "char_length ?oid = 36" "find_reservation (stock_key ?oid (In_CabinetID i)) (w_db w) = None"
    using uuid_freshD [OF E(2), of "tx_tick t1"] S t by (simp_all add: order_ticks_def)
  note L = in_stock_line(1) [OF d(1) i(1) this]
  have "fst (reserve_items E ?oid ls ?t) = Inl (CabErr ErrDuplicateReservation)"
    using S t L d(1) i(2,3) repeated_line_mismatch [OF E(1), of ?t ?oid "snapshot_of (w_db w) i"
      "snapshot_of (w_db w) j" "map (snapshot_of (w_db w)) items"] by simp
  with s show "fst (place_order E uid (i # j # items) key t) = Inl (CabErr ErrDuplicateReservation)"
    by (cases "reserve_items E ?oid ls ?t") (simp add: place_order_def tx_uuid_def)
qed

section \<open>The stored lines and a repeated request\<close>

text \<open>The map from cabinets to quantities holds the last stored line of each cabinet.\<close>

lemma existing_item_map_last:
  "existing_item_map rows m cid = (case find (\<lambda>l. oi_cabinet_id l = cid) (rev rows) of
     None \<Rightarrow> m cid | Some l \<Rightarrow> Some (of_int32 (oi_quantity l)))"
  by (induction rows arbitrary: m) (auto simp: find_key_append split: option.split)

text \<open>When no cabinet is named twice, agreement with the last lines is agreement as a whole.\<close>

lemma agrees_mset:
  assumes "distinct (map k xs)"
  shows "length xs = length ys \<and> (\<forall>x \<in> set xs. \<exists>y. find (\<lambda>y. k' y = k x) (rev ys) = Some y \<and> q' y = q x)
     \<longleftrightarrow> mset (map (\<lambda>y. (k' y, q' y)) ys) = mset (map (\<lambda>x. (k x, q x)) xs)"
proof
  assume R: "mset (map (\<lambda>y. (k' y, q' y)) ys) = mset (map (\<lambda>x. (k x, q x)) xs)"
  from arg_cong [OF this, of "image_mset fst"] have "mset (map k' ys) = mset (map k xs)"
    by (simp add: image_mset.compositionality comp_def)
  then have d: "distinct (map k' (rev ys))" using assms(1)
    by (metis distinct_rev mset_eq_imp_distinct_iff rev_map)
  have "\<exists>y. find (\<lambda>y. k' y = k x) (rev ys) = Some y \<and> q' y = q x" if "x \<in> set xs" for x
  proof -
    from that have "(k x, q x) \<in> set (map (\<lambda>x. (k x, q x)) xs)" by auto
    then have "(k x, q x) \<in> set (map (\<lambda>y. (k' y, q' y)) ys)" unfolding mset_eq_setD [OF R] .
    then obtain y where y: "y \<in> set (rev ys)" "k' y = k x" "q' y = q x" by auto
    from find_unique [OF d y(1)] y(2,3)
    show ?thesis by simp
  qed
  moreover have "length xs = length ys" using mset_eq_length [OF R] by simp
  ultimately show "length xs = length ys \<and> (\<forall>x \<in> set xs. \<exists>y. find (\<lambda>y. k' y = k x) (rev ys) = Some y \<and> q' y = q x)"
    by blast
next
  assume L: "length xs = length ys \<and> (\<forall>x \<in> set xs. \<exists>y. find (\<lambda>y. k' y = k x) (rev ys) = Some y \<and> q' y = q x)"
  let ?ps = "map (\<lambda>y. (k' y, q' y)) ys" and ?rs = "map (\<lambda>x. (k x, q x)) xs"
  have "set ?rs \<subseteq> set ?ps"
  proof
    fix p assume "p \<in> set ?rs"
    then obtain x where x: "x \<in> set xs" "p = (k x, q x)" by auto
    with L obtain y where "find (\<lambda>y. k' y = k x) (rev ys) = Some y" "q' y = q x" by blast
    then have "y \<in> set ys" "k' y = k x" "q' y = q x" by (auto dest: find_Some_in)
    with x(2) show "p \<in> set ?ps" by force
  qed
  moreover have dr: "distinct ?rs" using assms(1) by (auto simp: distinct_map inj_on_def)
  then have "card (set ?rs) = length ?ps" using L distinct_card by force
  ultimately have "set ?rs = set ?ps" "distinct ?ps"
    using card_subset_eq [of "set ?ps" "set ?rs"] card_length [of ?ps] card_mono [of "set ?ps" "set ?rs"] card_distinct [of ?ps]
    by auto
  with dr show "mset ?ps = mset ?rs" by (metis set_eq_iff_mset_eq_distinct)
qed

end
