(* ===== verification/Order_Properties.thy ===== *)
theory Order_Properties
  imports Order_Replay Samples
begin

text \<open>
  What \<open>CreateOrderTx\<close> guarantees: a placed order is the one that was asked for, it is all or
  nothing under every fault, and its idempotency key makes a repetition harmless; and what
  its comparison with a stored order lets through.
\<close>

section \<open>Sample requests\<close>

lemma sample_order_of: "\<exists>ord w'. repo_CreateOrderTx sample_env uid sample_items ''k'' sample_world = (Inr ord, w')"
  using create_order_available [of sample_env sample_world sample_items "''k''" uid]
  by (simp add: sample_fresh order_ticks_def sample_items_def in_stock_def to_int32_def varchar_def
      char_length_def)

lemmas sample_order = sample_order_of [of "''u''"]

lemma sample_items_ok: "distinct (map In_CabinetID sample_items)" "fits_int32 sample_items"
  by (simp_all add: fits_int32_def sample_items_def to_int32_def of_int32_def)

definition two_b :: order_item_input where
  "two_b = \<lparr>In_CabinetID = ''B'', In_Quantity = 2\<rparr>"

lemma unknown_order:
  "\<exists>w'. repo_CreateOrderTx sample_env ''u'' [\<lparr>In_CabinetID = ''Z'', In_Quantity = 1\<rparr>] ''k'' sample_world
      = (Inl (CabErr ErrNotFound), w')"
proof -
  have "fst (repo_CreateOrderTx sample_env ''u'' [\<lparr>In_CabinetID = ''Z'', In_Quantity = 1\<rparr>] ''k'' sample_world)
      = Inl (CabErr ErrNotFound)"
    by (rule create_order_unknown) (simp_all add: known_cabinets_def sample_cabinet_def)
  then show ?thesis by (metis prod.collapse)
qed

section \<open>A new order\<close>

text \<open>
  C4. An order that is placed under a new key is what was asked for: the caller's id and
  key, the status \<open>pending_payment\<close>, one line per requested item with the price of the
  cabinet at that time, their sum as the total; and the tables gain exactly its row, its
  lines and one unpublished \<open>order.created\<close> event for it.
\<close>
theorem create_order_places:
  assumes "repo_CreateOrderTx E uid items key w = (Inr ord, w')"
    "order_of_key key (w_db w) = None" "schema_ok (w_db w)" "fits_int32 items"
  shows "Ord_UserID ord = uid \<and> Ord_IdempotencyKey ord = key \<and> Ord_Status ord = ''pending_payment''
    \<and> Ord_TotalCents ord = (\<Sum>i\<leftarrow>items. price_of (w_db w) (In_CabinetID i) * In_Quantity i)
    \<and> map (\<lambda>l. (Line_CabinetID l, Line_Quantity l, Line_UnitPriceCents l)) (Ord_Items ord)
        = map (\<lambda>i. (In_CabinetID i, In_Quantity i, price_of (w_db w) (In_CabinetID i))) items
    \<and> (\<exists>row rows. orders (w_db w') = orders (w_db w) @ [row] \<and> order_items (w_db w') = order_items (w_db w) @ rows
          \<and> ord = mapOrderToDomain row rows \<and> (\<forall>r \<in> set rows. oi_order_id r = o_id row))
    \<and> (\<exists>ev. outbox (w_db w') = outbox (w_db w) @ [ev] \<and> ob_aggregate_id ev = Ord_ID ord
          \<and> ob_event_type ev = ''order.created'' \<and> ob_published_at ev = None)"
proof -
  have placed: "order_placed E (env_now E (w_tick w)) uid items key (w_db w) ord (w_db w')"
    using create_order_Inr [OF assms(1)] assms(2) by auto
  obtain row rows ids where r: "ord = mapOrderToDomain row rows" "length ids = length items"
    "rows = item_rows (o_id row) ids (map (snapshot_of (w_db w)) items)"
    "row = new_order (env_now E (w_tick w)) (o_id row) uid key (order_total (w_db w) items)"
    using order_placed_found [OF assms(3) placed] by metis
  from r(4) have row: "o_user_id row = uid" "o_idempotency_key row = key" "o_status row = ''pending_payment''"
    "o_total_cents row = order_total (w_db w) items"
    by (metis new_order_def db_order.select_convs StatusPendingPayment_def)+
  show ?thesis
    using placed_event [OF placed] placed_tables [OF placed]
      placed_lines [OF r(2) assms(4), of row "o_id row" "w_db w"] r row
    by (simp add: mapOrderToDomain_def order_total_def)
qed

lemma create_order_places_witness:
  "\<exists>ord w'. repo_CreateOrderTx sample_env ''u'' sample_items ''k'' sample_world = (Inr ord, w')
     \<and> Ord_Status ord = ''pending_payment''"
proof -
  obtain ord w' where r: "repo_CreateOrderTx sample_env ''u'' sample_items ''k'' sample_world = (Inr ord, w')"
    using sample_order by blast
  have "fits_int32 sample_items" by (simp add: fits_int32_def sample_items_def to_int32_def of_int32_def)
  with r create_order_places [OF r] show ?thesis by simp
qed

text \<open>
  C5. It takes exactly the ordered units out of the stock, when no cabinet is named twice and
  no reservation used the keys of the order before.
\<close>
theorem create_order_takes_stock:
  assumes "repo_CreateOrderTx E uid items key w = (Inr ord, w')"
    "order_of_key key (w_db w) = None" "schema_ok (w_db w)" "distinct (map In_CabinetID items)"
    "\<And>c. find_reservation (stock_key (Ord_ID ord) c) (w_db w) = None"
  shows "stock_of (w_db w') cid = map_option (\<lambda>s. s - sum_where (\<lambda>i. In_CabinetID i = cid)
    (\<lambda>i. sint (to_int32 (In_Quantity i))) items) (stock_of (w_db w) cid)"
proof -
  have "order_placed E (env_now E (w_tick w)) uid items key (w_db w) ord (w_db w')"
    using create_order_Inr [OF assms(1)] assms(2) by auto
  then show ?thesis by (rule placed_stock_distinct [OF assms(3) _ assms(4,5)])
qed

lemma create_order_takes_stock_witness:
  "\<exists>ord w'. repo_CreateOrderTx sample_env ''u'' sample_items ''k'' sample_world = (Inr ord, w')
     \<and> stock_of (w_db w') ''B'' = Some 3"
proof -
  obtain ord w' where r: "repo_CreateOrderTx sample_env ''u'' sample_items ''k'' sample_world = (Inr ord, w')"
    using sample_order by blast
  have "sum_where (\<lambda>i. In_CabinetID i = ''B'') (\<lambda>i. sint (to_int32 (In_Quantity i))) sample_items = 2"
    by (simp add: sample_items_def sum_where_def to_int32_def)
  with r create_order_takes_stock [OF r, of "''B''"] show ?thesis by (simp add: sample_items_def)
qed

text \<open>
  C6. All or nothing, under every fault: whatever the database and the connection do, a
  call of \<open>CreateOrder\<close> that returns an error has left the tables as they were, or the
  connection failed and the order was placed completely.
\<close>
theorem create_order_all_or_nothing:
  assumes "repo_CreateOrderTx E uid items key w = (Inl e, w')"
  shows "w_db w' = w_db w
    \<or> connection_error e \<and> order_of_key key (w_db w) = None
      \<and> (\<exists>ord. order_placed E (env_now E (w_tick w)) uid items key (w_db w) ord (w_db w'))"
  using create_order_Inl [OF assms] by blast

lemma create_order_all_or_nothing_witness:
  "\<exists>e w'. repo_CreateOrderTx sample_env ''u'' [\<lparr>In_CabinetID = ''Z'', In_Quantity = 1\<rparr>] ''k'' sample_world
      = (Inl e, w') \<and> w_db w' = sample_db"
proof -
  obtain w' where r: "repo_CreateOrderTx sample_env ''u'' [\<lparr>In_CabinetID = ''Z'', In_Quantity = 1\<rparr>] ''k'' sample_world
      = (Inl (CabErr ErrNotFound), w')" using unknown_order by blast
  from create_order_all_or_nothing [OF r] r show ?thesis by auto
qed



text \<open>
  C8. Idempotence: repeating the request of a successful call, at any later time without
  faults and with the tables as they were left, returns the same order and changes nothing.
\<close>
theorem create_order_idempotent:
  assumes "repo_CreateOrderTx E uid items key w = (Inr ord, w1)" "schema_ok (w_db w)"
    "distinct (map In_CabinetID items)" "fits_int32 items" "quiet E'" "w_db w2 = w_db w1"
  shows "fst (repo_CreateOrderTx E' uid items key w2) = Inr ord
    \<and> w_db (snd (repo_CreateOrderTx E' uid items key w2)) = w_db w1"
  using assms by (rule create_then_replay)

lemma create_order_idempotent_witness:
  "\<exists>ord w1. repo_CreateOrderTx sample_env ''u'' sample_items ''k'' sample_world = (Inr ord, w1)
     \<and> fst (repo_CreateOrderTx sample_env ''u'' sample_items ''k'' w1) = Inr ord"
proof -
  obtain ord w1 where r: "repo_CreateOrderTx sample_env ''u'' sample_items ''k'' sample_world = (Inr ord, w1)"
    using sample_order by blast
  from create_order_idempotent [OF r, of sample_env w1] r sample_items_ok show ?thesis by auto
qed

text \<open>
  C9. A retry after an unknown outcome is safe: when the acknowledgement of the commit was
  lost although the server had applied it, the error is a connection error, and repeating
  the request succeeds without placing a second order.
\<close>
theorem create_order_retry_safe:
  assumes "repo_CreateOrderTx E uid items key w = (Inl e, w1)" "schema_ok (w_db w)"
    "w_db w1 \<noteq> w_db w" "distinct (map In_CabinetID items)" "fits_int32 items"
    "quiet E'" "w_db w2 = w_db w1"
  shows "connection_error e \<and> is_ok (fst (repo_CreateOrderTx E' uid items key w2))
    \<and> w_db (snd (repo_CreateOrderTx E' uid items key w2)) = w_db w1"
  using assms by (rule lost_then_retry)

lemma create_order_retry_safe_witness:
  "\<exists>e w1. repo_CreateOrderTx (lossy_env 13) ''u'' one_item ''k'' sample_world = (Inl e, w1)
     \<and> w_db w1 \<noteq> sample_db \<and> is_ok (fst (repo_CreateOrderTx sample_env ''u'' one_item ''k'' w1))"
proof -
  obtain e w1 where r: "repo_CreateOrderTx (lossy_env 13) ''u'' one_item ''k'' sample_world = (Inl e, w1)"
    and n: "w_db w1 \<noteq> sample_db" using lossy_order by blast
  from create_order_retry_safe [OF r, of sample_env w1] r n one_item_ok show ?thesis by auto
qed

section \<open>What the comparisons let through\<close>

text \<open>
  A replay is compared loosely: any request of the same user, key and length whose items
  each occur among the stored lines gets the stored order, also when other stored lines do
  not occur in the request.
\<close>
theorem replay_accepts_subset:
  assumes "quiet E" "order_of_key key (w_db w) = Some o1" "o_user_id o1 = uid"
    "rows = items_of (o_id o1) (w_db w)" "length items = length rows" "distinct (map oi_cabinet_id rows)"
    "\<forall>i \<in> set items. \<exists>r \<in> set rows. oi_cabinet_id r = In_CabinetID i \<and> of_int32 (oi_quantity r) = In_Quantity i"
  shows "fst (repo_CreateOrderTx E uid items key w) = Inr (mapOrderToDomain o1 rows)"
proof -
  have "items_match (existing_item_map rows Map.empty) items"
    unfolding items_match_iff using assms(7) existing_item_map_distinct [OF assms(6)] by metis
  then show ?thesis
    using create_order_replay(1) [OF assms(1,2)] assms(3-5) by (simp add: replay_matches_def)
qed

lemma replay_accepts_subset_witness:
  "\<exists>ord w1. repo_CreateOrderTx sample_env ''u'' sample_items ''k'' sample_world = (Inr ord, w1)
     \<and> fst (repo_CreateOrderTx sample_env ''u'' [hd sample_items, hd sample_items] ''k'' w1) = Inr ord"
proof -
  obtain ord w1 where r: "repo_CreateOrderTx sample_env ''u'' sample_items ''k'' sample_world = (Inr ord, w1)"
    using sample_order by blast
  then have placed: "order_placed sample_env (env_now sample_env 0) ''u'' sample_items ''k'' sample_db ord (w_db w1)"
    using create_order_Inr [OF r] by simp
  obtain row rows ids where o: "order_of_key ''k'' (w_db w1) = Some row" "items_of (o_id row) (w_db w1) = rows"
    "ord = mapOrderToDomain row rows" "o_user_id row = ''u''" "length ids = length sample_items"
    "rows = item_rows (o_id row) ids (map (snapshot_of sample_db) sample_items)"
    by (rule order_placed_found [OF sample_schema placed]) metis
  then obtain i j where rows: "rows = [item_row (o_id row) i (snapshot_of sample_db (hd sample_items)),
      item_row (o_id row) j (snapshot_of sample_db (sample_items ! 1))]"
    by (auto simp: sample_items_def item_rows_def length_Suc_conv)
  have "fst (repo_CreateOrderTx sample_env ''u'' [hd sample_items, hd sample_items] ''k'' w1)
      = Inr (mapOrderToDomain row rows)"
    by (rule replay_accepts_subset [OF sample_env_quiet o(1,4) o(2) [symmetric]])
      (simp_all add: rows item_row_def sample_items_def to_int32_def of_int32_def)
  with r o(3) show ?thesis by blast
qed

text \<open>
  C10. An order that names a cabinet twice takes its units out of the stock once and charges
  them twice: the second reservation finds the key of the first.
\<close>
theorem repeated_lines_oversell:
  assumes "repo_CreateOrderTx E uid [i, i] key w = (Inr ord, w')" "order_of_key key (w_db w) = None"
    "schema_ok (w_db w)" "fits_int32 [i, i]" "stock_of (w_db w) (In_CabinetID i) = Some s"
    "\<And>c. find_reservation (stock_key (Ord_ID ord) c) (w_db w) = None"
  shows "stock_of (w_db w') (In_CabinetID i) = Some (s - sint (In_Quantity i))
    \<and> Ord_TotalCents ord = 2 * (price_of (w_db w) (In_CabinetID i) * In_Quantity i)
    \<and> map Line_Quantity (Ord_Items ord) = [In_Quantity i, In_Quantity i]"
proof -
  have placed: "order_placed E (env_now E (w_tick w)) uid [i, i] key (w_db w) ord (w_db w')"
    using create_order_Inr [OF assms(1)] assms(2) by auto
  have q: "sint (to_int32 (In_Quantity i)) = sint (In_Quantity i)"
    using assms(4) by (metis fits_int32_def list.set_intros(1) sint_of_int32)
  obtain row rows ids where r: "ord = mapOrderToDomain row rows" "length ids = length [i, i]"
    "rows = item_rows (o_id row) ids (map (snapshot_of (w_db w)) [i, i])"
    "row = new_order (env_now E (w_tick w)) (o_id row) uid key (order_total (w_db w) [i, i])"
    by (rule order_placed_found [OF assms(3) placed]) metis
  have "map (\<lambda>l. (Line_CabinetID l, Line_Quantity l, Line_UnitPriceCents l)) (Ord_Items ord)
      = map (\<lambda>i. (In_CabinetID i, In_Quantity i, price_of (w_db w) (In_CabinetID i))) [i, i]"
    unfolding r(1,3) by (rule placed_lines [OF r(2) assms(4)])
  then have "map (fst \<circ> snd) (map (\<lambda>l. (Line_CabinetID l, Line_Quantity l, Line_UnitPriceCents l)) (Ord_Items ord))
      = [In_Quantity i, In_Quantity i]" by simp
  moreover have "Ord_TotalCents ord = order_total (w_db w) [i, i]"
    unfolding r(1) mapOrderToDomain_def by (simp, subst r(4)) (simp add: new_order_def)
  ultimately show ?thesis
    using placed_stock_repeated [OF assms(3) placed assms(6,5)] q
    by (simp add: order_total_def comp_def)
qed

lemma repeated_lines_oversell_witness:
  "\<exists>ord w'. repo_CreateOrderTx sample_env ''u'' [two_b, two_b] ''k'' sample_world = (Inr ord, w')
     \<and> stock_of (w_db w') ''B'' = Some 3 \<and> Ord_TotalCents ord = 80"
proof -
  have "\<exists>ord w'. repo_CreateOrderTx sample_env ''u'' [two_b, two_b] ''k'' sample_world = (Inr ord, w')"
    by (rule create_order_repeated)
      (simp_all add: sample_fresh order_ticks_def two_b_def in_stock_def to_int32_def varchar_def
        char_length_def fits_int32_def of_int32_def)
  then obtain ord w' where r: "repo_CreateOrderTx sample_env ''u'' [two_b, two_b] ''k'' sample_world = (Inr ord, w')"
    by blast
  have "fits_int32 [two_b, two_b]" "In_CabinetID two_b = ''B''" "price_of sample_db ''B'' = 20"
    by (simp_all add: fits_int32_def two_b_def to_int32_def of_int32_def price_of_def sample_cabinet_def)
  with r repeated_lines_oversell [OF r, of 5] show ?thesis by (simp add: two_b_def)
qed

text \<open>
  C11. Without faults a stored key decides alone, and nothing changes: the request gets the
  stored order when the user is the same, there are as many lines, and for every item the
  last stored line of its cabinet has its quantity; it gets \<open>ErrDuplicateOrder\<close> otherwise.
  For items that name no cabinet twice this is as it should be: the stored order is answered
  exactly when the stored lines are the items in some order.
\<close>
theorem create_order_known_key:
  assumes "quiet E" "order_of_key key (w_db w) = Some o1" "rows = items_of (o_id o1) (w_db w)"
  shows "fst (repo_CreateOrderTx E uid items key w) =
      (if o_user_id o1 = uid \<and> length items = length rows
          \<and> (\<forall>i \<in> set items. \<exists>l. find (\<lambda>l. oi_cabinet_id l = In_CabinetID i) (rev rows) = Some l
               \<and> of_int32 (oi_quantity l) = In_Quantity i)
       then Inr (mapOrderToDomain o1 rows) else Inl (OrdErr ErrDuplicateOrder))
    \<and> w_db (snd (repo_CreateOrderTx E uid items key w)) = w_db w
    \<and> (distinct (map In_CabinetID items) \<longrightarrow>
        (fst (repo_CreateOrderTx E uid items key w) = Inr (mapOrderToDomain o1 rows) \<longleftrightarrow>
         o_user_id o1 = uid \<and> mset (map (\<lambda>l. (oi_cabinet_id l, of_int32 (oi_quantity l))) rows)
           = mset (map (\<lambda>i. (In_CabinetID i, In_Quantity i)) items)))"
proof -
  have match: "(existing_item_map rows Map.empty (In_CabinetID i) = Some (In_Quantity i))
      = (\<exists>l. find (\<lambda>l. oi_cabinet_id l = In_CabinetID i) (rev rows) = Some l \<and> of_int32 (oi_quantity l) = In_Quantity i)" for i
    by (auto simp: existing_item_map_last split: option.split)
  have fst: "fst (repo_CreateOrderTx E uid items key w) =
      (if o_user_id o1 = uid \<and> length items = length rows
          \<and> (\<forall>i \<in> set items. \<exists>l. find (\<lambda>l. oi_cabinet_id l = In_CabinetID i) (rev rows) = Some l
               \<and> of_int32 (oi_quantity l) = In_Quantity i)
       then Inr (mapOrderToDomain o1 rows) else Inl (OrdErr ErrDuplicateOrder))"
    using create_order_replay [OF assms(1,2)] by (simp add: replay_matches_def items_match_iff match assms(3) [symmetric])
  show ?thesis
  proof (intro conjI impI)
    show "w_db (snd (repo_CreateOrderTx E uid items key w)) = w_db w" by (rule create_order_replay(2) [OF assms(1,2)])
    assume "distinct (map In_CabinetID items)"
    from agrees_mset [OF this, of rows oi_cabinet_id "\<lambda>l. of_int32 (oi_quantity l)" In_Quantity] show "fst (repo_CreateOrderTx E uid items key w) = Inr (mapOrderToDomain o1 rows) \<longleftrightarrow>
         o_user_id o1 = uid \<and> mset (map (\<lambda>l. (oi_cabinet_id l, of_int32 (oi_quantity l))) rows)
           = mset (map (\<lambda>i. (In_CabinetID i, In_Quantity i)) items)"
      unfolding fst by (simp del: mset_map)
  qed (rule fst)
qed

lemma create_order_known_key_witness:
  "\<exists>ord w1. repo_CreateOrderTx sample_env ''u'' sample_items ''k'' sample_world = (Inr ord, w1)
     \<and> fst (repo_CreateOrderTx sample_env ''v'' sample_items ''k'' w1) = Inl (OrdErr ErrDuplicateOrder)"
proof -
  obtain ord w1 where r: "repo_CreateOrderTx sample_env ''u'' sample_items ''k'' sample_world = (Inr ord, w1)"
    using sample_order by blast
  then have placed: "order_placed sample_env (env_now sample_env 0) ''u'' sample_items ''k'' sample_db ord (w_db w1)"
    using create_order_Inr [OF r] by simp
  obtain row where "order_of_key ''k'' (w_db w1) = Some row" "o_user_id row = ''u''"
    by (rule order_placed_found [OF sample_schema placed]) metis
  with r create_order_known_key [OF sample_env_quiet _ refl, of "''k''" w1 row "''v''" sample_items] show ?thesis by auto
qed

text \<open>
  The errors of \<open>CreateOrderTx\<close>: besides errors of the driver only a duplicate order, an
  unknown cabinet, insufficient stock and a duplicate reservation.
\<close>
theorem create_order_errors:
  assumes "repo_CreateOrderTx E uid items key w = (Inl e, w')"
  shows "driver_error e \<or> e \<in> {OrdErr ErrDuplicateOrder, CabErr ErrNotFound,
    CabErr ErrInsufficientStock, CabErr ErrDuplicateReservation}"
  using create_order_error [OF assms] by (auto simp: order_errors_def)

lemma create_order_errors_witness:
  "\<exists>e w'. repo_CreateOrderTx sample_env ''u'' [\<lparr>In_CabinetID = ''Z'', In_Quantity = 1\<rparr>] ''k'' sample_world
      = (Inl e, w') \<and> \<not> driver_error e
      \<and> e \<in> {OrdErr ErrDuplicateOrder, CabErr ErrNotFound, CabErr ErrInsufficientStock,
           CabErr ErrDuplicateReservation}"
proof -
  obtain w' where r: "repo_CreateOrderTx sample_env ''u'' [\<lparr>In_CabinetID = ''Z'', In_Quantity = 1\<rparr>] ''k'' sample_world
      = (Inl (CabErr ErrNotFound), w')" using unknown_order by blast
  from create_order_errors [OF r] r show ?thesis by auto
qed

text \<open>
  C12. Reading an order back returns it: after a successful call \<open>GetOrder\<close> of its id gives
  the same order, lines included.
\<close>
theorem get_order_after_create:
  assumes "repo_CreateOrderTx E uid items key w = (Inr ord, w1)" "schema_ok (w_db w)"
    "quiet E'" "w_db w2 = w_db w1"
  shows "fst (repo_GetOrder E' (Ord_ID ord) w2) = Inr ord"
  using assms by (rule create_then_get)

lemma get_order_after_create_witness:
  "\<exists>ord w1. repo_CreateOrderTx sample_env ''u'' sample_items ''k'' sample_world = (Inr ord, w1)
     \<and> fst (repo_GetOrder sample_env (Ord_ID ord) w1) = Inr ord"
proof -
  obtain ord w1 where r: "repo_CreateOrderTx sample_env ''u'' sample_items ''k'' sample_world = (Inr ord, w1)"
    using sample_order by blast
  from get_order_after_create [OF r, of sample_env w1] r show ?thesis by auto
qed

end
