(* ===== verification/Outbox_Properties.thy ===== *)
theory Outbox_Properties
  imports Outbox_Postgres Order_Properties
begin

text \<open>
  What the outbox worker guarantees over the PostgreSQL adapter: delivery at least once with
  any broker, progress in order with a broker that works, and none past a batch that the
  broker refuses.
\<close>

section \<open>Brokers\<close>

text \<open>A broker that delivers but reports a failure, and one that refuses everything.\<close>

definition flaky_broker :: "(string \<times> string) list event_publisher" where
  "flaky_broker = \<lparr>Publish = (\<lambda>ty pl p. (Some (DriverError ''timeout''), p @ [(ty, pl)]))\<rparr>"

definition down_broker :: "unit event_publisher" where
  "down_broker = \<lparr>Publish = (\<lambda>ty pl p. (Some (DriverError ''unavailable''), p))\<rparr>"

lemma flaky_publisher: "publisher flaky_broker (\<lambda>p. p)"
  by unfold_locales (simp_all add: flaky_broker_def)

definition idle_worker :: "'p \<Rightarrow> world \<Rightarrow> (world, 'p) worker" where
  "idle_worker p w = \<lparr>wk_store = w, wk_publisher = p, wk_log = []\<rparr>"

lemma idle_worker_sels [simp]: "wk_store (idle_worker p w) = w" "wk_publisher (idle_worker p w) = p"
  by (simp_all add: idle_worker_def)

lemma one_pending_order:
  "\<exists>ord w1. repo_CreateOrderTx sample_env ''u'' sample_items ''k'' sample_world = (Inr ord, w1)
     \<and> length (pg_pending w1) = 1 \<and> pg_outbox_inv w1"
proof -
  obtain ord w1 where r: "repo_CreateOrderTx sample_env ''u'' sample_items ''k'' sample_world = (Inr ord, w1)"
    using sample_order by blast
  then have "order_placed sample_env (env_now sample_env 0) ''u'' sample_items ''k'' sample_db ord (w_db w1)"
    using create_order_Inr [OF r] by simp
  from placed_event [OF this] obtain ev where "outbox (w_db w1) = [ev]" "ob_published_at ev = None" by auto
  moreover have "schema_ok (w_db w1)" by (rule schema.repo_CreateOrderTx_keeps [OF r]) simp
  ultimately show ?thesis using r
    by (auto simp: pg_pending_def unpublished_def pg_outbox_inv_def schema_ok_def)
qed

section \<open>Delivery\<close>

text \<open>
  C24. At least once, with any broker and under any faults: over any run of the worker an
  event that was waiting still waits or was delivered, only waiting events are delivered,
  and delivered events are not forgotten.
\<close>
theorem outbox_at_least_once:
  assumes "publisher P delivered" "pg_outbox_inv (wk_store s)"
    "s' = worker_run (postgres_repository E) P sigs s"
  shows "\<exists>xs. delivered (wk_publisher s') = delivered (wk_publisher s) @ xs
    \<and> set xs \<subseteq> event_message ` set (pg_pending (wk_store s))
    \<and> (\<forall>ev \<in> set (pg_pending (wk_store s)). ev \<in> set (pg_pending (wk_store s')) \<or> event_message ev \<in> set xs)"
proof -
  have "outbox_worker (postgres_repository E) pg_outbox_inv pg_pending P delivered"
    by (intro outbox_worker.intro assms(1) pgout.outbox_store_axioms)
  from outbox_worker.worker_run_delivery [OF this assms(2), of sigs] show ?thesis
    unfolding assms(3) by blast
qed

lemma outbox_at_least_once_witness:
  "\<exists>w1 xs. length (pg_pending w1) = 1
     \<and> wk_publisher (worker_run (postgres_repository sample_env) flaky_broker [Tick, Tick] (idle_worker [] w1)) = xs
     \<and> set xs \<subseteq> event_message ` set (pg_pending w1)"
proof -
  obtain w1 where w1: "length (pg_pending w1) = 1" "pg_outbox_inv w1" using one_pending_order by blast
  then have "pg_outbox_inv (wk_store (idle_worker [] w1))" by simp
  from outbox_at_least_once [OF flaky_publisher this refl, of sample_env "[Tick, Tick]"] w1(1) show ?thesis by auto
qed

text \<open>
  C26. Progress in order: without faults and with the log publisher \<open>n\<close> ticks deliver the
  oldest \<open>25 n\<close> events, once each and oldest first, and leave the rest.
\<close>
theorem outbox_drains:
  assumes "quiet E" "pg_outbox_inv (wk_store s)" "s' = worker_run (postgres_repository E) log_publisher (replicate n Tick) s"
  shows "pg_pending (wk_store s') = drop (25 * n) (pg_pending (wk_store s))
    \<and> wk_publisher s' = wk_publisher s @ map event_message (take (25 * n) (pg_pending (wk_store s)))"
  unfolding assms(3)
  by (rule pgworker.worker_run_drain [OF assms(2)])
    (simp_all add: quiet_list [OF assms(1)] quiet_mark [OF assms(1)] log_Publish_def)

lemma outbox_drains_witness:
  "\<exists>w1. length (pg_pending w1) = 1
     \<and> pg_pending (wk_store (worker_run (postgres_repository sample_env) log_publisher [Tick] (idle_worker [] w1))) = []"
proof -
  obtain w1 where w1: "length (pg_pending w1) = 1" "pg_outbox_inv w1" using one_pending_order by blast
  then have "pg_outbox_inv (wk_store (idle_worker [] w1))" by simp
  from outbox_drains [OF sample_env_quiet this refl, of 1] w1(1) show ?thesis by auto
qed

text \<open>
  C27. Head-of-line blocking: while the broker refuses each of the 25 oldest waiting events,
  no number of ticks publishes any event, the younger ones that it would accept included.
\<close>
theorem outbox_blocked:
  assumes "\<forall>ev \<in> set (take 25 (pg_pending (wk_store s))). \<forall>p. \<exists>e p'.
      Publish P (Evt_EventType ev) (Evt_Payload ev) p = (Some e, p')"
  shows "pg_pending (wk_store (worker_run (postgres_repository E) P sigs s)) = pg_pending (wk_store s)"
  by (rule pgout.worker_run_blocked) (use assms in blast)

lemma outbox_blocked_witness:
  "\<exists>w1. length (pg_pending w1) = 1
     \<and> pg_pending (wk_store (worker_run (postgres_repository sample_env) down_broker [Tick, Tick, Tick] (idle_worker () w1)))
         = pg_pending w1"
proof -
  obtain w1 where w1: "length (pg_pending w1) = 1" using one_pending_order by blast
  have "\<forall>ev \<in> set (take 25 (pg_pending (wk_store (idle_worker () w1)))). \<forall>p. \<exists>e p'.
      Publish down_broker (Evt_EventType ev) (Evt_Payload ev) p = (Some e, p')"
    by (simp add: down_broker_def)
  from outbox_blocked [OF this, of sample_env "[Tick, Tick, Tick]"] w1 show ?thesis by auto
qed

end
