(* ===== verification/Outbox_Fleet.thy ===== *)
theory Outbox_Fleet
  imports Outbox_Postgres Order_Replay
begin

text \<open>
  Several catalog processes over one database, each with its outbox worker
  (\<open>internal/catalog/app/outbox_worker.go\<close>): the workers interleave call by call, crash at any
  point and start again, and orders are placed meanwhile.  A worker holds the events it listed,
  and between publishing and marking the event it published.
\<close>

section \<open>Steps\<close>

datatype job = Idle | Batch "outbox_event list" | Marking outbox_event "outbox_event list"

record ('w, 'p) fleet =
  fl_store :: 'w
  fl_publisher :: 'p
  fl_jobs :: "nat \<Rightarrow> job"

primrec listed :: "go_error + outbox_event list \<Rightarrow> job" where
  "listed (Inl err) = Idle"
| "listed (Inr evs) = Batch evs"

primrec published :: "outbox_event \<Rightarrow> outbox_event list \<Rightarrow> go_error option \<Rightarrow> job" where
  "published ev evs None = Marking ev evs"
| "published ev evs (Some err) = Batch evs"

inductive fleet_step ::
    "'w cabinet_repository \<Rightarrow> 'p event_publisher \<Rightarrow> ('w, 'p) fleet \<Rightarrow> ('w, 'p) fleet \<Rightarrow> bool" for R P where
  tick: "fl_jobs s i = Idle \<Longrightarrow> ListUnpublishedOutboxEvents R batch_limit (fl_store s) = (r, w') \<Longrightarrow>
    fleet_step R P s (s\<lparr>fl_store := w', fl_jobs := (fl_jobs s)(i := listed r)\<rparr>)"
| publish: "fl_jobs s i = Batch (ev # evs) \<Longrightarrow>
    Publish P (Evt_EventType ev) (Evt_Payload ev) (fl_publisher s) = (e, p') \<Longrightarrow>
    fleet_step R P s (s\<lparr>fl_publisher := p', fl_jobs := (fl_jobs s)(i := published ev evs e)\<rparr>)"
| mark: "fl_jobs s i = Marking ev evs \<Longrightarrow> MarkOutboxEventPublished R (Evt_ID ev) (fl_store s) = (m, w') \<Longrightarrow>
    fleet_step R P s (s\<lparr>fl_store := w', fl_jobs := (fl_jobs s)(i := Batch evs)\<rparr>)"
| finish: "fl_jobs s i = Batch [] \<Longrightarrow> fleet_step R P s (s\<lparr>fl_jobs := (fl_jobs s)(i := Idle)\<rparr>)"
| crash: "fleet_step R P s (s\<lparr>fl_jobs := (fl_jobs s)(i := Idle)\<rparr>)"
| order: "CreateOrderTx R uid items key (fl_store s) = (r1, w') \<Longrightarrow> fleet_step R P s (s\<lparr>fl_store := w'\<rparr>)"

inductive_cases fleet_stepE: "fleet_step R P s s'"

section \<open>One worker alone\<close>

text \<open>The worker of the source is a fleet of one: its batch is a run of these steps.\<close>

definition fleet_of :: "('w, 'p) worker \<Rightarrow> job \<Rightarrow> ('w, 'p) fleet" where
  "fleet_of s j = \<lparr>fl_store = wk_store s, fl_publisher = wk_publisher s, fl_jobs = (\<lambda>n. Idle)(0 := j)\<rparr>"

lemma process_event_runs: "(fleet_step R P)\<^sup>*\<^sup>* (fleet_of s (Batch (ev # evs))) (fleet_of (process_event R P ev s) (Batch evs))"
proof -
  obtain e p' where p: "Publish P (Evt_EventType ev) (Evt_Payload ev) (wk_publisher s) = (e, p')" by fastforce
  have one: "fleet_step R P (fleet_of s (Batch (ev # evs)))
      (fleet_of (s\<lparr>wk_publisher := p'\<rparr>) (published ev evs e))"
    using fleet_step.publish [of "fleet_of s (Batch (ev # evs))" 0 ev evs P e p' R] p by (simp add: fleet_of_def)
  show ?thesis
  proof (cases e)
    case None
    obtain m w' where m: "MarkOutboxEventPublished R (Evt_ID ev) (wk_store s) = (m, w')" by fastforce
    have "fleet_step R P (fleet_of (s\<lparr>wk_publisher := p'\<rparr>) (Marking ev evs))
        (fleet_of (s\<lparr>wk_publisher := p', wk_store := w'\<rparr>) (Batch evs))"
      using fleet_step.mark [of "fleet_of (s\<lparr>wk_publisher := p'\<rparr>) (Marking ev evs)" 0 ev evs R m w' P] m
      by (simp add: fleet_of_def)
    moreover have "fleet_of (process_event R P ev s) (Batch evs)
        = fleet_of (s\<lparr>wk_publisher := p', wk_store := w'\<rparr>) (Batch evs)"
      using p None m by (cases m) (simp_all add: process_event_def log_error_def fleet_of_def)
    ultimately show ?thesis using one None by (simp add: rtranclp.rtrancl_into_rtrancl)
  next
    case (Some err)
    with one p show ?thesis
      by (intro r_into_rtranclp) (simp add: process_event_def log_error_def fleet_of_def)
  qed
qed

lemma process_events_runs: "(fleet_step R P)\<^sup>*\<^sup>* (fleet_of s (Batch evs)) (fleet_of (process_events R P evs s) (Batch []))"
proof (induction evs arbitrary: s)
  case (Cons ev evs)
  from process_event_runs [of R P s ev evs] Cons [of "process_event R P ev s"] show ?case by simp
qed simp

lemma ProcessBatch_runs: "(fleet_step R P)\<^sup>*\<^sup>* (fleet_of s Idle) (fleet_of (ProcessBatch R P s) Idle)"
proof -
  obtain r w' where l: "ListUnpublishedOutboxEvents R batch_limit (wk_store s) = (r, w')" by fastforce
  have one: "fleet_step R P (fleet_of s Idle) (fleet_of (s\<lparr>wk_store := w'\<rparr>) (listed r))"
    using fleet_step.tick [of "fleet_of s Idle" 0 R r w' P] l by (simp add: fleet_of_def)
  show ?thesis
  proof (cases r)
    case (Inl err)
    with one l show ?thesis
      by (intro r_into_rtranclp) (simp add: ProcessBatch_def log_error_def fleet_of_def)
  next
    case (Inr evs)
    have stop: "fleet_step R P (fleet_of t (Batch [])) (fleet_of t Idle)" for t
      using fleet_step.finish [of "fleet_of t (Batch [])" 0 R P] by (simp add: fleet_of_def)
    have "(fleet_step R P)\<^sup>*\<^sup>* (fleet_of s Idle) (fleet_of (process_events R P evs (s\<lparr>wk_store := w'\<rparr>)) Idle)"
      using one Inr process_events_runs [of R P "s\<lparr>wk_store := w'\<rparr>" evs] stop
      by (auto intro: converse_rtranclp_into_rtranclp rtranclp.rtrancl_into_rtrancl)
    then show ?thesis using l Inr by (simp add: ProcessBatch_def)
  qed
qed

section \<open>At least once\<close>

text \<open>
  The events ever written, as identifiers with their messages: the pending ones are among them,
  identifiers are unique, and no call of the worker or of an order takes one away.
\<close>

definition tag :: "outbox_event \<Rightarrow> string \<times> string \<times> string" where
  "tag ev = (Evt_ID ev, event_message ev)"

locale outbox_log = outbox_store R inv pending
  for R :: "'w cabinet_repository" and inv :: "'w \<Rightarrow> bool" and pending :: "'w \<Rightarrow> outbox_event list" +
  fixes events :: "'w \<Rightarrow> (string \<times> string \<times> string) set"
  assumes events_unique: "inv w \<Longrightarrow> inj_on fst (events w)"
    and pending_events: "inv w \<Longrightarrow> tag ` set (pending w) \<subseteq> events w"
    and list_events: "ListUnpublishedOutboxEvents R n w = (r, w') \<Longrightarrow> events w' = events w"
    and mark_events: "MarkOutboxEventPublished R eid w = (r1, w') \<Longrightarrow> events w' = events w"
    and create_inv: "CreateOrderTx R uid items key w = (r2, w') \<Longrightarrow> inv w \<Longrightarrow> inv w'"
    and create_pending: "CreateOrderTx R uid items key w = (r2, w') \<Longrightarrow> set (pending w) \<subseteq> set (pending w')"
    and create_events: "CreateOrderTx R uid items key w = (r2, w') \<Longrightarrow> events w \<subseteq> events w'"

locale outbox_fleet = outbox_log R inv pending events + publisher P delivered
  for R :: "'w cabinet_repository" and inv :: "'w \<Rightarrow> bool" and pending :: "'w \<Rightarrow> outbox_event list"
    and events :: "'w \<Rightarrow> (string \<times> string \<times> string) set"
    and P :: "'p event_publisher" and delivered :: "'p \<Rightarrow> (string \<times> string) list"
begin

text \<open>What a worker holds was written, and what it is about to mark was delivered.\<close>

primrec job_ok :: "(string \<times> string \<times> string) set \<Rightarrow> (string \<times> string) set \<Rightarrow> job \<Rightarrow> bool" where
  "job_ok es ms Idle \<longleftrightarrow> True"
| "job_ok es ms (Batch evs) \<longleftrightarrow> tag ` set evs \<subseteq> es"
| "job_ok es ms (Marking ev evs) \<longleftrightarrow> tag ` set (ev # evs) \<subseteq> es \<and> event_message ev \<in> ms"

lemma job_ok_mono: "job_ok es ms j \<Longrightarrow> es \<subseteq> es' \<Longrightarrow> ms \<subseteq> ms' \<Longrightarrow> job_ok es' ms' j"
  by (cases j) auto

definition fleet_inv :: "('w, 'p) fleet \<Rightarrow> ('w, 'p) fleet \<Rightarrow> bool" where
  "fleet_inv s0 s \<longleftrightarrow> inv (fl_store s)
     \<and> (\<forall>i. job_ok (events (fl_store s)) (set (delivered (fl_publisher s))) (fl_jobs s i))
     \<and> (\<forall>ev \<in> set (pending (fl_store s0)). ev \<in> set (pending (fl_store s)) \<or> event_message ev \<in> set (delivered (fl_publisher s)))
     \<and> (\<exists>xs. delivered (fl_publisher s) = delivered (fl_publisher s0) @ xs \<and> set xs \<subseteq> snd ` events (fl_store s))"

lemma fleet_inv_step:
  assumes "fleet_step R P s s'" "fleet_inv s0 s"
  shows "fleet_inv s0 s'"
  using assms(1)
proof (cases rule: fleet_step.cases)
  case (tick i r w')
  from assms(2) have inv: "inv (fl_store s)" by (simp add: fleet_inv_def)
  note same = list_inv [OF tick(3) inv] list_pending [OF tick(3)] list_events [OF tick(3)]
  have "job_ok (events (fl_store s)) ms (listed r)" for ms
  proof (cases r)
    case (Inr evs)
    then have "set evs \<subseteq> set (pending (fl_store s))"
      using list_ok [of batch_limit "fl_store s" evs w'] tick(3) by (auto dest: in_set_takeD)
    with Inr pending_events [OF inv] show ?thesis by auto
  qed simp
  with assms(2) same show ?thesis unfolding tick(1) fleet_inv_def by simp
next
  case (publish i ev evs e p')
  from assms(2) have "job_ok (events (fl_store s)) (set (delivered (fl_publisher s))) (fl_jobs s i)"
    by (simp add: fleet_inv_def)
  then have ev: "tag ` set (ev # evs) \<subseteq> events (fl_store s)" by (simp add: publish(2))
  then have msg: "event_message ev \<in> snd ` events (fl_store s)" by (force simp: tag_def)
  have "\<exists>xs. delivered p' = delivered (fl_publisher s) @ xs \<and> set xs \<subseteq> {event_message ev} \<and> (e = None \<longrightarrow> event_message ev \<in> set xs)"
    using publish_ok [of "Evt_EventType ev" "Evt_Payload ev" "fl_publisher s" p'] publish_err [of "Evt_EventType ev" "Evt_Payload ev" "fl_publisher s" _ p']
      publish(3) by (cases e) (auto simp: event_message_def)
  then obtain xs where xs: "delivered p' = delivered (fl_publisher s) @ xs" "set xs \<subseteq> {event_message ev}"
    "e = None \<longrightarrow> event_message ev \<in> set xs" by blast
  have "job_ok (events (fl_store s)) (set (delivered p')) (published ev evs e)"
    using ev xs by (cases e) auto
  moreover have "job_ok (events (fl_store s)) (set (delivered p')) (fl_jobs s j)" for j
    using assms(2) xs(1) by (auto simp: fleet_inv_def intro: job_ok_mono)
  moreover have "\<exists>ys. delivered p' = delivered (fl_publisher s0) @ ys \<and> set ys \<subseteq> snd ` events (fl_store s)"
  proof -
    from assms(2) obtain ys where "delivered (fl_publisher s) = delivered (fl_publisher s0) @ ys"
      "set ys \<subseteq> snd ` events (fl_store s)" by (auto simp: fleet_inv_def)
    moreover have "set xs \<subseteq> snd ` events (fl_store s)" using xs(2) msg by blast
    ultimately show ?thesis by (intro exI [of _ "ys @ xs"]) (simp add: xs(1))
  qed
  ultimately show ?thesis using assms(2) xs(1) unfolding publish(1) fleet_inv_def by auto
next
  case (mark i ev evs m w')
  from assms(2) have inv: "inv (fl_store s)" by (simp add: fleet_inv_def)
  from assms(2) have "job_ok (events (fl_store s)) (set (delivered (fl_publisher s))) (fl_jobs s i)"
    by (simp add: fleet_inv_def)
  then have ev: "tag ` set (ev # evs) \<subseteq> events (fl_store s)"
    "event_message ev \<in> set (delivered (fl_publisher s))" by (simp_all add: mark(2))
  have p: "pending w' = pending (fl_store s) \<or> pending w' = filter (\<lambda>x. Evt_ID x \<noteq> Evt_ID ev) (pending (fl_store s))"
    using mark(3) by (cases m) (auto dest: mark_ok mark_err)
  have keep: "x \<in> set (pending w') \<or> event_message x \<in> set (delivered (fl_publisher s))"
    if "x \<in> set (pending (fl_store s))" for x
  proof (cases "Evt_ID x = Evt_ID ev")
    case True
    from that pending_events [OF inv] have "tag x \<in> events (fl_store s)" by blast
    with ev(1) True inj_onD [OF events_unique [OF inv], of "tag x" "tag ev"] have "tag x = tag ev"
      by (simp add: tag_def)
    with ev(2) show ?thesis by (simp add: tag_def)
  qed (use p that in auto)
  have "\<forall>x \<in> set (pending (fl_store s0)). x \<in> set (pending w') \<or> event_message x \<in> set (delivered (fl_publisher s))"
    using assms(2) keep unfolding fleet_inv_def by blast
  with assms(2) mark_inv [OF mark(3) inv] mark_events [OF mark(3)] ev(1) show ?thesis
    unfolding mark(1) fleet_inv_def by simp
next
  case (finish i)
  with assms(2) show ?thesis by (simp add: fleet_inv_def)
next
  case (crash i)
  with assms(2) show ?thesis by (simp add: fleet_inv_def)
next
  case (order uid items key r1 w')
  from assms(2) have inv: "inv (fl_store s)" by (simp add: fleet_inv_def)
  note grow = create_inv [OF order(2) inv] create_pending [OF order(2)] create_events [OF order(2)]
  have "job_ok (events w') (set (delivered (fl_publisher s))) (fl_jobs s j)" for j
    using assms(2) grow(3) by (auto simp: fleet_inv_def intro: job_ok_mono)
  moreover have "snd ` events (fl_store s) \<subseteq> snd ` events w'" using grow(3) by (rule image_mono)
  ultimately show ?thesis using assms(2) grow(1,2) unfolding order(1) fleet_inv_def by fastforce
qed

lemma fleet_at_least_once:
  assumes "(fleet_step R P)\<^sup>*\<^sup>* s0 s" "inv (fl_store s0)" "fl_jobs s0 = (\<lambda>i. Idle)"
  shows "fleet_inv s0 s"
  using assms(1)
proof induction
  case base
  show ?case using assms(2,3) by (simp add: fleet_inv_def)
qed (rule fleet_inv_step)

end

section \<open>PostgreSQL\<close>

definition pg_events :: "world \<Rightarrow> (string \<times> string \<times> string) set" where
  "pg_events w = (\<lambda>r. (ob_id r, ob_event_type r, ob_payload r)) ` set (outbox (w_db w))"

lemma tag_row: "tag (mapOutboxEventToDomain (scan_outbox_row r)) = (ob_id r, ob_event_type r, ob_payload r)"
  by (simp add: tag_def event_message_def mapOutboxEventToDomain_def scan_outbox_row_def)

lemma set_pg_pending:
  "set (pg_pending w) = (\<lambda>r. mapOutboxEventToDomain (scan_outbox_row r)) ` {r \<in> set (outbox (w_db w)). ob_published_at r = None}"
  by (auto simp: pg_pending_def unpublished_def)

lemma pg_events_mark:
  assumes "w_db w' = snd (q_MarkOutboxEventPublished eid now (w_db w))"
  shows "pg_events w' = pg_events w"
proof -
  let ?f = "\<lambda>r. (ob_id r, ob_event_type r, ob_payload r)"
  have "map ?f (outbox (w_db w')) = map ?f (outbox (w_db w))"
    by (simp add: assms q_MarkOutboxEventPublished_def map_update_where)
  then have "set (map ?f (outbox (w_db w'))) = set (map ?f (outbox (w_db w)))" by (rule arg_cong)
  then show ?thesis by (simp only: pg_events_def set_map)
qed

lemma placed_new_event:
  assumes "order_placed E now uid items key d ord d'"
  shows "\<exists>ev. outbox d' = outbox d @ [ev] \<and> ob_id ev \<notin> ob_id ` set (outbox d)"
  using assms unfolding order_placed_def Let_def
  by (elim exE conjE) (simp add: order_effect_def Let_def new_event_def)

lemma create_outbox:
  assumes "CreateOrderTx (postgres_repository E) uid items key w = (r, w')"
  shows "outbox (w_db w') = outbox (w_db w) \<or> (\<exists>ev. outbox (w_db w') = outbox (w_db w) @ [ev] \<and> ob_id ev \<notin> ob_id ` set (outbox (w_db w)))"
proof -
  from assms have c: "repo_CreateOrderTx E uid items key w = (r, w')" by simp
  show ?thesis
  proof (cases r)
    case (Inl e)
    from create_order_Inl [OF c [unfolded Inl]] show ?thesis by (auto dest: placed_new_event)
  next
    case (Inr ord)
    from create_order_Inr [OF c [unfolded Inr]] show ?thesis by (auto dest: placed_new_event)
  qed
qed

interpretation pglog: outbox_log "postgres_repository E" pg_outbox_inv pg_pending pg_events for E
proof unfold_locales
  fix w
  assume "pg_outbox_inv w"
  then show "inj_on fst (pg_events w)"
    by (auto simp: pg_outbox_inv_def outbox_ok_def pg_events_def inj_on_def distinct_map)
next
  fix w
  show "tag ` set (pg_pending w) \<subseteq> pg_events w"
    by (auto simp: set_pg_pending tag_row pg_events_def)
next
  fix n w r w'
  assume "ListUnpublishedOutboxEvents (postgres_repository E) n w = (r, w')"
  then have "w_db w' = w_db w" by (auto dest: repo_reads_keep_db)
  then show "pg_events w' = pg_events w" by (simp add: pg_events_def)
next
  fix eid w r1 w'
  assume "MarkOutboxEventPublished (postgres_repository E) eid w = (r1, w')"
  then have "w_db w' = snd (q_MarkOutboxEventPublished (IdString eid) (env_now E (w_tick w)) (w_db w)) \<or> w_db w' = w_db w"
    using repo_Mark_cases [of E eid w r1 w'] by auto
  then show "pg_events w' = pg_events w"
    by (elim disjE) (erule pg_events_mark, simp add: pg_events_def)
next
  fix uid items key w r2 w'
  assume "CreateOrderTx (postgres_repository E) uid items key w = (r2, w')"
  note out = create_outbox [OF this]
  from out show "pg_outbox_inv w \<Longrightarrow> pg_outbox_inv w'" by (auto simp: pg_outbox_inv_def outbox_ok_def)
  from out show "set (pg_pending w) \<subseteq> set (pg_pending w')" by (auto simp: set_pg_pending)
  from out show "pg_events w \<subseteq> pg_events w'" by (auto simp: pg_events_def)
qed

interpretation pgfleet: outbox_fleet "postgres_repository E" pg_outbox_inv pg_pending pg_events log_publisher "\<lambda>recs. recs" for E
  by unfold_locales

end
