(* ===== verification/Fleet_Properties.thy ===== *)
theory Fleet_Properties
  imports Outbox_Fleet Outbox_Properties
begin

text \<open>
  What several catalog processes guarantee together: every event is delivered at least once
  although workers interleave and crash, and not exactly once, even when nothing fails.
\<close>

definition idle_fleet :: "'p \<Rightarrow> world \<Rightarrow> (world, 'p) fleet" where
  "idle_fleet p w = \<lparr>fl_store = w, fl_publisher = p, fl_jobs = (\<lambda>i. Idle)\<rparr>"

text \<open>Two workers that list before either publishes.\<close>

lemma two_deliveries:
  assumes "quiet E" "pg_pending w = ev # evs"
  shows "\<exists>s. (fleet_step (postgres_repository E) log_publisher)\<^sup>*\<^sup>* (idle_fleet [] w) s
    \<and> fl_publisher s = [event_message ev, event_message ev]"
proof -
  let ?step = "fleet_step (postgres_repository E) log_publisher" and ?m = "event_message ev"
  have limit: "nat (sint batch_limit) = Suc 24" "0 \<le> sint batch_limit" by (simp_all add: batch_limit_def)
  have "\<exists>w'. ListUnpublishedOutboxEvents (postgres_repository E) batch_limit v = (Inr (ev # take 24 evs), w')
      \<and> pg_pending w' = ev # evs" if v: "pg_pending v = ev # evs" for v
  proof -
    obtain es v' where l: "ListUnpublishedOutboxEvents (postgres_repository E) batch_limit v = (Inr es, v')"
      using quiet_list [OF assms(1) limit(2)] by fastforce
    with pgout.list_ok [OF l] pgout.list_pending [OF l] v show ?thesis by (simp add: limit)
  qed
  then obtain w1 w2 where w1: "ListUnpublishedOutboxEvents (postgres_repository E) batch_limit w = (Inr (ev # take 24 evs), w1)"
    and w2: "ListUnpublishedOutboxEvents (postgres_repository E) batch_limit w1 = (Inr (ev # take 24 evs), w2)"
    using assms(2) by metis
  let ?B = "Batch (ev # take 24 evs)" and ?M = "Marking ev (take 24 evs)"
  let ?s = "\<lambda>v p i j. \<lparr>fl_store = v, fl_publisher = p, fl_jobs = ((\<lambda>n. Idle)(0 := i))(Suc 0 := j)\<rparr>"
  have "?step (?s w [] Idle Idle) (?s w1 [] ?B Idle)"
    using fleet_step.tick [of "?s w [] Idle Idle" 0 "postgres_repository E" _ w1 log_publisher] w1
    by (simp add: fun_upd_twist)
  moreover have "?step (?s w1 [] ?B Idle) (?s w2 [] ?B ?B)"
    using fleet_step.tick [of "?s w1 [] ?B Idle" "Suc 0" "postgres_repository E" _ w2 log_publisher] w2 by simp
  moreover have "?step (?s w2 [] ?B ?B) (?s w2 [?m] ?M ?B)"
    using fleet_step.publish [of "?s w2 [] ?B ?B" 0 ev "take 24 evs" log_publisher None "[?m]" "postgres_repository E"]
    by (simp add: log_Publish_def event_message_def fun_upd_twist)
  moreover have "?step (?s w2 [?m] ?M ?B) (?s w2 [?m, ?m] ?M ?M)"
    using fleet_step.publish [of "?s w2 [?m] ?M ?B" "Suc 0" ev "take 24 evs" log_publisher None "[?m, ?m]" "postgres_repository E"]
    by (simp add: log_Publish_def event_message_def)
  ultimately have "?step\<^sup>*\<^sup>* (?s w [] Idle Idle) (?s w2 [?m, ?m] ?M ?M)"
    by (meson converse_rtranclp_into_rtranclp rtranclp.rtrancl_refl)
  moreover have "?s w [] Idle Idle = idle_fleet ([] :: (string \<times> string) list) w" by (simp add: idle_fleet_def fun_upd_idem)
  ultimately have "?step\<^sup>*\<^sup>* (idle_fleet [] w) (?s w2 [?m, ?m] ?M ?M)" by simp
  then show ?thesis by (intro exI [of _ "?s w2 [?m, ?m] ?M ?M"] conjI) simp_all
qed

text \<open>
  C25. At least once in a fleet: any number of catalog processes with any broker, interleaved call
  by call with each other and with new orders, each crashing and starting again at any point,
  lose no event (one that was waiting still waits or was delivered) and deliver nothing that was
  not written to the outbox.
\<close>
theorem fleet_loses_nothing:
  assumes "publisher P delivered" "pg_outbox_inv (fl_store s0)" "fl_jobs s0 = (\<lambda>i. Idle)"
    "(fleet_step (postgres_repository E) P)\<^sup>*\<^sup>* s0 s"
  shows "(\<forall>ev \<in> set (pg_pending (fl_store s0)).
        ev \<in> set (pg_pending (fl_store s)) \<or> event_message ev \<in> set (delivered (fl_publisher s)))
    \<and> (\<exists>xs. delivered (fl_publisher s) = delivered (fl_publisher s0) @ xs
        \<and> set xs \<subseteq> (\<lambda>r. (ob_event_type r, ob_payload r)) ` set (outbox (w_db (fl_store s))))"
proof -
  have f: "outbox_fleet (postgres_repository E) pg_outbox_inv pg_pending pg_events P delivered"
    by (intro outbox_fleet.intro assms(1) pglog.outbox_log_axioms)
  have "snd ` pg_events w = (\<lambda>r. (ob_event_type r, ob_payload r)) ` set (outbox (w_db w))" for w
    by (simp add: pg_events_def image_image)
  with outbox_fleet.fleet_at_least_once [OF f assms(4,2,3)] show ?thesis
    by (simp add: outbox_fleet.fleet_inv_def [OF f])
qed

lemma fleet_loses_nothing_witness:
  "\<exists>w ev s. pg_pending w = [ev]
     \<and> (fleet_step (postgres_repository sample_env) log_publisher)\<^sup>*\<^sup>* (idle_fleet [] w) s
     \<and> event_message ev \<in> (\<lambda>r. (ob_event_type r, ob_payload r)) ` set (outbox (w_db (fl_store s)))"
proof -
  obtain w where w: "length (pg_pending w) = 1" "pg_outbox_inv w" using one_pending_order by blast
  then obtain ev where ev: "pg_pending w = [ev]" by (cases "pg_pending w") auto
  obtain s where s: "(fleet_step (postgres_repository sample_env) log_publisher)\<^sup>*\<^sup>* (idle_fleet [] w) s"
    "fl_publisher s = [event_message ev, event_message ev]"
    using two_deliveries [OF sample_env_quiet ev] by blast
  have "pg_outbox_inv (fl_store (idle_fleet [] w))" "fl_jobs (idle_fleet [] w) = (\<lambda>i. Idle)"
    using w(2) by (simp_all add: idle_fleet_def)
  from fleet_loses_nothing [OF logpub.publisher_axioms this s(1)] s ev show ?thesis
    by (fastforce simp: idle_fleet_def)
qed

text \<open>
  Not exactly once: as no worker locks the rows it lists, two processes can deliver an event
  twice although nothing fails.
\<close>
theorem fleet_delivers_twice:
  assumes "quiet E" "pg_pending w = ev # evs"
  shows "\<exists>s. (fleet_step (postgres_repository E) log_publisher)\<^sup>*\<^sup>* (idle_fleet [] w) s
    \<and> fl_publisher s = [event_message ev, event_message ev]"
  using two_deliveries [OF assms] .

lemma fleet_delivers_twice_witness:
  "\<exists>w ev s. pg_pending w = [ev]
     \<and> (fleet_step (postgres_repository sample_env) log_publisher)\<^sup>*\<^sup>* (idle_fleet [] w) s
     \<and> length (fl_publisher s) = 2"
proof -
  obtain w where w: "length (pg_pending w) = 1" using one_pending_order by blast
  then obtain ev where ev: "pg_pending w = [ev]" by (cases "pg_pending w") auto
  from fleet_delivers_twice [OF sample_env_quiet ev] ev show ?thesis by fastforce
qed

end
