(* ===== verification/Gateway.thy ===== *)
theory Gateway
  imports Grpc_Handler
begin

text \<open>
  The GraphQL gateway: the models of \<open>internal/gateway/graph/model/models_gen.go\<close>, the
  resolvers of \<open>internal/gateway/graph/schema.resolvers.go\<close> over the catalog client, and
  the middleware of \<open>internal/gateway/middleware/metadata.go\<close>.  \<open>handler_client\<close> connects
  the client's stub to the catalog's handlers: messages, metadata and status arrive as
  they were sent.
\<close>

section \<open>Models\<close>

record gql_image =
  Gi_ID :: string
  Gi_URL :: string
  Gi_Alt :: string
  Gi_SortOrder :: go_int

record gql_cabinet =
  Gc_ID :: string
  Gc_Slug :: string
  Gc_Model :: string
  Gc_Type :: string
  Gc_Display :: string
  Gc_Condition :: string
  Gc_Quantity :: go_int
  Gc_PriceCents :: go_int
  Gc_Manufacturer :: string
  Gc_Year :: string
  Gc_Images :: "gql_image list"

record gql_item_input =
  Gin_CabinetID :: string
  Gin_Quantity :: go_int

record gql_order_input =
  Gin_IdempotencyKey :: string
  Gin_Items :: "gql_item_input list"

record gql_line =
  Gl_CabinetID :: string
  Gl_Quantity :: go_int
  Gl_UnitPriceCents :: go_int

record gql_order =
  Go_ID :: string
  Go_UserID :: string
  Go_Status :: string
  Go_TotalCents :: go_int
  Go_IdempotencyKey :: string
  Go_Items :: "gql_line list"

section \<open>The catalog client\<close>

text \<open>The outgoing metadata of a context: the appended pairs, in order.\<close>

type_synonym outgoing_md = "(string \<times> string) list"

record 's catalog_client =
  Rpc_ListCabinets :: "outgoing_md \<Rightarrow> 's \<Rightarrow> (grpc_status + pb_list_cabinets_response option) \<times> 's"
  Rpc_GetCabinet :: "outgoing_md \<Rightarrow> pb_get_cabinet_request \<Rightarrow> 's
    \<Rightarrow> (grpc_status + pb_get_cabinet_response option) \<times> 's"
  Rpc_CreateOrder :: "outgoing_md \<Rightarrow> pb_create_order_request \<Rightarrow> 's
    \<Rightarrow> (grpc_status + pb_create_order_response option) \<times> 's"
  Rpc_GetOrder :: "outgoing_md \<Rightarrow> pb_get_order_request \<Rightarrow> 's
    \<Rightarrow> (grpc_status + pb_get_order_response option) \<times> 's"

section \<open>Mapping messages to models\<close>

definition mapLine :: "pb_order_line option \<Rightarrow> gql_line" where
  "mapLine item = \<lparr>Gl_CabinetID = OrderLine_GetCabinetId item,
     Gl_Quantity = of_int32 (OrderLine_GetQuantity item),
     Gl_UnitPriceCents = OrderLine_GetUnitPriceCents item\<rparr>"

definition mapOrder :: "pb_order option \<Rightarrow> gql_order option" where
  "mapOrder o1 =
     (case o1 of
        None \<Rightarrow> None
      | Some m \<Rightarrow> Some \<lparr>Go_ID = Order_GetId o1, Go_UserID = Order_GetUserId o1,
          Go_Status = Order_GetStatus o1, Go_TotalCents = Order_GetTotalCents o1,
          Go_IdempotencyKey = Order_GetIdempotencyKey o1,
          Go_Items = map (\<lambda>item. mapLine (Some item)) (Order_GetItems o1)\<rparr>)"

definition mapImage :: "pb_cabinet_image option \<Rightarrow> gql_image" where
  "mapImage img = \<lparr>Gi_ID = CabinetImage_GetId img, Gi_URL = CabinetImage_GetUrl img,
     Gi_Alt = CabinetImage_GetAlt img, Gi_SortOrder = of_int32 (CabinetImage_GetSortOrder img)\<rparr>"

definition mapCabinet :: "pb_cabinet option \<Rightarrow> gql_cabinet option" where
  "mapCabinet c =
     (case c of
        None \<Rightarrow> None
      | Some m \<Rightarrow> Some \<lparr>Gc_ID = Cabinet_GetId c, Gc_Slug = Cabinet_GetSlug c,
          Gc_Model = Cabinet_GetModel c, Gc_Type = Cabinet_GetType c,
          Gc_Display = Cabinet_GetDisplay c, Gc_Condition = Cabinet_GetCondition c,
          Gc_Quantity = of_int32 (Cabinet_GetQuantity c), Gc_PriceCents = Cabinet_GetPrice c,
          Gc_Manufacturer = Cabinet_GetManufacturer c, Gc_Year = Cabinet_GetYear c,
          Gc_Images = map (\<lambda>img. mapImage (Some img)) (Cabinet_GetImages c)\<rparr>)"

section \<open>Resolvers\<close>

definition item_request :: "gql_item_input \<Rightarrow> pb_order_item_input" where
  "item_request item = \<lparr>Pbii_CabinetId = Gin_CabinetID item,
     Pbii_Quantity = to_int32 (Gin_Quantity item)\<rparr>"

definition resolve_CreateOrder ::
    "'s catalog_client \<Rightarrow> outgoing_md \<Rightarrow> gql_order_input \<Rightarrow> 's \<Rightarrow> (grpc_status + gql_order option) \<times> 's" where
  "resolve_CreateOrder C ctx input s =
     (let items = map item_request (Gin_Items input) in
      case Rpc_CreateOrder C ctx \<lparr>Pbcq_IdempotencyKey = Gin_IdempotencyKey input, Pbcq_Items = items\<rparr> s of
        (Inl err, s') \<Rightarrow> (Inl err, s')
      | (Inr resp, s') \<Rightarrow> (Inr (mapOrder (CreateOrderResponse_GetOrder resp)), s'))"

definition resolve_Cabinets ::
    "'s catalog_client \<Rightarrow> outgoing_md \<Rightarrow> 's \<Rightarrow> (grpc_status + gql_cabinet option list) \<times> 's" where
  "resolve_Cabinets C ctx s =
     (case Rpc_ListCabinets C ctx s of
        (Inl err, s') \<Rightarrow> (Inl err, s')
      | (Inr resp, s') \<Rightarrow>
          (Inr (map (\<lambda>c. mapCabinet (Some c)) (ListCabinetsResponse_GetCabinets resp)), s'))"

definition resolve_Cabinet ::
    "'s catalog_client \<Rightarrow> outgoing_md \<Rightarrow> string \<Rightarrow> 's \<Rightarrow> (grpc_status + gql_cabinet option) \<times> 's" where
  "resolve_Cabinet C ctx cid s =
     (case Rpc_GetCabinet C ctx \<lparr>Pbgq_Id = cid\<rparr> s of
        (Inl err, s') \<Rightarrow> (Inl err, s')
      | (Inr resp, s') \<Rightarrow> (Inr (mapCabinet (GetCabinetResponse_GetCabinet resp)), s'))"

definition resolve_Order ::
    "'s catalog_client \<Rightarrow> outgoing_md \<Rightarrow> string \<Rightarrow> 's \<Rightarrow> (grpc_status + gql_order option) \<times> 's" where
  "resolve_Order C ctx oid s =
     (case Rpc_GetOrder C ctx \<lparr>Pbgoq_Id = oid\<rparr> s of
        (Inl err, s') \<Rightarrow> (Inl err, s')
      | (Inr resp, s') \<Rightarrow> (Inr (mapOrder (GetOrderResponse_GetOrder resp)), s'))"

lemmas resolver_defs = resolve_CreateOrder_def resolve_Cabinets_def resolve_Cabinet_def
  resolve_Order_def

section \<open>The middleware\<close>

text \<open>\<open>http.Header\<close> with its canonical names; \<open>Get\<close> returns the first value or the empty
  string.  The identifier \<open>uuid.New\<close> returns is a parameter.\<close>

type_synonym http_header = "string \<rightharpoonup> string list"

definition header_Get :: "http_header \<Rightarrow> string \<Rightarrow> string" where
  "header_Get h k = (case h k of None \<Rightarrow> [] | Some [] \<Rightarrow> [] | Some (v # vs) \<Rightarrow> v)"

definition AppendToOutgoingContext :: "outgoing_md \<Rightarrow> (string \<times> string) list \<Rightarrow> outgoing_md" where
  "AppendToOutgoingContext ctx kv = ctx @ kv"

definition WithOutgoingMetadata :: "string \<Rightarrow> http_header \<Rightarrow> outgoing_md \<Rightarrow> outgoing_md" where
  "WithOutgoingMetadata new_uuid h ctx =
     (let userID = header_Get h ''X-User-Id'';
          reqID = header_Get h ''X-Request-Id'';
          reqID' = (if reqID = [] then new_uuid else reqID)
      in AppendToOutgoingContext ctx [(''x-user-id'', userID), (''x-request-id'', reqID')])"

section \<open>The connection to the catalog\<close>

text \<open>The metadata as the server receives it: the values of each name in their order.\<close>

definition incoming_of :: "outgoing_md \<Rightarrow> incoming_md" where
  "incoming_of ctx = Some (\<lambda>k. let vs = map snd (filter (\<lambda>p. fst p = k) ctx) in
     if vs = [] then None else Some vs)"

definition handler_client :: "'w cabinet_repository \<Rightarrow> 'w catalog_client" where
  "handler_client R =
     \<lparr>Rpc_ListCabinets = (\<lambda>ctx w. map_result (\<lambda>e. e) Some (h_ListCabinets R w)),
      Rpc_GetCabinet = (\<lambda>ctx req w. map_result (\<lambda>e. e) Some (h_GetCabinet R req w)),
      Rpc_CreateOrder = (\<lambda>ctx req w.
        map_result (\<lambda>e. e) Some (h_CreateOrder R (incoming_of ctx) req w)),
      Rpc_GetOrder = (\<lambda>ctx req w. map_result (\<lambda>e. e) Some (h_GetOrder R req w))\<rparr>"

section \<open>Facts\<close>

text \<open>The user the catalog sees for a request of the gateway.\<close>

lemma user_of_request:
  "extractUserIDFromContext (incoming_of (WithOutgoingMetadata u h [])) =
     (if header_Get h ''X-User-Id'' = [] then ''anonymous'' else header_Get h ''X-User-Id'')"
  by (simp add: extractUserIDFromContext_def incoming_of_def WithOutgoingMetadata_def
      AppendToOutgoingContext_def md_Get_def Let_def)

text \<open>\<open>int32\<close> of a 64 bit quantity.\<close>

lemma to_int32_wraps: "to_int32 (q + 2 ^ 32) = to_int32 q"
proof -
  have low: "(ucast q :: int32) = word_of_int (uint q)" for q :: go_int
    by (rule bit_word_eqI) (simp add: bit_simps)
  have "uint (q + 2 ^ 32) = (uint q + 2 ^ 32) mod 2 ^ 64"
    by (simp add: uint_word_ariths)
  then have "uint (q + 2 ^ 32) mod 2 ^ 32 = uint q mod 2 ^ 32"
    by (simp add: mod_mod_cancel)
  moreover have "(word_of_int i :: int32) = word_of_int (i mod 2 ^ 32)" for i
    by (simp add: word_of_int_eq_iff take_bit_eq_mod)
  ultimately show ?thesis unfolding to_int32_def low by metis
qed

lemma of_to_int32_iff:
  "of_int32 (to_int32 q) = q \<longleftrightarrow> - (2 ^ 31) \<le> sint q \<and> sint q < 2 ^ 31"
proof
  assume "of_int32 (to_int32 q) = q"
  then have "sint q = sint (to_int32 q)" by (metis sint_of_int32)
  then show "- (2 ^ 31) \<le> sint q \<and> sint q < 2 ^ 31" using sint_32_bounds [of "to_int32 q"] by simp
qed (simp add: of_int32_to_int32)

text \<open>The resolver for orders over the handlers.\<close>

lemma resolve_CreateOrder_eq:
  "resolve_CreateOrder (handler_client R) ctx input w =
     (case h_CreateOrder R (incoming_of ctx) \<lparr>Pbcq_IdempotencyKey = Gin_IdempotencyKey input,
             Pbcq_Items = map item_request (Gin_Items input)\<rparr> w of
        (Inl st, w') \<Rightarrow> (Inl st, w')
      | (Inr resp, w') \<Rightarrow> (Inr (mapOrder (Pbcr_Order resp)), w'))"
  by (simp add: resolve_CreateOrder_def handler_client_def CreateOrderResponse_GetOrder_def
      split: prod.split sum.split)

lemma mapCabinet_mapCabinetToProto:
  "mapCabinet (Some (mapCabinetToProto c)) = Some
     \<lparr>Gc_ID = Cab_ID c, Gc_Slug = Cab_Slug c, Gc_Model = Cab_Model c, Gc_Type = Cab_Type c,
      Gc_Display = Cab_Display c, Gc_Condition = Cab_Condition c,
      Gc_Quantity = of_int32 (to_int32 (Cab_Quantity c)), Gc_PriceCents = Cab_Price c,
      Gc_Manufacturer = Cab_Manufacturer c, Gc_Year = Cab_Year c,
      Gc_Images = map (\<lambda>i. \<lparr>Gi_ID = Img_ID i, Gi_URL = Img_URL i, Gi_Alt = Img_Alt i,
        Gi_SortOrder = of_int32 (to_int32 (Img_SortOrder i))\<rparr>) (Cab_Images c)\<rparr>"
  by (simp add: mapCabinet_def mapCabinetToProto_def mapImage_def mapImageToProto_def getter_defs)

lemma mapOrder_mapOrderToProto:
  "mapOrder (Some (mapOrderToProto o1)) = Some
     \<lparr>Go_ID = Ord_ID o1, Go_UserID = Ord_UserID o1, Go_Status = Ord_Status o1,
      Go_TotalCents = Ord_TotalCents o1, Go_IdempotencyKey = Ord_IdempotencyKey o1,
      Go_Items = map (\<lambda>l. \<lparr>Gl_CabinetID = Line_CabinetID l,
        Gl_Quantity = of_int32 (to_int32 (Line_Quantity l)),
        Gl_UnitPriceCents = Line_UnitPriceCents l\<rparr>) (Ord_Items o1)\<rparr>"
  by (simp add: mapOrder_def mapOrderToProto_def mapLine_def mapLineToProto_def getter_defs)

end
