(* ===== verification/Rpc_Stubs.thy ===== *)
theory Rpc_Stubs
  imports Gateway
begin

text \<open>
  The stubs that \<open>protoc-gen-go-grpc\<close> generates
  (\<open>api/proto/catalog/v1/catalog_grpc.pb.go\<close>): the client methods over
  \<open>ClientConnInterface.Invoke\<close>, the service description with its five unary handlers, and
  the fallbacks of the unimplemented server.  \<open>dispatch\<close> is the server's lookup of a method
  in the description; connected to it the client behaves as the handlers do.
\<close>

section \<open>Messages on the wire\<close>

datatype rpc_request = ReqListCabinets | ReqGetCabinet pb_get_cabinet_request
  | ReqReserveStock pb_reserve_stock_request | ReqCreateOrder pb_create_order_request
  | ReqGetOrder pb_get_order_request

datatype rpc_response = RespListCabinets pb_list_cabinets_response
  | RespGetCabinet pb_get_cabinet_response | RespReserveStock pb_reserve_stock_response
  | RespCreateOrder pb_create_order_response | RespGetOrder pb_get_order_response

datatype rpc_error = StatusErr grpc_status | Unimplemented string | DecodeErr

definition ListCabinets_FullMethodName :: string where
  "ListCabinets_FullMethodName = ''/catalog.v1.CatalogService/ListCabinets''"
definition GetCabinet_FullMethodName :: string where
  "GetCabinet_FullMethodName = ''/catalog.v1.CatalogService/GetCabinet''"
definition ReserveStock_FullMethodName :: string where
  "ReserveStock_FullMethodName = ''/catalog.v1.CatalogService/ReserveStock''"
definition CreateOrder_FullMethodName :: string where
  "CreateOrder_FullMethodName = ''/catalog.v1.CatalogService/CreateOrder''"
definition GetOrder_FullMethodName :: string where
  "GetOrder_FullMethodName = ''/catalog.v1.CatalogService/GetOrder''"

lemmas method_name_defs = ListCabinets_FullMethodName_def GetCabinet_FullMethodName_def
  ReserveStock_FullMethodName_def CreateOrder_FullMethodName_def GetOrder_FullMethodName_def

section \<open>The client\<close>

text \<open>\<open>Invoke\<close> fills the response message it is given, here the reply with its type.\<close>

type_synonym 's invoke = "outgoing_md \<Rightarrow> string \<Rightarrow> rpc_request \<Rightarrow> 's \<Rightarrow> (rpc_error + rpc_response) \<times> 's"

definition client_ListCabinets :: "'s invoke \<Rightarrow> outgoing_md \<Rightarrow> 's
    \<Rightarrow> (rpc_error + pb_list_cabinets_response) \<times> 's" where
  "client_ListCabinets cc ctx s =
     (case cc ctx ListCabinets_FullMethodName ReqListCabinets s of
        (Inr (RespListCabinets out), s') \<Rightarrow> (Inr out, s')
      | (Inr _, s') \<Rightarrow> (Inl DecodeErr, s')
      | (Inl err, s') \<Rightarrow> (Inl err, s'))"

definition client_GetCabinet :: "'s invoke \<Rightarrow> outgoing_md \<Rightarrow> pb_get_cabinet_request \<Rightarrow> 's
    \<Rightarrow> (rpc_error + pb_get_cabinet_response) \<times> 's" where
  "client_GetCabinet cc ctx req s =
     (case cc ctx GetCabinet_FullMethodName (ReqGetCabinet req) s of
        (Inr (RespGetCabinet out), s') \<Rightarrow> (Inr out, s')
      | (Inr _, s') \<Rightarrow> (Inl DecodeErr, s')
      | (Inl err, s') \<Rightarrow> (Inl err, s'))"

definition client_ReserveStock :: "'s invoke \<Rightarrow> outgoing_md \<Rightarrow> pb_reserve_stock_request \<Rightarrow> 's
    \<Rightarrow> (rpc_error + pb_reserve_stock_response) \<times> 's" where
  "client_ReserveStock cc ctx req s =
     (case cc ctx ReserveStock_FullMethodName (ReqReserveStock req) s of
        (Inr (RespReserveStock out), s') \<Rightarrow> (Inr out, s')
      | (Inr _, s') \<Rightarrow> (Inl DecodeErr, s')
      | (Inl err, s') \<Rightarrow> (Inl err, s'))"

definition client_CreateOrder :: "'s invoke \<Rightarrow> outgoing_md \<Rightarrow> pb_create_order_request \<Rightarrow> 's
    \<Rightarrow> (rpc_error + pb_create_order_response) \<times> 's" where
  "client_CreateOrder cc ctx req s =
     (case cc ctx CreateOrder_FullMethodName (ReqCreateOrder req) s of
        (Inr (RespCreateOrder out), s') \<Rightarrow> (Inr out, s')
      | (Inr _, s') \<Rightarrow> (Inl DecodeErr, s')
      | (Inl err, s') \<Rightarrow> (Inl err, s'))"

definition client_GetOrder :: "'s invoke \<Rightarrow> outgoing_md \<Rightarrow> pb_get_order_request \<Rightarrow> 's
    \<Rightarrow> (rpc_error + pb_get_order_response) \<times> 's" where
  "client_GetOrder cc ctx req s =
     (case cc ctx GetOrder_FullMethodName (ReqGetOrder req) s of
        (Inr (RespGetOrder out), s') \<Rightarrow> (Inr out, s')
      | (Inr _, s') \<Rightarrow> (Inl DecodeErr, s')
      | (Inl err, s') \<Rightarrow> (Inl err, s'))"

section \<open>The server\<close>

text \<open>The methods of a \<open>CatalogServiceServer\<close>, with the metadata of their context.\<close>

record 'w catalog_server =
  Srv_ListCabinets :: "incoming_md \<Rightarrow> 'w \<Rightarrow> (rpc_error + pb_list_cabinets_response) \<times> 'w"
  Srv_GetCabinet :: "incoming_md \<Rightarrow> pb_get_cabinet_request \<Rightarrow> 'w \<Rightarrow> (rpc_error + pb_get_cabinet_response) \<times> 'w"
  Srv_ReserveStock :: "incoming_md \<Rightarrow> pb_reserve_stock_request \<Rightarrow> 'w \<Rightarrow> (rpc_error + pb_reserve_stock_response) \<times> 'w"
  Srv_CreateOrder :: "incoming_md \<Rightarrow> pb_create_order_request \<Rightarrow> 'w \<Rightarrow> (rpc_error + pb_create_order_response) \<times> 'w"
  Srv_GetOrder :: "incoming_md \<Rightarrow> pb_get_order_request \<Rightarrow> 'w \<Rightarrow> (rpc_error + pb_get_order_response) \<times> 'w"

definition unimplemented_server :: "'w catalog_server" where
  "unimplemented_server =
     \<lparr>Srv_ListCabinets = (\<lambda>ctx w. (Inl (Unimplemented ''method ListCabinets not implemented''), w)),
      Srv_GetCabinet = (\<lambda>ctx req w. (Inl (Unimplemented ''method GetCabinet not implemented''), w)),
      Srv_ReserveStock = (\<lambda>ctx req w. (Inl (Unimplemented ''method ReserveStock not implemented''), w)),
      Srv_CreateOrder = (\<lambda>ctx req w. (Inl (Unimplemented ''method CreateOrder not implemented''), w)),
      Srv_GetOrder = (\<lambda>ctx req w. (Inl (Unimplemented ''method GetOrder not implemented''), w))\<rparr>"

text \<open>\<open>CabinetHandler\<close> embeds the unimplemented server and overrides all five methods.\<close>

definition cabinet_handler_server :: "'w cabinet_repository \<Rightarrow> 'w catalog_server" where
  "cabinet_handler_server R = unimplemented_server
     \<lparr>Srv_ListCabinets := (\<lambda>ctx w. map_result StatusErr (\<lambda>r. r) (h_ListCabinets R w)),
      Srv_GetCabinet := (\<lambda>ctx req w. map_result StatusErr (\<lambda>r. r) (h_GetCabinet R req w)),
      Srv_ReserveStock := (\<lambda>ctx req w.
        map_result StatusErr (\<lambda>r. r) (h_ReserveStock R req w)),
      Srv_CreateOrder := (\<lambda>ctx req w.
        map_result StatusErr (\<lambda>r. r) (h_CreateOrder R ctx req w)),
      Srv_GetOrder := (\<lambda>ctx req w. map_result StatusErr (\<lambda>r. r) (h_GetOrder R req w))\<rparr>"

text \<open>An interceptor wraps the call of the method; \<open>None\<close> is a nil interceptor.\<close>

type_synonym 'w interceptor = "(string \<Rightarrow> ('w \<Rightarrow> (rpc_error + rpc_response) \<times> 'w)
    \<Rightarrow> 'w \<Rightarrow> (rpc_error + rpc_response) \<times> 'w) option"

definition intercepted :: "'w interceptor \<Rightarrow> string \<Rightarrow> ('w \<Rightarrow> (rpc_error + rpc_response) \<times> 'w)
    \<Rightarrow> 'w \<Rightarrow> (rpc_error + rpc_response) \<times> 'w" where
  "intercepted ic full_method call w =
     (case ic of None \<Rightarrow> call w | Some f \<Rightarrow> f full_method call w)"

definition ListCabinets_Handler :: "'w catalog_server \<Rightarrow> incoming_md \<Rightarrow> rpc_request \<Rightarrow> 'w interceptor
    \<Rightarrow> 'w \<Rightarrow> (rpc_error + rpc_response) \<times> 'w" where
  "ListCabinets_Handler srv ctx req ic w =
     (case req of
        ReqListCabinets \<Rightarrow> intercepted ic ListCabinets_FullMethodName
          (\<lambda>w. map_result (\<lambda>e. e) RespListCabinets (Srv_ListCabinets srv ctx w)) w
      | _ \<Rightarrow> (Inl DecodeErr, w))"

definition GetCabinet_Handler :: "'w catalog_server \<Rightarrow> incoming_md \<Rightarrow> rpc_request \<Rightarrow> 'w interceptor
    \<Rightarrow> 'w \<Rightarrow> (rpc_error + rpc_response) \<times> 'w" where
  "GetCabinet_Handler srv ctx req ic w =
     (case req of
        ReqGetCabinet m \<Rightarrow> intercepted ic GetCabinet_FullMethodName
          (\<lambda>w. map_result (\<lambda>e. e) RespGetCabinet (Srv_GetCabinet srv ctx m w)) w
      | _ \<Rightarrow> (Inl DecodeErr, w))"

definition ReserveStock_Handler :: "'w catalog_server \<Rightarrow> incoming_md \<Rightarrow> rpc_request \<Rightarrow> 'w interceptor
    \<Rightarrow> 'w \<Rightarrow> (rpc_error + rpc_response) \<times> 'w" where
  "ReserveStock_Handler srv ctx req ic w =
     (case req of
        ReqReserveStock m \<Rightarrow> intercepted ic ReserveStock_FullMethodName
          (\<lambda>w. map_result (\<lambda>e. e) RespReserveStock (Srv_ReserveStock srv ctx m w)) w
      | _ \<Rightarrow> (Inl DecodeErr, w))"

definition CreateOrder_Handler :: "'w catalog_server \<Rightarrow> incoming_md \<Rightarrow> rpc_request \<Rightarrow> 'w interceptor
    \<Rightarrow> 'w \<Rightarrow> (rpc_error + rpc_response) \<times> 'w" where
  "CreateOrder_Handler srv ctx req ic w =
     (case req of
        ReqCreateOrder m \<Rightarrow> intercepted ic CreateOrder_FullMethodName
          (\<lambda>w. map_result (\<lambda>e. e) RespCreateOrder (Srv_CreateOrder srv ctx m w)) w
      | _ \<Rightarrow> (Inl DecodeErr, w))"

definition GetOrder_Handler :: "'w catalog_server \<Rightarrow> incoming_md \<Rightarrow> rpc_request \<Rightarrow> 'w interceptor
    \<Rightarrow> 'w \<Rightarrow> (rpc_error + rpc_response) \<times> 'w" where
  "GetOrder_Handler srv ctx req ic w =
     (case req of
        ReqGetOrder m \<Rightarrow> intercepted ic GetOrder_FullMethodName
          (\<lambda>w. map_result (\<lambda>e. e) RespGetOrder (Srv_GetOrder srv ctx m w)) w
      | _ \<Rightarrow> (Inl DecodeErr, w))"

lemmas rpc_handler_defs = ListCabinets_Handler_def GetCabinet_Handler_def ReserveStock_Handler_def
  CreateOrder_Handler_def GetOrder_Handler_def

definition CatalogService_ServiceDesc ::
    "(string \<times> ('w catalog_server \<Rightarrow> incoming_md \<Rightarrow> rpc_request \<Rightarrow> 'w interceptor
        \<Rightarrow> 'w \<Rightarrow> (rpc_error + rpc_response) \<times> 'w)) list" where
  "CatalogService_ServiceDesc =
     [(''ListCabinets'', ListCabinets_Handler), (''GetCabinet'', GetCabinet_Handler),
      (''ReserveStock'', ReserveStock_Handler), (''CreateOrder'', CreateOrder_Handler),
      (''GetOrder'', GetOrder_Handler)]"

text \<open>The server runs the method whose full name is the service name and the method name.\<close>

definition dispatch :: "'w catalog_server \<Rightarrow> 'w interceptor \<Rightarrow> 'w invoke" where
  "dispatch srv ic ctx full_method req w =
     (case find (\<lambda>m. full_method = ''/catalog.v1.CatalogService/'' @ fst m) CatalogService_ServiceDesc of
        None \<Rightarrow> (Inl (Unimplemented full_method), w)
      | Some m \<Rightarrow> snd m srv (incoming_of ctx) req ic w)"

section \<open>The composition\<close>

lemma dispatch_methods:
  "dispatch srv ic ctx ListCabinets_FullMethodName req w = ListCabinets_Handler srv (incoming_of ctx) req ic w"
  "dispatch srv ic ctx GetCabinet_FullMethodName req w = GetCabinet_Handler srv (incoming_of ctx) req ic w"
  "dispatch srv ic ctx ReserveStock_FullMethodName req w = ReserveStock_Handler srv (incoming_of ctx) req ic w"
  "dispatch srv ic ctx CreateOrder_FullMethodName req w = CreateOrder_Handler srv (incoming_of ctx) req ic w"
  "dispatch srv ic ctx GetOrder_FullMethodName req w = GetOrder_Handler srv (incoming_of ctx) req ic w"
  by (simp_all add: dispatch_def method_name_defs CatalogService_ServiceDesc_def)

text \<open>Through the stubs a call reaches its handler and comes back unchanged.\<close>

lemma client_of_handlers:
  fixes R :: "'w cabinet_repository"
  defines "cc \<equiv> dispatch (cabinet_handler_server R) None"
  shows "client_ListCabinets cc ctx w = map_result StatusErr (\<lambda>r. r) (h_ListCabinets R w)"
    "client_GetCabinet cc ctx q1 w = map_result StatusErr (\<lambda>r. r) (h_GetCabinet R q1 w)"
    "client_ReserveStock cc ctx q2 w = map_result StatusErr (\<lambda>r. r) (h_ReserveStock R q2 w)"
    "client_CreateOrder cc ctx q3 w
       = map_result StatusErr (\<lambda>r. r) (h_CreateOrder R (incoming_of ctx) q3 w)"
    "client_GetOrder cc ctx q4 w = map_result StatusErr (\<lambda>r. r) (h_GetOrder R q4 w)"
  unfolding cc_def client_ListCabinets_def client_GetCabinet_def client_ReserveStock_def
    client_CreateOrder_def client_GetOrder_def dispatch_methods rpc_handler_defs intercepted_def
    cabinet_handler_server_def
  by (auto simp: map_result_def split: prod.split sum.split)

end
