(* ===== verification/Graphql_Exec.thy ===== *)
theory Graphql_Exec
  imports Gateway
begin

text \<open>
  The executor that gqlgen generates from the schema
  (\<open>internal/gateway/graph/generated.go\<close>), for the types of the catalog: unmarshalling of
  the inputs, the field functions, and the objects with the propagation of null.  The gqlgen library is the parameter \<open>gql_runtime\<close>.  A panic is \<open>None\<close>.
\<close>

section \<open>Values\<close>

text \<open>Arguments as the parser delivers them.\<close>

datatype raw = RNil | RString string | RInt int | RMap "(string \<times> raw) list" | RList "raw list"

text \<open>
  A marshaler, and with it the errors added while it was built.  The library has two nulls,
  and \<open>GNil\<close> is the nil of the interface.
\<close>

datatype gql_out = GNull | GRequiredNull | GNil | GScalar string | GObject "(string \<times> gql_out) list" | GList "gql_out list"

type_synonym marshalled = "gql_out \<times> string list"

text \<open>A collected field: its response name, its name, its arguments and its selection.\<close>

datatype gql_field = GField (fld_alias: string) (fld_name: string)
  (fld_args: "(string \<times> raw) list") (fld_sel: "gql_field list")

text \<open>
  A field context: the object of the field, what its \<open>Child\<close> function is (an error, or the
  child fields of a type), and the unmarshalled arguments.
\<close>

datatype object_type = TCabinet | TCabinetImage | TOrder | TOrderLine | TDirective | TEnumValue
  | TField | TInputValue | TSchema | TType

datatype field_child = NoChild string | ChildFields object_type

datatype field_args = NoArgs | IdArg string | InputArg gql_order_input | NameArg string
  | BoolArg bool | OptBoolArg "bool option"

record field_context =
  fc_Object :: string
  fc_IsMethod :: bool
  fc_IsResolver :: bool
  fc_Child :: field_child
  fc_Args :: field_args

text \<open>
  What the generated code calls of gqlgen: \<open>ResolveField\<close>, given the resolver's error or the
  marshalled value, for a field that must not be null and for one that may, and what it makes
  of a panic in either (recover it, or not); the contexts of scalar fields; the scalars, list coercion, the error of a recovered panic, and the text
  of a status error.
\<close>

record gql_runtime =
  rt_ResolveField :: "string + marshalled \<Rightarrow> marshalled"
  rt_ResolveNullable :: "string + marshalled \<Rightarrow> marshalled"
  rt_ResolvePanic :: "bool \<Rightarrow> marshalled option"
  rt_NewScalarFieldContext :: "string \<Rightarrow> bool \<Rightarrow> bool \<Rightarrow> string \<Rightarrow> field_context"
  rt_MarshalString :: "string \<Rightarrow> gql_out"
  rt_MarshalID :: "string \<Rightarrow> gql_out"
  rt_MarshalInt :: "go_int \<Rightarrow> gql_out"
  rt_MarshalBoolean :: "bool \<Rightarrow> gql_out"
  rt_UnmarshalString :: "raw \<Rightarrow> string + string"
  rt_UnmarshalID :: "raw \<Rightarrow> string + string"
  rt_UnmarshalInt :: "raw \<Rightarrow> string + go_int"
  rt_UnmarshalBoolean :: "raw \<Rightarrow> string + bool"
  rt_CoerceList :: "raw \<Rightarrow> raw list"
  rt_Recover :: string
  rt_ErrorText :: "grpc_status \<Rightarrow> string"

section \<open>Inputs\<close>

definition unmarshalNString :: "gql_runtime \<Rightarrow> raw \<Rightarrow> string + string" where
  "unmarshalNString rt v = rt_UnmarshalString rt v"

definition unmarshalNID :: "gql_runtime \<Rightarrow> raw \<Rightarrow> string + string" where
  "unmarshalNID rt v = rt_UnmarshalID rt v"

definition unmarshalNInt :: "gql_runtime \<Rightarrow> raw \<Rightarrow> string + go_int" where
  "unmarshalNInt rt v = rt_UnmarshalInt rt v"

lemmas unmarshal_defs [simp] = unmarshalNString_def unmarshalNID_def unmarshalNInt_def

text \<open>A key that is absent leaves the zero value in the struct.\<close>

definition unmarshal_key :: "(raw \<Rightarrow> string + 'a) \<Rightarrow> 'a \<Rightarrow> (string \<times> raw) list \<Rightarrow> string \<Rightarrow> string + 'a" where
  "unmarshal_key f zero m k = (case map_of m k of None \<Rightarrow> Inr zero | Some v \<Rightarrow> f v)"

definition unmarshalInputCreateOrderItemInput :: "gql_runtime \<Rightarrow> raw \<Rightarrow> (string + gql_item_input) option" where
  "unmarshalInputCreateOrderItemInput rt obj =
     (case obj of
        RNil \<Rightarrow> Some (Inr \<lparr>Gin_CabinetID = [], Gin_Quantity = 0\<rparr>)
      | RMap m \<Rightarrow> Some
          (case unmarshal_key (unmarshalNID rt) [] m ''cabinetId'' of
             Inl err \<Rightarrow> Inl err
           | Inr cid \<Rightarrow>
               (case unmarshal_key (unmarshalNInt rt) 0 m ''quantity'' of
                  Inl err \<Rightarrow> Inl err
                | Inr q \<Rightarrow> Inr \<lparr>Gin_CabinetID = cid, Gin_Quantity = q\<rparr>))
      | _ \<Rightarrow> None)"

definition unmarshalNCreateOrderItemInput :: "gql_runtime \<Rightarrow> raw \<Rightarrow> (string + gql_item_input) option" where
  "unmarshalNCreateOrderItemInput rt v = unmarshalInputCreateOrderItemInput rt v"

fun unmarshal_items :: "gql_runtime \<Rightarrow> raw list \<Rightarrow> (string + gql_item_input list) option" where
  "unmarshal_items rt [] = Some (Inr [])"
| "unmarshal_items rt (v # vs) =
     (case unmarshalNCreateOrderItemInput rt v of
        None \<Rightarrow> None
      | Some (Inl err) \<Rightarrow> Some (Inl err)
      | Some (Inr item) \<Rightarrow>
          (case unmarshal_items rt vs of
             None \<Rightarrow> None
           | Some (Inl err) \<Rightarrow> Some (Inl err)
           | Some (Inr items) \<Rightarrow> Some (Inr (item # items))))"

definition unmarshalNCreateOrderItemInputs :: "gql_runtime \<Rightarrow> raw \<Rightarrow> (string + gql_item_input list) option" where
  "unmarshalNCreateOrderItemInputs rt v = unmarshal_items rt (rt_CoerceList rt v)"

definition unmarshalInputCreateOrderInput :: "gql_runtime \<Rightarrow> raw \<Rightarrow> (string + gql_order_input) option" where
  "unmarshalInputCreateOrderInput rt obj =
     (case obj of
        RNil \<Rightarrow> Some (Inr \<lparr>Gin_IdempotencyKey = [], Gin_Items = []\<rparr>)
      | RMap m \<Rightarrow>
          (case unmarshal_key (unmarshalNString rt) [] m ''idempotencyKey'' of
             Inl err \<Rightarrow> Some (Inl err)
           | Inr key \<Rightarrow>
               (case (case map_of m ''items'' of None \<Rightarrow> Some (Inr [])
                      | Some v \<Rightarrow> unmarshalNCreateOrderItemInputs rt v) of
                  None \<Rightarrow> None
                | Some (Inl err) \<Rightarrow> Some (Inl err)
                | Some (Inr items) \<Rightarrow> Some (Inr \<lparr>Gin_IdempotencyKey = key, Gin_Items = items\<rparr>)))
      | _ \<Rightarrow> None)"

definition unmarshalNCreateOrderInput :: "gql_runtime \<Rightarrow> raw \<Rightarrow> (string + gql_order_input) option" where
  "unmarshalNCreateOrderInput rt v = unmarshalInputCreateOrderInput rt v"

lemmas unmarshal_input_defs [simp] = unmarshalNCreateOrderItemInput_def unmarshalNCreateOrderInput_def

text \<open>The argument maps; an argument that is absent is the zero value.\<close>

definition field_Query_cabinet_args :: "gql_runtime \<Rightarrow> (string \<times> raw) list \<Rightarrow> string + string" where
  "field_Query_cabinet_args rt rawArgs = unmarshal_key (unmarshalNID rt) [] rawArgs ''id''"

definition field_Query_order_args :: "gql_runtime \<Rightarrow> (string \<times> raw) list \<Rightarrow> string + string" where
  "field_Query_order_args rt rawArgs = unmarshal_key (unmarshalNID rt) [] rawArgs ''id''"

definition field_Mutation_createOrder_args ::
    "gql_runtime \<Rightarrow> (string \<times> raw) list \<Rightarrow> (string + gql_order_input) option" where
  "field_Mutation_createOrder_args rt rawArgs =
     (case map_of rawArgs ''input'' of
        None \<Rightarrow> Some (Inr \<lparr>Gin_IdempotencyKey = [], Gin_Items = []\<rparr>)
      | Some v \<Rightarrow> unmarshalNCreateOrderInput rt v)"

section \<open>Scalars, lists and objects\<close>

definition null_error :: string where
  "null_error = ''the requested element is null which the schema does not allow''"

definition checked :: "gql_out \<Rightarrow> marshalled" where
  "checked res = (if res = GNull then (GNull, [null_error]) else (res, []))"

definition marshalNString :: "gql_runtime \<Rightarrow> string \<Rightarrow> marshalled" where
  "marshalNString rt v = checked (rt_MarshalString rt v)"

definition marshalNID :: "gql_runtime \<Rightarrow> string \<Rightarrow> marshalled" where
  "marshalNID rt v = checked (rt_MarshalID rt v)"

definition marshalNInt :: "gql_runtime \<Rightarrow> go_int \<Rightarrow> marshalled" where
  "marshalNInt rt v = checked (rt_MarshalInt rt v)"

fun marshal_all :: "('a \<Rightarrow> marshalled option) \<Rightarrow> 'a list \<Rightarrow> (gql_out list \<times> string list) option" where
  "marshal_all f [] = Some ([], [])"
| "marshal_all f (x # xs) =
     (case f x of
        None \<Rightarrow> None
      | Some (v, es) \<Rightarrow> map_option (\<lambda>(vs, es'). (v # vs, es @ es')) (marshal_all f xs))"

text \<open>A list with a null element is null.\<close>

definition list_out :: "(gql_out list \<times> string list) option \<Rightarrow> marshalled option" where
  "list_out r = map_option (\<lambda>(vs, es). (if GNull \<in> set vs then GNull else GList vs, es)) r"

text \<open>
  A slot of an object: the value of a field, and whether it counts as invalid, for a field
  that must not be null, for one that may, and for \<open>__typename\<close>.
\<close>

type_synonym slot = "marshalled \<times> bool"

definition required :: "marshalled \<Rightarrow> slot" where
  "required m = (m, fst m = GNull)"

definition optional :: "marshalled \<Rightarrow> slot" where
  "optional m = (m, fst m = GRequiredNull)"

definition free_slot :: "gql_out \<Rightarrow> slot" where
  "free_slot v = ((v, []), False)"

fun exec_fields :: "(gql_field \<Rightarrow> slot option) \<Rightarrow> gql_field list
    \<Rightarrow> ((string \<times> gql_out) list \<times> bool \<times> string list) option" where
  "exec_fields f [] = Some ([], False, [])"
| "exec_fields f (fd # fds) =
     (case f fd of
        None \<Rightarrow> None
      | Some ((v, es), bad) \<Rightarrow>
          map_option (\<lambda>(vs, bad', es'). ((fld_alias fd, v) # vs, bad \<or> bad', es @ es')) (exec_fields f fds))"

text \<open>\<open>out.Invalids > 0\<close>: an object with an invalid field is null.\<close>

definition object_out :: "((string \<times> gql_out) list \<times> bool \<times> string list) option \<Rightarrow> marshalled option" where
  "object_out r = map_option (\<lambda>(vs, bad, es). (if bad then GNull else GObject vs, es)) r"

text \<open>A field whose marshalling may panic, for both kinds of fields.\<close>

definition resolved :: "gql_runtime \<Rightarrow> marshalled option \<Rightarrow> marshalled option" where
  "resolved rt r = (case r of None \<Rightarrow> rt_ResolvePanic rt True | Some m \<Rightarrow> Some (rt_ResolveField rt (Inr m)))"

definition resolved_nullable :: "gql_runtime \<Rightarrow> marshalled option \<Rightarrow> marshalled option" where
  "resolved_nullable rt r = (case r of None \<Rightarrow> rt_ResolvePanic rt False | Some m \<Rightarrow> Some (rt_ResolveNullable rt (Inr m)))"

section \<open>Objects\<close>

definition CabinetImage_id_field :: "gql_runtime \<Rightarrow> gql_image \<Rightarrow> marshalled" where
  "CabinetImage_id_field rt obj = rt_ResolveField rt (Inr (marshalNID rt (Gi_ID obj)))"
definition CabinetImage_url_field :: "gql_runtime \<Rightarrow> gql_image \<Rightarrow> marshalled" where
  "CabinetImage_url_field rt obj = rt_ResolveField rt (Inr (marshalNString rt (Gi_URL obj)))"
definition CabinetImage_alt_field :: "gql_runtime \<Rightarrow> gql_image \<Rightarrow> marshalled" where
  "CabinetImage_alt_field rt obj = rt_ResolveField rt (Inr (marshalNString rt (Gi_Alt obj)))"
definition CabinetImage_sortOrder_field :: "gql_runtime \<Rightarrow> gql_image \<Rightarrow> marshalled" where
  "CabinetImage_sortOrder_field rt obj = rt_ResolveField rt (Inr (marshalNInt rt (Gi_SortOrder obj)))"

definition CabinetImage_case :: "gql_runtime \<Rightarrow> gql_image \<Rightarrow> gql_field \<Rightarrow> slot option" where
  "CabinetImage_case rt obj f =
      (if fld_name f = ''__typename'' then Some (free_slot (rt_MarshalString rt ''CabinetImage''))
       else if fld_name f = ''id'' then Some (required (CabinetImage_id_field rt obj))
       else if fld_name f = ''url'' then Some (required (CabinetImage_url_field rt obj))
       else if fld_name f = ''alt'' then Some (required (CabinetImage_alt_field rt obj))
       else if fld_name f = ''sortOrder'' then Some (required (CabinetImage_sortOrder_field rt obj))
       else None)"

definition exec_CabinetImage :: "gql_runtime \<Rightarrow> gql_field list \<Rightarrow> gql_image \<Rightarrow> marshalled option" where
  "exec_CabinetImage rt sel obj = object_out (exec_fields (CabinetImage_case rt obj) sel)"

definition marshalNCabinetImage :: "gql_runtime \<Rightarrow> gql_field list \<Rightarrow> gql_image option \<Rightarrow> marshalled option" where
  "marshalNCabinetImage rt sel v = (case v of None \<Rightarrow> Some (GNull, [null_error]) | Some m \<Rightarrow> exec_CabinetImage rt sel m)"

definition marshalNCabinetImages :: "gql_runtime \<Rightarrow> gql_field list \<Rightarrow> gql_image list \<Rightarrow> marshalled option" where
  "marshalNCabinetImages rt sel vs = list_out (marshal_all (\<lambda>v. marshalNCabinetImage rt sel (Some v)) vs)"

definition OrderLine_cabinetId_field :: "gql_runtime \<Rightarrow> gql_line \<Rightarrow> marshalled" where
  "OrderLine_cabinetId_field rt obj = rt_ResolveField rt (Inr (marshalNID rt (Gl_CabinetID obj)))"
definition OrderLine_quantity_field :: "gql_runtime \<Rightarrow> gql_line \<Rightarrow> marshalled" where
  "OrderLine_quantity_field rt obj = rt_ResolveField rt (Inr (marshalNInt rt (Gl_Quantity obj)))"
definition OrderLine_unitPriceCents_field :: "gql_runtime \<Rightarrow> gql_line \<Rightarrow> marshalled" where
  "OrderLine_unitPriceCents_field rt obj = rt_ResolveField rt (Inr (marshalNInt rt (Gl_UnitPriceCents obj)))"

definition OrderLine_case :: "gql_runtime \<Rightarrow> gql_line \<Rightarrow> gql_field \<Rightarrow> slot option" where
  "OrderLine_case rt obj f =
      (if fld_name f = ''__typename'' then Some (free_slot (rt_MarshalString rt ''OrderLine''))
       else if fld_name f = ''cabinetId'' then Some (required (OrderLine_cabinetId_field rt obj))
       else if fld_name f = ''quantity'' then Some (required (OrderLine_quantity_field rt obj))
       else if fld_name f = ''unitPriceCents'' then Some (required (OrderLine_unitPriceCents_field rt obj))
       else None)"

definition exec_OrderLine :: "gql_runtime \<Rightarrow> gql_field list \<Rightarrow> gql_line \<Rightarrow> marshalled option" where
  "exec_OrderLine rt sel obj = object_out (exec_fields (OrderLine_case rt obj) sel)"

definition marshalNOrderLine :: "gql_runtime \<Rightarrow> gql_field list \<Rightarrow> gql_line option \<Rightarrow> marshalled option" where
  "marshalNOrderLine rt sel v = (case v of None \<Rightarrow> Some (GNull, [null_error]) | Some m \<Rightarrow> exec_OrderLine rt sel m)"

definition marshalNOrderLines :: "gql_runtime \<Rightarrow> gql_field list \<Rightarrow> gql_line list \<Rightarrow> marshalled option" where
  "marshalNOrderLines rt sel vs = list_out (marshal_all (\<lambda>v. marshalNOrderLine rt sel (Some v)) vs)"

definition Cabinet_id_field :: "gql_runtime \<Rightarrow> gql_cabinet \<Rightarrow> marshalled" where
  "Cabinet_id_field rt obj = rt_ResolveField rt (Inr (marshalNID rt (Gc_ID obj)))"
definition Cabinet_slug_field :: "gql_runtime \<Rightarrow> gql_cabinet \<Rightarrow> marshalled" where
  "Cabinet_slug_field rt obj = rt_ResolveField rt (Inr (marshalNString rt (Gc_Slug obj)))"
definition Cabinet_model_field :: "gql_runtime \<Rightarrow> gql_cabinet \<Rightarrow> marshalled" where
  "Cabinet_model_field rt obj = rt_ResolveField rt (Inr (marshalNString rt (Gc_Model obj)))"
definition Cabinet_type_field :: "gql_runtime \<Rightarrow> gql_cabinet \<Rightarrow> marshalled" where
  "Cabinet_type_field rt obj = rt_ResolveField rt (Inr (marshalNString rt (Gc_Type obj)))"
definition Cabinet_display_field :: "gql_runtime \<Rightarrow> gql_cabinet \<Rightarrow> marshalled" where
  "Cabinet_display_field rt obj = rt_ResolveField rt (Inr (marshalNString rt (Gc_Display obj)))"
definition Cabinet_condition_field :: "gql_runtime \<Rightarrow> gql_cabinet \<Rightarrow> marshalled" where
  "Cabinet_condition_field rt obj = rt_ResolveField rt (Inr (marshalNString rt (Gc_Condition obj)))"
definition Cabinet_quantity_field :: "gql_runtime \<Rightarrow> gql_cabinet \<Rightarrow> marshalled" where
  "Cabinet_quantity_field rt obj = rt_ResolveField rt (Inr (marshalNInt rt (Gc_Quantity obj)))"
definition Cabinet_priceCents_field :: "gql_runtime \<Rightarrow> gql_cabinet \<Rightarrow> marshalled" where
  "Cabinet_priceCents_field rt obj = rt_ResolveField rt (Inr (marshalNInt rt (Gc_PriceCents obj)))"
definition Cabinet_manufacturer_field :: "gql_runtime \<Rightarrow> gql_cabinet \<Rightarrow> marshalled" where
  "Cabinet_manufacturer_field rt obj = rt_ResolveField rt (Inr (marshalNString rt (Gc_Manufacturer obj)))"
definition Cabinet_year_field :: "gql_runtime \<Rightarrow> gql_cabinet \<Rightarrow> marshalled" where
  "Cabinet_year_field rt obj = rt_ResolveField rt (Inr (marshalNString rt (Gc_Year obj)))"
definition Cabinet_images_field ::
    "gql_runtime \<Rightarrow> gql_field list \<Rightarrow> gql_cabinet \<Rightarrow> marshalled option" where
  "Cabinet_images_field rt sel obj =
     resolved rt (marshalNCabinetImages rt sel (Gc_Images obj))"

definition Cabinet_case :: "gql_runtime \<Rightarrow> gql_cabinet \<Rightarrow> gql_field \<Rightarrow> slot option" where
  "Cabinet_case rt obj f =
      (if fld_name f = ''__typename'' then Some (free_slot (rt_MarshalString rt ''Cabinet''))
       else if fld_name f = ''id'' then Some (required (Cabinet_id_field rt obj))
       else if fld_name f = ''slug'' then Some (required (Cabinet_slug_field rt obj))
       else if fld_name f = ''model'' then Some (required (Cabinet_model_field rt obj))
       else if fld_name f = ''type'' then Some (required (Cabinet_type_field rt obj))
       else if fld_name f = ''display'' then Some (required (Cabinet_display_field rt obj))
       else if fld_name f = ''condition'' then Some (required (Cabinet_condition_field rt obj))
       else if fld_name f = ''quantity'' then Some (required (Cabinet_quantity_field rt obj))
       else if fld_name f = ''priceCents'' then Some (required (Cabinet_priceCents_field rt obj))
       else if fld_name f = ''manufacturer'' then Some (required (Cabinet_manufacturer_field rt obj))
       else if fld_name f = ''year'' then Some (required (Cabinet_year_field rt obj))
       else if fld_name f = ''images'' then map_option required (Cabinet_images_field rt (fld_sel f) obj)
       else None)"

definition exec_Cabinet :: "gql_runtime \<Rightarrow> gql_field list \<Rightarrow> gql_cabinet \<Rightarrow> marshalled option" where
  "exec_Cabinet rt sel obj = object_out (exec_fields (Cabinet_case rt obj) sel)"

definition marshalNCabinet :: "gql_runtime \<Rightarrow> gql_field list \<Rightarrow> gql_cabinet option \<Rightarrow> marshalled option" where
  "marshalNCabinet rt sel v = (case v of None \<Rightarrow> Some (GNull, [null_error]) | Some m \<Rightarrow> exec_Cabinet rt sel m)"

definition marshalNCabinets :: "gql_runtime \<Rightarrow> gql_field list \<Rightarrow> gql_cabinet option list \<Rightarrow> marshalled option" where
  "marshalNCabinets rt sel vs = list_out (marshal_all (marshalNCabinet rt sel) vs)"

definition Order_id_field :: "gql_runtime \<Rightarrow> gql_order \<Rightarrow> marshalled" where
  "Order_id_field rt obj = rt_ResolveField rt (Inr (marshalNID rt (Go_ID obj)))"
definition Order_userId_field :: "gql_runtime \<Rightarrow> gql_order \<Rightarrow> marshalled" where
  "Order_userId_field rt obj = rt_ResolveField rt (Inr (marshalNID rt (Go_UserID obj)))"
definition Order_status_field :: "gql_runtime \<Rightarrow> gql_order \<Rightarrow> marshalled" where
  "Order_status_field rt obj = rt_ResolveField rt (Inr (marshalNString rt (Go_Status obj)))"
definition Order_totalCents_field :: "gql_runtime \<Rightarrow> gql_order \<Rightarrow> marshalled" where
  "Order_totalCents_field rt obj = rt_ResolveField rt (Inr (marshalNInt rt (Go_TotalCents obj)))"
definition Order_idempotencyKey_field :: "gql_runtime \<Rightarrow> gql_order \<Rightarrow> marshalled" where
  "Order_idempotencyKey_field rt obj = rt_ResolveField rt (Inr (marshalNString rt (Go_IdempotencyKey obj)))"
definition Order_items_field ::
    "gql_runtime \<Rightarrow> gql_field list \<Rightarrow> gql_order \<Rightarrow> marshalled option" where
  "Order_items_field rt sel obj =
     resolved rt (marshalNOrderLines rt sel (Go_Items obj))"

definition Order_case :: "gql_runtime \<Rightarrow> gql_order \<Rightarrow> gql_field \<Rightarrow> slot option" where
  "Order_case rt obj f =
      (if fld_name f = ''__typename'' then Some (free_slot (rt_MarshalString rt ''Order''))
       else if fld_name f = ''id'' then Some (required (Order_id_field rt obj))
       else if fld_name f = ''userId'' then Some (required (Order_userId_field rt obj))
       else if fld_name f = ''status'' then Some (required (Order_status_field rt obj))
       else if fld_name f = ''totalCents'' then Some (required (Order_totalCents_field rt obj))
       else if fld_name f = ''idempotencyKey'' then Some (required (Order_idempotencyKey_field rt obj))
       else if fld_name f = ''items'' then map_option required (Order_items_field rt (fld_sel f) obj)
       else None)"

definition exec_Order :: "gql_runtime \<Rightarrow> gql_field list \<Rightarrow> gql_order \<Rightarrow> marshalled option" where
  "exec_Order rt sel obj = object_out (exec_fields (Order_case rt obj) sel)"

definition marshalNOrder :: "gql_runtime \<Rightarrow> gql_field list \<Rightarrow> gql_order option \<Rightarrow> marshalled option" where
  "marshalNOrder rt sel v = (case v of None \<Rightarrow> Some (GNull, [null_error]) | Some m \<Rightarrow> exec_Order rt sel m)"

lemmas field_defs =
  CabinetImage_id_field_def CabinetImage_url_field_def CabinetImage_alt_field_def
  CabinetImage_sortOrder_field_def OrderLine_cabinetId_field_def OrderLine_quantity_field_def
  OrderLine_unitPriceCents_field_def Cabinet_id_field_def Cabinet_slug_field_def
  Cabinet_model_field_def Cabinet_type_field_def Cabinet_display_field_def
  Cabinet_condition_field_def Cabinet_quantity_field_def Cabinet_priceCents_field_def
  Cabinet_manufacturer_field_def Cabinet_year_field_def Cabinet_images_field_def
  Order_id_field_def Order_userId_field_def Order_status_field_def Order_totalCents_field_def
  Order_idempotencyKey_field_def Order_items_field_def

lemmas case_defs = CabinetImage_case_def OrderLine_case_def Cabinet_case_def Order_case_def

end
