(* ===== verification/Graphql_Context.thy ===== *)
theory Graphql_Context
  imports Graphql_Exec
begin

text \<open>
  The field contexts of the executor (\<open>fieldContext_*\<close> and \<open>childFields_*\<close> of
  \<open>internal/gateway/graph/generated.go\<close>): what a field belongs to, which fields it may have
  below it, and its arguments; and the schema (\<open>api/graphql/schema.graphql\<close>) that they mirror.
  The fields of the introspection types carry the prefix \<open>Intro\<close>.
\<close>

section \<open>Arguments\<close>

definition unmarshalOBoolean2bool :: "gql_runtime \<Rightarrow> raw \<Rightarrow> string + bool" where
  "unmarshalOBoolean2bool rt v = rt_UnmarshalBoolean rt v"

definition unmarshalOBoolean2pbool :: "gql_runtime \<Rightarrow> raw \<Rightarrow> string + bool option" where
  "unmarshalOBoolean2pbool rt v = (if v = RNil then Inr None else map_sum id Some (rt_UnmarshalBoolean rt v))"

definition unmarshalNBoolean2bool :: "gql_runtime \<Rightarrow> raw \<Rightarrow> string + bool" where
  "unmarshalNBoolean2bool rt v = rt_UnmarshalBoolean rt v"

definition unmarshalOString2pstring :: "gql_runtime \<Rightarrow> raw \<Rightarrow> string + string option" where
  "unmarshalOString2pstring rt v = (if v = RNil then Inr None else map_sum id Some (rt_UnmarshalString rt v))"

definition unmarshalN_TypeKind :: "gql_runtime \<Rightarrow> raw \<Rightarrow> string + string" where
  "unmarshalN_TypeKind rt v = rt_UnmarshalString rt v"

definition unmarshalN_DirectiveLocation :: "gql_runtime \<Rightarrow> raw \<Rightarrow> string + string" where
  "unmarshalN_DirectiveLocation rt v = rt_UnmarshalString rt v"

fun unmarshal_locations :: "gql_runtime \<Rightarrow> raw list \<Rightarrow> string + string list" where
  "unmarshal_locations rt [] = Inr []"
| "unmarshal_locations rt (v # vs) =
     (case unmarshalN_DirectiveLocation rt v of
        Inl err \<Rightarrow> Inl err
      | Inr x \<Rightarrow> map_sum id (\<lambda>xs. x # xs) (unmarshal_locations rt vs))"

definition unmarshalN_DirectiveLocations :: "gql_runtime \<Rightarrow> raw \<Rightarrow> string + string list" where
  "unmarshalN_DirectiveLocations rt v = unmarshal_locations rt (rt_CoerceList rt v)"

definition field_Query_Intro_type_args :: "gql_runtime \<Rightarrow> (string \<times> raw) list \<Rightarrow> string + string" where
  "field_Query_Intro_type_args rt rawArgs = unmarshal_key (unmarshalNString rt) [] rawArgs ''name''"

definition field_Intro_Directive_args_args :: "gql_runtime \<Rightarrow> (string \<times> raw) list \<Rightarrow> string + bool option" where
  "field_Intro_Directive_args_args rt rawArgs =
     unmarshal_key (unmarshalOBoolean2pbool rt) None rawArgs ''includeDeprecated''"

definition field_Intro_Field_args_args :: "gql_runtime \<Rightarrow> (string \<times> raw) list \<Rightarrow> string + bool option" where
  "field_Intro_Field_args_args rt rawArgs =
     unmarshal_key (unmarshalOBoolean2pbool rt) None rawArgs ''includeDeprecated''"

definition field_Intro_Type_enumValues_args :: "gql_runtime \<Rightarrow> (string \<times> raw) list \<Rightarrow> string + bool" where
  "field_Intro_Type_enumValues_args rt rawArgs =
     unmarshal_key (unmarshalOBoolean2bool rt) False rawArgs ''includeDeprecated''"

definition field_Intro_Type_fields_args :: "gql_runtime \<Rightarrow> (string \<times> raw) list \<Rightarrow> string + bool" where
  "field_Intro_Type_fields_args rt rawArgs =
     unmarshal_key (unmarshalOBoolean2bool rt) False rawArgs ''includeDeprecated''"

section \<open>Contexts\<close>

definition object_context :: "string \<Rightarrow> bool \<Rightarrow> bool \<Rightarrow> object_type \<Rightarrow> field_context" where
  "object_context obj isMethod isResolver child = \<lparr>fc_Object = obj, fc_IsMethod = isMethod,
     fc_IsResolver = isResolver, fc_Child = ChildFields child, fc_Args = NoArgs\<rparr>"

text \<open>Arguments that do not unmarshal end the context; a panic of theirs is recovered.\<close>

definition with_args ::
    "gql_runtime \<Rightarrow> field_context \<Rightarrow> (string + field_args) option \<Rightarrow> string + field_context" where
  "with_args rt fc r =
     (case r of
        None \<Rightarrow> Inl (rt_Recover rt)
      | Some (Inl err) \<Rightarrow> Inl err
      | Some (Inr args) \<Rightarrow> Inr (fc\<lparr>fc_Args := args\<rparr>))"

text \<open>\<open>%q\<close> of a field name: names of the parser need no escapes but these.\<close>

definition go_quote :: "string \<Rightarrow> string" where
  "go_quote x = [CHR 0x22] @ concat (map (\<lambda>c. if c = CHR 0x22 \<or> c = CHR 0x5C then [CHR 0x5C, c] else [c]) x) @ [CHR 0x22]"

definition no_field :: "string \<Rightarrow> string \<Rightarrow> string" where
  "no_field name ty = ''no field named '' @ go_quote name @ '' was found under type '' @ ty"

definition fieldContext_Cabinet_id :: "gql_runtime \<Rightarrow> gql_field \<Rightarrow> string + field_context" where
  "fieldContext_Cabinet_id rt f =
     Inr (rt_NewScalarFieldContext rt ''Cabinet'' False False ''field of type ID does not have child fields'')"
definition fieldContext_Cabinet_slug :: "gql_runtime \<Rightarrow> gql_field \<Rightarrow> string + field_context" where
  "fieldContext_Cabinet_slug rt f =
     Inr (rt_NewScalarFieldContext rt ''Cabinet'' False False ''field of type String does not have child fields'')"
definition fieldContext_Cabinet_model :: "gql_runtime \<Rightarrow> gql_field \<Rightarrow> string + field_context" where
  "fieldContext_Cabinet_model rt f =
     Inr (rt_NewScalarFieldContext rt ''Cabinet'' False False ''field of type String does not have child fields'')"
definition fieldContext_Cabinet_type :: "gql_runtime \<Rightarrow> gql_field \<Rightarrow> string + field_context" where
  "fieldContext_Cabinet_type rt f =
     Inr (rt_NewScalarFieldContext rt ''Cabinet'' False False ''field of type String does not have child fields'')"
definition fieldContext_Cabinet_display :: "gql_runtime \<Rightarrow> gql_field \<Rightarrow> string + field_context" where
  "fieldContext_Cabinet_display rt f =
     Inr (rt_NewScalarFieldContext rt ''Cabinet'' False False ''field of type String does not have child fields'')"
definition fieldContext_Cabinet_condition :: "gql_runtime \<Rightarrow> gql_field \<Rightarrow> string + field_context" where
  "fieldContext_Cabinet_condition rt f =
     Inr (rt_NewScalarFieldContext rt ''Cabinet'' False False ''field of type String does not have child fields'')"
definition fieldContext_Cabinet_quantity :: "gql_runtime \<Rightarrow> gql_field \<Rightarrow> string + field_context" where
  "fieldContext_Cabinet_quantity rt f =
     Inr (rt_NewScalarFieldContext rt ''Cabinet'' False False ''field of type Int does not have child fields'')"
definition fieldContext_Cabinet_priceCents :: "gql_runtime \<Rightarrow> gql_field \<Rightarrow> string + field_context" where
  "fieldContext_Cabinet_priceCents rt f =
     Inr (rt_NewScalarFieldContext rt ''Cabinet'' False False ''field of type Int does not have child fields'')"
definition fieldContext_Cabinet_manufacturer :: "gql_runtime \<Rightarrow> gql_field \<Rightarrow> string + field_context" where
  "fieldContext_Cabinet_manufacturer rt f =
     Inr (rt_NewScalarFieldContext rt ''Cabinet'' False False ''field of type String does not have child fields'')"
definition fieldContext_Cabinet_year :: "gql_runtime \<Rightarrow> gql_field \<Rightarrow> string + field_context" where
  "fieldContext_Cabinet_year rt f =
     Inr (rt_NewScalarFieldContext rt ''Cabinet'' False False ''field of type String does not have child fields'')"
definition fieldContext_Cabinet_images :: "gql_runtime \<Rightarrow> gql_field \<Rightarrow> string + field_context" where
  "fieldContext_Cabinet_images rt f = Inr (object_context ''Cabinet'' False False TCabinetImage)"
definition fieldContext_CabinetImage_id :: "gql_runtime \<Rightarrow> gql_field \<Rightarrow> string + field_context" where
  "fieldContext_CabinetImage_id rt f =
     Inr (rt_NewScalarFieldContext rt ''CabinetImage'' False False ''field of type ID does not have child fields'')"
definition fieldContext_CabinetImage_url :: "gql_runtime \<Rightarrow> gql_field \<Rightarrow> string + field_context" where
  "fieldContext_CabinetImage_url rt f =
     Inr (rt_NewScalarFieldContext rt ''CabinetImage'' False False ''field of type String does not have child fields'')"
definition fieldContext_CabinetImage_alt :: "gql_runtime \<Rightarrow> gql_field \<Rightarrow> string + field_context" where
  "fieldContext_CabinetImage_alt rt f =
     Inr (rt_NewScalarFieldContext rt ''CabinetImage'' False False ''field of type String does not have child fields'')"
definition fieldContext_CabinetImage_sortOrder :: "gql_runtime \<Rightarrow> gql_field \<Rightarrow> string + field_context" where
  "fieldContext_CabinetImage_sortOrder rt f =
     Inr (rt_NewScalarFieldContext rt ''CabinetImage'' False False ''field of type Int does not have child fields'')"
definition fieldContext_Mutation_createOrder :: "gql_runtime \<Rightarrow> gql_field \<Rightarrow> string + field_context" where
  "fieldContext_Mutation_createOrder rt f = with_args rt (object_context ''Mutation'' True True TOrder)
     (map_option (map_sum id InputArg) (field_Mutation_createOrder_args rt (fld_args f)))"
definition fieldContext_Order_id :: "gql_runtime \<Rightarrow> gql_field \<Rightarrow> string + field_context" where
  "fieldContext_Order_id rt f =
     Inr (rt_NewScalarFieldContext rt ''Order'' False False ''field of type ID does not have child fields'')"
definition fieldContext_Order_userId :: "gql_runtime \<Rightarrow> gql_field \<Rightarrow> string + field_context" where
  "fieldContext_Order_userId rt f =
     Inr (rt_NewScalarFieldContext rt ''Order'' False False ''field of type ID does not have child fields'')"
definition fieldContext_Order_status :: "gql_runtime \<Rightarrow> gql_field \<Rightarrow> string + field_context" where
  "fieldContext_Order_status rt f =
     Inr (rt_NewScalarFieldContext rt ''Order'' False False ''field of type String does not have child fields'')"
definition fieldContext_Order_totalCents :: "gql_runtime \<Rightarrow> gql_field \<Rightarrow> string + field_context" where
  "fieldContext_Order_totalCents rt f =
     Inr (rt_NewScalarFieldContext rt ''Order'' False False ''field of type Int does not have child fields'')"
definition fieldContext_Order_idempotencyKey :: "gql_runtime \<Rightarrow> gql_field \<Rightarrow> string + field_context" where
  "fieldContext_Order_idempotencyKey rt f =
     Inr (rt_NewScalarFieldContext rt ''Order'' False False ''field of type String does not have child fields'')"
definition fieldContext_Order_items :: "gql_runtime \<Rightarrow> gql_field \<Rightarrow> string + field_context" where
  "fieldContext_Order_items rt f = Inr (object_context ''Order'' False False TOrderLine)"
definition fieldContext_OrderLine_cabinetId :: "gql_runtime \<Rightarrow> gql_field \<Rightarrow> string + field_context" where
  "fieldContext_OrderLine_cabinetId rt f =
     Inr (rt_NewScalarFieldContext rt ''OrderLine'' False False ''field of type ID does not have child fields'')"
definition fieldContext_OrderLine_quantity :: "gql_runtime \<Rightarrow> gql_field \<Rightarrow> string + field_context" where
  "fieldContext_OrderLine_quantity rt f =
     Inr (rt_NewScalarFieldContext rt ''OrderLine'' False False ''field of type Int does not have child fields'')"
definition fieldContext_OrderLine_unitPriceCents :: "gql_runtime \<Rightarrow> gql_field \<Rightarrow> string + field_context" where
  "fieldContext_OrderLine_unitPriceCents rt f =
     Inr (rt_NewScalarFieldContext rt ''OrderLine'' False False ''field of type Int does not have child fields'')"
definition fieldContext_Query_cabinets :: "gql_runtime \<Rightarrow> gql_field \<Rightarrow> string + field_context" where
  "fieldContext_Query_cabinets rt f = Inr (object_context ''Query'' True True TCabinet)"
definition fieldContext_Query_cabinet :: "gql_runtime \<Rightarrow> gql_field \<Rightarrow> string + field_context" where
  "fieldContext_Query_cabinet rt f = with_args rt (object_context ''Query'' True True TCabinet)
     (Some (map_sum id IdArg (field_Query_cabinet_args rt (fld_args f))))"
definition fieldContext_Query_order :: "gql_runtime \<Rightarrow> gql_field \<Rightarrow> string + field_context" where
  "fieldContext_Query_order rt f = with_args rt (object_context ''Query'' True True TOrder)
     (Some (map_sum id IdArg (field_Query_order_args rt (fld_args f))))"
definition fieldContext_Query_Intro_type :: "gql_runtime \<Rightarrow> gql_field \<Rightarrow> string + field_context" where
  "fieldContext_Query_Intro_type rt f = with_args rt (object_context ''Query'' True False TType)
     (Some (map_sum id NameArg (field_Query_Intro_type_args rt (fld_args f))))"
definition fieldContext_Query_Intro_schema :: "gql_runtime \<Rightarrow> gql_field \<Rightarrow> string + field_context" where
  "fieldContext_Query_Intro_schema rt f = Inr (object_context ''Query'' True False TSchema)"
definition fieldContext_Intro_Directive_name :: "gql_runtime \<Rightarrow> gql_field \<Rightarrow> string + field_context" where
  "fieldContext_Intro_Directive_name rt f =
     Inr (rt_NewScalarFieldContext rt ''__Directive'' False False ''field of type String does not have child fields'')"
definition fieldContext_Intro_Directive_description :: "gql_runtime \<Rightarrow> gql_field \<Rightarrow> string + field_context" where
  "fieldContext_Intro_Directive_description rt f =
     Inr (rt_NewScalarFieldContext rt ''__Directive'' True False ''field of type String does not have child fields'')"
definition fieldContext_Intro_Directive_isRepeatable :: "gql_runtime \<Rightarrow> gql_field \<Rightarrow> string + field_context" where
  "fieldContext_Intro_Directive_isRepeatable rt f =
     Inr (rt_NewScalarFieldContext rt ''__Directive'' False False ''field of type Boolean does not have child fields'')"
definition fieldContext_Intro_Directive_locations :: "gql_runtime \<Rightarrow> gql_field \<Rightarrow> string + field_context" where
  "fieldContext_Intro_Directive_locations rt f =
     Inr (rt_NewScalarFieldContext rt ''__Directive'' False False ''field of type __DirectiveLocation does not have child fields'')"
definition fieldContext_Intro_Directive_args :: "gql_runtime \<Rightarrow> gql_field \<Rightarrow> string + field_context" where
  "fieldContext_Intro_Directive_args rt f = with_args rt (object_context ''__Directive'' False False TInputValue)
     (Some (map_sum id OptBoolArg (field_Intro_Directive_args_args rt (fld_args f))))"
definition fieldContext_Intro_EnumValue_name :: "gql_runtime \<Rightarrow> gql_field \<Rightarrow> string + field_context" where
  "fieldContext_Intro_EnumValue_name rt f =
     Inr (rt_NewScalarFieldContext rt ''__EnumValue'' False False ''field of type String does not have child fields'')"
definition fieldContext_Intro_EnumValue_description :: "gql_runtime \<Rightarrow> gql_field \<Rightarrow> string + field_context" where
  "fieldContext_Intro_EnumValue_description rt f =
     Inr (rt_NewScalarFieldContext rt ''__EnumValue'' True False ''field of type String does not have child fields'')"
definition fieldContext_Intro_EnumValue_isDeprecated :: "gql_runtime \<Rightarrow> gql_field \<Rightarrow> string + field_context" where
  "fieldContext_Intro_EnumValue_isDeprecated rt f =
     Inr (rt_NewScalarFieldContext rt ''__EnumValue'' True False ''field of type Boolean does not have child fields'')"
definition fieldContext_Intro_EnumValue_deprecationReason :: "gql_runtime \<Rightarrow> gql_field \<Rightarrow> string + field_context" where
  "fieldContext_Intro_EnumValue_deprecationReason rt f =
     Inr (rt_NewScalarFieldContext rt ''__EnumValue'' True False ''field of type String does not have child fields'')"
definition fieldContext_Intro_Field_name :: "gql_runtime \<Rightarrow> gql_field \<Rightarrow> string + field_context" where
  "fieldContext_Intro_Field_name rt f =
     Inr (rt_NewScalarFieldContext rt ''__Field'' False False ''field of type String does not have child fields'')"
definition fieldContext_Intro_Field_description :: "gql_runtime \<Rightarrow> gql_field \<Rightarrow> string + field_context" where
  "fieldContext_Intro_Field_description rt f =
     Inr (rt_NewScalarFieldContext rt ''__Field'' True False ''field of type String does not have child fields'')"
definition fieldContext_Intro_Field_args :: "gql_runtime \<Rightarrow> gql_field \<Rightarrow> string + field_context" where
  "fieldContext_Intro_Field_args rt f = with_args rt (object_context ''__Field'' False False TInputValue)
     (Some (map_sum id OptBoolArg (field_Intro_Field_args_args rt (fld_args f))))"
definition fieldContext_Intro_Field_type :: "gql_runtime \<Rightarrow> gql_field \<Rightarrow> string + field_context" where
  "fieldContext_Intro_Field_type rt f = Inr (object_context ''__Field'' False False TType)"
definition fieldContext_Intro_Field_isDeprecated :: "gql_runtime \<Rightarrow> gql_field \<Rightarrow> string + field_context" where
  "fieldContext_Intro_Field_isDeprecated rt f =
     Inr (rt_NewScalarFieldContext rt ''__Field'' True False ''field of type Boolean does not have child fields'')"
definition fieldContext_Intro_Field_deprecationReason :: "gql_runtime \<Rightarrow> gql_field \<Rightarrow> string + field_context" where
  "fieldContext_Intro_Field_deprecationReason rt f =
     Inr (rt_NewScalarFieldContext rt ''__Field'' True False ''field of type String does not have child fields'')"
definition fieldContext_Intro_InputValue_name :: "gql_runtime \<Rightarrow> gql_field \<Rightarrow> string + field_context" where
  "fieldContext_Intro_InputValue_name rt f =
     Inr (rt_NewScalarFieldContext rt ''__InputValue'' False False ''field of type String does not have child fields'')"
definition fieldContext_Intro_InputValue_description :: "gql_runtime \<Rightarrow> gql_field \<Rightarrow> string + field_context" where
  "fieldContext_Intro_InputValue_description rt f =
     Inr (rt_NewScalarFieldContext rt ''__InputValue'' True False ''field of type String does not have child fields'')"
definition fieldContext_Intro_InputValue_type :: "gql_runtime \<Rightarrow> gql_field \<Rightarrow> string + field_context" where
  "fieldContext_Intro_InputValue_type rt f = Inr (object_context ''__InputValue'' False False TType)"
definition fieldContext_Intro_InputValue_defaultValue :: "gql_runtime \<Rightarrow> gql_field \<Rightarrow> string + field_context" where
  "fieldContext_Intro_InputValue_defaultValue rt f =
     Inr (rt_NewScalarFieldContext rt ''__InputValue'' False False ''field of type String does not have child fields'')"
definition fieldContext_Intro_InputValue_isDeprecated :: "gql_runtime \<Rightarrow> gql_field \<Rightarrow> string + field_context" where
  "fieldContext_Intro_InputValue_isDeprecated rt f =
     Inr (rt_NewScalarFieldContext rt ''__InputValue'' True False ''field of type Boolean does not have child fields'')"
definition fieldContext_Intro_InputValue_deprecationReason :: "gql_runtime \<Rightarrow> gql_field \<Rightarrow> string + field_context" where
  "fieldContext_Intro_InputValue_deprecationReason rt f =
     Inr (rt_NewScalarFieldContext rt ''__InputValue'' True False ''field of type String does not have child fields'')"
definition fieldContext_Intro_Schema_description :: "gql_runtime \<Rightarrow> gql_field \<Rightarrow> string + field_context" where
  "fieldContext_Intro_Schema_description rt f =
     Inr (rt_NewScalarFieldContext rt ''__Schema'' True False ''field of type String does not have child fields'')"
definition fieldContext_Intro_Schema_types :: "gql_runtime \<Rightarrow> gql_field \<Rightarrow> string + field_context" where
  "fieldContext_Intro_Schema_types rt f = Inr (object_context ''__Schema'' True False TType)"
definition fieldContext_Intro_Schema_queryType :: "gql_runtime \<Rightarrow> gql_field \<Rightarrow> string + field_context" where
  "fieldContext_Intro_Schema_queryType rt f = Inr (object_context ''__Schema'' True False TType)"
definition fieldContext_Intro_Schema_mutationType :: "gql_runtime \<Rightarrow> gql_field \<Rightarrow> string + field_context" where
  "fieldContext_Intro_Schema_mutationType rt f = Inr (object_context ''__Schema'' True False TType)"
definition fieldContext_Intro_Schema_subscriptionType :: "gql_runtime \<Rightarrow> gql_field \<Rightarrow> string + field_context" where
  "fieldContext_Intro_Schema_subscriptionType rt f = Inr (object_context ''__Schema'' True False TType)"
definition fieldContext_Intro_Schema_directives :: "gql_runtime \<Rightarrow> gql_field \<Rightarrow> string + field_context" where
  "fieldContext_Intro_Schema_directives rt f = Inr (object_context ''__Schema'' True False TDirective)"
definition fieldContext_Intro_Type_kind :: "gql_runtime \<Rightarrow> gql_field \<Rightarrow> string + field_context" where
  "fieldContext_Intro_Type_kind rt f =
     Inr (rt_NewScalarFieldContext rt ''__Type'' True False ''field of type __TypeKind does not have child fields'')"
definition fieldContext_Intro_Type_name :: "gql_runtime \<Rightarrow> gql_field \<Rightarrow> string + field_context" where
  "fieldContext_Intro_Type_name rt f =
     Inr (rt_NewScalarFieldContext rt ''__Type'' True False ''field of type String does not have child fields'')"
definition fieldContext_Intro_Type_description :: "gql_runtime \<Rightarrow> gql_field \<Rightarrow> string + field_context" where
  "fieldContext_Intro_Type_description rt f =
     Inr (rt_NewScalarFieldContext rt ''__Type'' True False ''field of type String does not have child fields'')"
definition fieldContext_Intro_Type_specifiedByURL :: "gql_runtime \<Rightarrow> gql_field \<Rightarrow> string + field_context" where
  "fieldContext_Intro_Type_specifiedByURL rt f =
     Inr (rt_NewScalarFieldContext rt ''__Type'' True False ''field of type String does not have child fields'')"
definition fieldContext_Intro_Type_fields :: "gql_runtime \<Rightarrow> gql_field \<Rightarrow> string + field_context" where
  "fieldContext_Intro_Type_fields rt f = with_args rt (object_context ''__Type'' True False TField)
     (Some (map_sum id BoolArg (field_Intro_Type_fields_args rt (fld_args f))))"
definition fieldContext_Intro_Type_interfaces :: "gql_runtime \<Rightarrow> gql_field \<Rightarrow> string + field_context" where
  "fieldContext_Intro_Type_interfaces rt f = Inr (object_context ''__Type'' True False TType)"
definition fieldContext_Intro_Type_possibleTypes :: "gql_runtime \<Rightarrow> gql_field \<Rightarrow> string + field_context" where
  "fieldContext_Intro_Type_possibleTypes rt f = Inr (object_context ''__Type'' True False TType)"
definition fieldContext_Intro_Type_enumValues :: "gql_runtime \<Rightarrow> gql_field \<Rightarrow> string + field_context" where
  "fieldContext_Intro_Type_enumValues rt f = with_args rt (object_context ''__Type'' True False TEnumValue)
     (Some (map_sum id BoolArg (field_Intro_Type_enumValues_args rt (fld_args f))))"
definition fieldContext_Intro_Type_inputFields :: "gql_runtime \<Rightarrow> gql_field \<Rightarrow> string + field_context" where
  "fieldContext_Intro_Type_inputFields rt f = Inr (object_context ''__Type'' True False TInputValue)"
definition fieldContext_Intro_Type_ofType :: "gql_runtime \<Rightarrow> gql_field \<Rightarrow> string + field_context" where
  "fieldContext_Intro_Type_ofType rt f = Inr (object_context ''__Type'' True False TType)"
definition fieldContext_Intro_Type_isOneOf :: "gql_runtime \<Rightarrow> gql_field \<Rightarrow> string + field_context" where
  "fieldContext_Intro_Type_isOneOf rt f =
     Inr (rt_NewScalarFieldContext rt ''__Type'' True False ''field of type Boolean does not have child fields'')"

lemmas context_defs =
  fieldContext_Cabinet_id_def fieldContext_Cabinet_slug_def fieldContext_Cabinet_model_def
  fieldContext_Cabinet_type_def fieldContext_Cabinet_display_def
  fieldContext_Cabinet_condition_def fieldContext_Cabinet_quantity_def
  fieldContext_Cabinet_priceCents_def fieldContext_Cabinet_manufacturer_def
  fieldContext_Cabinet_year_def fieldContext_Cabinet_images_def fieldContext_CabinetImage_id_def
  fieldContext_CabinetImage_url_def fieldContext_CabinetImage_alt_def
  fieldContext_CabinetImage_sortOrder_def fieldContext_Mutation_createOrder_def
  fieldContext_Order_id_def fieldContext_Order_userId_def fieldContext_Order_status_def
  fieldContext_Order_totalCents_def fieldContext_Order_idempotencyKey_def
  fieldContext_Order_items_def fieldContext_OrderLine_cabinetId_def
  fieldContext_OrderLine_quantity_def fieldContext_OrderLine_unitPriceCents_def
  fieldContext_Query_cabinets_def fieldContext_Query_cabinet_def fieldContext_Query_order_def
  fieldContext_Query_Intro_type_def fieldContext_Query_Intro_schema_def
  fieldContext_Intro_Directive_name_def fieldContext_Intro_Directive_description_def
  fieldContext_Intro_Directive_isRepeatable_def fieldContext_Intro_Directive_locations_def
  fieldContext_Intro_Directive_args_def fieldContext_Intro_EnumValue_name_def
  fieldContext_Intro_EnumValue_description_def fieldContext_Intro_EnumValue_isDeprecated_def
  fieldContext_Intro_EnumValue_deprecationReason_def fieldContext_Intro_Field_name_def
  fieldContext_Intro_Field_description_def fieldContext_Intro_Field_args_def
  fieldContext_Intro_Field_type_def fieldContext_Intro_Field_isDeprecated_def
  fieldContext_Intro_Field_deprecationReason_def fieldContext_Intro_InputValue_name_def
  fieldContext_Intro_InputValue_description_def fieldContext_Intro_InputValue_type_def
  fieldContext_Intro_InputValue_defaultValue_def fieldContext_Intro_InputValue_isDeprecated_def
  fieldContext_Intro_InputValue_deprecationReason_def fieldContext_Intro_Schema_description_def
  fieldContext_Intro_Schema_types_def fieldContext_Intro_Schema_queryType_def
  fieldContext_Intro_Schema_mutationType_def fieldContext_Intro_Schema_subscriptionType_def
  fieldContext_Intro_Schema_directives_def fieldContext_Intro_Type_kind_def
  fieldContext_Intro_Type_name_def fieldContext_Intro_Type_description_def
  fieldContext_Intro_Type_specifiedByURL_def fieldContext_Intro_Type_fields_def
  fieldContext_Intro_Type_interfaces_def fieldContext_Intro_Type_possibleTypes_def
  fieldContext_Intro_Type_enumValues_def fieldContext_Intro_Type_inputFields_def
  fieldContext_Intro_Type_ofType_def fieldContext_Intro_Type_isOneOf_def

section \<open>Child fields\<close>

definition childFields_Cabinet :: "gql_runtime \<Rightarrow> gql_field \<Rightarrow> string + field_context" where
  "childFields_Cabinet rt f =
     (if fld_name f = ''id'' then fieldContext_Cabinet_id rt f
      else if fld_name f = ''slug'' then fieldContext_Cabinet_slug rt f
      else if fld_name f = ''model'' then fieldContext_Cabinet_model rt f
      else if fld_name f = ''type'' then fieldContext_Cabinet_type rt f
      else if fld_name f = ''display'' then fieldContext_Cabinet_display rt f
      else if fld_name f = ''condition'' then fieldContext_Cabinet_condition rt f
      else if fld_name f = ''quantity'' then fieldContext_Cabinet_quantity rt f
      else if fld_name f = ''priceCents'' then fieldContext_Cabinet_priceCents rt f
      else if fld_name f = ''manufacturer'' then fieldContext_Cabinet_manufacturer rt f
      else if fld_name f = ''year'' then fieldContext_Cabinet_year rt f
      else if fld_name f = ''images'' then fieldContext_Cabinet_images rt f
      else Inl (no_field (fld_name f) ''Cabinet''))"

definition childFields_CabinetImage :: "gql_runtime \<Rightarrow> gql_field \<Rightarrow> string + field_context" where
  "childFields_CabinetImage rt f =
     (if fld_name f = ''id'' then fieldContext_CabinetImage_id rt f
      else if fld_name f = ''url'' then fieldContext_CabinetImage_url rt f
      else if fld_name f = ''alt'' then fieldContext_CabinetImage_alt rt f
      else if fld_name f = ''sortOrder'' then fieldContext_CabinetImage_sortOrder rt f
      else Inl (no_field (fld_name f) ''CabinetImage''))"

definition childFields_Order :: "gql_runtime \<Rightarrow> gql_field \<Rightarrow> string + field_context" where
  "childFields_Order rt f =
     (if fld_name f = ''id'' then fieldContext_Order_id rt f
      else if fld_name f = ''userId'' then fieldContext_Order_userId rt f
      else if fld_name f = ''status'' then fieldContext_Order_status rt f
      else if fld_name f = ''totalCents'' then fieldContext_Order_totalCents rt f
      else if fld_name f = ''idempotencyKey'' then fieldContext_Order_idempotencyKey rt f
      else if fld_name f = ''items'' then fieldContext_Order_items rt f
      else Inl (no_field (fld_name f) ''Order''))"

definition childFields_OrderLine :: "gql_runtime \<Rightarrow> gql_field \<Rightarrow> string + field_context" where
  "childFields_OrderLine rt f =
     (if fld_name f = ''cabinetId'' then fieldContext_OrderLine_cabinetId rt f
      else if fld_name f = ''quantity'' then fieldContext_OrderLine_quantity rt f
      else if fld_name f = ''unitPriceCents'' then fieldContext_OrderLine_unitPriceCents rt f
      else Inl (no_field (fld_name f) ''OrderLine''))"

definition childFields_Intro_Directive :: "gql_runtime \<Rightarrow> gql_field \<Rightarrow> string + field_context" where
  "childFields_Intro_Directive rt f =
     (if fld_name f = ''name'' then fieldContext_Intro_Directive_name rt f
      else if fld_name f = ''description'' then fieldContext_Intro_Directive_description rt f
      else if fld_name f = ''isRepeatable'' then fieldContext_Intro_Directive_isRepeatable rt f
      else if fld_name f = ''locations'' then fieldContext_Intro_Directive_locations rt f
      else if fld_name f = ''args'' then fieldContext_Intro_Directive_args rt f
      else Inl (no_field (fld_name f) ''__Directive''))"

definition childFields_Intro_EnumValue :: "gql_runtime \<Rightarrow> gql_field \<Rightarrow> string + field_context" where
  "childFields_Intro_EnumValue rt f =
     (if fld_name f = ''name'' then fieldContext_Intro_EnumValue_name rt f
      else if fld_name f = ''description'' then fieldContext_Intro_EnumValue_description rt f
      else if fld_name f = ''isDeprecated'' then fieldContext_Intro_EnumValue_isDeprecated rt f
      else if fld_name f = ''deprecationReason'' then fieldContext_Intro_EnumValue_deprecationReason rt f
      else Inl (no_field (fld_name f) ''__EnumValue''))"

definition childFields_Intro_Field :: "gql_runtime \<Rightarrow> gql_field \<Rightarrow> string + field_context" where
  "childFields_Intro_Field rt f =
     (if fld_name f = ''name'' then fieldContext_Intro_Field_name rt f
      else if fld_name f = ''description'' then fieldContext_Intro_Field_description rt f
      else if fld_name f = ''args'' then fieldContext_Intro_Field_args rt f
      else if fld_name f = ''type'' then fieldContext_Intro_Field_type rt f
      else if fld_name f = ''isDeprecated'' then fieldContext_Intro_Field_isDeprecated rt f
      else if fld_name f = ''deprecationReason'' then fieldContext_Intro_Field_deprecationReason rt f
      else Inl (no_field (fld_name f) ''__Field''))"

definition childFields_Intro_InputValue :: "gql_runtime \<Rightarrow> gql_field \<Rightarrow> string + field_context" where
  "childFields_Intro_InputValue rt f =
     (if fld_name f = ''name'' then fieldContext_Intro_InputValue_name rt f
      else if fld_name f = ''description'' then fieldContext_Intro_InputValue_description rt f
      else if fld_name f = ''type'' then fieldContext_Intro_InputValue_type rt f
      else if fld_name f = ''defaultValue'' then fieldContext_Intro_InputValue_defaultValue rt f
      else if fld_name f = ''isDeprecated'' then fieldContext_Intro_InputValue_isDeprecated rt f
      else if fld_name f = ''deprecationReason'' then fieldContext_Intro_InputValue_deprecationReason rt f
      else Inl (no_field (fld_name f) ''__InputValue''))"

definition childFields_Intro_Schema :: "gql_runtime \<Rightarrow> gql_field \<Rightarrow> string + field_context" where
  "childFields_Intro_Schema rt f =
     (if fld_name f = ''description'' then fieldContext_Intro_Schema_description rt f
      else if fld_name f = ''types'' then fieldContext_Intro_Schema_types rt f
      else if fld_name f = ''queryType'' then fieldContext_Intro_Schema_queryType rt f
      else if fld_name f = ''mutationType'' then fieldContext_Intro_Schema_mutationType rt f
      else if fld_name f = ''subscriptionType'' then fieldContext_Intro_Schema_subscriptionType rt f
      else if fld_name f = ''directives'' then fieldContext_Intro_Schema_directives rt f
      else Inl (no_field (fld_name f) ''__Schema''))"

definition childFields_Intro_Type :: "gql_runtime \<Rightarrow> gql_field \<Rightarrow> string + field_context" where
  "childFields_Intro_Type rt f =
     (if fld_name f = ''kind'' then fieldContext_Intro_Type_kind rt f
      else if fld_name f = ''name'' then fieldContext_Intro_Type_name rt f
      else if fld_name f = ''description'' then fieldContext_Intro_Type_description rt f
      else if fld_name f = ''specifiedByURL'' then fieldContext_Intro_Type_specifiedByURL rt f
      else if fld_name f = ''fields'' then fieldContext_Intro_Type_fields rt f
      else if fld_name f = ''interfaces'' then fieldContext_Intro_Type_interfaces rt f
      else if fld_name f = ''possibleTypes'' then fieldContext_Intro_Type_possibleTypes rt f
      else if fld_name f = ''enumValues'' then fieldContext_Intro_Type_enumValues rt f
      else if fld_name f = ''inputFields'' then fieldContext_Intro_Type_inputFields rt f
      else if fld_name f = ''ofType'' then fieldContext_Intro_Type_ofType rt f
      else if fld_name f = ''isOneOf'' then fieldContext_Intro_Type_isOneOf rt f
      else Inl (no_field (fld_name f) ''__Type''))"

lemmas child_defs =
  childFields_Cabinet_def
  childFields_CabinetImage_def
  childFields_Order_def
  childFields_OrderLine_def
  childFields_Intro_Directive_def
  childFields_Intro_EnumValue_def
  childFields_Intro_Field_def
  childFields_Intro_InputValue_def
  childFields_Intro_Schema_def
  childFields_Intro_Type_def

primrec childFields :: "object_type \<Rightarrow> gql_runtime \<Rightarrow> gql_field \<Rightarrow> string + field_context" where
  "childFields TCabinet = childFields_Cabinet"
| "childFields TCabinetImage = childFields_CabinetImage"
| "childFields TOrder = childFields_Order"
| "childFields TOrderLine = childFields_OrderLine"
| "childFields TDirective = childFields_Intro_Directive"
| "childFields TEnumValue = childFields_Intro_EnumValue"
| "childFields TField = childFields_Intro_Field"
| "childFields TInputValue = childFields_Intro_InputValue"
| "childFields TSchema = childFields_Intro_Schema"
| "childFields TType = childFields_Intro_Type"

primrec type_name :: "object_type \<Rightarrow> string" where
  "type_name TCabinet = ''Cabinet''"
| "type_name TCabinetImage = ''CabinetImage''"
| "type_name TOrder = ''Order''"
| "type_name TOrderLine = ''OrderLine''"
| "type_name TDirective = ''__Directive''"
| "type_name TEnumValue = ''__EnumValue''"
| "type_name TField = ''__Field''"
| "type_name TInputValue = ''__InputValue''"
| "type_name TSchema = ''__Schema''"
| "type_name TType = ''__Type''"

section \<open>The schema\<close>

datatype gql_type = NonNull gql_type | ListOf gql_type | Named string

primrec base_type :: "gql_type \<Rightarrow> string" where
  "base_type (NonNull t) = base_type t"
| "base_type (ListOf t) = base_type t"
| "base_type (Named n) = n"

text \<open>The object types of the schema with the types of their fields.\<close>

definition schema_types :: "(string \<times> (string \<times> gql_type) list) list" where
  "schema_types =
     [(''Cabinet'',
        [(''id'', NonNull (Named ''ID'')),
         (''slug'', NonNull (Named ''String'')),
         (''model'', NonNull (Named ''String'')),
         (''type'', NonNull (Named ''String'')),
         (''display'', NonNull (Named ''String'')),
         (''condition'', NonNull (Named ''String'')),
         (''quantity'', NonNull (Named ''Int'')),
         (''priceCents'', NonNull (Named ''Int'')),
         (''manufacturer'', NonNull (Named ''String'')),
         (''year'', NonNull (Named ''String'')),
         (''images'', NonNull (ListOf (NonNull (Named ''CabinetImage''))))]),
      (''CabinetImage'',
        [(''id'', NonNull (Named ''ID'')),
         (''url'', NonNull (Named ''String'')),
         (''alt'', NonNull (Named ''String'')),
         (''sortOrder'', NonNull (Named ''Int''))]),
      (''Order'',
        [(''id'', NonNull (Named ''ID'')),
         (''userId'', NonNull (Named ''ID'')),
         (''status'', NonNull (Named ''String'')),
         (''totalCents'', NonNull (Named ''Int'')),
         (''idempotencyKey'', NonNull (Named ''String'')),
         (''items'', NonNull (ListOf (NonNull (Named ''OrderLine''))))]),
      (''OrderLine'',
        [(''cabinetId'', NonNull (Named ''ID'')),
         (''quantity'', NonNull (Named ''Int'')),
         (''unitPriceCents'', NonNull (Named ''Int''))]),
      (''Query'',
        [(''cabinets'', NonNull (ListOf (NonNull (Named ''Cabinet'')))),
         (''cabinet'', NonNull (Named ''Cabinet'')),
         (''order'', NonNull (Named ''Order''))]),
      (''Mutation'',
        [(''createOrder'', NonNull (Named ''Order''))])]"

end
