(* ===== verification/Graphql_Introspection.thy ===== *)
theory Graphql_Introspection
  imports Graphql_Context
begin

text \<open>
  Introspection in the generated executor (\<open>___Schema\<close>, \<open>___Type\<close> and the rest of
  \<open>internal/gateway/graph/generated.go\<close>).  The introspection types belong to gqlgen: they are
  type variables, and their methods and fields the parameter \<open>introspection\<close>.  The executor
  follows the selection, so it ends although types refer to each other in circles.
\<close>

section \<open>The introspection library\<close>

record ('sc, 'ty, 'fd, 'iv, 'ev, 'di) introspection =
  in_IntrospectSchema :: "string + 'sc option"
  in_IntrospectType :: "string \<Rightarrow> string + 'ty option"
  dir_Name :: "'di \<Rightarrow> string"
  dir_Description :: "'di \<Rightarrow> string option"
  dir_IsRepeatable :: "'di \<Rightarrow> bool"
  dir_Locations :: "'di \<Rightarrow> string list"
  dir_Args :: "'di \<Rightarrow> 'iv list"
  enm_Name :: "'ev \<Rightarrow> string"
  enm_Description :: "'ev \<Rightarrow> string option"
  enm_IsDeprecated :: "'ev \<Rightarrow> bool"
  enm_DeprecationReason :: "'ev \<Rightarrow> string option"
  fdf_Name :: "'fd \<Rightarrow> string"
  fdf_Description :: "'fd \<Rightarrow> string option"
  fdf_Args :: "'fd \<Rightarrow> 'iv list"
  fdf_Type :: "'fd \<Rightarrow> 'ty option"
  fdf_IsDeprecated :: "'fd \<Rightarrow> bool"
  fdf_DeprecationReason :: "'fd \<Rightarrow> string option"
  inv_Name :: "'iv \<Rightarrow> string"
  inv_Description :: "'iv \<Rightarrow> string option"
  inv_Type :: "'iv \<Rightarrow> 'ty option"
  inv_DefaultValue :: "'iv \<Rightarrow> string option"
  inv_IsDeprecated :: "'iv \<Rightarrow> bool"
  inv_DeprecationReason :: "'iv \<Rightarrow> string option"
  sch_Description :: "'sc \<Rightarrow> string option"
  sch_Types :: "'sc \<Rightarrow> 'ty list"
  sch_QueryType :: "'sc \<Rightarrow> 'ty option"
  sch_MutationType :: "'sc \<Rightarrow> 'ty option"
  sch_SubscriptionType :: "'sc \<Rightarrow> 'ty option"
  sch_Directives :: "'sc \<Rightarrow> 'di list"
  typ_Kind :: "'ty \<Rightarrow> string"
  typ_Name :: "'ty \<Rightarrow> string option"
  typ_Description :: "'ty \<Rightarrow> string option"
  typ_SpecifiedByURL :: "'ty \<Rightarrow> string option"
  typ_Fields :: "'ty \<Rightarrow> bool \<Rightarrow> 'fd list option"
  typ_Interfaces :: "'ty \<Rightarrow> 'ty list option"
  typ_PossibleTypes :: "'ty \<Rightarrow> 'ty list option"
  typ_EnumValues :: "'ty \<Rightarrow> bool \<Rightarrow> 'ev list option"
  typ_InputFields :: "'ty \<Rightarrow> 'iv list option"
  typ_OfType :: "'ty \<Rightarrow> 'ty option"
  typ_IsOneOf :: "'ty \<Rightarrow> bool"

text \<open>The values that have fields.\<close>

datatype ('sc, 'ty, 'fd, 'iv, 'ev, 'di) node = NSchema 'sc | NType 'ty | NField 'fd | NInputValue 'iv
  | NEnumValue 'ev | NDirective 'di

type_synonym ('sc, 'ty, 'fd, 'iv, 'ev, 'di) child_exec =
  "('sc, 'ty, 'fd, 'iv, 'ev, 'di) node \<Rightarrow> marshalled option"

section \<open>Scalars and lists\<close>

definition marshalOString :: "gql_runtime \<Rightarrow> string option \<Rightarrow> marshalled" where
  "marshalOString rt v = (case v of None \<Rightarrow> (GNull, []) | Some x \<Rightarrow> (rt_MarshalString rt x, []))"

definition marshalNBoolean :: "gql_runtime \<Rightarrow> bool \<Rightarrow> marshalled" where
  "marshalNBoolean rt v = checked (rt_MarshalBoolean rt v)"

definition marshalOBoolean :: "gql_runtime \<Rightarrow> bool \<Rightarrow> marshalled" where
  "marshalOBoolean rt v = (rt_MarshalBoolean rt v, [])"

definition marshalOBoolean2pbool :: "gql_runtime \<Rightarrow> bool option \<Rightarrow> marshalled" where
  "marshalOBoolean2pbool rt v = (case v of None \<Rightarrow> (GNull, []) | Some b \<Rightarrow> (rt_MarshalBoolean rt b, []))"

definition marshalN_TypeKind :: "gql_runtime \<Rightarrow> string \<Rightarrow> marshalled" where
  "marshalN_TypeKind rt v = checked (rt_MarshalString rt v)"

definition marshalN_DirectiveLocation :: "gql_runtime \<Rightarrow> string \<Rightarrow> marshalled" where
  "marshalN_DirectiveLocation rt v = checked (rt_MarshalString rt v)"

definition marshalN_DirectiveLocations :: "gql_runtime \<Rightarrow> string list \<Rightarrow> marshalled option" where
  "marshalN_DirectiveLocations rt vs = list_out (marshal_all (\<lambda>v. Some (marshalN_DirectiveLocation rt v)) vs)"

text \<open>Objects and lists of them; \<open>ex\<close> executes a value on the selection of the field.\<close>

definition marshalN_Directive_value :: "('sc, 'ty, 'fd, 'iv, 'ev, 'di) child_exec \<Rightarrow> 'di
     \<Rightarrow> marshalled option" where
  "marshalN_Directive_value ex v = ex (NDirective v)"

definition marshalN_EnumValue_value :: "('sc, 'ty, 'fd, 'iv, 'ev, 'di) child_exec \<Rightarrow> 'ev
     \<Rightarrow> marshalled option" where
  "marshalN_EnumValue_value ex v = ex (NEnumValue v)"

definition marshalN_Field_value :: "('sc, 'ty, 'fd, 'iv, 'ev, 'di) child_exec \<Rightarrow> 'fd
     \<Rightarrow> marshalled option" where
  "marshalN_Field_value ex v = ex (NField v)"

definition marshalN_InputValue_value :: "('sc, 'ty, 'fd, 'iv, 'ev, 'di) child_exec \<Rightarrow> 'iv
     \<Rightarrow> marshalled option" where
  "marshalN_InputValue_value ex v = ex (NInputValue v)"

definition marshalN_Type_value :: "('sc, 'ty, 'fd, 'iv, 'ev, 'di) child_exec \<Rightarrow> 'ty
     \<Rightarrow> marshalled option" where
  "marshalN_Type_value ex v = ex (NType v)"

definition marshalN_Directives :: "('sc, 'ty, 'fd, 'iv, 'ev, 'di) child_exec \<Rightarrow> 'di list
     \<Rightarrow> marshalled option" where
  "marshalN_Directives ex vs = list_out (marshal_all (marshalN_Directive_value ex) vs)"

definition marshalN_InputValues :: "('sc, 'ty, 'fd, 'iv, 'ev, 'di) child_exec \<Rightarrow> 'iv list
     \<Rightarrow> marshalled option" where
  "marshalN_InputValues ex vs = list_out (marshal_all (marshalN_InputValue_value ex) vs)"

definition marshalN_Types :: "('sc, 'ty, 'fd, 'iv, 'ev, 'di) child_exec \<Rightarrow> 'ty list
     \<Rightarrow> marshalled option" where
  "marshalN_Types ex vs = list_out (marshal_all (marshalN_Type_value ex) vs)"

definition marshalN_Type :: "('sc, 'ty, 'fd, 'iv, 'ev, 'di) child_exec \<Rightarrow> 'ty option
     \<Rightarrow> marshalled option" where
  "marshalN_Type ex v =
     (case v of None \<Rightarrow> Some (GNull, [null_error]) | Some x \<Rightarrow> ex (NType x))"

definition marshalO_EnumValues :: "('sc, 'ty, 'fd, 'iv, 'ev, 'di) child_exec \<Rightarrow> 'ev list option
     \<Rightarrow> marshalled option" where
  "marshalO_EnumValues ex v =
     (case v of None \<Rightarrow> Some (GNull, []) | Some vs \<Rightarrow> list_out (marshal_all (marshalN_EnumValue_value ex) vs))"

definition marshalO_Fields :: "('sc, 'ty, 'fd, 'iv, 'ev, 'di) child_exec \<Rightarrow> 'fd list option
     \<Rightarrow> marshalled option" where
  "marshalO_Fields ex v =
     (case v of None \<Rightarrow> Some (GNull, []) | Some vs \<Rightarrow> list_out (marshal_all (marshalN_Field_value ex) vs))"

definition marshalO_InputValues :: "('sc, 'ty, 'fd, 'iv, 'ev, 'di) child_exec \<Rightarrow> 'iv list option
     \<Rightarrow> marshalled option" where
  "marshalO_InputValues ex v =
     (case v of None \<Rightarrow> Some (GNull, []) | Some vs \<Rightarrow> list_out (marshal_all (marshalN_InputValue_value ex) vs))"

definition marshalO_Types :: "('sc, 'ty, 'fd, 'iv, 'ev, 'di) child_exec \<Rightarrow> 'ty list option
     \<Rightarrow> marshalled option" where
  "marshalO_Types ex v =
     (case v of None \<Rightarrow> Some (GNull, []) | Some vs \<Rightarrow> list_out (marshal_all (marshalN_Type_value ex) vs))"

definition marshalO_Type :: "('sc, 'ty, 'fd, 'iv, 'ev, 'di) child_exec \<Rightarrow> 'ty option
     \<Rightarrow> marshalled option" where
  "marshalO_Type ex v =
     (case v of None \<Rightarrow> Some (GNull, []) | Some x \<Rightarrow> ex (NType x))"

definition marshalO_Schema :: "('sc, 'ty, 'fd, 'iv, 'ev, 'di) child_exec \<Rightarrow> 'sc option
     \<Rightarrow> marshalled option" where
  "marshalO_Schema ex v =
     (case v of None \<Rightarrow> Some (GNull, []) | Some x \<Rightarrow> ex (NSchema x))"

lemmas marshal_intro_defs = marshalOString_def marshalNBoolean_def marshalOBoolean_def marshalN_TypeKind_def
  marshalN_DirectiveLocation_def marshalN_DirectiveLocations_def

section \<open>Fields\<close>

text \<open>A field with arguments first needs its context.\<close>

definition in_context :: "string + field_context \<Rightarrow> (field_args \<Rightarrow> marshalled option)
     \<Rightarrow> marshalled option" where
  "in_context r k = (case r of Inl err \<Rightarrow> Some (GNull, [err]) | Inr fc \<Rightarrow> k (fc_Args fc))"

definition Directive_name_intro :: "gql_runtime \<Rightarrow> ('sc, 'ty, 'fd, 'iv, 'ev, 'di) introspection \<Rightarrow> 'di
     \<Rightarrow> marshalled option" where
  "Directive_name_intro rt I obj = Some (rt_ResolveField rt (Inr (marshalNString rt (dir_Name I obj))))"

definition Directive_description_intro :: "gql_runtime \<Rightarrow> ('sc, 'ty, 'fd, 'iv, 'ev, 'di) introspection \<Rightarrow> 'di
     \<Rightarrow> marshalled option" where
  "Directive_description_intro rt I obj =
     Some (rt_ResolveNullable rt (Inr (marshalOString rt (dir_Description I obj))))"

definition Directive_isRepeatable_intro :: "gql_runtime \<Rightarrow> ('sc, 'ty, 'fd, 'iv, 'ev, 'di) introspection \<Rightarrow> 'di
     \<Rightarrow> marshalled option" where
  "Directive_isRepeatable_intro rt I obj =
     Some (rt_ResolveField rt (Inr (marshalNBoolean rt (dir_IsRepeatable I obj))))"

definition Directive_locations_intro :: "gql_runtime \<Rightarrow> ('sc, 'ty, 'fd, 'iv, 'ev, 'di) introspection \<Rightarrow> 'di
     \<Rightarrow> marshalled option" where
  "Directive_locations_intro rt I obj =
     resolved rt (marshalN_DirectiveLocations rt (dir_Locations I obj))"

definition Directive_args_intro :: "gql_runtime \<Rightarrow> ('sc, 'ty, 'fd, 'iv, 'ev, 'di) introspection
     \<Rightarrow> ('sc, 'ty, 'fd, 'iv, 'ev, 'di) child_exec \<Rightarrow> gql_field \<Rightarrow> 'di
     \<Rightarrow> marshalled option" where
  "Directive_args_intro rt I ex f obj = in_context (fieldContext_Intro_Directive_args rt f)
     (\<lambda>_. resolved rt (marshalN_InputValues ex (dir_Args I obj)))"

definition EnumValue_name_intro :: "gql_runtime \<Rightarrow> ('sc, 'ty, 'fd, 'iv, 'ev, 'di) introspection \<Rightarrow> 'ev
     \<Rightarrow> marshalled option" where
  "EnumValue_name_intro rt I obj = Some (rt_ResolveField rt (Inr (marshalNString rt (enm_Name I obj))))"

definition EnumValue_description_intro :: "gql_runtime \<Rightarrow> ('sc, 'ty, 'fd, 'iv, 'ev, 'di) introspection \<Rightarrow> 'ev
     \<Rightarrow> marshalled option" where
  "EnumValue_description_intro rt I obj =
     Some (rt_ResolveNullable rt (Inr (marshalOString rt (enm_Description I obj))))"

definition EnumValue_isDeprecated_intro :: "gql_runtime \<Rightarrow> ('sc, 'ty, 'fd, 'iv, 'ev, 'di) introspection \<Rightarrow> 'ev
     \<Rightarrow> marshalled option" where
  "EnumValue_isDeprecated_intro rt I obj =
     Some (rt_ResolveField rt (Inr (marshalNBoolean rt (enm_IsDeprecated I obj))))"

definition EnumValue_deprecationReason_intro :: "gql_runtime \<Rightarrow> ('sc, 'ty, 'fd, 'iv, 'ev, 'di) introspection \<Rightarrow> 'ev
     \<Rightarrow> marshalled option" where
  "EnumValue_deprecationReason_intro rt I obj =
     Some (rt_ResolveNullable rt (Inr (marshalOString rt (enm_DeprecationReason I obj))))"

definition Field_name_intro :: "gql_runtime \<Rightarrow> ('sc, 'ty, 'fd, 'iv, 'ev, 'di) introspection \<Rightarrow> 'fd
     \<Rightarrow> marshalled option" where
  "Field_name_intro rt I obj = Some (rt_ResolveField rt (Inr (marshalNString rt (fdf_Name I obj))))"

definition Field_description_intro :: "gql_runtime \<Rightarrow> ('sc, 'ty, 'fd, 'iv, 'ev, 'di) introspection \<Rightarrow> 'fd
     \<Rightarrow> marshalled option" where
  "Field_description_intro rt I obj =
     Some (rt_ResolveNullable rt (Inr (marshalOString rt (fdf_Description I obj))))"

definition Field_args_intro :: "gql_runtime \<Rightarrow> ('sc, 'ty, 'fd, 'iv, 'ev, 'di) introspection
     \<Rightarrow> ('sc, 'ty, 'fd, 'iv, 'ev, 'di) child_exec \<Rightarrow> gql_field \<Rightarrow> 'fd
     \<Rightarrow> marshalled option" where
  "Field_args_intro rt I ex f obj = in_context (fieldContext_Intro_Field_args rt f)
     (\<lambda>_. resolved rt (marshalN_InputValues ex (fdf_Args I obj)))"

definition Field_type_intro :: "gql_runtime \<Rightarrow> ('sc, 'ty, 'fd, 'iv, 'ev, 'di) introspection
     \<Rightarrow> ('sc, 'ty, 'fd, 'iv, 'ev, 'di) child_exec \<Rightarrow> 'fd
     \<Rightarrow> marshalled option" where
  "Field_type_intro rt I ex obj = resolved rt (marshalN_Type ex (fdf_Type I obj))"

definition Field_isDeprecated_intro :: "gql_runtime \<Rightarrow> ('sc, 'ty, 'fd, 'iv, 'ev, 'di) introspection \<Rightarrow> 'fd
     \<Rightarrow> marshalled option" where
  "Field_isDeprecated_intro rt I obj =
     Some (rt_ResolveField rt (Inr (marshalNBoolean rt (fdf_IsDeprecated I obj))))"

definition Field_deprecationReason_intro :: "gql_runtime \<Rightarrow> ('sc, 'ty, 'fd, 'iv, 'ev, 'di) introspection \<Rightarrow> 'fd
     \<Rightarrow> marshalled option" where
  "Field_deprecationReason_intro rt I obj =
     Some (rt_ResolveNullable rt (Inr (marshalOString rt (fdf_DeprecationReason I obj))))"

definition InputValue_name_intro :: "gql_runtime \<Rightarrow> ('sc, 'ty, 'fd, 'iv, 'ev, 'di) introspection \<Rightarrow> 'iv
     \<Rightarrow> marshalled option" where
  "InputValue_name_intro rt I obj =
     Some (rt_ResolveField rt (Inr (marshalNString rt (inv_Name I obj))))"

definition InputValue_description_intro :: "gql_runtime \<Rightarrow> ('sc, 'ty, 'fd, 'iv, 'ev, 'di) introspection \<Rightarrow> 'iv
     \<Rightarrow> marshalled option" where
  "InputValue_description_intro rt I obj =
     Some (rt_ResolveNullable rt (Inr (marshalOString rt (inv_Description I obj))))"

definition InputValue_type_intro :: "gql_runtime \<Rightarrow> ('sc, 'ty, 'fd, 'iv, 'ev, 'di) introspection
     \<Rightarrow> ('sc, 'ty, 'fd, 'iv, 'ev, 'di) child_exec \<Rightarrow> 'iv
     \<Rightarrow> marshalled option" where
  "InputValue_type_intro rt I ex obj = resolved rt (marshalN_Type ex (inv_Type I obj))"

definition InputValue_defaultValue_intro :: "gql_runtime \<Rightarrow> ('sc, 'ty, 'fd, 'iv, 'ev, 'di) introspection \<Rightarrow> 'iv
     \<Rightarrow> marshalled option" where
  "InputValue_defaultValue_intro rt I obj =
     Some (rt_ResolveNullable rt (Inr (marshalOString rt (inv_DefaultValue I obj))))"

definition InputValue_isDeprecated_intro :: "gql_runtime \<Rightarrow> ('sc, 'ty, 'fd, 'iv, 'ev, 'di) introspection \<Rightarrow> 'iv
     \<Rightarrow> marshalled option" where
  "InputValue_isDeprecated_intro rt I obj =
     Some (rt_ResolveField rt (Inr (marshalNBoolean rt (inv_IsDeprecated I obj))))"

definition InputValue_deprecationReason_intro :: "gql_runtime \<Rightarrow> ('sc, 'ty, 'fd, 'iv, 'ev, 'di) introspection \<Rightarrow> 'iv
     \<Rightarrow> marshalled option" where
  "InputValue_deprecationReason_intro rt I obj =
     Some (rt_ResolveNullable rt (Inr (marshalOString rt (inv_DeprecationReason I obj))))"

definition Schema_description_intro :: "gql_runtime \<Rightarrow> ('sc, 'ty, 'fd, 'iv, 'ev, 'di) introspection \<Rightarrow> 'sc
     \<Rightarrow> marshalled option" where
  "Schema_description_intro rt I obj =
     Some (rt_ResolveNullable rt (Inr (marshalOString rt (sch_Description I obj))))"

definition Schema_types_intro :: "gql_runtime \<Rightarrow> ('sc, 'ty, 'fd, 'iv, 'ev, 'di) introspection
     \<Rightarrow> ('sc, 'ty, 'fd, 'iv, 'ev, 'di) child_exec \<Rightarrow> 'sc
     \<Rightarrow> marshalled option" where
  "Schema_types_intro rt I ex obj = resolved rt (marshalN_Types ex (sch_Types I obj))"

definition Schema_queryType_intro :: "gql_runtime \<Rightarrow> ('sc, 'ty, 'fd, 'iv, 'ev, 'di) introspection
     \<Rightarrow> ('sc, 'ty, 'fd, 'iv, 'ev, 'di) child_exec \<Rightarrow> 'sc
     \<Rightarrow> marshalled option" where
  "Schema_queryType_intro rt I ex obj = resolved rt (marshalN_Type ex (sch_QueryType I obj))"

definition Schema_mutationType_intro :: "gql_runtime \<Rightarrow> ('sc, 'ty, 'fd, 'iv, 'ev, 'di) introspection
     \<Rightarrow> ('sc, 'ty, 'fd, 'iv, 'ev, 'di) child_exec \<Rightarrow> 'sc
     \<Rightarrow> marshalled option" where
  "Schema_mutationType_intro rt I ex obj =
     resolved_nullable rt (marshalO_Type ex (sch_MutationType I obj))"

definition Schema_subscriptionType_intro :: "gql_runtime \<Rightarrow> ('sc, 'ty, 'fd, 'iv, 'ev, 'di) introspection
     \<Rightarrow> ('sc, 'ty, 'fd, 'iv, 'ev, 'di) child_exec \<Rightarrow> 'sc
     \<Rightarrow> marshalled option" where
  "Schema_subscriptionType_intro rt I ex obj =
     resolved_nullable rt (marshalO_Type ex (sch_SubscriptionType I obj))"

definition Schema_directives_intro :: "gql_runtime \<Rightarrow> ('sc, 'ty, 'fd, 'iv, 'ev, 'di) introspection
     \<Rightarrow> ('sc, 'ty, 'fd, 'iv, 'ev, 'di) child_exec \<Rightarrow> 'sc
     \<Rightarrow> marshalled option" where
  "Schema_directives_intro rt I ex obj = resolved rt (marshalN_Directives ex (sch_Directives I obj))"

definition Type_kind_intro :: "gql_runtime \<Rightarrow> ('sc, 'ty, 'fd, 'iv, 'ev, 'di) introspection \<Rightarrow> 'ty
     \<Rightarrow> marshalled option" where
  "Type_kind_intro rt I obj = Some (rt_ResolveField rt (Inr (marshalN_TypeKind rt (typ_Kind I obj))))"

definition Type_name_intro :: "gql_runtime \<Rightarrow> ('sc, 'ty, 'fd, 'iv, 'ev, 'di) introspection \<Rightarrow> 'ty
     \<Rightarrow> marshalled option" where
  "Type_name_intro rt I obj = Some (rt_ResolveNullable rt (Inr (marshalOString rt (typ_Name I obj))))"

definition Type_description_intro :: "gql_runtime \<Rightarrow> ('sc, 'ty, 'fd, 'iv, 'ev, 'di) introspection \<Rightarrow> 'ty
     \<Rightarrow> marshalled option" where
  "Type_description_intro rt I obj =
     Some (rt_ResolveNullable rt (Inr (marshalOString rt (typ_Description I obj))))"

definition Type_specifiedByURL_intro :: "gql_runtime \<Rightarrow> ('sc, 'ty, 'fd, 'iv, 'ev, 'di) introspection \<Rightarrow> 'ty
     \<Rightarrow> marshalled option" where
  "Type_specifiedByURL_intro rt I obj =
     Some (rt_ResolveNullable rt (Inr (marshalOString rt (typ_SpecifiedByURL I obj))))"

definition Type_fields_intro :: "gql_runtime \<Rightarrow> ('sc, 'ty, 'fd, 'iv, 'ev, 'di) introspection
     \<Rightarrow> ('sc, 'ty, 'fd, 'iv, 'ev, 'di) child_exec \<Rightarrow> gql_field \<Rightarrow> 'ty
     \<Rightarrow> marshalled option" where
  "Type_fields_intro rt I ex f obj = in_context (fieldContext_Intro_Type_fields rt f)
     (\<lambda>args. resolved_nullable rt (case args of BoolArg b \<Rightarrow> marshalO_Fields ex (typ_Fields I obj b) | _ \<Rightarrow> None))"

definition Type_interfaces_intro :: "gql_runtime \<Rightarrow> ('sc, 'ty, 'fd, 'iv, 'ev, 'di) introspection
     \<Rightarrow> ('sc, 'ty, 'fd, 'iv, 'ev, 'di) child_exec \<Rightarrow> 'ty
     \<Rightarrow> marshalled option" where
  "Type_interfaces_intro rt I ex obj = resolved_nullable rt (marshalO_Types ex (typ_Interfaces I obj))"

definition Type_possibleTypes_intro :: "gql_runtime \<Rightarrow> ('sc, 'ty, 'fd, 'iv, 'ev, 'di) introspection
     \<Rightarrow> ('sc, 'ty, 'fd, 'iv, 'ev, 'di) child_exec \<Rightarrow> 'ty
     \<Rightarrow> marshalled option" where
  "Type_possibleTypes_intro rt I ex obj =
     resolved_nullable rt (marshalO_Types ex (typ_PossibleTypes I obj))"

definition Type_enumValues_intro :: "gql_runtime \<Rightarrow> ('sc, 'ty, 'fd, 'iv, 'ev, 'di) introspection
     \<Rightarrow> ('sc, 'ty, 'fd, 'iv, 'ev, 'di) child_exec \<Rightarrow> gql_field \<Rightarrow> 'ty
     \<Rightarrow> marshalled option" where
  "Type_enumValues_intro rt I ex f obj = in_context (fieldContext_Intro_Type_enumValues rt f)
     (\<lambda>args. resolved_nullable rt (case args of BoolArg b \<Rightarrow> marshalO_EnumValues ex (typ_EnumValues I obj b) | _ \<Rightarrow> None))"

definition Type_inputFields_intro :: "gql_runtime \<Rightarrow> ('sc, 'ty, 'fd, 'iv, 'ev, 'di) introspection
     \<Rightarrow> ('sc, 'ty, 'fd, 'iv, 'ev, 'di) child_exec \<Rightarrow> 'ty
     \<Rightarrow> marshalled option" where
  "Type_inputFields_intro rt I ex obj =
     resolved_nullable rt (marshalO_InputValues ex (typ_InputFields I obj))"

definition Type_ofType_intro :: "gql_runtime \<Rightarrow> ('sc, 'ty, 'fd, 'iv, 'ev, 'di) introspection
     \<Rightarrow> ('sc, 'ty, 'fd, 'iv, 'ev, 'di) child_exec \<Rightarrow> 'ty
     \<Rightarrow> marshalled option" where
  "Type_ofType_intro rt I ex obj = resolved_nullable rt (marshalO_Type ex (typ_OfType I obj))"

definition Type_isOneOf_intro :: "gql_runtime \<Rightarrow> ('sc, 'ty, 'fd, 'iv, 'ev, 'di) introspection \<Rightarrow> 'ty
     \<Rightarrow> marshalled option" where
  "Type_isOneOf_intro rt I obj =
     Some (rt_ResolveNullable rt (Inr (marshalOBoolean rt (typ_IsOneOf I obj))))"

lemmas intro_defs =
  Directive_name_intro_def Directive_description_intro_def Directive_isRepeatable_intro_def
  Directive_locations_intro_def Directive_args_intro_def EnumValue_name_intro_def
  EnumValue_description_intro_def EnumValue_isDeprecated_intro_def
  EnumValue_deprecationReason_intro_def Field_name_intro_def Field_description_intro_def
  Field_args_intro_def Field_type_intro_def Field_isDeprecated_intro_def
  Field_deprecationReason_intro_def InputValue_name_intro_def
  InputValue_description_intro_def InputValue_type_intro_def
  InputValue_defaultValue_intro_def InputValue_isDeprecated_intro_def
  InputValue_deprecationReason_intro_def Schema_description_intro_def
  Schema_types_intro_def Schema_queryType_intro_def Schema_mutationType_intro_def
  Schema_subscriptionType_intro_def Schema_directives_intro_def Type_kind_intro_def
  Type_name_intro_def Type_description_intro_def Type_specifiedByURL_intro_def
  Type_fields_intro_def Type_interfaces_intro_def Type_possibleTypes_intro_def
  Type_enumValues_intro_def Type_inputFields_intro_def Type_ofType_intro_def
  Type_isOneOf_intro_def

section \<open>Objects\<close>

definition Intro_Directive_case :: "gql_runtime \<Rightarrow> ('sc, 'ty, 'fd, 'iv, 'ev, 'di) introspection
     \<Rightarrow> ('sc, 'ty, 'fd, 'iv, 'ev, 'di) child_exec \<Rightarrow> 'di \<Rightarrow> gql_field
     \<Rightarrow> slot option" where
  "Intro_Directive_case rt I ex obj f =
     (if fld_name f = ''__typename'' then Some (free_slot (rt_MarshalString rt ''__Directive''))
      else if fld_name f = ''name'' then map_option required (Directive_name_intro rt I obj)
      else if fld_name f = ''description'' then map_option optional (Directive_description_intro rt I obj)
      else if fld_name f = ''isRepeatable'' then map_option required (Directive_isRepeatable_intro rt I obj)
      else if fld_name f = ''locations'' then map_option required (Directive_locations_intro rt I obj)
      else if fld_name f = ''args'' then map_option required (Directive_args_intro rt I ex f obj)
      else None)"

definition Intro_EnumValue_case :: "gql_runtime \<Rightarrow> ('sc, 'ty, 'fd, 'iv, 'ev, 'di) introspection
     \<Rightarrow> ('sc, 'ty, 'fd, 'iv, 'ev, 'di) child_exec \<Rightarrow> 'ev \<Rightarrow> gql_field
     \<Rightarrow> slot option" where
  "Intro_EnumValue_case rt I ex obj f =
     (if fld_name f = ''__typename'' then Some (free_slot (rt_MarshalString rt ''__EnumValue''))
      else if fld_name f = ''name'' then map_option required (EnumValue_name_intro rt I obj)
      else if fld_name f = ''description'' then map_option optional (EnumValue_description_intro rt I obj)
      else if fld_name f = ''isDeprecated'' then map_option required (EnumValue_isDeprecated_intro rt I obj)
      else if fld_name f = ''deprecationReason'' then map_option optional (EnumValue_deprecationReason_intro rt I obj)
      else None)"

definition Intro_Field_case :: "gql_runtime \<Rightarrow> ('sc, 'ty, 'fd, 'iv, 'ev, 'di) introspection
     \<Rightarrow> ('sc, 'ty, 'fd, 'iv, 'ev, 'di) child_exec \<Rightarrow> 'fd \<Rightarrow> gql_field
     \<Rightarrow> slot option" where
  "Intro_Field_case rt I ex obj f =
     (if fld_name f = ''__typename'' then Some (free_slot (rt_MarshalString rt ''__Field''))
      else if fld_name f = ''name'' then map_option required (Field_name_intro rt I obj)
      else if fld_name f = ''description'' then map_option optional (Field_description_intro rt I obj)
      else if fld_name f = ''args'' then map_option required (Field_args_intro rt I ex f obj)
      else if fld_name f = ''type'' then map_option required (Field_type_intro rt I ex obj)
      else if fld_name f = ''isDeprecated'' then map_option required (Field_isDeprecated_intro rt I obj)
      else if fld_name f = ''deprecationReason'' then map_option optional (Field_deprecationReason_intro rt I obj)
      else None)"

definition Intro_InputValue_case :: "gql_runtime \<Rightarrow> ('sc, 'ty, 'fd, 'iv, 'ev, 'di) introspection
     \<Rightarrow> ('sc, 'ty, 'fd, 'iv, 'ev, 'di) child_exec \<Rightarrow> 'iv \<Rightarrow> gql_field
     \<Rightarrow> slot option" where
  "Intro_InputValue_case rt I ex obj f =
     (if fld_name f = ''__typename'' then Some (free_slot (rt_MarshalString rt ''__InputValue''))
      else if fld_name f = ''name'' then map_option required (InputValue_name_intro rt I obj)
      else if fld_name f = ''description'' then map_option optional (InputValue_description_intro rt I obj)
      else if fld_name f = ''type'' then map_option required (InputValue_type_intro rt I ex obj)
      else if fld_name f = ''defaultValue'' then map_option optional (InputValue_defaultValue_intro rt I obj)
      else if fld_name f = ''isDeprecated'' then map_option required (InputValue_isDeprecated_intro rt I obj)
      else if fld_name f = ''deprecationReason'' then map_option optional (InputValue_deprecationReason_intro rt I obj)
      else None)"

definition Intro_Schema_case :: "gql_runtime \<Rightarrow> ('sc, 'ty, 'fd, 'iv, 'ev, 'di) introspection
     \<Rightarrow> ('sc, 'ty, 'fd, 'iv, 'ev, 'di) child_exec \<Rightarrow> 'sc \<Rightarrow> gql_field
     \<Rightarrow> slot option" where
  "Intro_Schema_case rt I ex obj f =
     (if fld_name f = ''__typename'' then Some (free_slot (rt_MarshalString rt ''__Schema''))
      else if fld_name f = ''description'' then map_option optional (Schema_description_intro rt I obj)
      else if fld_name f = ''types'' then map_option required (Schema_types_intro rt I ex obj)
      else if fld_name f = ''queryType'' then map_option required (Schema_queryType_intro rt I ex obj)
      else if fld_name f = ''mutationType'' then map_option optional (Schema_mutationType_intro rt I ex obj)
      else if fld_name f = ''subscriptionType'' then map_option optional (Schema_subscriptionType_intro rt I ex obj)
      else if fld_name f = ''directives'' then map_option required (Schema_directives_intro rt I ex obj)
      else None)"

definition Intro_Type_case :: "gql_runtime \<Rightarrow> ('sc, 'ty, 'fd, 'iv, 'ev, 'di) introspection
     \<Rightarrow> ('sc, 'ty, 'fd, 'iv, 'ev, 'di) child_exec \<Rightarrow> 'ty \<Rightarrow> gql_field
     \<Rightarrow> slot option" where
  "Intro_Type_case rt I ex obj f =
     (if fld_name f = ''__typename'' then Some (free_slot (rt_MarshalString rt ''__Type''))
      else if fld_name f = ''kind'' then map_option required (Type_kind_intro rt I obj)
      else if fld_name f = ''name'' then map_option optional (Type_name_intro rt I obj)
      else if fld_name f = ''description'' then map_option optional (Type_description_intro rt I obj)
      else if fld_name f = ''specifiedByURL'' then map_option optional (Type_specifiedByURL_intro rt I obj)
      else if fld_name f = ''fields'' then map_option optional (Type_fields_intro rt I ex f obj)
      else if fld_name f = ''interfaces'' then map_option optional (Type_interfaces_intro rt I ex obj)
      else if fld_name f = ''possibleTypes'' then map_option optional (Type_possibleTypes_intro rt I ex obj)
      else if fld_name f = ''enumValues'' then map_option optional (Type_enumValues_intro rt I ex f obj)
      else if fld_name f = ''inputFields'' then map_option optional (Type_inputFields_intro rt I ex obj)
      else if fld_name f = ''ofType'' then map_option optional (Type_ofType_intro rt I ex obj)
      else if fld_name f = ''isOneOf'' then map_option optional (Type_isOneOf_intro rt I obj)
      else None)"

lemmas intro_case_defs = Intro_Directive_case_def Intro_EnumValue_case_def Intro_Field_case_def
  Intro_InputValue_case_def Intro_Schema_case_def Intro_Type_case_def

primrec node_case :: "gql_runtime \<Rightarrow> ('sc, 'ty, 'fd, 'iv, 'ev, 'di) introspection \<Rightarrow> ('sc, 'ty, 'fd, 'iv, 'ev, 'di) child_exec
     \<Rightarrow> ('sc, 'ty, 'fd, 'iv, 'ev, 'di) node \<Rightarrow> gql_field \<Rightarrow> slot option" where
  "node_case rt I ex (NDirective obj) = Intro_Directive_case rt I ex obj"
| "node_case rt I ex (NEnumValue obj) = Intro_EnumValue_case rt I ex obj"
| "node_case rt I ex (NField obj) = Intro_Field_case rt I ex obj"
| "node_case rt I ex (NInputValue obj) = Intro_InputValue_case rt I ex obj"
| "node_case rt I ex (NSchema obj) = Intro_Schema_case rt I ex obj"
| "node_case rt I ex (NType obj) = Intro_Type_case rt I ex obj"

text \<open>A value executed on a selection; each field executes what it finds on its own selection.\<close>

lemma exec_fields_cong [fundef_cong]:
  "sel = sel' \<Longrightarrow> (\<And>f. f \<in> set sel' \<Longrightarrow> g f = h f) \<Longrightarrow> exec_fields g sel = exec_fields h sel'"
proof (induction sel arbitrary: sel')
  case (Cons f sel)
  then have "g f = h f" "exec_fields g sel = exec_fields h sel" by auto
  with Cons.prems(1) show ?case by (auto split: option.split)
qed simp

lemma size_fld_sel: "f \<in> set sel \<Longrightarrow> size_list size (fld_sel f) < size_list size sel"
proof (induction sel)
  case (Cons g sel)
  then show ?case by (cases g) (auto dest: Cons.IH)
qed simp

function exec_node :: "gql_runtime \<Rightarrow> ('sc, 'ty, 'fd, 'iv, 'ev, 'di) introspection \<Rightarrow> gql_field list
     \<Rightarrow> ('sc, 'ty, 'fd, 'iv, 'ev, 'di) node \<Rightarrow> marshalled option" where
  "exec_node rt I sel nd =
     object_out (exec_fields (\<lambda>f. node_case rt I (\<lambda>v. exec_node rt I (fld_sel f) v) nd f) sel)"
  by pat_completeness auto
termination
  by (relation "measure (\<lambda>(rt, I, sel, nd). size_list size sel)") (auto intro: size_fld_sel)

declare exec_node.simps [simp del]

definition exec_Intro_Directive :: "gql_runtime \<Rightarrow> ('sc, 'ty, 'fd, 'iv, 'ev, 'di) introspection
     \<Rightarrow> gql_field list \<Rightarrow> 'di \<Rightarrow> marshalled option" where
  "exec_Intro_Directive rt I sel obj = exec_node rt I sel (NDirective obj)"

definition exec_Intro_EnumValue :: "gql_runtime \<Rightarrow> ('sc, 'ty, 'fd, 'iv, 'ev, 'di) introspection
     \<Rightarrow> gql_field list \<Rightarrow> 'ev \<Rightarrow> marshalled option" where
  "exec_Intro_EnumValue rt I sel obj = exec_node rt I sel (NEnumValue obj)"

definition exec_Intro_Field :: "gql_runtime \<Rightarrow> ('sc, 'ty, 'fd, 'iv, 'ev, 'di) introspection
     \<Rightarrow> gql_field list \<Rightarrow> 'fd \<Rightarrow> marshalled option" where
  "exec_Intro_Field rt I sel obj = exec_node rt I sel (NField obj)"

definition exec_Intro_InputValue :: "gql_runtime \<Rightarrow> ('sc, 'ty, 'fd, 'iv, 'ev, 'di) introspection
     \<Rightarrow> gql_field list \<Rightarrow> 'iv \<Rightarrow> marshalled option" where
  "exec_Intro_InputValue rt I sel obj = exec_node rt I sel (NInputValue obj)"

definition exec_Intro_Schema :: "gql_runtime \<Rightarrow> ('sc, 'ty, 'fd, 'iv, 'ev, 'di) introspection
     \<Rightarrow> gql_field list \<Rightarrow> 'sc \<Rightarrow> marshalled option" where
  "exec_Intro_Schema rt I sel obj = exec_node rt I sel (NSchema obj)"

definition exec_Intro_Type :: "gql_runtime \<Rightarrow> ('sc, 'ty, 'fd, 'iv, 'ev, 'di) introspection
     \<Rightarrow> gql_field list \<Rightarrow> 'ty \<Rightarrow> marshalled option" where
  "exec_Intro_Type rt I sel obj = exec_node rt I sel (NType obj)"

text \<open>Each object executor runs the switch of its type.\<close>

lemma exec_intro_eqs:
  "exec_Intro_Directive rt I sel dir =
     object_out (exec_fields (\<lambda>f. Intro_Directive_case rt I (exec_node rt I (fld_sel f)) dir f) sel)"
  "exec_Intro_EnumValue rt I sel enm =
     object_out (exec_fields (\<lambda>f. Intro_EnumValue_case rt I (exec_node rt I (fld_sel f)) enm f) sel)"
  "exec_Intro_Field rt I sel fdf =
     object_out (exec_fields (\<lambda>f. Intro_Field_case rt I (exec_node rt I (fld_sel f)) fdf f) sel)"
  "exec_Intro_InputValue rt I sel inv =
     object_out (exec_fields (\<lambda>f. Intro_InputValue_case rt I (exec_node rt I (fld_sel f)) inv f) sel)"
  "exec_Intro_Schema rt I sel sch =
     object_out (exec_fields (\<lambda>f. Intro_Schema_case rt I (exec_node rt I (fld_sel f)) sch f) sel)"
  "exec_Intro_Type rt I sel typ =
     object_out (exec_fields (\<lambda>f. Intro_Type_case rt I (exec_node rt I (fld_sel f)) typ f) sel)"
  by (simp_all add: exec_Intro_Directive_def exec_Intro_EnumValue_def exec_Intro_Field_def
      exec_Intro_InputValue_def exec_Intro_Schema_def exec_Intro_Type_def exec_node.simps [of rt I sel])

end
