(* ===== verification/Graphql_Operations.thy ===== *)
theory Graphql_Operations
  imports Graphql_Introspection
begin

text \<open>
  The operations of the generated executor (\<open>_Query\<close>, \<open>_Mutation\<close> and \<open>Exec\<close> of
  \<open>internal/gateway/graph/generated.go\<close>) over the resolvers.  The fields of a mutation
  run one after the other.  Of a query, the fields with a resolver are delayed until all fields
  have been looked at and then run concurrently; a schedule gives the order in which they do.
  No root field middleware is installed, so \<open>RootResolverMiddleware\<close> is the call it wraps.
\<close>

section \<open>Root fields\<close>

text \<open>A root field over the resolver: the resolver's error, or its value, or a panic.\<close>

definition root_result ::
    "gql_runtime \<Rightarrow> ('v \<Rightarrow> marshalled option) \<Rightarrow> (grpc_status + 'v) \<times> 's \<Rightarrow> marshalled option \<times> 's" where
  "root_result rt marshal r =
     (case r of
        (Inl st, s') \<Rightarrow> (Some (rt_ResolveField rt (Inl (rt_ErrorText rt st))), s')
      | (Inr v, s') \<Rightarrow> (resolved rt (marshal v), s'))"

definition Query_cabinets_field ::
    "gql_runtime \<Rightarrow> 's catalog_client \<Rightarrow> outgoing_md \<Rightarrow> gql_field \<Rightarrow> 's \<Rightarrow> marshalled option \<times> 's" where
  "Query_cabinets_field rt C ctx f s =
     (case fieldContext_Query_cabinets rt f of
        Inl err \<Rightarrow> (Some (GNull, [err]), s)
      | Inr fc \<Rightarrow> root_result rt (marshalNCabinets rt (fld_sel f)) (resolve_Cabinets C ctx s))"

definition Query_cabinet_field ::
    "gql_runtime \<Rightarrow> 's catalog_client \<Rightarrow> outgoing_md \<Rightarrow> gql_field \<Rightarrow> 's \<Rightarrow> marshalled option \<times> 's" where
  "Query_cabinet_field rt C ctx f s =
     (case fieldContext_Query_cabinet rt f of
        Inl err \<Rightarrow> (Some (GNull, [err]), s)
      | Inr fc \<Rightarrow>
          (case fc_Args fc of
             IdArg i \<Rightarrow> root_result rt (marshalNCabinet rt (fld_sel f)) (resolve_Cabinet C ctx i s)
           | _ \<Rightarrow> (resolved rt None, s)))"

definition Query_order_field ::
    "gql_runtime \<Rightarrow> 's catalog_client \<Rightarrow> outgoing_md \<Rightarrow> gql_field \<Rightarrow> 's \<Rightarrow> marshalled option \<times> 's" where
  "Query_order_field rt C ctx f s =
     (case fieldContext_Query_order rt f of
        Inl err \<Rightarrow> (Some (GNull, [err]), s)
      | Inr fc \<Rightarrow>
          (case fc_Args fc of
             IdArg i \<Rightarrow> root_result rt (marshalNOrder rt (fld_sel f)) (resolve_Order C ctx i s)
           | _ \<Rightarrow> (resolved rt None, s)))"

definition Mutation_createOrder_field ::
    "gql_runtime \<Rightarrow> 's catalog_client \<Rightarrow> outgoing_md \<Rightarrow> gql_field \<Rightarrow> 's \<Rightarrow> marshalled option \<times> 's" where
  "Mutation_createOrder_field rt C ctx f s =
     (case fieldContext_Mutation_createOrder rt f of
        Inl err \<Rightarrow> (Some (GNull, [err]), s)
      | Inr fc \<Rightarrow>
          (case fc_Args fc of
             InputArg input \<Rightarrow> root_result rt (marshalNOrder rt (fld_sel f)) (resolve_CreateOrder C ctx input s)
           | _ \<Rightarrow> (resolved rt None, s)))"

definition Query_Intro_type_field ::
    "gql_runtime \<Rightarrow> ('sc, 'ty, 'fd, 'iv, 'ev, 'di) introspection \<Rightarrow> gql_field \<Rightarrow> marshalled option" where
  "Query_Intro_type_field rt I f = in_context (fieldContext_Query_Intro_type rt f)
     (\<lambda>args. case args of
        NameArg name \<Rightarrow>
          (case in_IntrospectType I name of
             Inl err \<Rightarrow> Some (rt_ResolveNullable rt (Inl err))
           | Inr t \<Rightarrow> resolved_nullable rt (marshalO_Type (exec_node rt I (fld_sel f)) t))
      | _ \<Rightarrow> resolved_nullable rt None)"

definition Query_Intro_schema_field ::
    "gql_runtime \<Rightarrow> ('sc, 'ty, 'fd, 'iv, 'ev, 'di) introspection \<Rightarrow> gql_field \<Rightarrow> marshalled option" where
  "Query_Intro_schema_field rt I f = in_context (fieldContext_Query_Intro_schema rt f)
     (\<lambda>_. case in_IntrospectSchema I of
        Inl err \<Rightarrow> Some (rt_ResolveNullable rt (Inl err))
      | Inr sc \<Rightarrow> resolved_nullable rt (marshalO_Schema (exec_node rt I (fld_sel f)) sc))"

section \<open>Field sets\<close>

text \<open>The values, the count of invalid ones, and the errors added to the operation.\<close>

record field_set =
  fs_Values :: "gql_out list"
  fs_Invalids :: nat
  fs_errors :: "string list"

definition NewFieldSet :: "gql_field list \<Rightarrow> field_set" where
  "NewFieldSet sel = \<lparr>fs_Values = replicate (length sel) GNil, fs_Invalids = 0, fs_errors = []\<rparr>"

definition fill :: "nat \<Rightarrow> slot \<Rightarrow> field_set \<Rightarrow> field_set" where
  "fill i sl fs = \<lparr>fs_Values = (fs_Values fs)[i := fst (fst sl)],
     fs_Invalids = fs_Invalids fs + (if snd sl then 1 else 0), fs_errors = fs_errors fs @ snd (fst sl)\<rparr>"

definition fields_out :: "gql_field list \<Rightarrow> field_set \<Rightarrow> marshalled" where
  "fields_out sel fs =
     (if fs_Invalids fs > 0 then GNull else GObject (zip (map fld_alias sel) (fs_Values fs)), fs_errors fs)"

section \<open>Mutations\<close>

definition Mutation_case ::
    "gql_runtime \<Rightarrow> 's catalog_client \<Rightarrow> outgoing_md \<Rightarrow> gql_field \<Rightarrow> 's \<Rightarrow> slot option \<times> 's" where
  "Mutation_case rt C ctx f s =
     (if fld_name f = ''__typename'' then (Some (free_slot (rt_MarshalString rt ''Mutation'')), s)
      else if fld_name f = ''createOrder'' then
        (case Mutation_createOrder_field rt C ctx f s of (m, s') \<Rightarrow> (map_option required m, s'))
      else (None, s))"

text \<open>The fields from index \<open>i\<close>; a panic ends the operation.\<close>

fun mutation_loop :: "(gql_field \<Rightarrow> 's \<Rightarrow> slot option \<times> 's) \<Rightarrow> nat \<Rightarrow> gql_field list \<Rightarrow> field_set \<Rightarrow> 's
    \<Rightarrow> field_set option \<times> 's" where
  "mutation_loop c i [] fs s = (Some fs, s)"
| "mutation_loop c i (f # sel) fs s =
     (case c f s of
        (None, s') \<Rightarrow> (None, s')
      | (Some sl, s') \<Rightarrow> mutation_loop c (Suc i) sel (fill i sl fs) s')"

definition exec_Mutation ::
    "gql_runtime \<Rightarrow> 's catalog_client \<Rightarrow> outgoing_md \<Rightarrow> gql_field list \<Rightarrow> 's \<Rightarrow> marshalled option \<times> 's" where
  "exec_Mutation rt C ctx sel s =
     (case mutation_loop (Mutation_case rt C ctx) 0 sel (NewFieldSet sel) s of
        (r, s') \<Rightarrow> (map_option (fields_out sel) r, s'))"

section \<open>Queries\<close>

text \<open>
  A field of a query is done at once or delayed.  A panic of a delayed field is recovered: it
  adds an error and the value stays nil, which does not count as invalid.
\<close>

datatype 's root_step = Now "slot option" | Later "'s \<Rightarrow> slot \<times> 's"

definition recovered :: "gql_runtime \<Rightarrow> marshalled option \<times> 's \<Rightarrow> slot \<times> 's" where
  "recovered rt r =
     (case r of
        (None, s') \<Rightarrow> (((GNil, [rt_Recover rt]), False), s')
      | (Some m, s') \<Rightarrow> (required m, s'))"

definition Query_case ::
    "gql_runtime \<Rightarrow> ('sc, 'ty, 'fd, 'iv, 'ev, 'di) introspection \<Rightarrow> 's catalog_client \<Rightarrow> outgoing_md
       \<Rightarrow> gql_field \<Rightarrow> 's root_step" where
  "Query_case rt I C ctx f =
     (if fld_name f = ''__typename'' then Now (Some (free_slot (rt_MarshalString rt ''Query'')))
      else if fld_name f = ''cabinets'' then Later (\<lambda>s. recovered rt (Query_cabinets_field rt C ctx f s))
      else if fld_name f = ''cabinet'' then Later (\<lambda>s. recovered rt (Query_cabinet_field rt C ctx f s))
      else if fld_name f = ''order'' then Later (\<lambda>s. recovered rt (Query_order_field rt C ctx f s))
      else if fld_name f = ''__type'' then Now (map_option optional (Query_Intro_type_field rt I f))
      else if fld_name f = ''__schema'' then Now (map_option optional (Query_Intro_schema_field rt I f))
      else Now None)"

type_synonym 's delayed = "nat \<times> ('s \<Rightarrow> slot \<times> 's)"

fun query_loop :: "(gql_field \<Rightarrow> 's root_step) \<Rightarrow> nat \<Rightarrow> gql_field list \<Rightarrow> field_set \<Rightarrow> 's delayed list
    \<Rightarrow> (field_set \<times> 's delayed list) option" where
  "query_loop c i [] fs ds = Some (fs, ds)"
| "query_loop c i (f # sel) fs ds =
     (case c f of
        Now None \<Rightarrow> None
      | Now (Some sl) \<Rightarrow> query_loop c (Suc i) sel (fill i sl fs) ds
      | Later t \<Rightarrow> query_loop c (Suc i) sel fs (ds @ [(i, t)]))"

text \<open>The delayed fields in the order in which they complete.\<close>

fun run_delayed :: "'s delayed list \<Rightarrow> field_set \<Rightarrow> 's \<Rightarrow> field_set \<times> 's" where
  "run_delayed [] fs s = (fs, s)"
| "run_delayed ((i, t) # ds) fs s = (case t s of (sl, s') \<Rightarrow> run_delayed ds (fill i sl fs) s')"

definition Dispatch :: "nat list \<Rightarrow> 's delayed list \<Rightarrow> field_set \<Rightarrow> 's \<Rightarrow> field_set \<times> 's" where
  "Dispatch order ds fs s = run_delayed (map (nth ds) order) fs s"

definition exec_Query ::
    "gql_runtime \<Rightarrow> ('sc, 'ty, 'fd, 'iv, 'ev, 'di) introspection \<Rightarrow> 's catalog_client \<Rightarrow> outgoing_md
       \<Rightarrow> (nat \<Rightarrow> nat list) \<Rightarrow> gql_field list \<Rightarrow> 's \<Rightarrow> marshalled option \<times> 's" where
  "exec_Query rt I C ctx schedule sel s =
     (case query_loop (Query_case rt I C ctx) 0 sel (NewFieldSet sel) [] of
        None \<Rightarrow> (None, s)
      | Some (fs, ds) \<Rightarrow>
          (case Dispatch (schedule (length ds)) ds fs s of (fs', s') \<Rightarrow> (Some (fields_out sel fs'), s')))"

section \<open>Responses\<close>

text \<open>
  The handler that \<open>Exec\<close> returns is called until it returns nothing.  It remembers whether it
  was called, how many groups were deferred, and the results that are still pending; as the
  schema has no deferred fields, the generated code adds none.  The errors of a response are
  those added to the operation.
\<close>

datatype operation = OpQuery | OpMutation | OpSubscription

record handler_state =
  hs_first :: bool
  hs_Deferred :: nat
  hs_Pending :: "marshalled list"

record gql_response =
  rsp_Data :: gql_out
  rsp_Errors :: "string list"
  rsp_HasNext :: "bool option"

definition exec_start :: handler_state where
  "exec_start = \<lparr>hs_first = True, hs_Deferred = 0, hs_Pending = []\<rparr>"

definition has_next :: "handler_state \<Rightarrow> bool option" where
  "has_next h = (if hs_Deferred h > 0 then Some (hs_Pending h \<noteq> []) else None)"

definition query_response ::
    "(marshalled option \<times> 's) \<Rightarrow> handler_state \<Rightarrow> 's \<Rightarrow> gql_response option option \<times> handler_state \<times> 's" where
  "query_response run h s =
     (if hs_first h then
        (case run of
           (None, s') \<Rightarrow> (None, h\<lparr>hs_first := False\<rparr>, s')
         | (Some (v, es), s') \<Rightarrow>
             (Some (Some \<lparr>rsp_Data = v, rsp_Errors = es, rsp_HasNext = has_next h\<rparr>), h\<lparr>hs_first := False\<rparr>, s'))
      else (case hs_Pending h of
              [] \<Rightarrow> (Some None, h, s)
            | (v, es) # ms \<Rightarrow> (let h' = h\<lparr>hs_Pending := ms\<rparr> in
                (Some (Some \<lparr>rsp_Data = v, rsp_Errors = es, rsp_HasNext = has_next h'\<rparr>), h', s))))"

definition mutation_response ::
    "(marshalled option \<times> 's) \<Rightarrow> handler_state \<Rightarrow> 's \<Rightarrow> gql_response option option \<times> handler_state \<times> 's" where
  "mutation_response run h s =
     (if \<not> hs_first h then (Some None, h, s)
      else (case run of
              (None, s') \<Rightarrow> (None, h\<lparr>hs_first := False\<rparr>, s')
            | (Some (v, es), s') \<Rightarrow>
                (Some (Some \<lparr>rsp_Data = v, rsp_Errors = es, rsp_HasNext = None\<rparr>), h\<lparr>hs_first := False\<rparr>, s')))"

definition Exec ::
    "gql_runtime \<Rightarrow> ('sc, 'ty, 'fd, 'iv, 'ev, 'di) introspection \<Rightarrow> 's catalog_client \<Rightarrow> outgoing_md
       \<Rightarrow> (nat \<Rightarrow> nat list) \<Rightarrow> operation \<Rightarrow> gql_field list \<Rightarrow> handler_state \<Rightarrow> 's
       \<Rightarrow> gql_response option option \<times> handler_state \<times> 's" where
  "Exec rt I C ctx schedule op sel h s =
     (case op of
        OpQuery \<Rightarrow> query_response (exec_Query rt I C ctx schedule sel s) h s
      | OpMutation \<Rightarrow> mutation_response (exec_Mutation rt C ctx sel s) h s
      | OpSubscription \<Rightarrow>
          (if hs_first h
           then (Some (Some \<lparr>rsp_Data = GNil, rsp_Errors = [''unsupported GraphQL operation''], rsp_HasNext = None\<rparr>),
                 h\<lparr>hs_first := False\<rparr>, s)
           else (Some None, h, s)))"

end
