(* ===== verification/Graphql_Facts.thy ===== *)
theory Graphql_Facts
  imports Graphql_Operations
begin

text \<open>
  What the executor returns.  \<open>sound_runtime\<close> states the documented behaviour of gqlgen that
  the generated code relies on.  A selection is valid by the schema (\<open>sel_ok\<close>), and a value
  conforms to a type of the schema under a selection (\<open>conforms\<close>); the objects of the catalog
  are executed completely and conform.  A refused order is null with the refusal as its
  one error.
\<close>

definition sound_runtime :: "gql_runtime \<Rightarrow> bool" where
  "sound_runtime rt \<longleftrightarrow>
     (\<forall>v es. v \<noteq> GNull \<or> es \<noteq> [] \<longrightarrow> rt_ResolveField rt (Inr (v, es)) = (v, es))
     \<and> (\<forall>e. rt_ResolveField rt (Inl e) = (GNull, [e]))
     \<and> (\<forall>x. \<exists>t. rt_MarshalString rt x = GScalar t) \<and> (\<forall>x. \<exists>t. rt_MarshalID rt x = GScalar t)
     \<and> (\<forall>i. \<exists>t. rt_MarshalInt rt i = GScalar t)"

text \<open>A runtime of that kind: scalars are printed, inputs are taken as they are.\<close>

definition plain_runtime :: gql_runtime where
  "plain_runtime = \<lparr>rt_ResolveField = (\<lambda>r. case r of Inl e \<Rightarrow> (GNull, [e]) | Inr m \<Rightarrow> m),
     rt_ResolveNullable = (\<lambda>r. case r of Inl e \<Rightarrow> (GNull, [e]) | Inr m \<Rightarrow> m),
     rt_ResolvePanic = (\<lambda>nonNull. Some (GNull, [''internal system error''])),
     rt_NewScalarFieldContext = (\<lambda>obj isMethod isResolver err. \<lparr>fc_Object = obj, fc_IsMethod = isMethod,
       fc_IsResolver = isResolver, fc_Child = NoChild err, fc_Args = NoArgs\<rparr>),
     rt_MarshalString = GScalar, rt_MarshalID = GScalar, rt_MarshalInt = (\<lambda>i. GScalar (show_int (sint i))),
     rt_MarshalBoolean = (\<lambda>b. GScalar (if b then ''true'' else ''false'')),
     rt_UnmarshalString = (\<lambda>r. case r of RString x \<Rightarrow> Inr x | _ \<Rightarrow> Inl ''not a string''),
     rt_UnmarshalID = (\<lambda>r. case r of RString x \<Rightarrow> Inr x | RInt i \<Rightarrow> Inr (show_int i) | _ \<Rightarrow> Inl ''not an id''),
     rt_UnmarshalInt = (\<lambda>r. case r of RInt i \<Rightarrow> Inr (word_of_int i) | _ \<Rightarrow> Inl ''not an int''),
     rt_UnmarshalBoolean = (\<lambda>r. case r of RString x \<Rightarrow> Inr (x = ''true'') | _ \<Rightarrow> Inl ''not a boolean''),
     rt_CoerceList = (\<lambda>r. case r of RList rs \<Rightarrow> rs | RNil \<Rightarrow> [] | _ \<Rightarrow> [r]),
     rt_Recover = ''internal system error'', rt_ErrorText = St_Message\<rparr>"

lemma plain_runtime_sound: "sound_runtime plain_runtime"
  by (simp add: sound_runtime_def plain_runtime_def)

section \<open>Selections and values of the schema\<close>

definition schema_fields :: "string \<Rightarrow> (string \<times> gql_type) list" where
  "schema_fields ty = (case map_of schema_types ty of None \<Rightarrow> [] | Some fs \<Rightarrow> fs)"

fun sel_ok :: "string \<Rightarrow> gql_field \<Rightarrow> bool" where
  "sel_ok ty (GField al n args sel) \<longleftrightarrow> n = ''__typename''
     \<or> (case map_of (schema_fields ty) n of None \<Rightarrow> False | Some t \<Rightarrow> list_all (sel_ok (base_type t)) sel)"

definition field_type :: "string \<Rightarrow> gql_field \<Rightarrow> gql_type" where
  "field_type ty f = (if fld_name f = ''__typename'' then NonNull (Named ''String'')
     else case map_of (schema_fields ty) (fld_name f) of None \<Rightarrow> Named ty | Some t \<Rightarrow> t)"

text \<open>Nested values are smaller than an object or a list.\<close>

lemma size_snd_less [termination_simp]: "kv \<in> set kvs \<Longrightarrow> size (snd kv) < Suc (size_list (size_prod (\<lambda>x. 0) size) kvs)"
  by (induction kvs) auto

function conforms :: "gql_type \<Rightarrow> gql_field list \<Rightarrow> gql_out \<Rightarrow> bool" where
  "conforms (NonNull t) sel v \<longleftrightarrow> v \<noteq> GNull \<and> conforms t sel v"
| "conforms (ListOf t) sel v \<longleftrightarrow>
     (case v of GNull \<Rightarrow> True | GList vs \<Rightarrow> list_all (conforms t sel) vs | _ \<Rightarrow> False)"
| "conforms (Named ty) sel v \<longleftrightarrow>
     (case v of
        GNull \<Rightarrow> True
      | GScalar x \<Rightarrow> ty \<notin> set (map fst schema_types)
      | GObject kvs \<Rightarrow> ty \<in> set (map fst schema_types) \<and>
          list_all2 (\<lambda>f kv. fst kv = fld_alias f \<and> conforms (field_type ty f) (fld_sel f) (snd kv)) sel kvs
      | _ \<Rightarrow> False)"
  by pat_completeness auto
termination
  by (relation "measures [\<lambda>(t, sel, v). size v, \<lambda>(t, sel, v). size t]")
    (auto simp: less_Suc_eq_le size_list_estimation' dest!: set_zip_rightD size_snd_less)


lemma sel_ok_iff: "sel_ok ty f \<longleftrightarrow> fld_name f = ''__typename''
     \<or> (case map_of (schema_fields ty) (fld_name f) of None \<Rightarrow> False
        | Some t \<Rightarrow> list_all (sel_ok (base_type t)) (fld_sel f))"
  by (cases f) (simp cong: option.case_cong)

lemma sel_ok_CabinetImage:
  "sel_ok ''CabinetImage'' f \<Longrightarrow> fld_name f \<in> {''__typename'', ''id'', ''url'', ''alt'', ''sortOrder''}"
  by (auto simp: sel_ok_iff schema_fields_def schema_types_def split: if_splits)

lemma sel_ok_OrderLine:
  "sel_ok ''OrderLine'' f \<Longrightarrow> fld_name f \<in> {''__typename'', ''cabinetId'', ''quantity'', ''unitPriceCents''}"
  by (auto simp: sel_ok_iff schema_fields_def schema_types_def split: if_splits)

lemma sel_ok_Cabinet:
  "sel_ok ''Cabinet'' f \<Longrightarrow> fld_name f \<in> {''__typename'', ''id'', ''slug'', ''model'', ''type'', ''display'',
      ''condition'', ''quantity'', ''priceCents'', ''manufacturer'', ''year''}
    \<or> fld_name f = ''images'' \<and> list_all (sel_ok ''CabinetImage'') (fld_sel f)"
  by (auto simp: sel_ok_iff schema_fields_def schema_types_def split: if_splits)

lemma sel_ok_Order:
  "sel_ok ''Order'' f \<Longrightarrow> fld_name f \<in> {''__typename'', ''id'', ''userId'', ''status'', ''totalCents'', ''idempotencyKey''}
    \<or> fld_name f = ''items'' \<and> list_all (sel_ok ''OrderLine'') (fld_sel f)"
  by (auto simp: sel_ok_iff schema_fields_def schema_types_def split: if_splits)

section \<open>Complete answers\<close>

text \<open>A value of a type, and a slot of a field, that are there without errors and conform.\<close>

definition complete :: "gql_type \<Rightarrow> gql_field list \<Rightarrow> marshalled option \<Rightarrow> bool" where
  "complete t sel r \<longleftrightarrow> (\<exists>v. r = Some (v, []) \<and> conforms (NonNull t) sel v)"

definition slot_value :: "slot option \<Rightarrow> gql_out" where
  "slot_value r = fst (fst (the r))"

definition filled :: "string \<Rightarrow> gql_field \<Rightarrow> slot option \<Rightarrow> bool" where
  "filled ty f r \<longleftrightarrow> r = Some ((slot_value r, []), False) \<and> conforms (field_type ty f) (fld_sel f) (slot_value r)"

lemma exec_fields_filled:
  assumes "\<forall>f \<in> set sel. filled ty f (c f)"
  shows "exec_fields c sel = Some (map (\<lambda>f. (fld_alias f, slot_value (c f))) sel, False, [])"
  using assms
proof (induction sel)
  case (Cons f sel)
  then obtain v where "c f = Some ((v, []), False)" by (auto simp: filled_def)
  moreover have "exec_fields c sel = Some (map (\<lambda>f. (fld_alias f, slot_value (c f))) sel, False, [])"
    using Cons by simp
  ultimately show ?case by (simp add: slot_value_def)
qed simp

lemma object_filled:
  assumes "list_all (\<lambda>f. filled ty f (c f)) sel"
  shows "object_out (exec_fields c sel) = Some (GObject (map (\<lambda>f. (fld_alias f, slot_value (c f))) sel), [])"
  using assms by (simp add: exec_fields_filled [of sel ty] object_out_def list_all_iff)

lemma object_complete:
  assumes "list_all (\<lambda>f. filled ty f (c f)) sel" "ty \<in> set (map fst schema_types)"
  shows "complete (Named ty) sel (object_out (exec_fields c sel))"
  using assms
  by (auto simp: object_filled [OF assms(1)] complete_def list_all2_conv_all_nth list_all_iff filled_def)

lemma list_filled:
  assumes "\<forall>x \<in> set xs. f x = Some (g x, []) \<and> g x \<noteq> GNull"
  shows "list_out (marshal_all f xs) = Some (GList (map g xs), [])"
proof -
  have "marshal_all f xs = Some (map g xs, [])" using assms by (induction xs) auto
  then show ?thesis using assms by (auto simp: list_out_def)
qed

lemma list_complete:
  assumes "\<forall>x \<in> set xs. complete t sel (f x)"
  shows "complete (ListOf (NonNull t)) sel (list_out (marshal_all f xs))"
proof -
  from assms have "\<forall>x \<in> set xs. f x = Some (fst (the (f x)), []) \<and> fst (the (f x)) \<noteq> GNull"
    by (auto simp: complete_def)
  from list_filled [OF this] assms show ?thesis
    by (auto simp: complete_def list_all_iff)
qed

text \<open>Fields of scalars, and fields of objects and lists.\<close>

lemma resolve_value: "sound_runtime rt \<Longrightarrow> v \<noteq> GNull \<Longrightarrow> rt_ResolveField rt (Inr (v, es)) = (v, es)"
  by (simp add: sound_runtime_def)

lemma scalar_value:
  assumes "sound_runtime rt"
  shows "rt_ResolveField rt (Inr (marshalNString rt x)) = (rt_MarshalString rt x, [])"
    "rt_ResolveField rt (Inr (marshalNID rt x)) = (rt_MarshalID rt x, [])"
    "rt_ResolveField rt (Inr (marshalNInt rt i)) = (rt_MarshalInt rt i, [])"
    "rt_MarshalString rt x \<noteq> GNull" "rt_MarshalID rt x \<noteq> GNull" "rt_MarshalInt rt i \<noteq> GNull"
proof -
  from assms have "\<exists>t. rt_MarshalString rt x = GScalar t" "\<exists>t. rt_MarshalID rt x = GScalar t"
      "\<exists>t. rt_MarshalInt rt i = GScalar t" by (simp_all add: sound_runtime_def)
  then show "rt_MarshalString rt x \<noteq> GNull" "rt_MarshalID rt x \<noteq> GNull" "rt_MarshalInt rt i \<noteq> GNull"
    "rt_ResolveField rt (Inr (marshalNString rt x)) = (rt_MarshalString rt x, [])"
    "rt_ResolveField rt (Inr (marshalNID rt x)) = (rt_MarshalID rt x, [])"
    "rt_ResolveField rt (Inr (marshalNInt rt i)) = (rt_MarshalInt rt i, [])"
    by (auto simp: marshalNString_def marshalNID_def marshalNInt_def checked_def resolve_value [OF assms])
qed

lemma scalar_conforms:
  assumes "sound_runtime rt" "ty \<notin> set (map fst schema_types)"
  shows "conforms (Named ty) sel (rt_MarshalString rt x)" "conforms (Named ty) sel (rt_MarshalID rt x)"
    "conforms (Named ty) sel (rt_MarshalInt rt i)"
proof -
  from assms(1) have "\<exists>t. rt_MarshalString rt x = GScalar t" "\<exists>t. rt_MarshalID rt x = GScalar t"
      "\<exists>t. rt_MarshalInt rt i = GScalar t" by (simp_all add: sound_runtime_def)
  with assms(2) show "conforms (Named ty) sel (rt_MarshalString rt x)"
    "conforms (Named ty) sel (rt_MarshalID rt x)" "conforms (Named ty) sel (rt_MarshalInt rt i)" by auto
qed

lemma resolved_complete: "sound_runtime rt \<Longrightarrow> complete t sel r \<Longrightarrow> complete t sel (resolved rt r)"
  by (auto simp: complete_def resolved_def resolve_value)

lemma required_filled:
  "complete t (fld_sel f) r \<Longrightarrow> field_type ty f = NonNull t \<Longrightarrow> filled ty f (map_option required r)"
  by (auto simp: complete_def filled_def slot_value_def required_def)

lemma scalar_names: "''String'' \<notin> set (map fst schema_types)" "''ID'' \<notin> set (map fst schema_types)"
  "''Int'' \<notin> set (map fst schema_types)"
  by (simp_all add: schema_types_def)

lemma object_names: "''Cabinet'' \<in> set (map fst schema_types)" "''CabinetImage'' \<in> set (map fst schema_types)"
  "''Order'' \<in> set (map fst schema_types)" "''OrderLine'' \<in> set (map fst schema_types)"
  by (simp_all add: schema_types_def)

section \<open>Objects of the catalog\<close>

lemma scalar_filled:
  assumes "sound_runtime rt" "map_of (schema_fields ty) (fld_name f) = Some (NonNull (Named sc))"
    "fld_name f \<noteq> ''__typename''" "sc \<notin> set (map fst schema_types)"
  shows "filled ty f (Some (required (rt_MarshalString rt x, [])))" "filled ty f (Some (required (rt_MarshalID rt x, [])))"
    "filled ty f (Some (required (rt_MarshalInt rt i, [])))"
  using assms scalar_value(4-6) [OF assms(1)] scalar_conforms [OF assms(1,4)]
  by (simp_all add: filled_def slot_value_def required_def field_type_def)

lemma typename_filled:
  assumes "sound_runtime rt" "fld_name f = ''__typename''"
  shows "filled ty f (Some (free_slot (rt_MarshalString rt x)))"
  using assms scalar_value(4) [OF assms(1)] scalar_conforms(1) [OF assms(1) scalar_names(1)]
  by (simp add: filled_def slot_value_def free_slot_def field_type_def)

lemma image_filled:
  assumes "sound_runtime rt" "sel_ok ''CabinetImage'' f"
  shows "filled ''CabinetImage'' f (CabinetImage_case rt i f)"
  using sel_ok_CabinetImage [OF assms(2)] typename_filled [OF assms(1)] scalar_names
  by (auto simp: CabinetImage_case_def field_defs scalar_value [OF assms(1)] schema_fields_def schema_types_def
      intro!: scalar_filled [OF assms(1)])

lemma line_filled:
  assumes "sound_runtime rt" "sel_ok ''OrderLine'' f"
  shows "filled ''OrderLine'' f (OrderLine_case rt i f)"
  using sel_ok_OrderLine [OF assms(2)] typename_filled [OF assms(1)] scalar_names
  by (auto simp: OrderLine_case_def field_defs scalar_value [OF assms(1)] schema_fields_def schema_types_def
      intro!: scalar_filled [OF assms(1)])

lemma images_complete:
  assumes "sound_runtime rt" "list_all (sel_ok ''CabinetImage'') sel"
  shows "complete (ListOf (NonNull (Named ''CabinetImage''))) sel (marshalNCabinetImages rt sel imgs)"
  unfolding marshalNCabinetImages_def
proof (rule list_complete, rule ballI)
  fix i
  have "list_all (\<lambda>f. filled ''CabinetImage'' f (CabinetImage_case rt i f)) sel"
    using assms(2) image_filled [OF assms(1)] by (simp add: list_all_iff)
  from object_complete [OF this object_names(2)]
  show "complete (Named ''CabinetImage'') sel (marshalNCabinetImage rt sel (Some i))"
    by (simp add: marshalNCabinetImage_def exec_CabinetImage_def)
qed

lemma lines_complete:
  assumes "sound_runtime rt" "list_all (sel_ok ''OrderLine'') sel"
  shows "complete (ListOf (NonNull (Named ''OrderLine''))) sel (marshalNOrderLines rt sel ls)"
  unfolding marshalNOrderLines_def
proof (rule list_complete, rule ballI)
  fix l
  have "list_all (\<lambda>f. filled ''OrderLine'' f (OrderLine_case rt l f)) sel"
    using assms(2) line_filled [OF assms(1)] by (simp add: list_all_iff)
  from object_complete [OF this object_names(4)]
  show "complete (Named ''OrderLine'') sel (marshalNOrderLine rt sel (Some l))"
    by (simp add: marshalNOrderLine_def exec_OrderLine_def)
qed

lemma cabinet_filled:
  assumes "sound_runtime rt" "sel_ok ''Cabinet'' f"
  shows "filled ''Cabinet'' f (Cabinet_case rt c f)"
proof (cases "fld_name f = ''images''")
  case True
  then have "list_all (sel_ok ''CabinetImage'') (fld_sel f)" using sel_ok_Cabinet [OF assms(2)] by auto
  note complete = resolved_complete [OF assms(1) images_complete [OF assms(1) this]]
  from True have "field_type ''Cabinet'' f = NonNull (ListOf (NonNull (Named ''CabinetImage'')))"
    by (simp add: field_type_def schema_fields_def schema_types_def)
  from True required_filled [OF complete this] show ?thesis by (simp add: Cabinet_case_def Cabinet_images_field_def)
next
  case False
  then show ?thesis
    using sel_ok_Cabinet [OF assms(2)] typename_filled [OF assms(1)] scalar_names
    by (auto simp: Cabinet_case_def field_defs scalar_value [OF assms(1)] schema_fields_def schema_types_def
        intro!: scalar_filled [OF assms(1)])
qed

lemma order_filled:
  assumes "sound_runtime rt" "sel_ok ''Order'' f"
  shows "filled ''Order'' f (Order_case rt o1 f)"
proof (cases "fld_name f = ''items''")
  case True
  then have "list_all (sel_ok ''OrderLine'') (fld_sel f)" using sel_ok_Order [OF assms(2)] by auto
  note complete = resolved_complete [OF assms(1) lines_complete [OF assms(1) this]]
  from True have "field_type ''Order'' f = NonNull (ListOf (NonNull (Named ''OrderLine'')))"
    by (simp add: field_type_def schema_fields_def schema_types_def)
  from True required_filled [OF complete this] show ?thesis by (simp add: Order_case_def Order_items_field_def)
next
  case False
  then show ?thesis
    using sel_ok_Order [OF assms(2)] typename_filled [OF assms(1)] scalar_names
    by (auto simp: Order_case_def field_defs scalar_value [OF assms(1)] schema_fields_def schema_types_def
        intro!: scalar_filled [OF assms(1)])
qed

lemma exec_Cabinet_complete:
  assumes "sound_runtime rt" "list_all (sel_ok ''Cabinet'') sel"
  shows "complete (Named ''Cabinet'') sel (exec_Cabinet rt sel c)"
  unfolding exec_Cabinet_def
  by (rule object_complete [OF _ object_names(1)])
    (use assms(2) cabinet_filled [OF assms(1)] in \<open>simp add: list_all_iff\<close>)

lemma exec_Order_complete:
  assumes "sound_runtime rt" "list_all (sel_ok ''Order'') sel"
  shows "complete (Named ''Order'') sel (exec_Order rt sel o1)"
  unfolding exec_Order_def
  by (rule object_complete [OF _ object_names(3)])
    (use assms(2) order_filled [OF assms(1)] in \<open>simp add: list_all_iff\<close>)

lemma exec_Order_eq:
  assumes "sound_runtime rt" "list_all (sel_ok ''Order'') sel"
  shows "exec_Order rt sel o1 = Some (GObject (map (\<lambda>f. (fld_alias f, slot_value (Order_case rt o1 f))) sel), [])"
  unfolding exec_Order_def
  by (rule object_filled [where ty = "''Order''"])
    (use assms(2) order_filled [OF assms(1)] in \<open>simp add: list_all_iff\<close>)

section \<open>Mutations\<close>

lemma createOrder_field:
  "Mutation_createOrder_field rt C ctx f s =
     (case field_Mutation_createOrder_args rt (fld_args f) of
        None \<Rightarrow> (Some (GNull, [rt_Recover rt]), s)
      | Some (Inl err) \<Rightarrow> (Some (GNull, [err]), s)
      | Some (Inr input) \<Rightarrow> root_result rt (marshalNOrder rt (fld_sel f)) (resolve_CreateOrder C ctx input s))"
  by (simp add: Mutation_createOrder_field_def fieldContext_Mutation_createOrder_def with_args_def
      split: option.splits sum.splits)

lemma mutation_refused:
  assumes "sound_runtime rt" "field_Mutation_createOrder_args rt args = Some (Inr input)"
    "resolve_CreateOrder C ctx input s = (Inl st, s')"
  shows "exec_Mutation rt C ctx [GField al ''createOrder'' args sel] s = (Some (GNull, [rt_ErrorText rt st]), s')"
  using assms
  by (simp add: exec_Mutation_def Mutation_case_def createOrder_field root_result_def
      sound_runtime_def fields_out_def NewFieldSet_def fill_def required_def)

lemma mutation_accepted:
  assumes "sound_runtime rt" "field_Mutation_createOrder_args rt args = Some (Inr input)"
    "resolve_CreateOrder C ctx input s = (Inr (Some o1), s')" "list_all (sel_ok ''Order'') sel"
  shows "exec_Mutation rt C ctx [GField al ''createOrder'' args sel] s = (Some (GObject
    [(al, GObject (map (\<lambda>f. (fld_alias f, slot_value (Order_case rt o1 f))) sel))], []), s')"
  using assms
  by (simp add: exec_Mutation_def Mutation_case_def createOrder_field root_result_def
      marshalNOrder_def exec_Order_eq resolved_def resolve_value fields_out_def NewFieldSet_def fill_def required_def)

end
