(* ===== verification/Reserve_Properties.thy ===== *)
theory Reserve_Properties
  imports Ledger Reserve_Outcome Samples
begin

text \<open>
  What \<open>ReserveStockTx\<close> guarantees when it runs alone: a refinement of the decision it is
  meant to take, its effect, the replay of a key, and atomicity under every fault.
\<close>

section \<open>The decision\<close>

text \<open>The contract of a reservation: a known key answers for exactly its own parameters, a new
  one needs the stock.\<close>

definition reserve_spec :: "catalog_db \<Rightarrow> string \<Rightarrow> go_int \<Rightarrow> string \<Rightarrow> go_error + unit" where
  "reserve_spec d cid q key =
     (case find_reservation key d of
        Some r \<Rightarrow> if r_cabinet_id r = cid \<and> of_int32 (r_quantity r) = q then Inr ()
                  else Inl (CabErr ErrDuplicateReservation)
      | None \<Rightarrow>
          (case stock_of d cid of
             Some s \<Rightarrow> if sint (to_int32 q) \<le> s then Inr () else Inl (CabErr ErrInsufficientStock)
           | None \<Rightarrow> Inl (CabErr ErrInsufficientStock)))"

lemma reserve_spec_accepts:
  assumes "schema_ok d" "varchar 255 key" "0 < sint (to_int32 q)"
  shows "reserve_spec d cid q key = Inr () \<longleftrightarrow> reserve_accepts d cid q key"
proof (cases "find_reservation key d")
  case None
  have dec: "can_decrement d cid (to_int32 q) \<longleftrightarrow> (case stock_of d cid of None \<Rightarrow> False
      | Some s \<Rightarrow> sint (to_int32 q) \<le> s \<and> s - sint (to_int32 q) < 2 ^ 31)"
    using assms(1) by (simp add: can_decrement_iff schema_ok_def)
  show ?thesis
  proof (cases "stock_of d cid")
    case (Some s)
    with None dec reserve_accepts_fresh [OF assms(1) None Some assms(3) _ assms(2)] show ?thesis
      by (auto simp: reserve_spec_def reserve_accepts_def)
  qed (simp add: reserve_spec_def reserve_accepts_def dec None)
qed (auto simp: reserve_spec_def reserve_accepts_def)

text \<open>
  C13. Without faults \<open>ReserveStockTx\<close> implements that contract: it takes the specified
  decision, and changes the tables exactly when a new reservation is accepted.
\<close>
theorem reserve_stock_refines:
  assumes "quiet E" "schema_ok (w_db w)" "varchar 255 key" "0 < sint (to_int32 q)"
  shows "map_sum (\<lambda>e. e) (\<lambda>_. ()) (fst (repo_ReserveStockTx E cid q key w)) = reserve_spec (w_db w) cid q key
    \<and> w_db (snd (repo_ReserveStockTx E cid q key w)) =
        (if reserve_spec (w_db w) cid q key = Inr ()
         then reserve_db (env_now E (w_tick w)) cid q key (w_db w) else w_db w)"
proof (cases "reserve_accepts (w_db w) cid q key")
  case True
  then have "reserve_spec (w_db w) cid q key = Inr ()" using reserve_spec_accepts [OF assms(2-4)] by blast
  moreover obtain c w' where "repo_ReserveStockTx E cid q key w = (Inr c, w')"
    using reserve_tx_quiet [OF assms(1,2) True] by blast
  ultimately show ?thesis using reserve_tx_Inr(2) by (metis fst_conv map_sum.simps(2) snd_conv)
next
  case False
  then have no: "reserve_spec (w_db w) cid q key \<noteq> Inr ()" using reserve_spec_accepts [OF assms(2-4)] by blast
  have err: "fst (repo_ReserveStockTx E cid q key w) = Inl e"
    if "reserve_spec (w_db w) cid q key = Inl e" for e
  proof (cases "find_reservation key (w_db w)")
    case None
    with that have "e = CabErr ErrInsufficientStock"
      "case stock_of (w_db w) cid of None \<Rightarrow> True | Some s \<Rightarrow> s < sint (to_int32 q)"
      by (auto simp: reserve_spec_def split: option.splits if_splits)
    with reserve_tx_short [OF assms(1,2) None] show ?thesis by simp
  next
    case (Some r)
    with that have "e = CabErr ErrDuplicateReservation" "r_cabinet_id r \<noteq> cid \<or> of_int32 (r_quantity r) \<noteq> q"
      by (auto simp: reserve_spec_def split: if_splits)
    with reserve_tx_mismatch [OF assms(1) Some] show ?thesis by simp
  qed
  obtain e where e: "reserve_spec (w_db w) cid q key = Inl e" using no by (cases "reserve_spec (w_db w) cid q key") auto
  obtain w' where w': "repo_ReserveStockTx E cid q key w = (Inl e, w')" using err [OF e] by (metis prod.collapse)
  have "w_db w' = w_db w" using reserve_tx_Inl [OF w'] False by blast
  then show ?thesis using w' e by simp
qed

lemma reserve_stock_refines_witness:
  "map_sum (\<lambda>e. e) (\<lambda>_. ()) (fst (repo_ReserveStockTx sample_env ''B'' 6 ''k'' sample_world))
     = Inl (CabErr ErrInsufficientStock)"
  using reserve_stock_refines [of sample_env sample_world "''k''" 6 "''B''"]
  by (simp add: reserve_spec_def varchar_def char_length_def to_int32_def)

section \<open>The effect\<close>

text \<open>
  A reservation under a new key, under any faults: if it succeeds it has taken its units,
  which were there, from that cabinet alone; the response shows the stock that is left, and
  the key is recorded with its cabinet and quantity.
\<close>
theorem reserve_stock_effect:
  assumes "repo_ReserveStockTx E cid q key w = (Inr c, w')" "schema_ok (w_db w)"
    "find_reservation key (w_db w) = None"
  shows "(\<exists>s. stock_of (w_db w) cid = Some s \<and> sint (to_int32 q) \<le> s
        \<and> sint (Cab_Quantity c) = s - sint (to_int32 q) \<and> Cab_ID c = cid)
    \<and> (\<forall>x. stock_of (w_db w') x = (if x = cid then Some (sint (Cab_Quantity c)) else stock_of (w_db w) x))
    \<and> find_reservation key (w_db w') = Some (new_reservation (env_now E (w_tick w)) cid (to_int32 q) key)
    \<and> orders (w_db w') = orders (w_db w) \<and> outbox (w_db w') = outbox (w_db w)"
proof -
  note acc = reserve_tx_Inr(1) [OF assms(1)] and db = reserve_tx_Inr(2) [OF assms(1)]
  note st = stock_reserve_db [OF assms(2) acc, of "env_now E (w_tick w)"]
  have "can_decrement (w_db w) cid (to_int32 q)" using acc assms(3) by (simp add: reserve_accepts_def)
  then obtain s where s: "stock_of (w_db w) cid = Some s" "sint (to_int32 q) \<le> s"
    using can_decrement_iff assms(2) by (fastforce simp: schema_ok_def split: option.splits)
  have left: "stock_of (w_db w') cid = Some (sint (Cab_Quantity c))" "Cab_ID c = cid"
    using reserve_tx_cabinet [OF assms(1,2)] by blast+
  then have "sint (Cab_Quantity c) = s - sint (to_int32 q)" using s(1) db st [of cid] assms(3) by simp
  with s left st db show ?thesis
    by (auto simp: find_reservation_reserve_db assms(3))
qed

lemma sample_reservation: "\<exists>c w'. repo_ReserveStockTx sample_env ''B'' 2 ''k'' sample_world = (Inr c, w')"
  by (rule reserve_tx_quiet [OF sample_env_quiet])
    (simp_all add: reserve_accepts_fresh [where s = 5] varchar_def char_length_def to_int32_def)

lemma reserve_stock_effect_witness:
  "\<exists>c w'. repo_ReserveStockTx sample_env ''B'' 2 ''k'' sample_world = (Inr c, w')
     \<and> stock_of (w_db w') ''B'' = Some 3 \<and> stock_of (w_db w') ''A'' = Some 1"
proof -
  obtain c w' where r: "repo_ReserveStockTx sample_env ''B'' 2 ''k'' sample_world = (Inr c, w')"
    using sample_reservation by blast
  have "sint (to_int32 2) = 2" by (simp add: to_int32_def)
  with r reserve_stock_effect [OF r] show ?thesis by auto
qed

text \<open>
  Idempotence: repeating a reservation that succeeded, later and without faults, succeeds
  for the same cabinet and changes nothing.
\<close>
theorem reserve_stock_idempotent:
  assumes "repo_ReserveStockTx E cid q key w = (Inr c, w1)" "schema_ok (w_db w)"
    "of_int32 (to_int32 q) = q" "quiet E'" "w_db w2 = w_db w1"
  shows "\<exists>c' w3. repo_ReserveStockTx E' cid q key w2 = (Inr c', w3) \<and> Cab_ID c' = cid
    \<and> Cab_Quantity c' = Cab_Quantity c \<and> w_db w3 = w_db w1"
proof -
  note acc = reserve_tx_Inr(1) [OF assms(1)] and db = reserve_tx_Inr(2) [OF assms(1)]
  have ok: "schema_ok (w_db w1)" unfolding db by (rule schema_reserve_db [OF assms(2) acc])
  have found: "\<exists>r. find_reservation key (w_db w1) = Some r \<and> r_cabinet_id r = cid \<and> of_int32 (r_quantity r) = q"
    using acc assms(3) unfolding db
    by (auto simp: find_reservation_reserve_db reserve_accepts_def new_reservation_def split: option.splits)
  then have acc2: "reserve_accepts (w_db w2) cid q key" using assms(5) by (auto simp: reserve_accepts_def)
  obtain c' w3 where r: "repo_ReserveStockTx E' cid q key w2 = (Inr c', w3)"
    using reserve_tx_quiet [OF assms(4) _ acc2] ok assms(5) by auto
  have same: "w_db w3 = w_db w1"
    using reserve_tx_Inr(2) [OF r] found assms(5) by (auto simp: reserve_db_def)
  have "stock_of (w_db w1) cid = Some (sint (Cab_Quantity c))" "stock_of (w_db w1) cid = Some (sint (Cab_Quantity c'))"
    "Cab_ID c' = cid"
    using reserve_tx_cabinet [OF assms(1,2)] reserve_tx_cabinet [OF r] ok assms(5) same by auto
  with r same show ?thesis by (metis option.inject signed_word_eqI)
qed

lemma reserve_stock_idempotent_witness:
  "\<exists>c w1. repo_ReserveStockTx sample_env ''B'' 2 ''k'' sample_world = (Inr c, w1)
     \<and> w_db (snd (repo_ReserveStockTx sample_env ''B'' 2 ''k'' w1)) = w_db w1"
proof -
  obtain c w1 where r: "repo_ReserveStockTx sample_env ''B'' 2 ''k'' sample_world = (Inr c, w1)"
    using sample_reservation by blast
  from reserve_stock_idempotent [OF r, of sample_env w1] r show ?thesis
    by (auto simp: to_int32_def of_int32_def)
qed

text \<open>
  All or nothing under every fault: an error means that nothing changed, or the
  connection failed and exactly the reservation was applied.
\<close>
theorem reserve_stock_all_or_nothing:
  assumes "repo_ReserveStockTx E cid q key w = (Inl e, w')"
  shows "w_db w' = w_db w
    \<or> connection_error e \<and> reserve_accepts (w_db w) cid q key
      \<and> w_db w' = reserve_db (env_now E (w_tick w)) cid q key (w_db w)"
  by (rule reserve_tx_Inl [OF assms])

lemma reserve_stock_all_or_nothing_witness:
  "\<exists>e w'. repo_ReserveStockTx sample_env ''Z'' 1 ''k'' sample_world = (Inl e, w') \<and> w_db w' = sample_db"
proof -
  have "fst (repo_ReserveStockTx sample_env ''Z'' 1 ''k'' sample_world) = Inl (CabErr ErrInsufficientStock)"
    by (rule reserve_tx_short) simp_all
  then obtain w' where r: "repo_ReserveStockTx sample_env ''Z'' 1 ''k'' sample_world
      = (Inl (CabErr ErrInsufficientStock), w')" by (metis prod.collapse)
  from reserve_stock_all_or_nothing [OF r] r show ?thesis by auto
qed

end
