(* ===== verification/Rpc_Properties.thy ===== *)
theory Rpc_Properties
  imports Grpc_Handler Order_Properties Reserve_Properties
begin

text \<open>
  What the callers of the service see: the status of every refusal, and that a status other
  than \<open>Internal\<close> means that nothing was changed.
\<close>

section \<open>Creating orders\<close>

lemma h_CreateOrder_repo:
  assumes "Pbcq_Items req \<noteq> []" "\<forall>i \<in> set (Pbcq_Items req). 0 < sint (Pbii_Quantity i)"
    "CreateOrderTx R (normalize_user (extractUserIDFromContext ctx)) (map item_payload (Pbcq_Items req))
       (Pbcq_IdempotencyKey req) w = (r, w')"
  shows "h_CreateOrder R ctx req w = (case r of
     Inl e \<Rightarrow> (Inl (order_error_status (WrapError ''failed to create order: '' e)), w')
   | Inr ord \<Rightarrow> (Inr \<lparr>Pbcr_Order = Some (mapOrderToProto ord)\<rparr>, w'))"
proof -
  have "quantities_valid (map item_payload (Pbcq_Items req))"
    using assms(2) by (auto simp: quantities_valid_iff item_payload_def)
  with assms(1,3) show ?thesis
    by (simp add: h_CreateOrder_def uc_CreateOrder_def Let_def split: sum.split)
qed

text \<open>
  C21. Requests without items, or with a quantity that is not positive, are refused as invalid
  before the repository is called, whatever the repository is.
\<close>
theorem invalid_orders_refused:
  assumes "Pbcq_Items req = [] \<or> (\<exists>i \<in> set (Pbcq_Items req). sint (Pbii_Quantity i) \<le> 0)"
  shows "\<exists>st. h_CreateOrder R ctx req w = (Inl st, w) \<and> St_Code st = InvalidArgument"
proof -
  have "\<not> quantities_valid (map item_payload (Pbcq_Items req))" if "Pbcq_Items req \<noteq> []"
    using assms that by (force simp: quantities_valid_iff item_payload_def not_less)
  then show ?thesis
    by (auto simp: h_CreateOrder_def uc_CreateOrder_def Let_def order_error_status_code)
qed

definition sample_request :: "(string \<times> int32) list \<Rightarrow> pb_create_order_request" where
  "sample_request its = \<lparr>Pbcq_IdempotencyKey = ''k'',
     Pbcq_Items = map (\<lambda>(c, q). \<lparr>Pbii_CabinetId = c, Pbii_Quantity = q\<rparr>) its\<rparr>"

lemma invalid_orders_refused_witness:
  "\<exists>st. h_CreateOrder (postgres_repository sample_env) None (sample_request [(''A'', -1)]) sample_world
     = (Inl st, sample_world) \<and> St_Code st = InvalidArgument"
  by (rule invalid_orders_refused) (simp add: sample_request_def)

text \<open>
  C22. Without faults an order of an unknown cabinet is \<open>NotFound\<close>, one of distinct cabinets of
  which one is short of stock \<open>FailedPrecondition\<close>, and neither changes the tables.
\<close>
theorem unavailable_orders_refused:
  assumes "quiet E" "schema_ok (w_db w)" "order_of_key (Pbcq_IdempotencyKey req) (w_db w) = None"
    "items = map item_payload (Pbcq_Items req)"
    "uuid_fresh E (w_tick w) (w_tick w + order_ticks items) (w_db w)" "distinct (map In_CabinetID items)"
    "items \<noteq> []" "\<forall>i \<in> set items. 0 < sint (In_Quantity i)"
    "\<exists>i \<in> set items. case stock_of (w_db w) (In_CabinetID i) of None \<Rightarrow> True | Some s \<Rightarrow> s < sint (In_Quantity i)"
  shows "\<exists>st w'. h_CreateOrder (postgres_repository E) ctx req w = (Inl st, w') \<and> w_db w' = w_db w
    \<and> St_Code st = (if known_cabinets (w_db w) items then FailedPrecondition else NotFound)"
proof -
  have q: "sint (to_int32 (In_Quantity i)) = sint (In_Quantity i)" if "i \<in> set items" for i
    using that assms(4) by (auto simp: item_payload_def)
  let ?e = "if known_cabinets (w_db w) items then CabErr ErrInsufficientStock else CabErr ErrNotFound"
  have short: "\<exists>i \<in> set items. line_short (w_db w) (snapshot_of (w_db w) i)"
    using assms(9) by (rule bexE, intro bexI) (auto simp: line_short_def q split: option.splits)
  have "fst (repo_CreateOrderTx E uid items (Pbcq_IdempotencyKey req) w) = Inl ?e" for uid
    using create_order_unknown [OF assms(1,3)] create_order_short [OF assms(1-3,5) _ assms(6) _ short] assms(8) q
    by auto
  then obtain w' where w': "repo_CreateOrderTx E (normalize_user (extractUserIDFromContext ctx)) items
      (Pbcq_IdempotencyKey req) w = (Inl ?e, w')" by (metis prod.collapse)
  have "w_db w' = w_db w" by (rule repo_create_failed_db [OF w']) simp
  moreover have "h_CreateOrder (postgres_repository E) ctx req w
      = (Inl (order_error_status (WrapError ''failed to create order: '' ?e)), w')"
    using h_CreateOrder_repo [of req "postgres_repository E" ctx w "Inl ?e" w'] w' assms(4,7,8)
    by (auto simp: item_payload_def)
  ultimately show ?thesis by (simp add: order_error_status_code)
qed

lemma unavailable_orders_refused_witness:
  "\<exists>st w'. h_CreateOrder (postgres_repository sample_env) None (sample_request [(''A'', 2), (''B'', 1)])
     sample_world = (Inl st, w') \<and> w_db w' = sample_db \<and> St_Code st = FailedPrecondition"
proof -
  have "known_cabinets sample_db (map item_payload (Pbcq_Items (sample_request [(''A'', 2), (''B'', 1)])))"
    by (simp add: sample_request_def item_payload_def known_cabinets_def sample_cabinet_def)
  with unavailable_orders_refused [OF sample_env_quiet, of sample_world
      "sample_request [(''A'', 2), (''B'', 1)]" _ None]
  show ?thesis by (simp add: sample_request_def item_payload_def sample_fresh order_ticks_def)
qed

text \<open>
  An order that names a cabinet twice with different quantities is an internal error,
  although nothing failed: the reservation under the line's key is a duplicate, and the
  handler has no status for that.
\<close>
theorem mixed_lines_internal:
  assumes "quiet E" "schema_ok (w_db w)" "order_of_key (Pbcq_IdempotencyKey req) (w_db w) = None"
    "map item_payload (Pbcq_Items req) = i # j # items"
    "uuid_fresh E (w_tick w) (w_tick w + order_ticks (i # j # items)) (w_db w)"
    "known_cabinets (w_db w) (i # j # items)" "in_stock (w_db w) i" "In_CabinetID j = In_CabinetID i"
    "In_Quantity j \<noteq> In_Quantity i" "\<forall>k \<in> set (i # j # items). 0 < sint (In_Quantity k)"
  shows "\<exists>st w'. h_CreateOrder (postgres_repository E) ctx req w = (Inl st, w') \<and> St_Code st = Internal
    \<and> w_db w' = w_db w"
proof -
  have "i \<in> set (map item_payload (Pbcq_Items req))" using assms(4) by simp
  then have fits: "of_int32 (to_int32 (In_Quantity i)) = In_Quantity i" by (auto simp: item_payload_def)
  let ?u = "normalize_user (extractUserIDFromContext ctx)"
  have "fst (repo_CreateOrderTx E ?u (i # j # items) (Pbcq_IdempotencyKey req) w)
      = Inl (CabErr ErrDuplicateReservation)"
    using assms(9) fits by (intro create_order_mismatch [OF assms(1,5,2,3,6,7,8)]) simp
  then obtain w' where w': "repo_CreateOrderTx E ?u (i # j # items) (Pbcq_IdempotencyKey req) w
      = (Inl (CabErr ErrDuplicateReservation), w')" by (metis prod.collapse)
  have pos: "\<forall>k \<in> set (map item_payload (Pbcq_Items req)). 0 < sint (In_Quantity k)"
    unfolding assms(4) by (rule assms(10))
  have "h_CreateOrder (postgres_repository E) ctx req w
      = (Inl (order_error_status (WrapError ''failed to create order: '' (CabErr ErrDuplicateReservation))), w')"
    using h_CreateOrder_repo [of req "postgres_repository E" ctx w _ w'] w' assms(4) pos
    by (auto simp: item_payload_def)
  moreover have "w_db w' = w_db w" by (rule repo_create_failed_db [OF w']) simp
  ultimately show ?thesis by (simp add: order_error_status_code)
qed

lemma mixed_lines_internal_witness:
  "\<exists>st w'. h_CreateOrder (postgres_repository sample_env) None (sample_request [(''B'', 1), (''B'', 2)])
     sample_world = (Inl st, w') \<and> St_Code st = Internal \<and> w_db w' = sample_db"
  using mixed_lines_internal [OF sample_env_quiet, of sample_world
      "sample_request [(''B'', 1), (''B'', 2)]" "\<lparr>In_CabinetID = ''B'', In_Quantity = 1\<rparr>"
      "\<lparr>In_CabinetID = ''B'', In_Quantity = 2\<rparr>" "[]" None]
  by (simp add: sample_request_def item_payload_def sample_fresh order_ticks_def known_cabinets_def
      sample_cabinet_def in_stock_def to_int32_def of_int32_def)

text \<open>
  A refused order is an argument, conflict, lookup or stock error, and then nothing was
  changed, or an internal error.
\<close>
theorem order_statuses:
  assumes "h_CreateOrder (postgres_repository E) ctx req w = (Inl st, w')"
  shows "St_Code st \<in> {InvalidArgument, AlreadyExists, NotFound, FailedPrecondition, Internal}
    \<and> (St_Code st \<noteq> Internal \<longrightarrow> w_db w' = w_db w)"
proof -
  obtain err where "st = order_error_status err"
    using assms by (auto simp: h_CreateOrder_def Let_def split: prod.splits sum.splits)
  then have "St_Code st \<in> {InvalidArgument, AlreadyExists, NotFound, FailedPrecondition, Internal}"
    by (auto simp: order_error_status_code split: go_error.split cabinet_error.split order_error.split)
  with pg.h_CreateOrder_atomic [OF assms] show ?thesis by blast
qed

lemma order_statuses_witness:
  "\<exists>st w'. h_CreateOrder (postgres_repository sample_env) None (sample_request []) sample_world = (Inl st, w')
     \<and> St_Code st \<in> {InvalidArgument, AlreadyExists, NotFound, FailedPrecondition, Internal}"
proof -
  obtain st where "h_CreateOrder (postgres_repository sample_env) None (sample_request []) sample_world
      = (Inl st, sample_world)"
    by (simp add: h_CreateOrder_def uc_CreateOrder_def sample_request_def Let_def)
  with order_statuses [OF this] show ?thesis by blast
qed

section \<open>Reserving stock\<close>

text \<open>
  C23. A reservation is refused for lack of stock, for a conflict of keys or internally, never
  as not found: an unknown cabinet has no stock.  A refusal that is not internal changed
  nothing, and a quantity that is not positive does not reach the repository.
\<close>
theorem reservation_statuses:
  assumes "h_ReserveStock (postgres_repository E) req w = (Inl st, w')"
  shows "St_Code st \<in> {FailedPrecondition, AlreadyExists, Internal}
    \<and> (St_Code st \<noteq> Internal \<longrightarrow> w_db w' = w_db w)
    \<and> (sint (Pbrq_Quantity req) \<le> 0 \<longrightarrow> St_Code st = FailedPrecondition \<and> w' = w)"
proof -
  obtain err where err: "uc_ReserveStockTx (postgres_repository E) (Pbrq_CabinetId req)
      (of_int32 (Pbrq_Quantity req)) (Pbrq_IdempotencyKey req) w = (Inl err, w')" and st: "st = reserve_status err"
    using assms by (auto simp: h_ReserveStock_def split: prod.splits sum.splits)
  have "driver_error err \<or> err = CabErr ErrInsufficientStock \<or> err = CabErr ErrDuplicateReservation"
    using err by (auto simp: uc_ReserveStockTx_def split: if_splits prod.splits sum.splits dest: reserve_tx_error)
  then have "St_Code st \<in> {FailedPrecondition, AlreadyExists, Internal}"
    unfolding st reserve_status_code
    by (auto dest: driver_error_root split: go_error.split cabinet_error.split order_error.split)
  moreover have "St_Code st = FailedPrecondition \<and> w' = w" if "sint (Pbrq_Quantity req) \<le> 0"
    using err that st by (auto simp: uc_ReserveStockTx_def reserve_status_code)
  ultimately show ?thesis using pg.h_ReserveStock_atomic [OF assms] by blast
qed

lemma reservation_statuses_witness:
  "\<exists>st w'. h_ReserveStock (postgres_repository sample_env)
     \<lparr>Pbrq_CabinetId = ''A'', Pbrq_Quantity = -1, Pbrq_IdempotencyKey = ''k''\<rparr> sample_world = (Inl st, w')
     \<and> St_Code st = FailedPrecondition"
proof -
  obtain st where "h_ReserveStock (postgres_repository sample_env)
     \<lparr>Pbrq_CabinetId = ''A'', Pbrq_Quantity = -1, Pbrq_IdempotencyKey = ''k''\<rparr> sample_world = (Inl st, sample_world)"
    by (simp add: h_ReserveStock_def uc_ReserveStockTx_def)
  with reservation_statuses [OF this] show ?thesis by auto
qed

end
