(* ===== verification/Gateway_Properties.thy ===== *)
theory Gateway_Properties
  imports Rpc_Stubs Graphql_Facts Rpc_Properties
begin

text \<open>
  What a client of the GraphQL gateway sees of the catalog: who an order belongs to, which
  quantities arrive, what is returned of the rows, and what an answer looks like when the
  catalog refuses.
\<close>

section \<open>A sample request\<close>

definition sample_input :: gql_order_input where
  "sample_input = \<lparr>Gin_IdempotencyKey = ''k'', Gin_Items = [\<lparr>Gin_CabinetID = ''A'', Gin_Quantity = 1\<rparr>,
     \<lparr>Gin_CabinetID = ''B'', Gin_Quantity = 2\<rparr>]\<rparr>"

lemma sample_input_items: "map item_payload (map item_request (Gin_Items sample_input)) = sample_items"
  by (simp add: sample_input_def item_payload_def item_request_def sample_items_def to_int32_def of_int32_def)

lemma sample_resolve:
  "\<exists>o1 w'. resolve_CreateOrder (handler_client (postgres_repository sample_env)) ctx sample_input sample_world
     = (Inr (Some o1), w')"
proof -
  let ?u = "normalize_user (extractUserIDFromContext (incoming_of ctx))"
  let ?req = "\<lparr>Pbcq_IdempotencyKey = Gin_IdempotencyKey sample_input,
    Pbcq_Items = map item_request (Gin_Items sample_input)\<rparr>"
  obtain ord w' where r: "repo_CreateOrderTx sample_env ?u sample_items ''k'' sample_world = (Inr ord, w')"
    using sample_order_of by blast
  have "CreateOrderTx (postgres_repository sample_env) ?u (map item_payload (Pbcq_Items ?req))
      (Pbcq_IdempotencyKey ?req) sample_world = (Inr ord, w')"
    using r by (simp add: sample_input_items [simplified]) (simp add: sample_input_def)
  moreover have "Pbcq_Items ?req \<noteq> []" "\<forall>i \<in> set (Pbcq_Items ?req). 0 < sint (Pbii_Quantity i)"
    by (simp_all add: sample_input_def item_request_def to_int32_def)
  ultimately show ?thesis
    unfolding resolve_CreateOrder_eq by (simp add: h_CreateOrder_repo mapOrder_mapOrderToProto)
qed

section \<open>Requests\<close>

lemma normalize_anonymous: "normalize_user ''anonymous'' = ''anonymous''" "normalize_user [] = ''anonymous''"
  by code_simp+

lemma create_order_owner:
  assumes "repo_CreateOrderTx E uid items key w = (Inr ord, w')"
  shows "Ord_UserID ord = uid \<and> Ord_IdempotencyKey ord = key"
  using create_order_Inr [OF assms]
proof (elim disjE exE conjE)
  fix o1 assume "order_of_key key (w_db w) = Some o1" "replay_matches (w_db w) uid items o1"
    "ord = mapOrderToDomain o1 (items_of (o_id o1) (w_db w))"
  then show ?thesis
    by (auto simp: mapOrderToDomain_def replay_matches_def order_of_key_def dest: find_Some_in)
next
  assume "order_placed E (env_now E (w_tick w)) uid items key (w_db w) ord (w_db w')"
  then show ?thesis
    by (rule order_placedE) (simp add: mapOrderToDomain_def new_order_def)
qed

lemma normalized_caller:
  "normalize_user (extractUserIDFromContext (incoming_of (WithOutgoingMetadata u h [])))
     = normalize_user (header_Get h ''X-User-Id'')"
  by (simp add: user_of_request normalize_anonymous)

text \<open>
  C28. The user of the HTTP request owns the order, from the middleware to the tables: an order
  the gateway returns, new or replayed, belongs to the user of the header without the
  spaces around it, or to the anonymous user.
\<close>
theorem order_belongs_to_caller:
  assumes "resolve_CreateOrder (handler_client (postgres_repository E)) (WithOutgoingMetadata new_id h []) input w
      = (Inr (Some o1), w')"
  shows "Go_UserID o1 = normalize_user (header_Get h ''X-User-Id'') \<and> Go_UserID o1 \<noteq> []
    \<and> Go_IdempotencyKey o1 = Gin_IdempotencyKey input"
proof -
  let ?u = "if header_Get h ''X-User-Id'' = [] then ''anonymous'' else header_Get h ''X-User-Id''"
  let ?req = "\<lparr>Pbcq_IdempotencyKey = Gin_IdempotencyKey input, Pbcq_Items = map item_request (Gin_Items input)\<rparr>"
  obtain ord items where ord: "repo_CreateOrderTx E (normalize_user ?u) items (Gin_IdempotencyKey input) w = (Inr ord, w')"
    and o1: "mapOrder (Some (mapOrderToProto ord)) = Some o1"
    using assms unfolding resolve_CreateOrder_eq
    by (auto simp: h_CreateOrder_def uc_CreateOrder_def user_of_request Let_def
        split: prod.splits sum.splits if_splits)
  have "Ord_UserID ord = normalize_user ?u \<and> Ord_IdempotencyKey ord = Gin_IdempotencyKey input"
    by (rule create_order_owner [OF ord])
  moreover have "normalize_user ?u = normalize_user (header_Get h ''X-User-Id'')"
    by (simp add: normalize_anonymous)
  ultimately show ?thesis using o1 normalize_user_nonempty by (auto simp: mapOrder_mapOrderToProto)
qed

lemma order_belongs_to_caller_witness:
  "\<exists>o1 w'. resolve_CreateOrder (handler_client (postgres_repository sample_env))
     (WithOutgoingMetadata ''r'' [''X-User-Id'' \<mapsto> ['' ann '']] []) sample_input sample_world = (Inr (Some o1), w')
     \<and> Go_UserID o1 = ''ann''"
proof -
  obtain o1 w' where r: "resolve_CreateOrder (handler_client (postgres_repository sample_env))
     (WithOutgoingMetadata ''r'' [''X-User-Id'' \<mapsto> ['' ann '']] []) sample_input sample_world = (Inr (Some o1), w')"
    using sample_resolve by blast
  have "normalize_user '' ann '' = ''ann''" by code_simp
  with order_belongs_to_caller [OF r] r show ?thesis by (simp add: header_Get_def)
qed

text \<open>
  C29. The gateway narrows a 64 bit quantity to 32 bits: it arrives as it was sent exactly when
  it is in the range of \<open>int32\<close>, and an order of \<open>2 ^ 32\<close> more units of everything is the same
  request to the catalog.
\<close>
theorem gateway_quantity_wraps:
  "(In_Quantity (item_payload (item_request it)) = Gin_Quantity it
      \<longleftrightarrow> - (2 ^ 31) \<le> sint (Gin_Quantity it) \<and> sint (Gin_Quantity it) < 2 ^ 31)
   \<and> resolve_CreateOrder C ctx (input\<lparr>Gin_Items := map (\<lambda>i. i\<lparr>Gin_Quantity := Gin_Quantity i + 2 ^ 32\<rparr>)
        (Gin_Items input)\<rparr>) s = resolve_CreateOrder C ctx input s"
proof -
  have "item_request (i\<lparr>Gin_Quantity := Gin_Quantity i + 2 ^ 32\<rparr>) = item_request i" for i
    by (cases i) (simp only: item_request_def gql_item_input.simps to_int32_wraps)
  then have "map item_request (map (\<lambda>i. i\<lparr>Gin_Quantity := Gin_Quantity i + 2 ^ 32\<rparr>) (Gin_Items input))
      = map item_request (Gin_Items input)" by (simp only: map_map comp_def)
  then show ?thesis
    by (cases input) (simp only: resolve_CreateOrder_def gql_order_input.simps item_payload_def order_item_input.simps item_request_def
        pb_order_item_input.simps of_to_int32_iff simp_thms)
qed

section \<open>Answers\<close>

text \<open>
  C30. The cabinet that the gateway returns is the row: every column arrives unchanged through
  the domain and the protocol, with the images in the order of the query; an unknown id is
  not found, and reading changes nothing.
\<close>
theorem gateway_cabinet:
  assumes "quiet E"
  shows "fst (resolve_Cabinet (handler_client (postgres_repository E)) ctx cid w) =
      (case find (\<lambda>c. c_id c = cid) (cabinets (w_db w)) of
         None \<Rightarrow> Inl (status_errorf NotFound ''cabinet not found: '' (CabErr ErrNotFound))
       | Some c \<Rightarrow> Inr (Some \<lparr>Gc_ID = c_id c, Gc_Slug = c_slug c, Gc_Model = c_model c, Gc_Type = c_type c,
           Gc_Display = c_display c, Gc_Condition = c_condition c, Gc_Quantity = of_int32 (c_quantity c),
           Gc_PriceCents = c_price c, Gc_Manufacturer = c_manufacturer c, Gc_Year = c_year c,
           Gc_Images = map (\<lambda>i. \<lparr>Gi_ID = ji_ID i, Gi_URL = ji_URL i, Gi_Alt = ji_Alt i,
             Gi_SortOrder = of_int32 (ji_SortOrder i)\<rparr>) (images_agg (w_db w) cid)\<rparr>))
    \<and> w_db (snd (resolve_Cabinet (handler_client (postgres_repository E)) ctx cid w)) = w_db w"
proof -
  have scan: "scan_image_bytes E (env_render_images E imgs) = Inr imgs" for imgs
    using assms by (simp add: quiet_def)
  note defs = resolve_Cabinet_def handler_client_def map_result_def h_GetCabinet_def uc_GetCabinet_def
    repo_GetCabinet_def pool_run_def q_GetCabinet_def scan_cabinet_row_def scan quiet_no_fault [OF assms]
    mapCabinet_mapCabinetToProto GetCabinetResponse_GetCabinet_def mapCabinetToDomain_def mapImagesToDomain_def
  show ?thesis
  proof (cases "find (\<lambda>c. c_id c = cid) (cabinets (w_db w))")
    case None
    then show ?thesis by (simp add: defs Let_def)
  next
    case (Some c)
    then have "c_id c = cid" by (auto dest: find_Some_in)
    with Some show ?thesis by (simp add: defs Let_def comp_def)
  qed
qed

lemma gateway_cabinet_witness:
  "\<exists>g :: gql_cabinet. fst (resolve_Cabinet (handler_client (postgres_repository sample_env)) [] ''B'' sample_world)
     = Inr (Some g) \<and> Gc_ID g = ''B'' \<and> Gc_PriceCents g = 20 \<and> sint (Gc_Quantity g) = 5"
  using gateway_cabinet [OF sample_env_quiet, of "[]" "''B''" sample_world]
  by (simp add: sample_cabinet_def)

text \<open>
  The generated stubs are transparent: a client call that is dispatched to the handlers
  over the method table is the handler's result for the metadata as the server receives it.
\<close>
theorem stubs_are_handlers:
  fixes R :: "'w cabinet_repository"
  shows "client_ListCabinets (dispatch (cabinet_handler_server R) None) ctx w
      = map_result StatusErr (\<lambda>r. r) (h_ListCabinets R w)
    \<and> client_GetCabinet (dispatch (cabinet_handler_server R) None) ctx q1 w
      = map_result StatusErr (\<lambda>r. r) (h_GetCabinet R q1 w)
    \<and> client_ReserveStock (dispatch (cabinet_handler_server R) None) ctx q2 w
      = map_result StatusErr (\<lambda>r. r) (h_ReserveStock R q2 w)
    \<and> client_CreateOrder (dispatch (cabinet_handler_server R) None) ctx q3 w
      = map_result StatusErr (\<lambda>r. r) (h_CreateOrder R (incoming_of ctx) q3 w)
    \<and> client_GetOrder (dispatch (cabinet_handler_server R) None) ctx q4 w
      = map_result StatusErr (\<lambda>r. r) (h_GetOrder R q4 w)"
  by (simp add: client_of_handlers)

section \<open>GraphQL answers\<close>

text \<open>The value of a field of an order, by the schema.\<close>

definition line_value :: "gql_runtime \<Rightarrow> gql_line \<Rightarrow> gql_field \<Rightarrow> gql_out" where
  "line_value rt l f =
     (if fld_name f = ''__typename'' then rt_MarshalString rt ''OrderLine''
      else if fld_name f = ''cabinetId'' then rt_MarshalID rt (Gl_CabinetID l)
      else if fld_name f = ''quantity'' then rt_MarshalInt rt (Gl_Quantity l)
      else rt_MarshalInt rt (Gl_UnitPriceCents l))"

definition order_value :: "gql_runtime \<Rightarrow> gql_order \<Rightarrow> gql_field \<Rightarrow> gql_out" where
  "order_value rt o1 f =
     (if fld_name f = ''__typename'' then rt_MarshalString rt ''Order''
      else if fld_name f = ''id'' then rt_MarshalID rt (Go_ID o1)
      else if fld_name f = ''userId'' then rt_MarshalID rt (Go_UserID o1)
      else if fld_name f = ''status'' then rt_MarshalString rt (Go_Status o1)
      else if fld_name f = ''totalCents'' then rt_MarshalInt rt (Go_TotalCents o1)
      else if fld_name f = ''idempotencyKey'' then rt_MarshalString rt (Go_IdempotencyKey o1)
      else GList (map (\<lambda>l. GObject (map (\<lambda>g. (fld_alias g, line_value rt l g)) (fld_sel f))) (Go_Items o1)))"

lemma exec_line_value:
  assumes "sound_runtime rt" "list_all (sel_ok ''OrderLine'') sel"
  shows "exec_OrderLine rt sel l = Some (GObject (map (\<lambda>g. (fld_alias g, line_value rt l g)) sel), [])"
proof -
  have "slot_value (OrderLine_case rt l f) = line_value rt l f" if "sel_ok ''OrderLine'' f" for f
    using sel_ok_OrderLine [OF that]
    by (auto simp: OrderLine_case_def line_value_def field_defs scalar_value [OF assms(1)]
        slot_value_def required_def free_slot_def)
  moreover have "exec_OrderLine rt sel l
      = Some (GObject (map (\<lambda>g. (fld_alias g, slot_value (OrderLine_case rt l g))) sel), [])"
    unfolding exec_OrderLine_def by (rule object_filled [where ty = "''OrderLine''"])
      (use assms(2) line_filled [OF assms(1)] in \<open>simp add: list_all_iff\<close>)
  ultimately show ?thesis using assms(2) by (simp add: list_all_iff cong: map_cong)
qed

lemma order_slot_value:
  assumes "sound_runtime rt" "sel_ok ''Order'' f"
  shows "slot_value (Order_case rt o1 f) = order_value rt o1 f"
proof (cases "fld_name f = ''items''")
  case True
  then have "list_all (sel_ok ''OrderLine'') (fld_sel f)" using sel_ok_Order [OF assms(2)] by auto
  then have "marshalNOrderLines rt (fld_sel f) (Go_Items o1) = Some (GList (map (\<lambda>l. GObject
      (map (\<lambda>g. (fld_alias g, line_value rt l g)) (fld_sel f))) (Go_Items o1)), [])"
    unfolding marshalNOrderLines_def marshalNOrderLine_def
    by (intro list_filled) (simp add: exec_line_value [OF assms(1)])
  with True show ?thesis
    by (simp add: Order_case_def order_value_def Order_items_field_def resolved_def resolve_value [OF assms(1)]
        slot_value_def required_def)
next
  case False
  then show ?thesis using sel_ok_Order [OF assms(2)]
    by (auto simp: Order_case_def order_value_def field_defs scalar_value [OF assms(1)]
        slot_value_def required_def free_slot_def)
qed

lemma mutation_answered:
  assumes "sound_runtime rt" "list_all (sel_ok ''Order'') sel" "field_Mutation_createOrder_args rt args = Some (Inr input)"
    "resolve_CreateOrder C ctx input s = (Inr (Some o1), s')"
  shows "exec_Mutation rt C ctx [GField al ''createOrder'' args sel] s = (Some (GObject
    [(al, GObject (map (\<lambda>f. (fld_alias f, order_value rt o1 f)) sel))], []), s')"
  using mutation_accepted [OF assms(1,3,4,2)] order_slot_value [OF assms(1)] assms(2)
  by (simp add: list_all_iff cong: map_cong)

text \<open>
  A mutation that the catalog accepts is answered completely: the selected fields of the
  order, in the order and under the names of the selection, with the lines in theirs, and no
  error.
\<close>
theorem accepted_order_answer:
  assumes "sound_runtime rt" "list_all (sel_ok ''Order'') sel" "field_Mutation_createOrder_args rt args = Some (Inr input)"
    "resolve_CreateOrder C ctx input s = (Inr (Some o1), s')"
  shows "exec_Mutation rt C ctx [GField al ''createOrder'' args sel] s = (Some (GObject
    [(al, GObject (map (\<lambda>f. (fld_alias f, order_value rt o1 f)) sel))], []), s')"
  using assms by (rule mutation_answered)

definition sample_args :: "(string \<times> raw) list" where
  "sample_args = [(''input'', RMap [(''idempotencyKey'', RString ''k''), (''items'', RList
     [RMap [(''cabinetId'', RString ''A''), (''quantity'', RInt 1)],
      RMap [(''quantity'', RInt 2), (''cabinetId'', RString ''B'')]])])]"

lemma sample_args_input: "field_Mutation_createOrder_args plain_runtime sample_args = Some (Inr sample_input)"
  by (simp add: sample_args_def sample_input_def field_Mutation_createOrder_args_def
      unmarshalInputCreateOrderInput_def unmarshalInputCreateOrderItemInput_def unmarshal_key_def
      unmarshalNCreateOrderItemInputs_def plain_runtime_def)

lemma accepted_order_answer_witness:
  "\<exists>(o1 :: gql_order) w'. exec_Mutation plain_runtime (handler_client (postgres_repository sample_env)) []
     [GField ''order'' ''createOrder'' sample_args [GField ''total'' ''totalCents'' [] [],
        GField ''lines'' ''items'' [] [GField ''n'' ''quantity'' [] []]]] sample_world
     = (Some (GObject [(''order'', GObject [(''total'', GScalar (show_int (sint (Go_TotalCents o1)))),
         (''lines'', GList (map (\<lambda>l. GObject [(''n'', GScalar (show_int (sint (Gl_Quantity l))))]) (Go_Items o1)))])], []), w')"
proof -
  obtain o1 w' where r: "resolve_CreateOrder (handler_client (postgres_repository sample_env)) [] sample_input sample_world
     = (Inr (Some o1), w')" using sample_resolve by blast
  have "list_all (sel_ok ''Order'') [GField ''total'' ''totalCents'' [] [],
      GField ''lines'' ''items'' [] [GField ''n'' ''quantity'' [] []]]"
    by (simp add: schema_fields_def schema_types_def)
  from accepted_order_answer [OF plain_runtime_sound this sample_args_input r, of "''order''"]
  show ?thesis
    by (intro exI [of _ o1] exI [of _ w']) (simp add: order_value_def line_value_def plain_runtime_def)
qed

text \<open>
  C31. A mutation that the catalog refuses is answered by null with the refusal as its one
  error, and unless the refusal is an internal error the tables are unchanged.
\<close>
theorem refused_order_answer:
  assumes "sound_runtime rt" "field_Mutation_createOrder_args rt args = Some (Inr input)"
    "resolve_CreateOrder (handler_client (postgres_repository E)) ctx input w = (Inl st, w')"
  shows "exec_Mutation rt (handler_client (postgres_repository E)) ctx [GField al ''createOrder'' args sel] w
      = (Some (GNull, [rt_ErrorText rt st]), w')
    \<and> (St_Code st \<noteq> Internal \<longrightarrow> w_db w' = w_db w)"
proof -
  have "h_CreateOrder (postgres_repository E) (incoming_of ctx) \<lparr>Pbcq_IdempotencyKey = Gin_IdempotencyKey input,
      Pbcq_Items = map item_request (Gin_Items input)\<rparr> w = (Inl st, w')"
    using assms(3) by (auto simp: resolve_CreateOrder_eq split: prod.splits sum.splits)
  from pg.h_CreateOrder_atomic [OF this] mutation_refused [OF assms(1-3)] show ?thesis by blast
qed

lemma refused_order_answer_witness:
  "exec_Mutation plain_runtime (handler_client (postgres_repository sample_env)) []
     [GField ''order'' ''createOrder'' [(''input'', RMap [(''idempotencyKey'', RString ''k''), (''items'', RList [])])] []]
     sample_world = (Some (GNull, [''empty order'']), sample_world)"
proof -
  let ?in = "\<lparr>Gin_IdempotencyKey = ''k'', Gin_Items = []\<rparr>"
  have args: "field_Mutation_createOrder_args plain_runtime
      [(''input'', RMap [(''idempotencyKey'', RString ''k''), (''items'', RList [])])] = Some (Inr ?in)"
    by (simp add: field_Mutation_createOrder_args_def unmarshalInputCreateOrderInput_def unmarshal_key_def
        unmarshalNCreateOrderItemInputs_def plain_runtime_def)
  have "resolve_CreateOrder (handler_client (postgres_repository sample_env)) [] ?in sample_world
      = (Inl (status_error InvalidArgument ''empty order''), sample_world)"
    by (simp add: resolve_CreateOrder_eq h_CreateOrder_def uc_CreateOrder_def Let_def order_error_status_def)
  from refused_order_answer [OF plain_runtime_sound args this, of "''order''" "[]"] show ?thesis
    by (simp add: plain_runtime_def status_error_def)
qed

end
