(* ===== verification/Graphql_Schedule.thy ===== *)
theory Graphql_Schedule
  imports Graphql_Operations Repository_Effects "HOL-Library.Multiset"
begin

text \<open>
  Concurrent fields of a query.  Calls that only read commute, so the order in which the
  fields of a query complete does not show in the data.
\<close>

section \<open>Readers\<close>

text \<open>A call that depends on a view of the state and leaves the view as it is.\<close>

definition reader :: "('s \<Rightarrow> 'v) \<Rightarrow> ('s \<Rightarrow> 'a \<times> 's) \<Rightarrow> bool" where
  "reader view t \<longleftrightarrow> (\<forall>s. view (snd (t s)) = view s) \<and> (\<forall>s s'. view s = view s' \<longrightarrow> fst (t s) = fst (t s'))"

lemma reader_view: "reader view t \<Longrightarrow> view (snd (t s)) = view s"
  by (simp add: reader_def)

lemma reader_fst: "reader view t \<Longrightarrow> view s = view s' \<Longrightarrow> fst (t s) = fst (t s')"
  unfolding reader_def by blast

lemma reader_return [simp, intro]: "reader view (\<lambda>s. (x, s))"
  by (simp add: reader_def)

lemma reader_then:
  assumes "reader view t" "\<And>a. reader view (k a)"
  shows "reader view (\<lambda>s. case t s of (a, s') \<Rightarrow> k a s')"
  unfolding reader_def
proof (intro conjI allI impI)
  fix s
  show "view (snd (case t s of (a, s') \<Rightarrow> k a s')) = view s"
    using reader_view [OF assms(1), of s] reader_view [OF assms(2)] by (auto split: prod.split)
next
  fix s s' assume "view s = view s'"
  with assms reader_view [OF assms(1), of s] reader_view [OF assms(1), of s'] reader_fst [OF assms(1)]
  show "fst (case t s of (a, s') \<Rightarrow> k a s') = fst (case t s' of (a, s') \<Rightarrow> k a s')"
    by (cases "t s"; cases "t s'") (metis fst_conv case_prod_conv reader_fst snd_conv)
qed

lemma reader_map: "reader view t \<Longrightarrow> reader view (\<lambda>s. case t s of (a, s') \<Rightarrow> (g a, s'))"
  by (rule reader_then) auto

section \<open>Reading the catalog\<close>

lemma reader_pool:
  assumes "quiet E" "\<And>now d. q now d = (g d, d)"
  shows "reader w_db (pool_run E q)"
  by (simp add: reader_def pool_run_def assms(2) quiet_no_fault [OF assms(1)] Let_def)

lemma reader_ListCabinets:
  assumes "quiet E"
  shows "reader w_db (repo_ListCabinets E)"
proof -
  have "reader w_db (pool_run E (q_ListCabinets E))"
    by (rule reader_pool [OF assms]) (rule q_ListCabinets_def)
  from reader_map [OF this, of "\<lambda>r. case r of Inl err \<Rightarrow> Inl (WrapError ''failed to list cabinets: '' err)
      | Inr rows \<Rightarrow> Inr (map mapCabinetToDomain rows)"]
  show ?thesis
    by (rule back_subst [of "reader w_db"]) (auto simp: repo_ListCabinets_def fun_eq_iff split: prod.split sum.split)
qed

lemma reader_GetCabinet:
  assumes "quiet E"
  shows "reader w_db (repo_GetCabinet E cid)"
proof -
  have "reader w_db (pool_run E (q_GetCabinet E cid))"
    by (rule reader_pool [OF assms, where g = "\<lambda>d. fst (q_GetCabinet E cid 0 d)"])
      (simp add: q_GetCabinet_def split: option.split)
  from reader_map [OF this, of "\<lambda>r. case r of
        Inl err \<Rightarrow> (if errors_is err ErrNoRows then Inl (CabErr ErrNotFound)
          else Inl (WrapError ''failed to get cabinet: '' err))
      | Inr c \<Rightarrow> Inr (mapCabinetToDomain c)"]
  show ?thesis
    by (rule back_subst [of "reader w_db"]) (auto simp: repo_GetCabinet_def fun_eq_iff split: prod.split sum.split)
qed

lemma reader_GetOrder:
  assumes "quiet E"
  shows "reader w_db (repo_GetOrder E oid)"
proof -
  have order: "reader w_db (pool_run E (q_GetOrder oid))"
    by (rule reader_pool [OF assms, where g = "\<lambda>d. fst (q_GetOrder oid 0 d)"])
      (simp add: q_GetOrder_def split: option.split)
  have "reader w_db (pool_run E (q_ListOrderItems i))" for i
    by (rule reader_pool [OF assms]) (rule q_ListOrderItems_def)
  note items = reader_map [OF this]
  have "reader w_db (\<lambda>w. case pool_run E (q_GetOrder oid) w of (r, w1) \<Rightarrow>
     (case r of
        Inl err \<Rightarrow> \<lambda>w. (if errors_is err ErrNoRows then Inl (CabErr ErrNotFound)
          else Inl (WrapError ''failed to get order: '' err), w)
      | Inr o1 \<Rightarrow> \<lambda>w. case pool_run E (q_ListOrderItems (o_id o1)) w of (r2, w2) \<Rightarrow>
          (case r2 of Inl err \<Rightarrow> Inl (WrapError ''failed to list order items: '' err)
           | Inr items \<Rightarrow> Inr (mapOrderToDomain o1 items), w2)) w1)"
    by (rule reader_then [OF order]) (auto split: sum.split intro: items)
  then show ?thesis
    by (rule back_subst [of "reader w_db"]) (auto simp: repo_GetOrder_def fun_eq_iff split: prod.split sum.split)
qed

section \<open>Reading through the gateway\<close>

lemma reader_resolvers:
  assumes "quiet E"
  shows "reader w_db (resolve_Cabinets (handler_client (postgres_repository E)) ctx)"
    "reader w_db (resolve_Cabinet (handler_client (postgres_repository E)) ctx cid)"
    "reader w_db (resolve_Order (handler_client (postgres_repository E)) ctx oid)"
proof -
  note defs = handler_client_def postgres_repository_def map_result_def usecase_defs fun_eq_iff
  show "reader w_db (resolve_Cabinets (handler_client (postgres_repository E)) ctx)"
    by (rule back_subst [of "reader w_db", OF reader_map [OF reader_ListCabinets [OF assms], of
        "\<lambda>r. case r of Inl err \<Rightarrow> Inl (status_errorf Internal ''failed to list cabinets: '' err)
          | Inr cabs \<Rightarrow> Inr (map (\<lambda>c. mapCabinet (Some (mapCabinetToProto c))) cabs)"]])
      (auto simp: resolve_Cabinets_def h_ListCabinets_def ListCabinetsResponse_GetCabinets_def defs comp_def
        split: prod.split sum.split)
  show "reader w_db (resolve_Cabinet (handler_client (postgres_repository E)) ctx cid)"
    by (rule back_subst [of "reader w_db", OF reader_map [OF reader_GetCabinet [OF assms, of cid], of
        "\<lambda>r. case r of Inl err \<Rightarrow> Inl (if errors_is err (CabErr ErrNotFound)
            then status_errorf NotFound ''cabinet not found: '' err
            else status_errorf Internal ''failed to get cabinet: '' err)
          | Inr cab \<Rightarrow> Inr (mapCabinet (Some (mapCabinetToProto cab)))"]])
      (auto simp: resolve_Cabinet_def h_GetCabinet_def GetCabinetResponse_GetCabinet_def defs
        split: prod.split sum.split)
  show "reader w_db (resolve_Order (handler_client (postgres_repository E)) ctx oid)"
    by (rule back_subst [of "reader w_db", OF reader_map [OF reader_GetOrder [OF assms, of oid], of
        "\<lambda>r. case r of Inl err \<Rightarrow> Inl (if errors_is err (CabErr ErrNotFound)
            then status_errorf NotFound ''order not found: '' err
            else status_errorf Internal ''failed to get order: '' err)
          | Inr ord \<Rightarrow> Inr (mapOrder (Some (mapOrderToProto ord)))"]])
      (auto simp: resolve_Order_def h_GetOrder_def GetOrderResponse_GetOrder_def defs
        split: prod.split sum.split)
qed

lemma reader_root_result:
  assumes "reader view t"
  shows "reader view (\<lambda>s. root_result rt marshal (t s))"
  by (rule back_subst [of "reader view", OF reader_map [OF assms, of "\<lambda>r. case r of
        Inl st \<Rightarrow> Some (rt_ResolveField rt (Inl (rt_ErrorText rt st)))
      | Inr v \<Rightarrow> resolved rt (marshal v)"]])
    (auto simp: root_result_def fun_eq_iff split: prod.split sum.split)

lemma reader_recovered:
  assumes "reader view t"
  shows "reader view (\<lambda>s. recovered rt (t s))"
  by (rule back_subst [of "reader view", OF reader_map [OF assms, of "\<lambda>r. case r of
        None \<Rightarrow> ((GNil, [rt_Recover rt]), False) | Some m \<Rightarrow> required m"]])
    (auto simp: recovered_def fun_eq_iff split: prod.split option.split)

lemma reader_query_fields:
  assumes "quiet E"
  shows "reader w_db (Query_cabinets_field rt (handler_client (postgres_repository E)) ctx f)"
    "reader w_db (Query_cabinet_field rt (handler_client (postgres_repository E)) ctx f)"
    "reader w_db (Query_order_field rt (handler_client (postgres_repository E)) ctx f)"
proof -
  note field = reader_root_result [OF reader_resolvers(1) [OF assms]] reader_root_result [OF reader_resolvers(2) [OF assms]]
    reader_root_result [OF reader_resolvers(3) [OF assms]]
  show "reader w_db (Query_cabinets_field rt (handler_client (postgres_repository E)) ctx f)"
    unfolding Query_cabinets_field_def by (cases "fieldContext_Query_cabinets rt f") (simp_all add: field)
  show "reader w_db (Query_cabinet_field rt (handler_client (postgres_repository E)) ctx f)"
  proof (cases "fieldContext_Query_cabinet rt f")
    case (Inl err)
    then show ?thesis unfolding Query_cabinet_field_def by simp
  next
    case (Inr fc)
    then show ?thesis unfolding Query_cabinet_field_def by (cases "fc_Args fc") (simp_all add: field)
  qed
  show "reader w_db (Query_order_field rt (handler_client (postgres_repository E)) ctx f)"
  proof (cases "fieldContext_Query_order rt f")
    case (Inl err)
    then show ?thesis unfolding Query_order_field_def by simp
  next
    case (Inr fc)
    then show ?thesis unfolding Query_order_field_def by (cases "fc_Args fc") (simp_all add: field)
  qed
qed

lemma query_step_reader:
  assumes "quiet E" "Query_case rt I (handler_client (postgres_repository E)) ctx f = Later t"
  shows "reader w_db t"
  using assms(2) reader_recovered [OF reader_query_fields(1) [OF assms(1)]]
    reader_recovered [OF reader_query_fields(2) [OF assms(1)]] reader_recovered [OF reader_query_fields(3) [OF assms(1)]]
  by (auto simp: Query_case_def split: if_splits)

section \<open>Schedules\<close>

text \<open>The answer of a field set up to the order of the errors.\<close>

definition answer :: "field_set \<Rightarrow> gql_out list \<times> nat \<times> string multiset" where
  "answer fs = (fs_Values fs, fs_Invalids fs, mset (fs_errors fs))"

definition put :: "nat \<times> slot \<Rightarrow> gql_out list \<times> nat \<times> string multiset \<Rightarrow> gql_out list \<times> nat \<times> string multiset" where
  "put d r = (case (d, r) of ((i, (v, es), bad), (vs, n, m)) \<Rightarrow>
     (vs[i := v], n + (if bad then 1 else 0), m + mset es))"

lemma answer_fill: "answer (fill i sl fs) = put (i, sl) (answer fs)"
  by (cases sl) (auto simp: answer_def fill_def put_def split: prod.split)

lemma put_commute: "fst d \<noteq> fst e \<Longrightarrow> put d \<circ> put e = put e \<circ> put d"
  by (auto simp: put_def fun_eq_iff list_update_swap split: prod.split)

lemma run_readers:
  assumes "list_all (\<lambda>d. reader view (snd d)) ds" "view s = view s0"
  shows "answer (fst (run_delayed ds fs s)) = fold put (map (\<lambda>d. (fst d, fst (snd d s0))) ds) (answer fs)
    \<and> view (snd (run_delayed ds fs s)) = view s0"
  using assms
proof (induction ds fs s rule: run_delayed.induct)
  case (2 i t ds fs s)
  obtain sl s' where t: "t s = (sl, s')" by fastforce
  from 2(2) have r: "reader view t" and rest: "list_all (\<lambda>d. reader view (snd d)) ds" by simp_all
  from reader_view [OF r, of s] reader_fst [OF r 2(3)] t 2(3)
  have "view s' = view s0" "fst (t s0) = sl" by simp_all
  with 2(1) [OF t [symmetric] rest] t show ?case by (simp add: answer_fill)
qed simp

lemma fold_put_perm:
  assumes "mset ds = mset es" "distinct (map fst ds)"
  shows "fold put ds = fold put es"
proof (rule fold_multiset_equiv [OF _ assms(1)])
  fix d e assume "d \<in> set ds" "e \<in> set ds"
  with assms(2) have "d = e \<or> fst d \<noteq> fst e" by (auto simp: distinct_map inj_on_def)
  then show "put d \<circ> put e = put e \<circ> put d" using put_commute by blast
qed

text \<open>A schedule names every delayed field once.\<close>

definition fair_schedule :: "(nat \<Rightarrow> nat list) \<Rightarrow> bool" where
  "fair_schedule schedule \<longleftrightarrow> (\<forall>n. mset (schedule n) = mset [0..<n])"

lemma set_schedule: "fair_schedule schedule \<Longrightarrow> set (schedule n) = {..<n}"
  unfolding fair_schedule_def by (metis atLeast_upt mset_eq_setD)

lemma dispatch_readers:
  assumes "fair_schedule schedule" "list_all (\<lambda>d. reader view (snd d)) ds" "distinct (map fst ds)"
  shows "answer (fst (Dispatch (schedule (length ds)) ds fs s)) = fold put (map (\<lambda>d. (fst d, fst (snd d s))) ds) (answer fs)
    \<and> view (snd (Dispatch (schedule (length ds)) ds fs s)) = view s"
proof -
  let ?ds = "map (nth ds) (schedule (length ds))"
  have "mset ?ds = image_mset (nth ds) (mset [0..<length ds])"
    using assms(1) by (simp add: fair_schedule_def)
  also have "\<dots> = mset ds" by (metis map_nth mset_map)
  finally have m: "mset ?ds = mset ds" .
  have "list_all (\<lambda>d. reader view (snd d)) ?ds"
    using assms(2) by (simp only: list_all_iff mset_eq_setD [OF m])
  note run = run_readers [OF this refl, of fs s]
  have "fold put (map (\<lambda>d. (fst d, fst (snd d s))) ds) = fold put (map (\<lambda>d. (fst d, fst (snd d s))) ?ds)"
  proof (rule fold_put_perm)
    show "mset (map (\<lambda>d. (fst d, fst (snd d s))) ds) = mset (map (\<lambda>d. (fst d, fst (snd d s))) ?ds)"
      using arg_cong [OF m [symmetric], of "image_mset (\<lambda>d. (fst d, fst (snd d s)))"] by (simp only: mset_map)
    show "distinct (map fst (map (\<lambda>d. (fst d, fst (snd d s))) ds))" using assms(3) by (simp add: comp_def)
  qed
  with run show ?thesis by (simp add: Dispatch_def)
qed

lemma query_loop_readers:
  assumes "quiet E"
  shows "query_loop (Query_case rt I (handler_client (postgres_repository E)) ctx) i sel fs ds = Some (fs', ds')
    \<Longrightarrow> list_all (\<lambda>d. reader w_db (snd d)) ds \<Longrightarrow> distinct (map fst ds) \<Longrightarrow> \<forall>d \<in> set ds. fst d < i
    \<Longrightarrow> list_all (\<lambda>d. reader w_db (snd d)) ds' \<and> distinct (map fst ds')"
proof (induction sel arbitrary: i fs ds)
  case (Cons f sel)
  let ?c = "Query_case rt I (handler_client (postgres_repository E)) ctx"
  show ?case
  proof (cases "?c f")
    case (Now r)
    with Cons.prems obtain sl where "r = Some sl" by (cases r) auto
    with Now Cons.prems show ?thesis
      by (intro Cons.IH [of "Suc i" "fill i sl fs" ds]) (auto intro: less_SucI)
  next
    case (Later t)
    with query_step_reader [OF assms Later] Cons.prems show ?thesis
      by (intro Cons.IH [of "Suc i" fs "ds @ [(i, t)]"]) (auto intro: less_SucI)
  qed
qed simp

text \<open>The response up to the order of its errors.\<close>

definition response :: "marshalled option \<Rightarrow> (gql_out \<times> string multiset) option" where
  "response r = map_option (\<lambda>(v, es). (v, mset es)) r"

lemma response_fields_out:
  "response (Some (fields_out sel fs)) = (case answer fs of (vs, n, es) \<Rightarrow>
     Some (if n > 0 then GNull else GObject (zip (map fld_alias sel) vs), es))"
  by (simp add: response_def fields_out_def answer_def)

lemma exec_Query_answer:
  assumes "quiet E" "fair_schedule schedule"
  shows "response (fst (exec_Query rt I (handler_client (postgres_repository E)) ctx schedule sel w)) =
      (case query_loop (Query_case rt I (handler_client (postgres_repository E)) ctx) 0 sel (NewFieldSet sel) [] of
         None \<Rightarrow> None
       | Some (fs, ds) \<Rightarrow>
           (case fold put (map (\<lambda>d. (fst d, fst (snd d w))) ds) (answer fs) of (vs, n, es) \<Rightarrow>
              Some (if n > 0 then GNull else GObject (zip (map fld_alias sel) vs), es)))
    \<and> w_db (snd (exec_Query rt I (handler_client (postgres_repository E)) ctx schedule sel w)) = w_db w"
proof (cases "query_loop (Query_case rt I (handler_client (postgres_repository E)) ctx) 0 sel (NewFieldSet sel) []")
  case None
  then show ?thesis by (simp add: exec_Query_def response_def)
next
  case (Some p)
  obtain fs ds where p: "p = (fs, ds)" by (cases p)
  have "list_all (\<lambda>d. reader w_db (snd d)) ds \<and> distinct (map fst ds)"
    by (rule query_loop_readers [OF assms(1) Some [unfolded p]]) simp_all
  with dispatch_readers [OF assms(2), of w_db ds fs w]
  have "answer (fst (Dispatch (schedule (length ds)) ds fs w)) = fold put (map (\<lambda>d. (fst d, fst (snd d w))) ds) (answer fs)"
    "w_db (snd (Dispatch (schedule (length ds)) ds fs w)) = w_db w" by blast+
  then show ?thesis
    by (cases "Dispatch (schedule (length ds)) ds fs w") (simp add: exec_Query_def Some p response_fields_out)
qed

end
