(* ===== verification/Graphql_Typing.thy ===== *)
theory Graphql_Typing
  imports Graphql_Facts Graphql_Schedule
begin

text \<open>
  Type soundness of the executor: an operation that is valid by the schema ends in one response,
  which conforms to the schema or is null with an error.  The property itself is in
  \<open>Graphql_Properties\<close>.
\<close>

section \<open>Root fields\<close>

text \<open>A required field has its value without errors, or is null with an error.\<close>

definition answered :: "gql_type \<Rightarrow> gql_field list \<Rightarrow> marshalled option \<Rightarrow> bool" where
  "answered t sel r \<longleftrightarrow> complete t sel r \<or> (\<exists>es. r = Some (GNull, es) \<and> es \<noteq> [])"

lemma answered_error [simp]: "answered t sel (Some (GNull, [e]))"
  by (simp add: answered_def)

lemma resolved_answered: "sound_runtime rt \<Longrightarrow> answered t sel r \<Longrightarrow> answered t sel (resolved rt r)"
  using resolved_complete by (auto simp: answered_def) (simp add: resolved_def sound_runtime_def)

lemma root_result_answered:
  assumes "sound_runtime rt" "\<And>v. answered t sel (marshal v)"
  shows "answered t sel (fst (root_result rt marshal r))"
  using assms resolved_answered [OF assms(1,2)]
  by (auto simp: root_result_def sound_runtime_def split: prod.split sum.split)

lemma list_answered:
  assumes "\<forall>x \<in> set xs. answered t sel (f x)"
  shows "answered (ListOf (NonNull t)) sel (list_out (marshal_all f xs))"
proof -
  have "\<exists>vs es. marshal_all f xs = Some (vs, es)
      \<and> (es = [] \<and> list_all (conforms (NonNull t) sel) vs \<or> es \<noteq> [] \<and> GNull \<in> set vs)"
    using assms
  proof (induction xs)
    case (Cons x xs)
    then obtain vs es where rest: "marshal_all f xs = Some (vs, es)"
      "es = [] \<and> list_all (conforms (NonNull t) sel) vs \<or> es \<noteq> [] \<and> GNull \<in> set vs"
      by (auto simp del: conforms.simps)
    from Cons.prems have "answered t sel (f x)" by simp
    then show ?case unfolding answered_def complete_def
    proof (elim disjE exE conjE)
      fix v assume "f x = Some (v, [])" "conforms (NonNull t) sel v"
      with rest show ?thesis by (auto simp del: conforms.simps(1))
    next
      fix es' assume "f x = Some (GNull, es')" "es' \<noteq> []"
      with rest(1) show ?thesis by simp
    qed
  qed simp
  then show ?thesis
    by (elim exE conjE disjE) (auto simp: answered_def complete_def list_out_def list_all_iff)
qed

lemma cabinet_answered:
  assumes "sound_runtime rt" "list_all (sel_ok ''Cabinet'') sel"
  shows "answered (Named ''Cabinet'') sel (marshalNCabinet rt sel v)"
    "answered (ListOf (NonNull (Named ''Cabinet''))) sel (marshalNCabinets rt sel vs)"
proof -
  show one: "answered (Named ''Cabinet'') sel (marshalNCabinet rt sel v)" for v
    using exec_Cabinet_complete [OF assms] by (auto simp: marshalNCabinet_def answered_def split: option.split)
  show "answered (ListOf (NonNull (Named ''Cabinet''))) sel (marshalNCabinets rt sel vs)"
    unfolding marshalNCabinets_def by (rule list_answered) (simp add: one)
qed

lemma order_answered:
  assumes "sound_runtime rt" "list_all (sel_ok ''Order'') sel"
  shows "answered (Named ''Order'') sel (marshalNOrder rt sel v)"
  using exec_Order_complete [OF assms] by (auto simp: marshalNOrder_def answered_def split: option.split)

lemma root_answered:
  assumes "sound_runtime rt"
  shows "list_all (sel_ok ''Cabinet'') sel \<Longrightarrow>
      answered (ListOf (NonNull (Named ''Cabinet''))) sel (fst (root_result rt (marshalNCabinets rt sel) r1))"
    "list_all (sel_ok ''Cabinet'') sel \<Longrightarrow>
      answered (Named ''Cabinet'') sel (fst (root_result rt (marshalNCabinet rt sel) r2))"
    "list_all (sel_ok ''Order'') sel \<Longrightarrow>
      answered (Named ''Order'') sel (fst (root_result rt (marshalNOrder rt sel) r3))"
  by (auto intro!: root_result_answered [OF assms] cabinet_answered [OF assms] order_answered [OF assms])

text \<open>A slot of a root field, likewise.\<close>

definition slot_ok :: "string \<Rightarrow> gql_field \<Rightarrow> slot \<Rightarrow> bool" where
  "slot_ok ty f sl \<longleftrightarrow>
     (\<exists>v. sl = ((v, []), False) \<and> conforms (field_type ty f) (fld_sel f) v) \<or> (\<exists>v es. sl = ((v, es), True) \<and> es \<noteq> [])"

lemma required_slot_ok:
  assumes "answered t (fld_sel f) (Some m)" "field_type ty f = NonNull t"
  shows "slot_ok ty f (required m)"
  using assms by (auto simp: answered_def complete_def slot_ok_def required_def)

lemma typename_slot_ok:
  assumes "sound_runtime rt" "fld_name f = ''__typename''"
  shows "slot_ok ty f (free_slot (rt_MarshalString rt x))"
  using typename_filled [OF assms] by (auto simp: filled_def slot_ok_def)

lemma answered_Some: "answered t sel r \<Longrightarrow> \<exists>m. r = Some m"
  by (auto simp: answered_def complete_def)

lemma recovered_slot_ok:
  assumes "answered t (fld_sel f) (fst r)" "field_type ty f = NonNull t"
  shows "slot_ok ty f (fst (recovered rt r))"
  using answered_Some [OF assms(1)] assms required_slot_ok
  by (cases r) (auto simp: recovered_def split: option.split)

section \<open>Field sets\<close>

text \<open>The fields with the indices of \<open>F\<close> are done.\<close>

definition progress :: "string \<Rightarrow> gql_field list \<Rightarrow> nat set \<Rightarrow> field_set \<Rightarrow> bool" where
  "progress ty sel F fs \<longleftrightarrow> length (fs_Values fs) = length sel \<and> (fs_errors fs = [] \<longleftrightarrow> fs_Invalids fs = 0)
     \<and> (fs_errors fs = [] \<longrightarrow> (\<forall>i \<in> F. i < length sel \<longrightarrow>
          conforms (field_type ty (sel ! i)) (fld_sel (sel ! i)) (fs_Values fs ! i)))"

lemma progress_new: "progress ty sel {} (NewFieldSet sel)"
  by (simp add: progress_def NewFieldSet_def)

lemma nth_update: "j < length xs \<Longrightarrow> xs[i := v] ! j = (if j = i then v else xs ! j)"
  by (cases "j = i") auto

lemma progress_fill:
  assumes "progress ty sel F fs" "slot_ok ty (sel ! i) sl"
  shows "progress ty sel (insert i F) (fill i sl fs)"
  using assms by (auto simp: progress_def slot_ok_def fill_def nth_update)

definition conforming :: "string \<Rightarrow> gql_field list \<Rightarrow> marshalled \<Rightarrow> bool" where
  "conforming ty sel m \<longleftrightarrow> (if snd m = [] then conforms (NonNull (Named ty)) sel (fst m) else fst m = GNull)"

lemma progress_all:
  assumes "progress ty sel {..<length sel} fs" "ty \<in> set (map fst schema_types)"
  shows "conforming ty sel (fields_out sel fs)"
  using assms by (auto simp: conforming_def progress_def fields_out_def list_all2_conv_all_nth)

section \<open>Operations\<close>

lemma mutation_field_ok:
  assumes "sound_runtime rt" "sel_ok ''Mutation'' f"
  shows "\<exists>sl s'. Mutation_case rt C ctx f s = (Some sl, s') \<and> slot_ok ''Mutation'' f sl"
proof (cases "fld_name f = ''__typename''")
  case True
  then show ?thesis by (simp add: Mutation_case_def typename_slot_ok [OF assms(1)])
next
  case False
  with assms(2) have f: "fld_name f = ''createOrder''" "list_all (sel_ok ''Order'') (fld_sel f)"
    by (auto simp: sel_ok_iff schema_fields_def schema_types_def split: if_splits)
  obtain r s' where r: "Mutation_createOrder_field rt C ctx f s = (r, s')" by fastforce
  have "answered (Named ''Order'') (fld_sel f) (fst (Mutation_createOrder_field rt C ctx f s))"
    by (simp add: createOrder_field root_answered(3) [OF assms(1) f(2)] split: option.split sum.split)
  with r have "answered (Named ''Order'') (fld_sel f) r" by simp
  moreover from this obtain m where "r = Some m" using answered_Some by blast
  moreover from f have "field_type ''Mutation'' f = NonNull (Named ''Order'')"
    by (simp add: field_type_def schema_fields_def schema_types_def)
  ultimately have "slot_ok ''Mutation'' f (required m)" by (simp add: required_slot_ok)
  with f(1) r \<open>r = Some m\<close> show ?thesis by (simp add: Mutation_case_def)
qed

lemma mutation_loop_ok:
  assumes "sound_runtime rt" "list_all (sel_ok ''Mutation'') sel" "progress ''Mutation'' sel {..<i} fs" "i \<le> length sel"
  shows "\<exists>fs' s'. mutation_loop (Mutation_case rt C ctx) i (drop i sel) fs s = (Some fs', s')
    \<and> progress ''Mutation'' sel {..<length sel} fs'"
  using assms(3,4)
proof (induction "length sel - i" arbitrary: i fs s)
  case (Suc n)
  then have i: "i < length sel" by simp
  with assms(2) have "sel_ok ''Mutation'' (sel ! i)" by (simp add: list_all_length)
  from mutation_field_ok [OF assms(1) this, of C ctx s] obtain sl s' where
    sl: "Mutation_case rt C ctx (sel ! i) s = (Some sl, s')" "slot_ok ''Mutation'' (sel ! i) sl" by blast
  have "progress ''Mutation'' sel {..<Suc i} (fill i sl fs)"
    using progress_fill [OF Suc.prems(1) sl(2)] by (simp add: lessThan_Suc)
  from Suc.hyps(1) [OF _ this] Suc.hyps(2) i sl(1) show ?case
    by (simp add: Cons_nth_drop_Suc [symmetric])
qed simp

lemma exec_Mutation_ok:
  assumes "sound_runtime rt" "list_all (sel_ok ''Mutation'') sel"
  shows "\<exists>m s'. exec_Mutation rt C ctx sel s = (Some m, s') \<and> conforming ''Mutation'' sel m"
proof -
  obtain fs s' where "mutation_loop (Mutation_case rt C ctx) 0 sel (NewFieldSet sel) s = (Some fs, s')"
    "progress ''Mutation'' sel {..<length sel} fs"
    using mutation_loop_ok [OF assms, of 0 "NewFieldSet sel" C ctx s] progress_new by auto
  then show ?thesis using progress_all by (simp add: exec_Mutation_def schema_types_def)
qed

definition delayed_ok :: "gql_field list \<Rightarrow> 's delayed \<Rightarrow> bool" where
  "delayed_ok sel d \<longleftrightarrow> (\<forall>s. slot_ok ''Query'' (sel ! fst d) (fst (snd d s)))"

primrec step_ok :: "gql_field \<Rightarrow> 's root_step \<Rightarrow> bool" where
  "step_ok f (Now r) \<longleftrightarrow> (\<exists>sl. r = Some sl \<and> slot_ok ''Query'' f sl)"
| "step_ok f (Later t) \<longleftrightarrow> (\<forall>s. slot_ok ''Query'' f (fst (t s)))"

lemma context_cabinet: "fieldContext_Query_cabinet rt f = (case field_Query_cabinet_args rt (fld_args f) of
    Inl err \<Rightarrow> Inl err | Inr i \<Rightarrow> Inr ((object_context ''Query'' True True TCabinet)\<lparr>fc_Args := IdArg i\<rparr>))"
  by (simp add: fieldContext_Query_cabinet_def with_args_def split: sum.split)

lemma context_order: "fieldContext_Query_order rt f = (case field_Query_order_args rt (fld_args f) of
    Inl err \<Rightarrow> Inl err | Inr i \<Rightarrow> Inr ((object_context ''Query'' True True TOrder)\<lparr>fc_Args := IdArg i\<rparr>))"
  by (simp add: fieldContext_Query_order_def with_args_def split: sum.split)

lemma query_field_ok:
  assumes "sound_runtime rt" "sel_ok ''Query'' f"
  shows "step_ok f (Query_case rt I C ctx f)"
proof -
  from assms(2) consider "fld_name f = ''__typename''"
    | "fld_name f = ''cabinets''" "list_all (sel_ok ''Cabinet'') (fld_sel f)"
    | "fld_name f = ''cabinet''" "list_all (sel_ok ''Cabinet'') (fld_sel f)"
    | "fld_name f = ''order''" "list_all (sel_ok ''Order'') (fld_sel f)"
    by (auto simp: sel_ok_iff schema_fields_def schema_types_def split: if_splits)
  then show ?thesis
  proof cases
    case 1
    then show ?thesis by (simp add: Query_case_def typename_slot_ok [OF assms(1)])
  next
    case 2
    then have "field_type ''Query'' f = NonNull (ListOf (NonNull (Named ''Cabinet'')))"
      by (simp add: field_type_def schema_fields_def schema_types_def)
    with 2 show ?thesis
      by (simp add: Query_case_def Query_cabinets_field_def fieldContext_Query_cabinets_def
          recovered_slot_ok [OF root_answered(1) [OF assms(1)]])
  next
    case 3
    then have "field_type ''Query'' f = NonNull (Named ''Cabinet'')"
      by (simp add: field_type_def schema_fields_def schema_types_def)
    with 3 show ?thesis
      by (auto simp: Query_case_def Query_cabinet_field_def context_cabinet root_answered(2) [OF assms(1)]
          split: sum.split intro!: recovered_slot_ok)
  next
    case 4
    then have "field_type ''Query'' f = NonNull (Named ''Order'')"
      by (simp add: field_type_def schema_fields_def schema_types_def)
    with 4 show ?thesis
      by (auto simp: Query_case_def Query_order_field_def context_order root_answered(3) [OF assms(1)]
          split: sum.split intro!: recovered_slot_ok)
  qed
qed

lemma query_loop_ok:
  assumes "sound_runtime rt" "list_all (sel_ok ''Query'') sel"
  shows "progress ''Query'' sel F fs \<Longrightarrow> list_all (delayed_ok sel) ds \<Longrightarrow> F \<union> set (map fst ds) = {..<i} \<Longrightarrow> i \<le> length sel
    \<Longrightarrow> \<exists>fs' ds' F'. query_loop (Query_case rt I C ctx) i (drop i sel) fs ds = Some (fs', ds')
      \<and> progress ''Query'' sel F' fs' \<and> list_all (delayed_ok sel) ds' \<and> F' \<union> set (map fst ds') = {..<length sel}"
proof (induction "length sel - i" arbitrary: i fs ds F)
  case 0
  then show ?case by auto
next
  case (Suc n)
  then have i: "i < length sel" by simp
  then have drop: "drop i sel = sel ! i # drop (Suc i) sel" by (simp add: Cons_nth_drop_Suc)
  from i assms(2) have "sel_ok ''Query'' (sel ! i)" by (simp add: list_all_length)
  then have step: "step_ok (sel ! i) (Query_case rt I C ctx (sel ! i))" by (rule query_field_ok [OF assms(1)])
  show ?case
  proof (cases "Query_case rt I C ctx (sel ! i)")
    case (Now r)
    with step obtain sl where r: "r = Some sl" "slot_ok ''Query'' (sel ! i) sl" by auto
    have "insert i F \<union> set (map fst ds) = {..<Suc i}" using Suc.prems(3) by auto
    from Suc.hyps(1) [OF _ progress_fill [OF Suc.prems(1) r(2)] Suc.prems(2) this] Suc.hyps(2) i r(1) Now drop
    show ?thesis by simp
  next
    case (Later t)
    have "list_all (delayed_ok sel) (ds @ [(i, t)])" using Suc.prems(2) step Later by (simp add: delayed_ok_def)
    moreover have "F \<union> set (map fst (ds @ [(i, t)])) = {..<Suc i}" using Suc.prems(3) by auto
    ultimately show ?thesis
      using Suc.hyps(1) [OF _ Suc.prems(1), of "Suc i"] Suc.hyps(2) i Later drop by simp
  qed
qed

lemma run_delayed_ok:
  assumes "progress ''Query'' sel F fs" "list_all (delayed_ok sel) ds"
  shows "progress ''Query'' sel (F \<union> set (map fst ds)) (fst (run_delayed ds fs s))"
  using assms
proof (induction ds fs s arbitrary: F rule: run_delayed.induct)
  case (2 i t ds fs s)
  obtain sl s' where t: "t s = (sl, s')" by fastforce
  with 2(3) have sl: "slot_ok ''Query'' (sel ! i) sl" by (auto simp: delayed_ok_def dest: spec [of _ s])
  from 2(1) [OF t [symmetric] progress_fill [OF 2(2) sl]] 2(3) t show ?case by simp
qed simp

lemma exec_Query_ok:
  assumes "sound_runtime rt" "list_all (sel_ok ''Query'') sel" "fair_schedule schedule"
  shows "\<exists>m s'. exec_Query rt I C ctx schedule sel s = (Some m, s') \<and> conforming ''Query'' sel m"
proof -
  obtain fs ds F where loop: "query_loop (Query_case rt I C ctx) 0 sel (NewFieldSet sel) [] = Some (fs, ds)"
    and p: "progress ''Query'' sel F fs" "list_all (delayed_ok sel) ds" "F \<union> set (map fst ds) = {..<length sel}"
    using query_loop_ok [OF assms(1,2) progress_new, of "[]" 0 I C ctx] by auto
  let ?ds = "map (nth ds) (schedule (length ds))"
  have ds: "set ?ds = set ds" by (simp add: set_schedule [OF assms(3)] lessThan_atLeast0 nth_image)
  with p(2) have "list_all (delayed_ok sel) ?ds" by (simp add: list_all_iff)
  from run_delayed_ok [OF p(1) this, of s] ds p(3)
  have "progress ''Query'' sel {..<length sel} (fst (run_delayed ?ds fs s))" by (simp add: image_image [symmetric])
  from progress_all [OF this] have "conforming ''Query'' sel (fields_out sel (fst (run_delayed ?ds fs s)))"
    by (simp add: schema_types_def)
  then show ?thesis by (cases "run_delayed ?ds fs s") (auto simp: exec_Query_def loop Dispatch_def)
qed

section \<open>One response\<close>

primrec root_type :: "operation \<Rightarrow> string" where
  "root_type OpQuery = ''Query''"
| "root_type OpMutation = ''Mutation''"
| "root_type OpSubscription = ''Subscription''"

end
