(* ===== verification/Introspection_Facts.thy ===== *)
theory Introspection_Facts
  imports Graphql_Introspection
begin

text \<open>
  A selection of introspection fields that the contexts allow never makes the executor panic,
  whatever the library answers.
\<close>

lemma exec_fields_total: "list_all (\<lambda>f. c f \<noteq> None) sel \<Longrightarrow> object_out (exec_fields c sel) \<noteq> None"
proof -
  assume "list_all (\<lambda>f. c f \<noteq> None) sel"
  then have "exec_fields c sel \<noteq> None" by (induction sel) (auto split: option.split)
  then show ?thesis by (simp add: object_out_def)
qed

lemma list_total: "(\<And>v. f v \<noteq> None) \<Longrightarrow> list_out (marshal_all f vs) \<noteq> None"
proof -
  assume "\<And>v. f v \<noteq> None"
  then have "marshal_all f vs \<noteq> None" by (induction vs) (auto split: option.split)
  then show ?thesis by (simp add: list_out_def)
qed

text \<open>No panic.\<close>

definition returns :: "'a option \<Rightarrow> bool" where
  "returns r \<longleftrightarrow> r \<noteq> None"

lemma returns_simps [simp]: "returns (Some x)" "returns (map_option g r) \<longleftrightarrow> returns r"
    "returns (resolved rt (Some m))" "returns (resolved_nullable rt (Some m))"
  by (simp_all add: returns_def resolved_def resolved_nullable_def)

lemma resolved_returns: "returns r \<Longrightarrow> returns (resolved rt r)" "returns r \<Longrightarrow> returns (resolved_nullable rt r)"
  by (auto simp: returns_def resolved_def resolved_nullable_def)

primrec node_type :: "('sc, 'ty, 'fd, 'iv, 'ev, 'di) node \<Rightarrow> object_type" where
  "node_type (NSchema v) = TSchema"
| "node_type (NType v) = TType"
| "node_type (NField v) = TField"
| "node_type (NInputValue v) = TInputValue"
| "node_type (NEnumValue v) = TEnumValue"
| "node_type (NDirective v) = TDirective"

definition total_on :: "object_type \<Rightarrow> ('sc, 'ty, 'fd, 'iv, 'ev, 'di) child_exec \<Rightarrow> bool" where
  "total_on T ex \<longleftrightarrow> (\<forall>v. node_type v = T \<longrightarrow> ex v \<noteq> None)"

lemma total_onD:
  "total_on TSchema ex \<Longrightarrow> ex (NSchema v1) \<noteq> None" "total_on TType ex \<Longrightarrow> ex (NType v2) \<noteq> None"
  "total_on TField ex \<Longrightarrow> ex (NField v3) \<noteq> None" "total_on TInputValue ex \<Longrightarrow> ex (NInputValue v4) \<noteq> None"
  "total_on TEnumValue ex \<Longrightarrow> ex (NEnumValue v5) \<noteq> None" "total_on TDirective ex \<Longrightarrow> ex (NDirective v6) \<noteq> None"
  by (auto simp only: total_on_def node_type.simps)

lemma marshal_returns:
  "total_on TDirective ex \<Longrightarrow> returns (marshalN_Directives ex ds)"
  "total_on TInputValue ex \<Longrightarrow> returns (marshalN_InputValues ex ivs)"
  "total_on TType ex \<Longrightarrow> returns (marshalN_Types ex ts)"
  "total_on TType ex \<Longrightarrow> returns (marshalN_Type ex ty)"
  "total_on TEnumValue ex \<Longrightarrow> returns (marshalO_EnumValues ex evs)"
  "total_on TField ex \<Longrightarrow> returns (marshalO_Fields ex fds)"
  "total_on TInputValue ex \<Longrightarrow> returns (marshalO_InputValues ex oivs)"
  "total_on TType ex \<Longrightarrow> returns (marshalO_Types ex ots)"
  "total_on TType ex \<Longrightarrow> returns (marshalO_Type ex ty)"
  "returns (marshalN_DirectiveLocations rt ls)"
  unfolding returns_def marshalN_Directives_def marshalN_InputValues_def marshalN_Types_def marshalN_Type_def
    marshalO_EnumValues_def marshalO_Fields_def marshalO_InputValues_def marshalO_Types_def marshalO_Type_def
    marshalN_DirectiveLocations_def marshalN_Directive_value_def marshalN_InputValue_value_def
    marshalN_Type_value_def marshalN_EnumValue_value_def marshalN_Field_value_def
  by (simp_all only: option.case_eq_if list_total total_onD split: if_split) (simp_all add: list_total total_onD)


lemma in_context_returns: "(\<And>fc. r = Inr fc \<Longrightarrow> returns (k (fc_Args fc))) \<Longrightarrow> returns (in_context r k)"
  by (cases r) (simp_all add: in_context_def)

definition child_total :: "gql_runtime \<Rightarrow> object_type \<Rightarrow> gql_field \<Rightarrow> ('sc, 'ty, 'fd, 'iv, 'ev, 'di) child_exec \<Rightarrow> bool" where
  "child_total rt T f ex \<longleftrightarrow> (\<forall>fc T'. childFields T rt f = Inr fc \<longrightarrow> fc_Child fc = ChildFields T' \<longrightarrow> total_on T' ex)"

lemma object_context_child [simp]: "fc_Child (object_context obj m r T) = ChildFields T"
  by (simp add: object_context_def)

lemma with_args_Inr: "with_args rt fc r = Inr fc' \<Longrightarrow> \<exists>args. r = Some (Inr args) \<and> fc' = fc\<lparr>fc_Args := args\<rparr>"
  by (auto simp: with_args_def split: option.splits sum.splits)

lemma with_args_Some [simp]: "with_args rt fc (Some (Inr args)) = Inr (fc\<lparr>fc_Args := args\<rparr>)"
  by (simp add: with_args_def)

lemma map_sum_Inr: "map_sum id g r = Inr x \<Longrightarrow> \<exists>y. r = Inr y \<and> x = g y"
  by (cases r) auto

lemma Schema_case_returns:
  assumes "fld_name f = ''__typename'' \<or> childFields TSchema rt f \<noteq> Inl (no_field (fld_name f) ''__Schema'')"
    "child_total rt TSchema f ex"
  shows "returns (Intro_Schema_case rt I ex obj f)"
  using assms
  by (auto simp: Intro_Schema_case_def childFields_Intro_Schema_def intro_defs context_defs child_total_def
      dest!: with_args_Inr map_sum_Inr
      intro!: resolved_returns marshal_returns in_context_returns split: if_splits)

lemma Type_case_returns:
  assumes "fld_name f = ''__typename'' \<or> childFields TType rt f \<noteq> Inl (no_field (fld_name f) ''__Type'')"
    "child_total rt TType f ex"
  shows "returns (Intro_Type_case rt I ex obj f)"
  using assms
  by (auto simp: Intro_Type_case_def childFields_Intro_Type_def intro_defs context_defs child_total_def
      dest!: with_args_Inr map_sum_Inr
      intro!: resolved_returns marshal_returns in_context_returns split: if_splits)

lemma Field_case_returns:
  assumes "fld_name f = ''__typename'' \<or> childFields TField rt f \<noteq> Inl (no_field (fld_name f) ''__Field'')"
    "child_total rt TField f ex"
  shows "returns (Intro_Field_case rt I ex obj f)"
  using assms
  by (auto simp: Intro_Field_case_def childFields_Intro_Field_def intro_defs context_defs child_total_def
      dest!: with_args_Inr map_sum_Inr
      intro!: resolved_returns marshal_returns in_context_returns split: if_splits)

lemma InputValue_case_returns:
  assumes "fld_name f = ''__typename'' \<or> childFields TInputValue rt f \<noteq> Inl (no_field (fld_name f) ''__InputValue'')"
    "child_total rt TInputValue f ex"
  shows "returns (Intro_InputValue_case rt I ex obj f)"
  using assms
  by (auto simp: Intro_InputValue_case_def childFields_Intro_InputValue_def intro_defs context_defs child_total_def
      dest!: with_args_Inr map_sum_Inr
      intro!: resolved_returns marshal_returns in_context_returns split: if_splits)

lemma EnumValue_case_returns:
  assumes "fld_name f = ''__typename'' \<or> childFields TEnumValue rt f \<noteq> Inl (no_field (fld_name f) ''__EnumValue'')"
    "child_total rt TEnumValue f ex"
  shows "returns (Intro_EnumValue_case rt I ex obj f)"
  using assms
  by (auto simp: Intro_EnumValue_case_def childFields_Intro_EnumValue_def intro_defs context_defs child_total_def
      dest!: with_args_Inr map_sum_Inr
      intro!: resolved_returns marshal_returns in_context_returns split: if_splits)

lemma Directive_case_returns:
  assumes "fld_name f = ''__typename'' \<or> childFields TDirective rt f \<noteq> Inl (no_field (fld_name f) ''__Directive'')"
    "child_total rt TDirective f ex"
  shows "returns (Intro_Directive_case rt I ex obj f)"
  using assms
  by (auto simp: Intro_Directive_case_def childFields_Intro_Directive_def intro_defs context_defs child_total_def
      dest!: with_args_Inr map_sum_Inr
      intro!: resolved_returns marshal_returns in_context_returns split: if_splits)

section \<open>Selections\<close>

text \<open>
  A selection of fields that are known below a type, each with a known selection below it if
  its context names a type.
\<close>

function valid_node_sel :: "gql_runtime \<Rightarrow> object_type \<Rightarrow> gql_field list \<Rightarrow> bool" where
  "valid_node_sel rt T sel \<longleftrightarrow> list_all (\<lambda>f. fld_name f = ''__typename''
     \<or> (case childFields T rt f of
          Inl err \<Rightarrow> err \<noteq> no_field (fld_name f) (type_name T)
        | Inr fc \<Rightarrow> (case fc_Child fc of
            NoChild err \<Rightarrow> True
          | ChildFields T' \<Rightarrow> valid_node_sel rt T' (fld_sel f)))) sel"
  by pat_completeness auto
termination
  by (relation "measure (\<lambda>(rt, T, sel). size_list size sel)") (auto intro: size_fld_sel)

declare valid_node_sel.simps [simp del]

lemma exec_node_returns: "valid_node_sel rt (node_type nd) sel \<Longrightarrow> returns (exec_node rt I sel nd)"
proof (induction rt I sel nd rule: exec_node.induct)
  case (1 rt I sel nd)
  have "returns (node_case rt I (\<lambda>v. exec_node rt I (fld_sel f) v) nd f)" if f: "f \<in> set sel" for f
  proof -
    let ?ex = "\<lambda>v. exec_node rt I (fld_sel f) v"
    from 1(2) f have ok: "fld_name f = ''__typename'' \<or> (case childFields (node_type nd) rt f of
          Inl err \<Rightarrow> err \<noteq> no_field (fld_name f) (type_name (node_type nd))
        | Inr fc \<Rightarrow> (case fc_Child fc of
            NoChild err \<Rightarrow> True
          | ChildFields T' \<Rightarrow> valid_node_sel rt T' (fld_sel f)))"
      by (subst (asm) valid_node_sel.simps) (simp add: list_all_iff)
    show ?thesis
    proof (cases "fld_name f = ''__typename''")
      case True
      then show ?thesis by (cases nd) (simp_all add: intro_case_defs)
    next
      case False
      with ok have known: "childFields (node_type nd) rt f \<noteq> Inl (no_field (fld_name f) (type_name (node_type nd)))"
        by auto
      have "valid_node_sel rt T' (fld_sel f)"
        if "childFields (node_type nd) rt f = Inr fc" "fc_Child fc = ChildFields T'" for fc T'
        using ok False that by simp
      with 1(1) f have "child_total rt (node_type nd) f ?ex"
        by (auto simp: child_total_def total_on_def returns_def)
      with known show ?thesis
        by (cases nd) (auto intro!: Schema_case_returns Type_case_returns Field_case_returns
            InputValue_case_returns EnumValue_case_returns Directive_case_returns)
    qed
  qed
  then have "list_all (\<lambda>f. node_case rt I (\<lambda>v. exec_node rt I (fld_sel f) v) nd f \<noteq> None) sel"
    by (simp add: list_all_iff returns_def)
  from exec_fields_total [OF this] show ?case by (simp add: exec_node.simps [of rt I sel] returns_def)
qed

end
