(* ===== verification/Context_Facts.thy ===== *)
theory Context_Facts
  imports Graphql_Facts
begin

text \<open>
  The contexts that the generated code gives the fields of the catalog types, compared with the
  schema.
\<close>

text \<open>The documented context of a scalar field.\<close>

definition scalar_contexts :: "gql_runtime \<Rightarrow> bool" where
  "scalar_contexts rt \<longleftrightarrow> (\<forall>obj isMethod isResolver err. rt_NewScalarFieldContext rt obj isMethod isResolver err
     = \<lparr>fc_Object = obj, fc_IsMethod = isMethod, fc_IsResolver = isResolver, fc_Child = NoChild err, fc_Args = NoArgs\<rparr>)"

text \<open>What a field of a type must allow below it.\<close>

primrec child_matches :: "field_child \<Rightarrow> gql_type \<Rightarrow> bool" where
  "child_matches (NoChild err) t \<longleftrightarrow> base_type t \<notin> set (map fst schema_types)
     \<and> err = ''field of type '' @ base_type t @ '' does not have child fields''"
| "child_matches (ChildFields T) t \<longleftrightarrow> type_name T = base_type t"

text \<open>The context of a plain field of a type.\<close>

definition context_of :: "string \<Rightarrow> gql_type \<Rightarrow> string + field_context \<Rightarrow> bool" where
  "context_of ty t r \<longleftrightarrow> (\<exists>fc. r = Inr fc \<and> fc_Object fc = ty \<and> fc_Args fc = NoArgs
        \<and> \<not> fc_IsMethod fc \<and> \<not> fc_IsResolver fc \<and> child_matches (fc_Child fc) t)"

lemma context_of_scalar:
  "scalar_contexts rt \<Longrightarrow> n \<notin> set (map fst schema_types)
    \<Longrightarrow> context_of ty (NonNull (Named n))
      (Inr (rt_NewScalarFieldContext rt ty False False (''field of type '' @ n @ '' does not have child fields'')))"
  by (simp add: context_of_def scalar_contexts_def)

lemma context_of_object:
  "context_of ty (NonNull (ListOf (NonNull (Named (type_name T))))) (Inr (object_context ty False False T))"
  by (simp add: context_of_def object_context_def)

lemma scalar_context:
  assumes "scalar_contexts rt"
  shows "context_of ty (NonNull (Named ''String''))
      (Inr (rt_NewScalarFieldContext rt ty False False ''field of type String does not have child fields''))"
    "context_of ty (NonNull (Named ''ID''))
      (Inr (rt_NewScalarFieldContext rt ty False False ''field of type ID does not have child fields''))"
    "context_of ty (NonNull (Named ''Int''))
      (Inr (rt_NewScalarFieldContext rt ty False False ''field of type Int does not have child fields''))"
  using context_of_scalar [OF assms scalar_names(1)] context_of_scalar [OF assms scalar_names(2)]
    context_of_scalar [OF assms scalar_names(3)] by simp_all

lemmas object_field_context = context_of_object [of _ TCabinetImage, simplified] context_of_object [of _ TOrderLine, simplified]

lemma Cabinet_contexts:
  assumes "scalar_contexts rt"
  shows "case map_of (schema_fields ''Cabinet'') (fld_name f) of
      None \<Rightarrow> childFields_Cabinet rt f = Inl (no_field (fld_name f) ''Cabinet'')
    | Some t \<Rightarrow> context_of ''Cabinet'' t (childFields_Cabinet rt f)"
  by (simp add: schema_fields_def schema_types_def childFields_Cabinet_def context_defs
      scalar_context [OF assms] object_field_context)

lemma CabinetImage_contexts:
  assumes "scalar_contexts rt"
  shows "case map_of (schema_fields ''CabinetImage'') (fld_name f) of
      None \<Rightarrow> childFields_CabinetImage rt f = Inl (no_field (fld_name f) ''CabinetImage'')
    | Some t \<Rightarrow> context_of ''CabinetImage'' t (childFields_CabinetImage rt f)"
  by (simp add: schema_fields_def schema_types_def childFields_CabinetImage_def context_defs
      scalar_context [OF assms] object_field_context)

lemma Order_contexts:
  assumes "scalar_contexts rt"
  shows "case map_of (schema_fields ''Order'') (fld_name f) of
      None \<Rightarrow> childFields_Order rt f = Inl (no_field (fld_name f) ''Order'')
    | Some t \<Rightarrow> context_of ''Order'' t (childFields_Order rt f)"
  by (simp add: schema_fields_def schema_types_def childFields_Order_def context_defs
      scalar_context [OF assms] object_field_context)

lemma OrderLine_contexts:
  assumes "scalar_contexts rt"
  shows "case map_of (schema_fields ''OrderLine'') (fld_name f) of
      None \<Rightarrow> childFields_OrderLine rt f = Inl (no_field (fld_name f) ''OrderLine'')
    | Some t \<Rightarrow> context_of ''OrderLine'' t (childFields_OrderLine rt f)"
  by (simp add: schema_fields_def schema_types_def childFields_OrderLine_def context_defs
      scalar_context [OF assms] object_field_context)

end
