(* ===== verification/Wiring.thy ===== *)
theory Wiring
  imports Rpc_Stubs Pg_Session Outbox_Worker
begin

text \<open>
  The objects that tie the parts together: the query handle of sqlc
  (\<open>internal/catalog/adapter/postgres/db/db.go\<close>), the client of the gateway
  (\<open>internal/gateway/grpcclient/catalog.go\<close>) and the resolver that holds it
  (\<open>internal/gateway/graph/resolver.go\<close>), and the objects that \<open>main\<close> of the catalog builds.
\<close>

section \<open>The query handle\<close>

text \<open>A \<open>DBTX\<close> is the pool or an open transaction.\<close>

datatype dbtx = OnPool world | OnTx tx

record queries =
  Qs_db :: dbtx

definition New :: "dbtx \<Rightarrow> queries" where
  "New db = \<lparr>Qs_db = db\<rparr>"

definition WithTx :: "queries \<Rightarrow> tx \<Rightarrow> queries" where
  "WithTx q t = \<lparr>Qs_db = OnTx t\<rparr>"

text \<open>Every query of the handle runs on what it holds.\<close>

definition query_on :: "env \<Rightarrow> queries \<Rightarrow> 'a stmt \<Rightarrow> (go_error + 'a) \<times> queries" where
  "query_on E q s =
     (case Qs_db q of
        OnPool w \<Rightarrow> (case pool_run E s w of (r, w') \<Rightarrow> (r, \<lparr>Qs_db = OnPool w'\<rparr>))
      | OnTx t \<Rightarrow> (case tx_run E s t of (r, t') \<Rightarrow> (r, \<lparr>Qs_db = OnTx t'\<rparr>)))"

lemma query_on_New:
  "query_on E (New (OnPool w)) s = (case pool_run E s w of (r, w') \<Rightarrow> (r, New (OnPool w')))"
  "query_on E (New (OnTx t)) s = (case tx_run E s t of (r, t') \<Rightarrow> (r, New (OnTx t')))"
  by (simp_all add: query_on_def New_def)

text \<open>A handle of the pool that is given a transaction leaves the pool alone.\<close>

lemma query_on_WithTx: "query_on E (WithTx q t) s = query_on E (New (OnTx t)) s"
  by (simp add: query_on_def New_def WithTx_def)

section \<open>The client of the gateway\<close>

text \<open>
  \<open>grpc.NewClient\<close> is a parameter: the error, or a connection with its \<open>Invoke\<close> and the error
  of closing it.  \<open>status_of\<close> is the status that the library reads off an error of a call.
\<close>

record 's client_conn =
  Conn_Invoke :: "'s invoke"
  Conn_Close :: "string option"

definition NewCatalogServiceClient :: "(rpc_error \<Rightarrow> grpc_status) \<Rightarrow> 's invoke \<Rightarrow> 's catalog_client" where
  "NewCatalogServiceClient status_of cc =
     \<lparr>Rpc_ListCabinets = (\<lambda>ctx s. map_result status_of Some (client_ListCabinets cc ctx s)),
      Rpc_GetCabinet = (\<lambda>ctx req s. map_result status_of Some (client_GetCabinet cc ctx req s)),
      Rpc_CreateOrder = (\<lambda>ctx req s. map_result status_of Some (client_CreateOrder cc ctx req s)),
      Rpc_GetOrder = (\<lambda>ctx req s. map_result status_of Some (client_GetOrder cc ctx req s))\<rparr>"

record 's gateway_client =
  Gwc_conn :: "'s client_conn"
  Gwc_Client :: "'s catalog_client"

definition NewCatalogClient ::
    "(rpc_error \<Rightarrow> grpc_status) \<Rightarrow> (string \<Rightarrow> string + 's client_conn) \<Rightarrow> string \<Rightarrow> string + 's gateway_client" where
  "NewCatalogClient status_of grpc_NewClient addr =
     (case grpc_NewClient addr of
        Inl err \<Rightarrow> Inl (''dial catalog client: '' @ err)
      | Inr conn \<Rightarrow>
          Inr \<lparr>Gwc_conn = conn, Gwc_Client = NewCatalogServiceClient status_of (Conn_Invoke conn)\<rparr>)"

definition client_Close :: "'s gateway_client \<Rightarrow> string option" where
  "client_Close c = Conn_Close (Gwc_conn c)"

record 's resolver =
  Catalog :: "'s catalog_client"

text \<open>
  A gateway that dials the catalog's server resolves every field as the handlers do, when the
  library keeps the status of an error.
\<close>

lemma dialed_client_is_handlers:
  fixes R :: "'w cabinet_repository"
  assumes "\<And>st. status_of (StatusErr st) = st"
    "grpc_NewClient addr = Inr \<lparr>Conn_Invoke = dispatch (cabinet_handler_server R) None, Conn_Close = cl\<rparr>"
  shows "\<exists>c. NewCatalogClient status_of grpc_NewClient addr = Inr c \<and> Gwc_Client c = handler_client R
    \<and> client_Close c = cl"
  by (simp add: NewCatalogClient_def NewCatalogServiceClient_def assms client_of_handlers handler_client_def
      map_result_def client_Close_def fun_eq_iff split: prod.split sum.split)

section \<open>The objects of the catalog\<close>

record 'w cabinet_usecase =
  Uc_repository :: "'w cabinet_repository"

definition NewCabinetUsecase :: "'w cabinet_repository \<Rightarrow> 'w cabinet_usecase" where
  "NewCabinetUsecase repository = \<lparr>Uc_repository = repository\<rparr>"

record 'w cabinet_handler =
  Hd_usecase :: "'w cabinet_usecase"

definition NewCabinetHandler :: "'w cabinet_usecase \<Rightarrow> 'w cabinet_handler" where
  "NewCabinetHandler usecase = \<lparr>Hd_usecase = usecase\<rparr>"

text \<open>The logger of a worker is part of its state.\<close>

record ('w, 'p) outbox_worker =
  Ow_repository :: "'w cabinet_repository"
  Ow_publisher :: "'p event_publisher"

definition NewOutboxWorker :: "'w cabinet_repository \<Rightarrow> 'p event_publisher \<Rightarrow> ('w, 'p) outbox_worker" where
  "NewOutboxWorker repository pub = \<lparr>Ow_repository = repository, Ow_publisher = pub\<rparr>"

text \<open>One repository over the pool serves the handlers and the worker.\<close>

definition catalog_objects :: "env \<Rightarrow> world cabinet_handler \<times> (world, (string \<times> string) list) outbox_worker" where
  "catalog_objects E =
     (let repo = postgres_repository E;
          useCase = NewCabinetUsecase repo;
          catalogHandler = NewCabinetHandler useCase;
          eventPublisher = log_publisher;
          outboxWorker = NewOutboxWorker repo eventPublisher
      in (catalogHandler, outboxWorker))"

text \<open>The methods of the handler and of the worker, on the ports they were built from.\<close>

definition handler_server :: "'w cabinet_handler \<Rightarrow> 'w catalog_server" where
  "handler_server h = cabinet_handler_server (Uc_repository (Hd_usecase h))"

definition worker_Run :: "('w, 'p) outbox_worker \<Rightarrow> run_signal list \<Rightarrow> ('w, 'p) worker \<Rightarrow> ('w, 'p) worker" where
  "worker_Run x = worker_run (Ow_repository x) (Ow_publisher x)"

lemma catalog_objects_ports:
  "handler_server (fst (catalog_objects E)) = cabinet_handler_server (postgres_repository E)"
  "worker_Run (snd (catalog_objects E)) = worker_run (postgres_repository E) log_publisher"
  by (simp_all add: handler_server_def worker_Run_def catalog_objects_def NewCabinetUsecase_def
      NewCabinetHandler_def NewOutboxWorker_def Let_def)

end
