(* ===== verification/Graphql_Schema.thy ===== *)
theory Graphql_Schema
  imports Graphql_Facts Wiring
begin

text \<open>
  The executable schema of the gateway (the head of \<open>internal/gateway/graph/generated.go\<close> and
  the glue of \<open>schema.resolvers.go\<close>): the resolvers it holds, the schema it answers with, the
  cost of a field, and the inputs and arguments that the schema declares.
\<close>

section \<open>Resolvers\<close>

record 's mutation_resolver =
  Mr_CreateOrder :: "outgoing_md \<Rightarrow> gql_order_input \<Rightarrow> 's \<Rightarrow> (grpc_status + gql_order option) \<times> 's"

record 's query_resolver =
  Qr_Cabinets :: "outgoing_md \<Rightarrow> 's \<Rightarrow> (grpc_status + gql_cabinet option list) \<times> 's"
  Qr_Cabinet :: "outgoing_md \<Rightarrow> string \<Rightarrow> 's \<Rightarrow> (grpc_status + gql_cabinet option) \<times> 's"
  Qr_Order :: "outgoing_md \<Rightarrow> string \<Rightarrow> 's \<Rightarrow> (grpc_status + gql_order option) \<times> 's"

record 's resolver_root =
  Rr_Mutation :: "'s mutation_resolver"
  Rr_Query :: "'s query_resolver"

definition Resolver_Mutation :: "'s resolver \<Rightarrow> 's mutation_resolver" where
  "Resolver_Mutation r = \<lparr>Mr_CreateOrder = resolve_CreateOrder (Catalog r)\<rparr>"

definition Resolver_Query :: "'s resolver \<Rightarrow> 's query_resolver" where
  "Resolver_Query r = \<lparr>Qr_Cabinets = resolve_Cabinets (Catalog r), Qr_Cabinet = resolve_Cabinet (Catalog r),
     Qr_Order = resolve_Order (Catalog r)\<rparr>"

section \<open>Costs\<close>

text \<open>
  A configured cost function, nil if it is not set.  The cost of a field is what the function
  says of the cost of its children; the flag is false where the library has to use its default.
  A panic is \<open>None\<close>.
\<close>

type_synonym cost = "(go_int \<Rightarrow> go_int) option"
type_synonym costed = "(go_int \<times> bool) option"

record complexity_cabinet =
  Cx_Condition :: cost
  Cx_Display :: cost
  Cx_ID :: cost
  Cx_Images :: cost
  Cx_Manufacturer :: cost
  Cx_Model :: cost
  Cx_PriceCents :: cost
  Cx_Quantity :: cost
  Cx_Slug :: cost
  Cx_Type :: cost
  Cx_Year :: cost

record complexity_cabinet_image =
  Cxi_Alt :: cost
  Cxi_ID :: cost
  Cxi_SortOrder :: cost
  Cxi_URL :: cost

record complexity_order =
  Cxo_ID :: cost
  Cxo_IdempotencyKey :: cost
  Cxo_Items :: cost
  Cxo_Status :: cost
  Cxo_TotalCents :: cost
  Cxo_UserID :: cost

record complexity_order_line =
  Cxl_CabinetID :: cost
  Cxl_Quantity :: cost
  Cxl_UnitPriceCents :: cost

record complexity_mutation =
  Cxm_CreateOrder :: "(go_int \<Rightarrow> gql_order_input \<Rightarrow> go_int) option"

record complexity_query =
  Cxq_Cabinet :: "(go_int \<Rightarrow> string \<Rightarrow> go_int) option"
  Cxq_Cabinets :: cost
  Cxq_Order :: "(go_int \<Rightarrow> string \<Rightarrow> go_int) option"

record complexity_root =
  Cr_Cabinet :: complexity_cabinet
  Cr_CabinetImage :: complexity_cabinet_image
  Cr_Mutation :: complexity_mutation
  Cr_Order :: complexity_order
  Cr_OrderLine :: complexity_order_line
  Cr_Query :: complexity_query

text \<open>The cases of the switch, per object; \<open>otherwise\<close> is the rest of it.\<close>

definition cost_of :: "cost \<Rightarrow> go_int \<Rightarrow> costed" where
  "cost_of fn child = (case fn of None \<Rightarrow> Some (0, False) | Some f \<Rightarrow> Some (f child, True))"

definition Complexity_Cabinet :: "complexity_cabinet \<Rightarrow> string \<Rightarrow> go_int \<Rightarrow> costed \<Rightarrow> costed" where
  "Complexity_Cabinet root k child otherwise =
     (if k = ''Cabinet.condition'' then cost_of (Cx_Condition root) child
      else if k = ''Cabinet.display'' then cost_of (Cx_Display root) child
      else if k = ''Cabinet.id'' then cost_of (Cx_ID root) child
      else if k = ''Cabinet.images'' then cost_of (Cx_Images root) child
      else if k = ''Cabinet.manufacturer'' then cost_of (Cx_Manufacturer root) child
      else if k = ''Cabinet.model'' then cost_of (Cx_Model root) child
      else if k = ''Cabinet.priceCents'' then cost_of (Cx_PriceCents root) child
      else if k = ''Cabinet.quantity'' then cost_of (Cx_Quantity root) child
      else if k = ''Cabinet.slug'' then cost_of (Cx_Slug root) child
      else if k = ''Cabinet.type'' then cost_of (Cx_Type root) child
      else if k = ''Cabinet.year'' then cost_of (Cx_Year root) child
      else otherwise)"

definition Complexity_CabinetImage :: "complexity_cabinet_image \<Rightarrow> string \<Rightarrow> go_int \<Rightarrow> costed \<Rightarrow> costed" where
  "Complexity_CabinetImage root k child otherwise =
     (if k = ''CabinetImage.alt'' then cost_of (Cxi_Alt root) child
      else if k = ''CabinetImage.id'' then cost_of (Cxi_ID root) child
      else if k = ''CabinetImage.sortOrder'' then cost_of (Cxi_SortOrder root) child
      else if k = ''CabinetImage.url'' then cost_of (Cxi_URL root) child
      else otherwise)"

definition Complexity_Order :: "complexity_order \<Rightarrow> string \<Rightarrow> go_int \<Rightarrow> costed \<Rightarrow> costed" where
  "Complexity_Order root k child otherwise =
     (if k = ''Order.id'' then cost_of (Cxo_ID root) child
      else if k = ''Order.idempotencyKey'' then cost_of (Cxo_IdempotencyKey root) child
      else if k = ''Order.items'' then cost_of (Cxo_Items root) child
      else if k = ''Order.status'' then cost_of (Cxo_Status root) child
      else if k = ''Order.totalCents'' then cost_of (Cxo_TotalCents root) child
      else if k = ''Order.userId'' then cost_of (Cxo_UserID root) child
      else otherwise)"

definition Complexity_OrderLine :: "complexity_order_line \<Rightarrow> string \<Rightarrow> go_int \<Rightarrow> costed \<Rightarrow> costed" where
  "Complexity_OrderLine root k child otherwise =
     (if k = ''OrderLine.cabinetId'' then cost_of (Cxl_CabinetID root) child
      else if k = ''OrderLine.quantity'' then cost_of (Cxl_Quantity root) child
      else if k = ''OrderLine.unitPriceCents'' then cost_of (Cxl_UnitPriceCents root) child
      else otherwise)"

definition Complexity_Mutation ::
    "gql_runtime \<Rightarrow> complexity_mutation \<Rightarrow> string \<Rightarrow> go_int \<Rightarrow> (string \<times> raw) list \<Rightarrow> costed \<Rightarrow> costed" where
  "Complexity_Mutation rt root k child rawArgs otherwise =
     (if k = ''Mutation.createOrder'' then
        (case Cxm_CreateOrder root of
           None \<Rightarrow> Some (0, False)
         | Some f \<Rightarrow>
             (case field_Mutation_createOrder_args rt rawArgs of
                None \<Rightarrow> None
              | Some (Inl err) \<Rightarrow> Some (0, False)
              | Some (Inr input) \<Rightarrow> Some (f child input, True)))
      else otherwise)"

definition Complexity_Query ::
    "gql_runtime \<Rightarrow> complexity_query \<Rightarrow> string \<Rightarrow> go_int \<Rightarrow> (string \<times> raw) list \<Rightarrow> costed \<Rightarrow> costed" where
  "Complexity_Query rt root k child rawArgs otherwise =
     (if k = ''Query.cabinet'' then
        (case Cxq_Cabinet root of
           None \<Rightarrow> Some (0, False)
         | Some f \<Rightarrow>
             (case field_Query_cabinet_args rt rawArgs of
                Inl err \<Rightarrow> Some (0, False) | Inr i \<Rightarrow> Some (f child i, True)))
      else if k = ''Query.cabinets'' then cost_of (Cxq_Cabinets root) child
      else if k = ''Query.order'' then
        (case Cxq_Order root of
           None \<Rightarrow> Some (0, False)
         | Some f \<Rightarrow>
             (case field_Query_order_args rt rawArgs of
                Inl err \<Rightarrow> Some (0, False) | Inr i \<Rightarrow> Some (f child i, True)))
      else otherwise)"

section \<open>The executable schema\<close>

text \<open>
  The configuration and what is made of it.  \<open>'sc\<close> is the library's parsed schema, and
  \<open>parsedSchema\<close> what it parses from the sources; there are no directives.
\<close>

record ('sc, 's) config =
  Cfg_Schema :: "'sc option"
  Cfg_Resolvers :: "'s resolver_root"
  Cfg_Complexity :: complexity_root

record ('sc, 's) executable_schema =
  Es_SchemaData :: "'sc option"
  Es_Resolvers :: "'s resolver_root"
  Es_ComplexityRoot :: complexity_root

definition NewExecutableSchema :: "('sc, 's) config \<Rightarrow> ('sc, 's) executable_schema" where
  "NewExecutableSchema cfg = \<lparr>Es_SchemaData = Cfg_Schema cfg, Es_Resolvers = Cfg_Resolvers cfg,
     Es_ComplexityRoot = Cfg_Complexity cfg\<rparr>"

definition Schema :: "'sc \<Rightarrow> ('sc, 's) executable_schema \<Rightarrow> 'sc" where
  "Schema parsedSchema e = (case Es_SchemaData e of Some sc \<Rightarrow> sc | None \<Rightarrow> parsedSchema)"

definition Complexity ::
    "gql_runtime \<Rightarrow> ('sc, 's) executable_schema \<Rightarrow> string \<Rightarrow> string \<Rightarrow> go_int \<Rightarrow> (string \<times> raw) list \<Rightarrow> costed" where
  "Complexity rt e typeName field child rawArgs =
     (let k = typeName @ ''.'' @ field; root = Es_ComplexityRoot e in
      Complexity_Cabinet (Cr_Cabinet root) k child
        (Complexity_CabinetImage (Cr_CabinetImage root) k child
          (Complexity_Mutation rt (Cr_Mutation root) k child rawArgs
            (Complexity_Order (Cr_Order root) k child
              (Complexity_OrderLine (Cr_OrderLine root) k child
                (Complexity_Query rt (Cr_Query root) k child rawArgs (Some (0, False))))))))"

lemmas complexity_defs = Complexity_def Complexity_Cabinet_def Complexity_CabinetImage_def
  Complexity_Mutation_def Complexity_Order_def Complexity_OrderLine_def Complexity_Query_def cost_of_def

section \<open>Inputs and arguments\<close>

definition schema_inputs :: "(string \<times> (string \<times> gql_type) list) list" where
  "schema_inputs =
     [(''CreateOrderInput'',
        [(''idempotencyKey'', NonNull (Named ''String'')),
         (''items'', NonNull (ListOf (NonNull (Named ''CreateOrderItemInput''))))]),
      (''CreateOrderItemInput'',
        [(''cabinetId'', NonNull (Named ''ID'')),
         (''quantity'', NonNull (Named ''Int''))])]"

definition schema_arguments :: "(string \<times> (string \<times> gql_type) list) list" where
  "schema_arguments =
     [(''Query.cabinet'', [(''id'', NonNull (Named ''ID''))]),
      (''Query.order'', [(''id'', NonNull (Named ''ID''))]),
      (''Mutation.createOrder'', [(''input'', NonNull (Named ''CreateOrderInput''))])]"

end
