(* ===== verification/Schema_Facts.thy ===== *)
theory Schema_Facts
  imports Graphql_Schema
begin

text \<open>
  What the executable schema promises.  The cost switch knows the fields of the schema and no
  others.  An input that is valid by the schema (\<open>input_ok\<close>) is unmarshalled completely: the
  struct holds what the input says (\<open>order_input_of\<close>), and its quantities fit the 32 bits of the
  catalog's messages.
\<close>

section \<open>Costs\<close>

text \<open>The root in which every field adds \<open>n\<close>, and the one that configures nothing.\<close>

definition uniform_root :: "go_int \<Rightarrow> complexity_root" where
  "uniform_root n = (let c = Some (\<lambda>child. child + n); d = Some (\<lambda>child arg. child + n) in
     \<lparr>Cr_Cabinet = \<lparr>Cx_Condition = c, Cx_Display = c, Cx_ID = c, Cx_Images = c, Cx_Manufacturer = c,
        Cx_Model = c, Cx_PriceCents = c, Cx_Quantity = c, Cx_Slug = c, Cx_Type = c, Cx_Year = c\<rparr>,
      Cr_CabinetImage = \<lparr>Cxi_Alt = c, Cxi_ID = c, Cxi_SortOrder = c, Cxi_URL = c\<rparr>,
      Cr_Mutation = \<lparr>Cxm_CreateOrder = Some (\<lambda>child arg. child + n)\<rparr>,
      Cr_Order = \<lparr>Cxo_ID = c, Cxo_IdempotencyKey = c, Cxo_Items = c, Cxo_Status = c, Cxo_TotalCents = c,
        Cxo_UserID = c\<rparr>,
      Cr_OrderLine = \<lparr>Cxl_CabinetID = c, Cxl_Quantity = c, Cxl_UnitPriceCents = c\<rparr>,
      Cr_Query = \<lparr>Cxq_Cabinet = d, Cxq_Cabinets = c, Cxq_Order = d\<rparr>\<rparr>)"

lemma complexity_covers_schema:
  assumes "Es_ComplexityRoot e = uniform_root n" "ty \<in> {''Cabinet'', ''CabinetImage'', ''Order'', ''OrderLine''}"
  shows "Complexity rt e ty f child args
    = Some (if f \<in> set (map fst (schema_fields ty)) then (child + n, True) else (0, False))"
  using assms
  by (elim insertE emptyE)
    (simp_all add: complexity_defs uniform_root_def schema_fields_def schema_types_def Let_def)

section \<open>Valid inputs\<close>

text \<open>Input values by the rules of GraphQL; an id may be written as a number.\<close>

definition scalar_ok :: "string \<Rightarrow> raw \<Rightarrow> bool" where
  "scalar_ok n v = (case v of
       RString x \<Rightarrow> n = ''ID'' \<or> n = ''String''
     | RInt i \<Rightarrow> n = ''ID'' \<or> n = ''Int'' \<and> - (2 ^ 31) \<le> i \<and> i < 2 ^ 31
     | _ \<Rightarrow> False)"

definition required_type :: "gql_type \<Rightarrow> bool" where
  "required_type t = (case t of NonNull u \<Rightarrow> True | _ \<Rightarrow> False)"

function input_ok :: "gql_type \<Rightarrow> raw \<Rightarrow> bool" where
  "input_ok (NonNull t) v \<longleftrightarrow> v \<noteq> RNil \<and> input_ok t v"
| "input_ok (ListOf t) v \<longleftrightarrow>
     (case v of RNil \<Rightarrow> True | RList vs \<Rightarrow> list_all (input_ok t) vs | _ \<Rightarrow> input_ok t v)"
| "input_ok (Named n) v \<longleftrightarrow>
     (case v of
        RNil \<Rightarrow> True
      | RMap m \<Rightarrow>
          (case map_of schema_inputs n of
             None \<Rightarrow> False
           | Some fs \<Rightarrow> list_all (\<lambda>kv. case map_of fs (fst kv) of None \<Rightarrow> False | Some t \<Rightarrow> input_ok t (snd kv)) m
               \<and> list_all (\<lambda>(k, t). required_type t \<longrightarrow> map_of m k \<noteq> None) fs)
      | _ \<Rightarrow> scalar_ok n v)"
  by pat_completeness auto
termination
  by (relation "measures [\<lambda>(t, v). size v, \<lambda>(t, v). size t]")
    (auto simp: less_Suc_eq_le size_list_estimation' dest!: size_snd_less)

text \<open>What the generated code relies on: the library unmarshals the scalars of valid inputs.\<close>

definition sound_inputs :: "gql_runtime \<Rightarrow> bool" where
  "sound_inputs rt \<longleftrightarrow>
     (\<forall>v. scalar_ok ''ID'' v \<longrightarrow> (\<exists>x. rt_UnmarshalID rt v = Inr x))
     \<and> (\<forall>x. rt_UnmarshalString rt (RString x) = Inr x)
     \<and> (\<forall>i. scalar_ok ''Int'' (RInt i) \<longrightarrow> rt_UnmarshalInt rt (RInt i) = Inr (word_of_int i))
     \<and> (\<forall>vs. rt_CoerceList rt (RList vs) = vs)
     \<and> (\<forall>m. rt_CoerceList rt (RMap m) = [RMap m])"

text \<open>What an input says.\<close>

definition item_input_of :: "gql_runtime \<Rightarrow> raw \<Rightarrow> gql_item_input \<Rightarrow> bool" where
  "item_input_of rt v item \<longleftrightarrow> (\<exists>m c. v = RMap m \<and> map_of m ''cabinetId'' = Some c
     \<and> rt_UnmarshalID rt c = Inr (Gin_CabinetID item)
     \<and> map_of m ''quantity'' = Some (RInt (sint (to_int32 (Gin_Quantity item)))))"

definition order_input_of :: "gql_runtime \<Rightarrow> raw \<Rightarrow> gql_order_input \<Rightarrow> bool" where
  "order_input_of rt v input \<longleftrightarrow> (\<exists>m items. v = RMap m
     \<and> map_of m ''idempotencyKey'' = Some (RString (Gin_IdempotencyKey input))
     \<and> map_of m ''items'' = Some items
     \<and> list_all2 (item_input_of rt) (rt_CoerceList rt items) (Gin_Items input))"

lemma input_ok_key:
  assumes "list_all (\<lambda>kv. case map_of fs (fst kv) of None \<Rightarrow> False | Some t \<Rightarrow> input_ok t (snd kv)) m"
    "map_of m k = Some v" "map_of fs k = Some t"
  shows "input_ok t v"
  using assms map_of_SomeD [OF assms(2)] by (force simp: list_all_iff simp del: input_ok.simps)

lemma scalar_Int_word:
  assumes "scalar_ok ''Int'' (RInt i)"
  shows "sint (to_int32 (word_of_int i)) = i"
proof -
  have i: "- (2 ^ 31) \<le> i" "i < 2 ^ 31" using assms by (simp_all add: scalar_ok_def)
  then have w: "sint (word_of_int i :: go_int) = i" by (simp add: signed_of_int signed_take_bit_int_eq_self)
  with i have "of_int32 (to_int32 (word_of_int i)) = word_of_int i" unfolding of_to_int32_iff by simp
  with w show ?thesis by (metis sint_of_int32)
qed

section \<open>Valid inputs are unmarshalled\<close>

text \<open>A required field of a valid input object is there and valid.\<close>

lemma input_object:
  assumes "input_ok (NonNull (Named n)) v" "map_of schema_inputs n = Some fs" "n \<noteq> ''ID''" "n \<noteq> ''String''" "n \<noteq> ''Int''"
  obtains m where "v = RMap m"
    "\<And>k t. map_of fs k = Some (NonNull t) \<Longrightarrow> \<exists>x. map_of m k = Some x \<and> x \<noteq> RNil \<and> input_ok t x"
proof -
  obtain m where m: "v = RMap m" using assms(1,3-5) by (cases v) (auto simp: scalar_ok_def)
  have fields: "list_all (\<lambda>kv. case map_of fs (fst kv) of None \<Rightarrow> False | Some t \<Rightarrow> input_ok t (snd kv)) m"
    "list_all (\<lambda>(k, t). required_type t \<longrightarrow> map_of m k \<noteq> None) fs"
    using assms(1,2) by (simp_all add: m)
  show thesis
  proof (rule that [OF m])
    fix k t assume k: "map_of fs k = Some (NonNull t)"
    from fields(2) map_of_SomeD [OF k] obtain x where x: "map_of m k = Some x"
      by (auto simp: list_all_iff required_type_def)
    from input_ok_key [OF fields(1) x k] x show "\<exists>x. map_of m k = Some x \<and> x \<noteq> RNil \<and> input_ok t x" by simp
  qed
qed

lemma input_scalar: "input_ok (Named n) x \<Longrightarrow> x \<noteq> RNil \<Longrightarrow> map_of schema_inputs n = None \<Longrightarrow> scalar_ok n x"
  by (cases x) (simp_all add: scalar_ok_def)

lemma valid_item:
  assumes "sound_inputs rt" "input_ok (NonNull (Named ''CreateOrderItemInput'')) v"
  shows "\<exists>item. unmarshalNCreateOrderItemInput rt v = Some (Inr item) \<and> item_input_of rt v item"
proof -
  have fs: "map_of schema_inputs ''CreateOrderItemInput''
      = Some [(''cabinetId'', NonNull (Named ''ID'')), (''quantity'', NonNull (Named ''Int''))]"
    "map_of schema_inputs ''ID'' = None" "map_of schema_inputs ''Int'' = None"
    by (simp_all add: schema_inputs_def)
  obtain m where m: "v = RMap m"
    "\<And>k t. map_of [(''cabinetId'', NonNull (Named ''ID'')), (''quantity'', NonNull (Named ''Int''))] k = Some (NonNull t)
       \<Longrightarrow> \<exists>x. map_of m k = Some x \<and> x \<noteq> RNil \<and> input_ok t x"
    by (rule input_object [OF assms(2) fs(1)]) simp_all
  obtain c where c: "map_of m ''cabinetId'' = Some c" "scalar_ok ''ID'' c"
    using m(2) [of "''cabinetId''"] input_scalar [OF _ _ fs(2)] by auto
  obtain q where q: "map_of m ''quantity'' = Some q" "scalar_ok ''Int'' q"
    using m(2) [of "''quantity''"] input_scalar [OF _ _ fs(3)] by auto
  obtain i where i: "q = RInt i" using q(2) by (cases q) (auto simp: scalar_ok_def)
  obtain cid where "rt_UnmarshalID rt c = Inr cid" using assms(1) c(2) by (auto simp: sound_inputs_def)
  moreover have "rt_UnmarshalInt rt q = Inr (word_of_int i)" using assms(1) q(2) i by (simp add: sound_inputs_def)
  moreover have "sint (to_int32 (word_of_int i)) = i" using scalar_Int_word q(2) i by simp
  ultimately show ?thesis using c(1) q(1) i m(1)
    by (simp add: unmarshalInputCreateOrderItemInput_def unmarshal_key_def item_input_of_def)
qed

lemma valid_items:
  assumes "sound_inputs rt" "list_all (input_ok (NonNull (Named ''CreateOrderItemInput''))) vs"
  shows "\<exists>items. unmarshal_items rt vs = Some (Inr items) \<and> list_all2 (item_input_of rt) vs items"
  using assms(2)
proof (induction vs)
  case (Cons v vs)
  then obtain item items where "unmarshalNCreateOrderItemInput rt v = Some (Inr item)" "item_input_of rt v item"
    "unmarshal_items rt vs = Some (Inr items)" "list_all2 (item_input_of rt) vs items"
    using valid_item [OF assms(1), of v] by (auto simp del: input_ok.simps unmarshal_input_defs)
  then show ?case by (simp del: unmarshal_input_defs)
qed simp

lemma coerced_list:
  assumes "sound_inputs rt" "input_ok (ListOf (NonNull (Named ''CreateOrderItemInput''))) w" "w \<noteq> RNil"
  shows "list_all (input_ok (NonNull (Named ''CreateOrderItemInput''))) (rt_CoerceList rt w)"
  using assms by (cases w) (auto simp: sound_inputs_def scalar_ok_def)

lemma valid_order_input:
  assumes "sound_inputs rt" "input_ok (NonNull (Named ''CreateOrderInput'')) v"
  shows "\<exists>input. unmarshalNCreateOrderInput rt v = Some (Inr input) \<and> order_input_of rt v input"
proof -
  have fs: "map_of schema_inputs ''CreateOrderInput''
      = Some [(''idempotencyKey'', NonNull (Named ''String'')),
              (''items'', NonNull (ListOf (NonNull (Named ''CreateOrderItemInput''))))]"
    "map_of schema_inputs ''String'' = None"
    by (simp_all add: schema_inputs_def)
  obtain m where m: "v = RMap m"
    "\<And>k t. map_of [(''idempotencyKey'', NonNull (Named ''String'')),
        (''items'', NonNull (ListOf (NonNull (Named ''CreateOrderItemInput''))))] k = Some (NonNull t)
       \<Longrightarrow> \<exists>x. map_of m k = Some x \<and> x \<noteq> RNil \<and> input_ok t x"
    by (rule input_object [OF assms(2) fs(1)]) simp_all
  obtain k where k: "map_of m ''idempotencyKey'' = Some k" "scalar_ok ''String'' k"
    using m(2) [of "''idempotencyKey''"] input_scalar [OF _ _ fs(2)] by auto
  obtain key where key: "k = RString key" using k(2) by (cases k) (auto simp: scalar_ok_def)
  obtain w where w: "map_of m ''items'' = Some w" "w \<noteq> RNil"
    "input_ok (ListOf (NonNull (Named ''CreateOrderItemInput''))) w"
    using m(2) [of "''items''"] by (auto simp del: input_ok.simps)
  obtain items where items: "unmarshal_items rt (rt_CoerceList rt w) = Some (Inr items)"
    "list_all2 (item_input_of rt) (rt_CoerceList rt w) items"
    using valid_items [OF assms(1) coerced_list [OF assms(1) w(3,2)]] by blast
  have "rt_UnmarshalString rt k = Inr key" using assms(1) key by (simp add: sound_inputs_def)
  then show ?thesis using k(1) key w(1) items m(1)
    by (simp add: unmarshalInputCreateOrderInput_def unmarshal_key_def unmarshalNCreateOrderItemInputs_def
        order_input_of_def)
qed

section \<open>The request of an order\<close>

definition item_request_of :: "gql_runtime \<Rightarrow> raw \<Rightarrow> pb_order_item_input \<Rightarrow> bool" where
  "item_request_of rt v item \<longleftrightarrow> (\<exists>m c. v = RMap m \<and> map_of m ''cabinetId'' = Some c
     \<and> rt_UnmarshalID rt c = Inr (Pbii_CabinetId item)
     \<and> map_of m ''quantity'' = Some (RInt (sint (Pbii_Quantity item))))"

definition request_of :: "gql_runtime \<Rightarrow> raw \<Rightarrow> pb_create_order_request \<Rightarrow> bool" where
  "request_of rt v req \<longleftrightarrow> (\<exists>m items. v = RMap m
     \<and> map_of m ''idempotencyKey'' = Some (RString (Pbcq_IdempotencyKey req))
     \<and> map_of m ''items'' = Some items
     \<and> list_all2 (item_request_of rt) (rt_CoerceList rt items) (Pbcq_Items req))"

lemma request_of_input:
  assumes "order_input_of rt v input"
  shows "request_of rt v \<lparr>Pbcq_IdempotencyKey = Gin_IdempotencyKey input, Pbcq_Items = map item_request (Gin_Items input)\<rparr>"
proof -
  have item: "item_input_of rt x it \<Longrightarrow> item_request_of rt x (item_request it)" for x it
    by (simp add: item_input_of_def item_request_of_def item_request_def)
  show ?thesis using assms
    by (auto simp: order_input_of_def request_of_def list_all2_map2 elim!: list_all2_mono intro: item)
qed

lemma plain_runtime_inputs: "sound_inputs plain_runtime"
proof -
  have "\<exists>x. rt_UnmarshalID plain_runtime v = Inr x" if "scalar_ok ''ID'' v" for v
    using that by (cases v) (simp_all add: plain_runtime_def scalar_ok_def)
  then show ?thesis by (simp add: sound_inputs_def plain_runtime_def)
qed

end
