(* ===== verification/Graphql_Properties.thy ===== *)
theory Graphql_Properties
  imports Gateway_Properties Graphql_Typing Introspection_Facts Context_Facts Schema_Facts
begin

text \<open>
  The generated executor as its clients see it: every valid operation is answered once and
  according to the schema, a valid order reaches the catalog as it was written, the order of concurrent fields does not show, the contexts of the
  fields mirror the schema, and introspection never panics.
\<close>

section \<open>Samples\<close>

text \<open>The introspection of the schema: a type is what the schema says it is.\<close>

definition schema_introspection :: "(unit, gql_type, string \<times> gql_type, unit, unit, unit) introspection" where
  "schema_introspection =
     \<lparr>in_IntrospectSchema = Inr (Some ()),
      in_IntrospectType = (\<lambda>n. Inr (map_option (\<lambda>fs. Named n) (map_of schema_types n))),
      dir_Name = (\<lambda>d. []), dir_Description = (\<lambda>d. None), dir_IsRepeatable = (\<lambda>d. False),
      dir_Locations = (\<lambda>d. []), dir_Args = (\<lambda>d. []), enm_Name = (\<lambda>e. []), enm_Description = (\<lambda>e. None),
      enm_IsDeprecated = (\<lambda>e. False), enm_DeprecationReason = (\<lambda>e. None), fdf_Name = fst,
      fdf_Description = (\<lambda>f. None), fdf_Args = (\<lambda>f. []), fdf_Type = (\<lambda>f. Some (snd f)),
      fdf_IsDeprecated = (\<lambda>f. False), fdf_DeprecationReason = (\<lambda>f. None), inv_Name = (\<lambda>i. []),
      inv_Description = (\<lambda>i. None), inv_Type = (\<lambda>i. None), inv_DefaultValue = (\<lambda>i. None),
      inv_IsDeprecated = (\<lambda>i. False), inv_DeprecationReason = (\<lambda>i. None), sch_Description = (\<lambda>s. None),
      sch_Types = (\<lambda>s. map (\<lambda>(n, fs). Named n) schema_types), sch_QueryType = (\<lambda>s. Some (Named ''Query'')),
      sch_MutationType = (\<lambda>s. Some (Named ''Mutation'')), sch_SubscriptionType = (\<lambda>s. None),
      sch_Directives = (\<lambda>s. []),
      typ_Kind = (\<lambda>t. case t of NonNull u \<Rightarrow> ''NON_NULL'' | ListOf u \<Rightarrow> ''LIST''
        | Named n \<Rightarrow> if map_of schema_types n = None then ''SCALAR'' else ''OBJECT''),
      typ_Name = (\<lambda>t. case t of Named n \<Rightarrow> Some n | _ \<Rightarrow> None), typ_Description = (\<lambda>t. None),
      typ_SpecifiedByURL = (\<lambda>t. None),
      typ_Fields = (\<lambda>t b. case t of Named n \<Rightarrow> map_of schema_types n | _ \<Rightarrow> None),
      typ_Interfaces = (\<lambda>t. None), typ_PossibleTypes = (\<lambda>t. None), typ_EnumValues = (\<lambda>t b. None),
      typ_InputFields = (\<lambda>t. None),
      typ_OfType = (\<lambda>t. case t of NonNull u \<Rightarrow> Some u | ListOf u \<Rightarrow> Some u | Named n \<Rightarrow> None),
      typ_IsOneOf = (\<lambda>t. False)\<rparr>"

definition sample_query :: "gql_field list" where
  "sample_query =
     [GField ''all'' ''cabinets'' [] [GField ''id'' ''id'' [] [], GField ''images'' ''images'' [] [GField ''url'' ''url'' [] []]],
      GField ''one'' ''cabinet'' [(''id'', RString ''A'')] [GField ''left'' ''quantity'' [] []],
      GField ''kind'' ''__typename'' [] []]"

lemma sample_query_valid: "list_all (sel_ok ''Query'') sample_query"
  by (simp add: sample_query_def schema_fields_def schema_types_def)

lemma fair_rev: "fair_schedule (\<lambda>n. rev [0..<n])"
  by (simp add: fair_schedule_def)

section \<open>Operations\<close>

text \<open>
  C32. An operation that is valid by the schema is answered exactly once, whatever the catalog
  does and in whatever order the fields of a query complete: the data conforms to the schema,
  with the selected fields under their names, and there is no error; or the data is null and
  there is an error.  The handler then has nothing more to say.
\<close>
theorem operation_answered:
  assumes "sound_runtime rt" "fair_schedule schedule" "op \<noteq> OpSubscription" "list_all (sel_ok (root_type op)) sel"
  shows "\<exists>v es h s'. Exec rt I C ctx schedule op sel exec_start s
      = (Some (Some \<lparr>rsp_Data = v, rsp_Errors = es, rsp_HasNext = None\<rparr>), h, s')
    \<and> (if es = [] then conforms (NonNull (Named (root_type op))) sel v else v = GNull)
    \<and> (\<forall>w. Exec rt I C ctx schedule op sel h w = (Some None, h, w))"
proof (cases op)
  case OpQuery
  obtain v es s' where "exec_Query rt I C ctx schedule sel s = (Some (v, es), s')" "conforming ''Query'' sel (v, es)"
    using exec_Query_ok [OF assms(1) _ assms(2)] assms(4) OpQuery by (metis root_type.simps(1) surj_pair)
  then show ?thesis using OpQuery
    by (simp add: Exec_def query_response_def exec_start_def has_next_def conforming_def split: if_splits)
next
  case OpMutation
  obtain v es s' where "exec_Mutation rt C ctx sel s = (Some (v, es), s')" "conforming ''Mutation'' sel (v, es)"
    using exec_Mutation_ok [OF assms(1)] assms(4) OpMutation by (metis root_type.simps(2) surj_pair)
  then show ?thesis using OpMutation
    by (simp add: Exec_def mutation_response_def exec_start_def conforming_def split: if_splits)
qed (use assms(3) in simp)

lemma operation_answered_witness:
  "\<exists>v es h s'. Exec plain_runtime schema_introspection (handler_client (postgres_repository sample_env)) []
       (\<lambda>n. rev [0..<n]) OpQuery sample_query exec_start sample_world
      = (Some (Some \<lparr>rsp_Data = v, rsp_Errors = es, rsp_HasNext = None\<rparr>), h, s')
    \<and> (if es = [] then conforms (NonNull (Named ''Query'')) sample_query v else v = GNull)"
proof -
  have "list_all (sel_ok (root_type OpQuery)) sample_query" by (simp add: sample_query_valid)
  from operation_answered [OF plain_runtime_sound fair_rev operation.distinct(3) this,
      of schema_introspection "handler_client (postgres_repository sample_env)" "[]" sample_world]
  show ?thesis unfolding root_type.simps(1) by blast
qed

definition written_order :: raw where
  "written_order = RMap [(''idempotencyKey'', RString ''k''),
     (''items'', RList [RMap [(''cabinetId'', RString ''B''), (''quantity'', RInt 2)]])]"

lemma written_order_valid: "input_ok (NonNull (Named ''CreateOrderInput'')) written_order"
  by (simp add: written_order_def schema_inputs_def scalar_ok_def required_type_def)

text \<open>
  C33. An order that is valid by the schema reaches the catalog as it was written: the mutation
  makes one call of \<open>CreateOrder\<close>, whose request has the key, the cabinets and the quantities of
  the input in its order, and its outcome is what that call returned.
\<close>
theorem valid_order_reaches_catalog:
  assumes "sound_inputs rt" "input_ok (NonNull (Named ''CreateOrderInput'')) v"
  shows "\<exists>req. request_of rt v req
    \<and> Mutation_createOrder_field rt C ctx (GField al ''createOrder'' [(''input'', v)] sel) s =
       (case Rpc_CreateOrder C ctx req s of
          (Inl st, s') \<Rightarrow> (Some (rt_ResolveField rt (Inl (rt_ErrorText rt st))), s')
        | (Inr resp, s') \<Rightarrow> (resolved rt (marshalNOrder rt sel (mapOrder (CreateOrderResponse_GetOrder resp))), s'))"
proof -
  obtain input where input: "unmarshalNCreateOrderInput rt v = Some (Inr input)" "order_input_of rt v input"
    using valid_order_input [OF assms] by blast
  show ?thesis using input(1)
    by - (rule exI, rule conjI, rule request_of_input [OF input(2)],
      simp add: Mutation_createOrder_field_def fieldContext_Mutation_createOrder_def with_args_def
        field_Mutation_createOrder_args_def resolve_CreateOrder_def root_result_def
        split: prod.split sum.split del: unmarshal_input_defs)
qed

lemma valid_order_reaches_catalog_witness:
  "\<exists>req. request_of plain_runtime written_order req
    \<and> snd (Mutation_createOrder_field plain_runtime (handler_client (postgres_repository sample_env)) []
         (GField ''o'' ''createOrder'' [(''input'', written_order)] []) sample_world)
      = snd (Rpc_CreateOrder (handler_client (postgres_repository sample_env)) [] req sample_world)"
proof -
  from valid_order_reaches_catalog [OF plain_runtime_inputs written_order_valid, of "handler_client (postgres_repository sample_env)"
      "[]" "''o''" "[]" sample_world]
  obtain req where req: "request_of plain_runtime written_order req"
    "Mutation_createOrder_field plain_runtime (handler_client (postgres_repository sample_env)) []
         (GField ''o'' ''createOrder'' [(''input'', written_order)] []) sample_world
     = (case Rpc_CreateOrder (handler_client (postgres_repository sample_env)) [] req sample_world of
          (Inl st, s') \<Rightarrow> (Some (rt_ResolveField plain_runtime (Inl (rt_ErrorText plain_runtime st))), s')
        | (Inr resp, s') \<Rightarrow> (resolved plain_runtime (marshalNOrder plain_runtime []
            (mapOrder (CreateOrderResponse_GetOrder resp))), s'))" by blast
  show ?thesis
    by (rule exI [of _ req], rule conjI [OF req(1)]) (simp add: req(2) split: prod.split sum.split)
qed

text \<open>
  C34. The fields of a query run concurrently, and it does not matter in which order they
  complete: without faults any two schedules give the same data and the same errors up to
  their order, and a query changes no table.
\<close>
theorem query_order_irrelevant:
  assumes "quiet E" "fair_schedule schedule1" "fair_schedule schedule2"
  shows "response (fst (exec_Query rt I (handler_client (postgres_repository E)) ctx schedule1 sel w))
      = response (fst (exec_Query rt I (handler_client (postgres_repository E)) ctx schedule2 sel w))
    \<and> w_db (snd (exec_Query rt I (handler_client (postgres_repository E)) ctx schedule1 sel w)) = w_db w"
  using exec_Query_answer [OF assms(1,2), of rt I ctx sel w] exec_Query_answer [OF assms(1,3), of rt I ctx sel w]
  by simp

lemma query_order_irrelevant_witness:
  "response (fst (exec_Query plain_runtime schema_introspection (handler_client (postgres_repository sample_env)) []
       (\<lambda>n. rev [0..<n]) sample_query sample_world))
     = response (fst (exec_Query plain_runtime schema_introspection (handler_client (postgres_repository sample_env)) []
       (\<lambda>n. [0..<n]) sample_query sample_world))"
proof -
  have "fair_schedule (\<lambda>n. [0..<n])" by (simp add: fair_schedule_def)
  from query_order_irrelevant [OF sample_env_quiet fair_rev this] show ?thesis by blast
qed

section \<open>Contexts\<close>

text \<open>
  C35. The contexts that the generated code gives the fields of the catalog types are the schema:
  a name that the schema does not have below a type is refused with that type, and any other
  field belongs to the type and allows below it the fields of its own type, none if it is a
  scalar.
\<close>
theorem contexts_match_schema:
  assumes "scalar_contexts rt" "T \<in> {TCabinet, TCabinetImage, TOrder, TOrderLine}"
  shows "case map_of (schema_fields (type_name T)) (fld_name f) of
      None \<Rightarrow> childFields T rt f = Inl (no_field (fld_name f) (type_name T))
    | Some t \<Rightarrow> context_of (type_name T) t (childFields T rt f)"
  using assms(2) Cabinet_contexts [OF assms(1)] CabinetImage_contexts [OF assms(1)] Order_contexts [OF assms(1)]
    OrderLine_contexts [OF assms(1)]
  by (elim insertE emptyE) (simp_all only: childFields.simps type_name.simps)

lemma contexts_match_schema_witness:
  "context_of ''Order'' (NonNull (ListOf (NonNull (Named ''OrderLine''))))
     (childFields TOrder plain_runtime (GField ''lines'' ''items'' [] []))"
proof -
  have "scalar_contexts plain_runtime" by (simp add: scalar_contexts_def plain_runtime_def)
  from contexts_match_schema [OF this, of TOrder "GField ''lines'' ''items'' [] []"] show ?thesis
    by (simp add: schema_fields_def schema_types_def del: childFields.simps)
qed

section \<open>Introspection\<close>

text \<open>
  C36. Introspection never panics: a query for the schema or for a type is answered for every
  selection that the contexts of the introspection types allow, however deep it goes and
  whatever the library answers.
\<close>
theorem introspection_total:
  "(valid_node_sel rt TSchema (fld_sel f) \<longrightarrow> Query_Intro_schema_field rt I f \<noteq> None)
   \<and> (valid_node_sel rt TType (fld_sel f) \<longrightarrow> Query_Intro_type_field rt I f \<noteq> None)"
proof (intro conjI impI)
  assume "valid_node_sel rt TSchema (fld_sel f)"
  then have "returns (exec_node rt I (fld_sel f) (NSchema v))" for v by (simp add: exec_node_returns)
  then have "returns (Query_Intro_schema_field rt I f)"
    unfolding Query_Intro_schema_field_def
    by (auto intro!: in_context_returns resolved_returns split: sum.split option.split simp: marshalO_Schema_def)
  then show "Query_Intro_schema_field rt I f \<noteq> None" by (simp add: returns_def)
next
  assume "valid_node_sel rt TType (fld_sel f)"
  then have "returns (exec_node rt I (fld_sel f) (NType v))" for v by (simp add: exec_node_returns)
  then have "returns (Query_Intro_type_field rt I f)"
    unfolding Query_Intro_type_field_def fieldContext_Query_Intro_type_def
    by (auto intro!: in_context_returns resolved_returns dest!: with_args_Inr map_sum_Inr
        split: sum.split option.split simp: marshalO_Type_def)
  then show "Query_Intro_type_field rt I f \<noteq> None" by (simp add: returns_def)
qed

lemma introspection_total_witness:
  "Query_Intro_type_field plain_runtime schema_introspection (GField ''t'' ''__type'' [(''name'', RString ''OrderLine'')]
     [GField ''fields'' ''fields'' [] [GField ''name'' ''name'' [] [],
        GField ''type'' ''type'' [] [GField ''of'' ''ofType'' [] [GField ''name'' ''name'' [] []]]]]) \<noteq> None"
proof -
  have "valid_node_sel plain_runtime TType [GField ''fields'' ''fields'' [] [GField ''name'' ''name'' [] [],
        GField ''type'' ''type'' [] [GField ''of'' ''ofType'' [] [GField ''name'' ''name'' [] []]]]]"
    by (simp add: valid_node_sel.simps child_defs context_defs plain_runtime_def field_Intro_Type_fields_args_def
        unmarshal_key_def object_context_def)
  with introspection_total [of plain_runtime "GField ''t'' ''__type'' [(''name'', RString ''OrderLine'')]
      [GField ''fields'' ''fields'' [] [GField ''name'' ''name'' [] [],
        GField ''type'' ''type'' [] [GField ''of'' ''ofType'' [] [GField ''name'' ''name'' [] []]]]]" schema_introspection]
  show ?thesis by simp
qed

end
