(* ===== verification/Telemetry.thy ===== *)
theory Telemetry
  imports Domain
begin

text \<open>
  Logging (\<open>pkg/telemetry/slog.go\<close>, \<open>grpc.go\<close>): the handler that copies the identifiers
  of the current span onto every record, on top of the JSON handler of \<open>log/slog\<close>, and the
  interceptor that logs every unary call.  The span context comes from OpenTelemetry: its
  validity and the texts of its identifiers are given.
\<close>

section \<open>log/slog\<close>

type_synonym attr = "string \<times> string"

record slog_record =
  Rec_Level :: string
  Rec_Message :: string
  Rec_Attrs :: "attr list"

text \<open>An output line: the built-in fields and the attributes under the groups that were open
  when they were added.\<close>

record log_line =
  Out_Level :: string
  Out_Message :: string
  Out_Attrs :: "(string list \<times> string) list"

record span_context =
  Sc_IsValid :: bool
  Sc_TraceID :: string
  Sc_SpanID :: string

text \<open>The JSON handler keeps the attributes of \<open>WithAttrs\<close> and the open groups;
  \<open>ContextHandler\<close> embeds another handler.\<close>

datatype slog_handler =
    JSONHandler "(string list \<times> string) list" "string list"
  | ContextHandler slog_handler

definition NewJSONHandler :: slog_handler where
  "NewJSONHandler = JSONHandler [] []"

definition NewContextHandler :: "slog_handler \<Rightarrow> slog_handler" where
  "NewContextHandler next_h = ContextHandler next_h"

definition NewLogger :: slog_handler where
  "NewLogger = NewContextHandler NewJSONHandler"

definition AddAttrs :: "slog_record \<Rightarrow> attr list \<Rightarrow> slog_record" where
  "AddAttrs r attrs = r\<lparr>Rec_Attrs := Rec_Attrs r @ attrs\<rparr>"

definition in_groups :: "string list \<Rightarrow> attr list \<Rightarrow> (string list \<times> string) list" where
  "in_groups groups attrs = map (\<lambda>(k, v). (groups @ [k], v)) attrs"

text \<open>\<open>trace.SpanFromContext\<close> of a context without a span is one that is not valid.\<close>

primrec Handle :: "slog_handler \<Rightarrow> span_context \<Rightarrow> slog_record \<Rightarrow> log_line" where
  "Handle (JSONHandler pre groups) sc r =
     \<lparr>Out_Level = Rec_Level r, Out_Message = Rec_Message r,
      Out_Attrs = pre @ in_groups groups (Rec_Attrs r)\<rparr>"
| "Handle (ContextHandler h) sc r =
     (let r' = (if Sc_IsValid sc
                then AddAttrs r [(''trace_id'', Sc_TraceID sc), (''span_id'', Sc_SpanID sc)] else r)
      in Handle h sc r')"

primrec WithAttrs :: "slog_handler \<Rightarrow> attr list \<Rightarrow> slog_handler" where
  "WithAttrs (JSONHandler pre groups) attrs = JSONHandler (pre @ in_groups groups attrs) groups"
| "WithAttrs (ContextHandler h) attrs = ContextHandler (WithAttrs h attrs)"

primrec WithGroup :: "slog_handler \<Rightarrow> string \<Rightarrow> slog_handler" where
  "WithGroup (JSONHandler pre groups) name =
     (if name = [] then JSONHandler pre groups else JSONHandler pre (groups @ [name]))"
| "WithGroup (ContextHandler h) name = ContextHandler (WithGroup h name)"

section \<open>The interceptor\<close>

text \<open>The default logger as a handler and the lines it wrote; the server's handler as a
  function of a state.\<close>

definition UnarySlogInterceptor ::
    "slog_handler \<Rightarrow> ('e \<Rightarrow> string) \<Rightarrow> span_context \<Rightarrow> string \<Rightarrow> ('q \<Rightarrow> 's \<Rightarrow> ('e + 'r) \<times> 's) \<Rightarrow> 'q
       \<Rightarrow> 's \<times> log_line list \<Rightarrow> ('e + 'r) \<times> ('s \<times> log_line list)" where
  "UnarySlogInterceptor lg err_text sc full_method call req sl =
     (let logs = snd sl @ [Handle lg sc \<lparr>Rec_Level = ''INFO'', Rec_Message = ''grpc request'',
                    Rec_Attrs = [(''grpc.method'', full_method)]\<rparr>]
      in case call req (fst sl) of
           (Inl err, s') \<Rightarrow> (Inl err, s', logs @ [Handle lg sc
              \<lparr>Rec_Level = ''ERROR'', Rec_Message = ''grpc request failed'',
               Rec_Attrs = [(''grpc.method'', full_method), (''error'', err_text err)]\<rparr>])
         | (Inr resp, s') \<Rightarrow> (Inr resp, s', logs))"

section \<open>Facts\<close>

text \<open>The context handler stays on top of every derived logger.\<close>

inductive derived :: "slog_handler \<Rightarrow> bool" where
  new: "derived (NewContextHandler h)"
| attrs: "derived h \<Longrightarrow> derived (WithAttrs h as)"
| group: "derived h \<Longrightarrow> derived (WithGroup h g)"

lemma derived_shape: "derived h \<Longrightarrow> \<exists>inner. h = ContextHandler inner"
  by (induction rule: derived.induct) (auto simp: NewContextHandler_def)

text \<open>Where a handler writes an attribute of a record.\<close>

primrec open_groups :: "slog_handler \<Rightarrow> string list" where
  "open_groups (JSONHandler pre groups) = groups"
| "open_groups (ContextHandler h) = open_groups h"

lemma Handle_attrs:
  "set (in_groups (open_groups h) (Rec_Attrs r)) \<subseteq> set (Out_Attrs (Handle h sc r))"
proof (induction h arbitrary: r)
  case (JSONHandler pre groups)
  then show ?case by simp
next
  case (ContextHandler h)
  from ContextHandler [of r] ContextHandler [of "AddAttrs r [(''trace_id'', Sc_TraceID sc), (''span_id'', Sc_SpanID sc)]"]
  show ?case by (auto simp: Let_def AddAttrs_def in_groups_def)
qed

lemma derived_ids:
  assumes "derived h" "Sc_IsValid sc"
  shows "(open_groups h @ [''trace_id''], Sc_TraceID sc) \<in> set (Out_Attrs (Handle h sc r))"
    "(open_groups h @ [''span_id''], Sc_SpanID sc) \<in> set (Out_Attrs (Handle h sc r))"
proof -
  from derived_shape [OF assms(1)] obtain inner where h: "h = ContextHandler inner" by blast
  show "(open_groups h @ [''trace_id''], Sc_TraceID sc) \<in> set (Out_Attrs (Handle h sc r))"
    "(open_groups h @ [''span_id''], Sc_SpanID sc) \<in> set (Out_Attrs (Handle h sc r))"
    using Handle_attrs [of inner "AddAttrs r [(''trace_id'', Sc_TraceID sc), (''span_id'', Sc_SpanID sc)]" sc]
      assms(2) by (auto simp: h AddAttrs_def in_groups_def)
qed

text \<open>Without a valid span the context handler is transparent.\<close>

lemma Handle_no_span: "\<not> Sc_IsValid sc \<Longrightarrow> Handle (ContextHandler h) sc r = Handle h sc r"
  by simp

end
