(* ===== verification/Service_Properties.thy ===== *)
theory Service_Properties
  imports "HOL-Library.Multiset" Startup Telemetry Samples
begin

text \<open>
  What holds for the start of the catalog, for the list it serves, and for its logging.
\<close>

section \<open>The seed\<close>

text \<open>
  C37. A start never loses or resets anything, whatever fails during the seed: either no table
  changes, or the cabinets and the images gain, behind the rows that exist, exactly the seed
  rows whose identifier is not there yet, and nothing else changes; no cabinet's stock does.
  On empty tables and without faults they are added, all of them.
\<close>
theorem seed_is_safe:
  assumes "seedCabinets E w = (m, w')"
  shows "(w_db w' = w_db w
      \<or> cabinets (w_db w') = cabinets (w_db w)
          @ filter (\<lambda>c. c_id c \<notin> c_id ` set (cabinets (w_db w))) (seed_cabinet_rows (env_now E (w_tick w)))
        \<and> cabinet_images (w_db w') = cabinet_images (w_db w)
          @ filter (\<lambda>i. i_id i \<notin> i_id ` set (cabinet_images (w_db w))) (seed_image_rows (env_now E (w_tick w))))
    \<and> orders (w_db w') = orders (w_db w) \<and> order_items (w_db w') = order_items (w_db w)
    \<and> reservations (w_db w') = reservations (w_db w) \<and> outbox (w_db w') = outbox (w_db w)
    \<and> (stock_of (w_db w) x = Some s \<longrightarrow> stock_of (w_db w') x = Some s)
    \<and> (quiet E \<and> w_db w = empty_db \<longrightarrow> cabinets (w_db w') = seed_cabinet_rows (env_now E (w_tick w))
        \<and> cabinet_images (w_db w') = seed_image_rows (env_now E (w_tick w)))"
proof -
  have "cabinets (w_db w') = seed_cabinet_rows (env_now E (w_tick w))
      \<and> cabinet_images (w_db w') = seed_image_rows (env_now E (w_tick w))" if "quiet E" "w_db w = empty_db"
    using seedCabinets_quiet(2) [OF that(1), of w "first_seed (env_now E (w_tick w))"]
      seed_first [of "env_now E (w_tick w)"] that(2) assms by (simp add: first_seed_def)
  with seedCabinets_db [OF assms] show ?thesis
  proof (elim disjE)
    assume s: "seeded (env_now E (w_tick w)) (w_db w) (w_db w')"
    assume first: "quiet E \<Longrightarrow> w_db w = empty_db \<Longrightarrow> cabinets (w_db w') = seed_cabinet_rows (env_now E (w_tick w))
      \<and> cabinet_images (w_db w') = seed_image_rows (env_now E (w_tick w))"
    from first seeded_exact [OF s] seeded_cabinets(4-7) [OF s] seeded_stock [OF s] show ?thesis by blast
  qed simp
qed

lemma sample_seed:
  "w_db (snd (seedCabinets sample_env \<lparr>w_db = empty_db, w_tick = 0\<rparr>)) = first_seed 0"
  using seedCabinets_quiet(2) [of sample_env "\<lparr>w_db = empty_db, w_tick = 0\<rparr>" "first_seed 0"] seed_first [of 0]
  by simp

lemma seed_is_safe_witness:
  "\<exists>m w'. seedCabinets sample_env sample_world = (m, w') \<and> stock_of (w_db w') ''B'' = Some 5"
proof -
  obtain m w' where r: "seedCabinets sample_env sample_world = (m, w')" by fastforce
  from seed_is_safe [OF r, of "''B''" 5] r show ?thesis by simp
qed

text \<open>
  The first start on empty tables without faults installs exactly the seed rows, without a
  warning, and a later start, in any environment, changes nothing.
\<close>
theorem seed_once:
  assumes "quiet E" "w_db w = empty_db" "seedCabinets E w = (m, w1)" "w_db w2 = w_db w1"
  shows "m = None \<and> cabinets (w_db w1) = seed_cabinet_rows (env_now E (w_tick w))
    \<and> cabinet_images (w_db w1) = seed_image_rows (env_now E (w_tick w))
    \<and> w_db (snd (seedCabinets E' w2)) = w_db w1"
proof -
  have s: "seeded (env_now E (w_tick w)) (w_db w) (first_seed (env_now E (w_tick w)))"
    using seed_first assms(2) by simp
  from seedCabinets_quiet [OF assms(1) s] assms(3)
  have m: "m = None" and w1: "w_db w1 = first_seed (env_now E (w_tick w))" by simp_all
  obtain m2 w3 where r: "seedCabinets E' w2 = (m2, w3)" by fastforce
  have "w_db w3 = w_db w1"
    using seedCabinets_db [OF r] seeded_again [OF s] w1 assms(4) by auto
  with m w1 r show ?thesis by (simp add: first_seed_def)
qed

lemma seed_once_witness:
  "w_db (snd (seedCabinets (lossy_env 3) (snd (seedCabinets sample_env \<lparr>w_db = empty_db, w_tick = 0\<rparr>))))
     = w_db (snd (seedCabinets sample_env \<lparr>w_db = empty_db, w_tick = 0\<rparr>))"
proof -
  let ?w = "\<lparr>w_db = empty_db, w_tick = 0\<rparr>"
  obtain m w1 where r: "seedCabinets sample_env ?w = (m, w1)" by fastforce
  have e: "w_db ?w = empty_db" by simp
  from seed_once [OF sample_env_quiet e r refl, of "lossy_env 3"] r show ?thesis by simp
qed

section \<open>The list of cabinets\<close>

lemma scan_rows_quiet:
  "quiet E \<Longrightarrow> \<exists>rows. scan_rows (\<lambda>c. scan_cabinet_row E c (f c)) cs = Inr rows \<and> map row_ID rows = map c_id cs
     \<and> map row_Quantity rows = map c_quantity cs"
proof (induction cs)
  case (Cons c cs)
  then obtain rows where "scan_rows (\<lambda>c. scan_cabinet_row E c (f c)) cs = Inr rows" "map row_ID rows = map c_id cs"
    "map row_Quantity rows = map c_quantity cs" by blast
  moreover obtain row where "scan_cabinet_row E c (f c) = Inr row" "row_ID row = c_id c" "row_Quantity row = c_quantity c"
    using quiet_scan [OF Cons.prems, of c "f c"] by blast
  ultimately show ?case by simp
qed simp

text \<open>
  C39. Without faults \<open>ListCabinets\<close> returns every cabinet once with its current stock, the newest
  first, and changes nothing.
\<close>
theorem list_cabinets_newest_first:
  assumes "quiet E"
  shows "\<exists>cabs sorted_rows. fst (repo_ListCabinets E w) = Inr cabs
    \<and> mset sorted_rows = mset (cabinets (w_db w))
    \<and> sorted_wrt (\<lambda>a b. pg_time (c_created_at b) \<le> pg_time (c_created_at a)) sorted_rows
    \<and> map Cab_ID cabs = map c_id sorted_rows
    \<and> map (\<lambda>c. sint (Cab_Quantity c)) cabs = map (\<lambda>c. sint (c_quantity c)) sorted_rows
    \<and> w_db (snd (repo_ListCabinets E w)) = w_db w"
proof -
  let ?s = "sort_key (\<lambda>c. - pg_time (c_created_at c)) (cabinets (w_db w))"
  obtain rows where rows: "scan_rows (\<lambda>c. scan_cabinet_row E c (images_agg (w_db w) (c_id c))) ?s = Inr rows"
    "map row_ID rows = map c_id ?s" "map row_Quantity rows = map c_quantity ?s"
    using scan_rows_quiet [OF assms, of "\<lambda>c. images_agg (w_db w) (c_id c)" ?s] by blast
  have "sorted (map (\<lambda>c. - pg_time (c_created_at c)) ?s)" by simp
  then have "sorted_wrt (\<lambda>a b. pg_time (c_created_at b) \<le> pg_time (c_created_at a)) ?s"
    by (simp add: sorted_map)
  moreover have "map Cab_ID (map mapCabinetToDomain rows) = map c_id ?s"
    using rows(2) by (simp add: mapCabinetToDomain_def comp_def)
  moreover have "map (\<lambda>c. sint (Cab_Quantity c)) (map mapCabinetToDomain rows) = map (\<lambda>c. sint (c_quantity c)) ?s"
    using arg_cong [OF rows(3), of "map sint"] by (simp add: mapCabinetToDomain_def comp_def)
  ultimately show ?thesis
    using rows(1)
    by (intro exI [of _ "map mapCabinetToDomain rows"] exI [of _ ?s])
      (simp add: repo_ListCabinets_def pool_run_def q_ListCabinets_def quiet_no_fault [OF assms] Let_def)
qed

lemma list_cabinets_newest_first_witness:
  "\<exists>cabs. fst (repo_ListCabinets sample_env sample_world) = Inr cabs \<and> length cabs = 2"
proof -
  obtain cabs rows where r: "fst (repo_ListCabinets sample_env sample_world) = Inr cabs"
    "mset rows = mset (cabinets (w_db sample_world))" "map Cab_ID cabs = map c_id rows"
    using list_cabinets_newest_first [OF sample_env_quiet, of sample_world] by blast
  have "length cabs = length rows" using r(3) by (rule map_eq_imp_length_eq)
  moreover have "length rows = 2" using arg_cong [OF r(2), of size] by simp
  ultimately show ?thesis using r(1) by simp
qed

section \<open>Logging\<close>

text \<open>
  C40. Every line that a logger derived from \<open>NewLogger\<close> writes inside a span carries the span's
  two identifiers, under the groups that are open, whatever attributes and groups were
  added; outside a span the handler adds nothing.
\<close>
theorem span_ids_on_every_line:
  assumes "derived h"
  shows "if Sc_IsValid sc
    then (open_groups h @ [''trace_id''], Sc_TraceID sc) \<in> set (Out_Attrs (Handle h sc r))
      \<and> (open_groups h @ [''span_id''], Sc_SpanID sc) \<in> set (Out_Attrs (Handle h sc r))
    else \<exists>inner. h = NewContextHandler inner \<and> Handle h sc r = Handle inner sc r"
  using derived_ids [OF assms, of sc r] derived_shape [OF assms] Handle_no_span
  by (auto simp: NewContextHandler_def)

lemma span_ids_on_every_line_witness:
  "([''http'', ''trace_id''], ''t'') \<in> set (Out_Attrs (Handle (WithGroup NewLogger ''http'')
     \<lparr>Sc_IsValid = True, Sc_TraceID = ''t'', Sc_SpanID = ''s''\<rparr>
     \<lparr>Rec_Level = ''INFO'', Rec_Message = ''m'', Rec_Attrs = []\<rparr>))"
proof -
  have "derived (WithGroup NewLogger ''http'')"
    unfolding NewLogger_def by (intro derived.intros)
  from span_ids_on_every_line [OF this, of "\<lparr>Sc_IsValid = True, Sc_TraceID = ''t'', Sc_SpanID = ''s''\<rparr>"
      "\<lparr>Rec_Level = ''INFO'', Rec_Message = ''m'', Rec_Attrs = []\<rparr>"]
  show ?thesis by (simp add: NewLogger_def NewContextHandler_def NewJSONHandler_def)
qed

text \<open>
  The interceptor does not change a call: result and state are those of the handler, the
  log grows by the request line, and by one error line exactly when the call failed.
\<close>
theorem interceptor_transparent:
  "fst (UnarySlogInterceptor lg txt sc m call req (s, logs)) = fst (call req s)
   \<and> fst (snd (UnarySlogInterceptor lg txt sc m call req (s, logs))) = snd (call req s)
   \<and> map Out_Level (snd (snd (UnarySlogInterceptor lg txt sc m call req (s, logs))))
       = map Out_Level logs @ (if is_ok (fst (call req s)) then [''INFO''] else [''INFO'', ''ERROR''])"
proof -
  have "Out_Level (Handle h sc r) = Rec_Level r" for h :: slog_handler and r :: slog_record
    by (induction h arbitrary: r) (simp_all add: Let_def AddAttrs_def)
  then show ?thesis
    by (cases "call req s") (simp add: UnarySlogInterceptor_def Let_def split: sum.split)
qed

end
