(* ===== verification/Lifecycle.thy ===== *)
theory Lifecycle
  imports Startup
begin

text \<open>
  The life of the catalog process (\<open>main\<close> of \<open>cmd/catalog/main.go\<close> and \<open>InitTracer\<close> of
  \<open>pkg/telemetry/tracer.go\<close>).  What the libraries and the operating system answer is the record
  \<open>host\<close>; what the process does to them is a list of effects, with the deferred calls that run
  when \<open>main\<close> returns and do not run when it exits.  The goroutine of the server has a list of
  its own, as its effects may fall between any of \<open>main\<close>; that of the worker is
  \<open>Outbox_Worker\<close>.
\<close>

section \<open>Effects\<close>

datatype effect = SetDefaultLogger | Log string string "(string \<times> string) list"
  | SetTracerProvider string string | SetPropagator "string list" | ShutdownTracer
  | Migrate string | OpenPool string | ClosePool | Seed
  | StartWorker nat | CancelWorker | Listen string
  | NewServer | RegisterCatalog | SetServing string | RegisterHealth | RegisterReflection
  | SpawnServer | Serve string | NotifySignals | AwaitSignal | GracefulStop | CancelContext



section \<open>Tracing\<close>


section \<open>The process\<close>







section \<open>What is released\<close>

definition releases :: "effect list \<Rightarrow> effect list" where
  "releases tr = filter (\<lambda>e. e \<in> {CancelWorker, GracefulStop, ClosePool, ShutdownTracer, CancelContext}) tr"

definition is_error :: "effect \<Rightarrow> bool" where
  "is_error e \<longleftrightarrow> (case e of Log level msg attrs \<Rightarrow> level = ''ERROR'' | _ \<Rightarrow> False)"



lemma releases_simps [simp]:
  "releases [] = []" "releases (xs @ ys) = releases xs @ releases ys"
  "releases (e # xs) = (if e \<in> {CancelWorker, GracefulStop, ClosePool, ShutdownTracer, CancelContext}
     then e # releases xs else releases xs)"
  by (simp_all add: releases_def)

lemma is_error_Log [simp]: "is_error (Log level msg attrs) \<longleftrightarrow> level = ''ERROR''"
  by (simp add: is_error_def)

lemma is_error_other [simp]: "\<forall>level msg attrs. e \<noteq> Log level msg attrs \<Longrightarrow> \<not> is_error e"
  by (simp add: is_error_def split: effect.split)










end
