(* ===== verification/End_To_End.thy ===== *)
theory End_To_End
  imports Catalog_System Graphql_Properties Outbox_Properties
begin

text \<open>
  One order through the whole program: from the GraphQL mutation over the gateway, the stubs,
  the handlers, the use case and the transaction to the event that the worker delivers.
\<close>

section \<open>The catalog's side\<close>









section \<open>The gateway's side\<close>



section \<open>From the mutation to the event\<close>




end
