(* ===== verification/Proto_Descriptor.thy ===== *)
theory Proto_Descriptor
  imports Rpc_Stubs
begin

text \<open>
  What \<open>protoc-gen-go\<close> generates beside the messages (\<open>api/proto/catalog/v1/catalog.pb.go\<close>):
  \<open>Reset\<close> and \<open>ProtoReflect\<close>, the fields as the struct tags declare them, and the tables that
  tell the protobuf library which message a field, an input or an output refers to.
\<close>

section \<open>Reset\<close>

text \<open>
  The library keeps a type with every message: \<open>msg_infos\<close> gives for the address of a message
  the index of the type that was stored there.  \<open>Reset\<close> sets the fields to their zero values
  and stores the type.
\<close>

type_synonym msg_infos = "nat \<Rightarrow> nat option"

definition CabinetImage_Reset :: "nat \<Rightarrow> pb_cabinet_image \<Rightarrow> msg_infos \<Rightarrow> pb_cabinet_image \<times> msg_infos" where
  "CabinetImage_Reset p x st = (\<lparr>Pbi_Id = [], Pbi_Url = [], Pbi_Alt = [], Pbi_SortOrder = 0\<rparr>, st(p \<mapsto> 0))"

definition Cabinet_Reset :: "nat \<Rightarrow> pb_cabinet \<Rightarrow> msg_infos \<Rightarrow> pb_cabinet \<times> msg_infos" where
  "Cabinet_Reset p x st = (\<lparr>Pbc_Id = [], Pbc_Slug = [], Pbc_Model = [], Pbc_Type = [], Pbc_Display = [],
     Pbc_Condition = [], Pbc_Quantity = 0, Pbc_Price = 0, Pbc_Manufacturer = [],
     Pbc_Year = [], Pbc_Images = []\<rparr>, st(p \<mapsto> 1))"

definition ListCabinetsResponse_Reset :: "nat \<Rightarrow> pb_list_cabinets_response \<Rightarrow> msg_infos \<Rightarrow> pb_list_cabinets_response \<times> msg_infos" where
  "ListCabinetsResponse_Reset p x st = (\<lparr>Pblr_Cabinets = []\<rparr>, st(p \<mapsto> 3))"

definition GetCabinetRequest_Reset :: "nat \<Rightarrow> pb_get_cabinet_request \<Rightarrow> msg_infos \<Rightarrow> pb_get_cabinet_request \<times> msg_infos" where
  "GetCabinetRequest_Reset p x st = (\<lparr>Pbgq_Id = []\<rparr>, st(p \<mapsto> 4))"

definition GetCabinetResponse_Reset :: "nat \<Rightarrow> pb_get_cabinet_response \<Rightarrow> msg_infos \<Rightarrow> pb_get_cabinet_response \<times> msg_infos" where
  "GetCabinetResponse_Reset p x st = (\<lparr>Pbgr_Cabinet = None\<rparr>, st(p \<mapsto> 5))"

definition ReserveStockRequest_Reset :: "nat \<Rightarrow> pb_reserve_stock_request \<Rightarrow> msg_infos \<Rightarrow> pb_reserve_stock_request \<times> msg_infos" where
  "ReserveStockRequest_Reset p x st = (\<lparr>Pbrq_CabinetId = [], Pbrq_Quantity = 0, Pbrq_IdempotencyKey = []\<rparr>, st(p \<mapsto> 6))"

definition ReserveStockResponse_Reset :: "nat \<Rightarrow> pb_reserve_stock_response \<Rightarrow> msg_infos \<Rightarrow> pb_reserve_stock_response \<times> msg_infos" where
  "ReserveStockResponse_Reset p x st = (\<lparr>Pbrr_Cabinet = None, Pbrr_IdempotencyKey = []\<rparr>, st(p \<mapsto> 7))"

definition OrderItemInput_Reset :: "nat \<Rightarrow> pb_order_item_input \<Rightarrow> msg_infos \<Rightarrow> pb_order_item_input \<times> msg_infos" where
  "OrderItemInput_Reset p x st = (\<lparr>Pbii_CabinetId = [], Pbii_Quantity = 0\<rparr>, st(p \<mapsto> 8))"

definition CreateOrderRequest_Reset :: "nat \<Rightarrow> pb_create_order_request \<Rightarrow> msg_infos \<Rightarrow> pb_create_order_request \<times> msg_infos" where
  "CreateOrderRequest_Reset p x st = (\<lparr>Pbcq_IdempotencyKey = [], Pbcq_Items = []\<rparr>, st(p \<mapsto> 9))"

definition OrderLine_Reset :: "nat \<Rightarrow> pb_order_line \<Rightarrow> msg_infos \<Rightarrow> pb_order_line \<times> msg_infos" where
  "OrderLine_Reset p x st = (\<lparr>Pbl_CabinetId = [], Pbl_Quantity = 0, Pbl_UnitPriceCents = 0\<rparr>, st(p \<mapsto> 10))"

definition Order_Reset :: "nat \<Rightarrow> pb_order \<Rightarrow> msg_infos \<Rightarrow> pb_order \<times> msg_infos" where
  "Order_Reset p x st = (\<lparr>Pbo_Id = [], Pbo_UserId = [], Pbo_Status = [], Pbo_TotalCents = 0, Pbo_Items = [],
     Pbo_IdempotencyKey = []\<rparr>, st(p \<mapsto> 11))"

definition CreateOrderResponse_Reset :: "nat \<Rightarrow> pb_create_order_response \<Rightarrow> msg_infos \<Rightarrow> pb_create_order_response \<times> msg_infos" where
  "CreateOrderResponse_Reset p x st = (\<lparr>Pbcr_Order = None\<rparr>, st(p \<mapsto> 12))"

definition GetOrderRequest_Reset :: "nat \<Rightarrow> pb_get_order_request \<Rightarrow> msg_infos \<Rightarrow> pb_get_order_request \<times> msg_infos" where
  "GetOrderRequest_Reset p x st = (\<lparr>Pbgoq_Id = []\<rparr>, st(p \<mapsto> 13))"

definition GetOrderResponse_Reset :: "nat \<Rightarrow> pb_get_order_response \<Rightarrow> msg_infos \<Rightarrow> pb_get_order_response \<times> msg_infos" where
  "GetOrderResponse_Reset p x st = (\<lparr>Pbgor_Order = None\<rparr>, st(p \<mapsto> 14))"

definition ListCabinetsRequest_Reset :: "nat \<Rightarrow> unit \<Rightarrow> msg_infos \<Rightarrow> unit \<times> msg_infos" where
  "ListCabinetsRequest_Reset p x st = ((), st(p \<mapsto> 2))"

lemmas reset_defs =
      CabinetImage_Reset_def Cabinet_Reset_def ListCabinetsResponse_Reset_def
      GetCabinetRequest_Reset_def GetCabinetResponse_Reset_def ReserveStockRequest_Reset_def
      ReserveStockResponse_Reset_def OrderItemInput_Reset_def CreateOrderRequest_Reset_def
      OrderLine_Reset_def Order_Reset_def CreateOrderResponse_Reset_def
      GetOrderRequest_Reset_def GetOrderResponse_Reset_def

text \<open>A message that was reset reads like a nil message.\<close>

lemma reset_reads_like_nil:
  "CabinetImage_GetId (Some (fst (CabinetImage_Reset p m0 st))) = CabinetImage_GetId None"
  "CabinetImage_GetUrl (Some (fst (CabinetImage_Reset p m0 st))) = CabinetImage_GetUrl None"
  "CabinetImage_GetAlt (Some (fst (CabinetImage_Reset p m0 st))) = CabinetImage_GetAlt None"
  "CabinetImage_GetSortOrder (Some (fst (CabinetImage_Reset p m0 st))) = CabinetImage_GetSortOrder None"
  "Cabinet_GetId (Some (fst (Cabinet_Reset p m1 st))) = Cabinet_GetId None"
  "Cabinet_GetSlug (Some (fst (Cabinet_Reset p m1 st))) = Cabinet_GetSlug None"
  "Cabinet_GetModel (Some (fst (Cabinet_Reset p m1 st))) = Cabinet_GetModel None"
  "Cabinet_GetType (Some (fst (Cabinet_Reset p m1 st))) = Cabinet_GetType None"
  "Cabinet_GetDisplay (Some (fst (Cabinet_Reset p m1 st))) = Cabinet_GetDisplay None"
  "Cabinet_GetCondition (Some (fst (Cabinet_Reset p m1 st))) = Cabinet_GetCondition None"
  "Cabinet_GetQuantity (Some (fst (Cabinet_Reset p m1 st))) = Cabinet_GetQuantity None"
  "Cabinet_GetPrice (Some (fst (Cabinet_Reset p m1 st))) = Cabinet_GetPrice None"
  "Cabinet_GetManufacturer (Some (fst (Cabinet_Reset p m1 st))) = Cabinet_GetManufacturer None"
  "Cabinet_GetYear (Some (fst (Cabinet_Reset p m1 st))) = Cabinet_GetYear None"
  "Cabinet_GetImages (Some (fst (Cabinet_Reset p m1 st))) = Cabinet_GetImages None"
  "ListCabinetsResponse_GetCabinets (Some (fst (ListCabinetsResponse_Reset p m2 st))) = ListCabinetsResponse_GetCabinets None"
  "GetCabinetRequest_GetId (Some (fst (GetCabinetRequest_Reset p m3 st))) = GetCabinetRequest_GetId None"
  "GetCabinetResponse_GetCabinet (Some (fst (GetCabinetResponse_Reset p m4 st))) = GetCabinetResponse_GetCabinet None"
  "ReserveStockRequest_GetCabinetId (Some (fst (ReserveStockRequest_Reset p m5 st))) = ReserveStockRequest_GetCabinetId None"
  "ReserveStockRequest_GetQuantity (Some (fst (ReserveStockRequest_Reset p m5 st))) = ReserveStockRequest_GetQuantity None"
  "ReserveStockRequest_GetIdempotencyKey (Some (fst (ReserveStockRequest_Reset p m5 st))) = ReserveStockRequest_GetIdempotencyKey None"
  "ReserveStockResponse_GetCabinet (Some (fst (ReserveStockResponse_Reset p m6 st))) = ReserveStockResponse_GetCabinet None"
  "ReserveStockResponse_GetIdempotencyKey (Some (fst (ReserveStockResponse_Reset p m6 st))) = ReserveStockResponse_GetIdempotencyKey None"
  "OrderItemInput_GetCabinetId (Some (fst (OrderItemInput_Reset p m7 st))) = OrderItemInput_GetCabinetId None"
  "OrderItemInput_GetQuantity (Some (fst (OrderItemInput_Reset p m7 st))) = OrderItemInput_GetQuantity None"
  "CreateOrderRequest_GetIdempotencyKey (Some (fst (CreateOrderRequest_Reset p m8 st))) = CreateOrderRequest_GetIdempotencyKey None"
  "CreateOrderRequest_GetItems (Some (fst (CreateOrderRequest_Reset p m8 st))) = CreateOrderRequest_GetItems None"
  "OrderLine_GetCabinetId (Some (fst (OrderLine_Reset p m9 st))) = OrderLine_GetCabinetId None"
  "OrderLine_GetQuantity (Some (fst (OrderLine_Reset p m9 st))) = OrderLine_GetQuantity None"
  "OrderLine_GetUnitPriceCents (Some (fst (OrderLine_Reset p m9 st))) = OrderLine_GetUnitPriceCents None"
  "Order_GetId (Some (fst (Order_Reset p m10 st))) = Order_GetId None"
  "Order_GetUserId (Some (fst (Order_Reset p m10 st))) = Order_GetUserId None"
  "Order_GetStatus (Some (fst (Order_Reset p m10 st))) = Order_GetStatus None"
  "Order_GetTotalCents (Some (fst (Order_Reset p m10 st))) = Order_GetTotalCents None"
  "Order_GetItems (Some (fst (Order_Reset p m10 st))) = Order_GetItems None"
  "Order_GetIdempotencyKey (Some (fst (Order_Reset p m10 st))) = Order_GetIdempotencyKey None"
  "CreateOrderResponse_GetOrder (Some (fst (CreateOrderResponse_Reset p m11 st))) = CreateOrderResponse_GetOrder None"
  "GetOrderRequest_GetId (Some (fst (GetOrderRequest_Reset p m12 st))) = GetOrderRequest_GetId None"
  "GetOrderResponse_GetOrder (Some (fst (GetOrderResponse_Reset p m13 st))) = GetOrderResponse_GetOrder None"
  by (simp_all add: reset_defs getter_defs)

section \<open>Reflection\<close>

text \<open>
  A message is reflected by its own state, in which the first call stores the type, or, when
  the pointer is nil, by the type alone.
\<close>

datatype reflection = StateOf nat | MessageOf nat

definition CabinetImage_ProtoReflect :: "nat option \<Rightarrow> msg_infos \<Rightarrow> reflection \<times> msg_infos" where
  "CabinetImage_ProtoReflect x st = (case x of
     Some p \<Rightarrow> (StateOf p, if st p = None then st(p \<mapsto> 0) else st)
   | None \<Rightarrow> (MessageOf 0, st))"

definition Cabinet_ProtoReflect :: "nat option \<Rightarrow> msg_infos \<Rightarrow> reflection \<times> msg_infos" where
  "Cabinet_ProtoReflect x st = (case x of
     Some p \<Rightarrow> (StateOf p, if st p = None then st(p \<mapsto> 1) else st)
   | None \<Rightarrow> (MessageOf 1, st))"

definition ListCabinetsRequest_ProtoReflect :: "nat option \<Rightarrow> msg_infos \<Rightarrow> reflection \<times> msg_infos" where
  "ListCabinetsRequest_ProtoReflect x st = (case x of
     Some p \<Rightarrow> (StateOf p, if st p = None then st(p \<mapsto> 2) else st)
   | None \<Rightarrow> (MessageOf 2, st))"

definition ListCabinetsResponse_ProtoReflect :: "nat option \<Rightarrow> msg_infos \<Rightarrow> reflection \<times> msg_infos" where
  "ListCabinetsResponse_ProtoReflect x st = (case x of
     Some p \<Rightarrow> (StateOf p, if st p = None then st(p \<mapsto> 3) else st)
   | None \<Rightarrow> (MessageOf 3, st))"

definition GetCabinetRequest_ProtoReflect :: "nat option \<Rightarrow> msg_infos \<Rightarrow> reflection \<times> msg_infos" where
  "GetCabinetRequest_ProtoReflect x st = (case x of
     Some p \<Rightarrow> (StateOf p, if st p = None then st(p \<mapsto> 4) else st)
   | None \<Rightarrow> (MessageOf 4, st))"

definition GetCabinetResponse_ProtoReflect :: "nat option \<Rightarrow> msg_infos \<Rightarrow> reflection \<times> msg_infos" where
  "GetCabinetResponse_ProtoReflect x st = (case x of
     Some p \<Rightarrow> (StateOf p, if st p = None then st(p \<mapsto> 5) else st)
   | None \<Rightarrow> (MessageOf 5, st))"

definition ReserveStockRequest_ProtoReflect :: "nat option \<Rightarrow> msg_infos \<Rightarrow> reflection \<times> msg_infos" where
  "ReserveStockRequest_ProtoReflect x st = (case x of
     Some p \<Rightarrow> (StateOf p, if st p = None then st(p \<mapsto> 6) else st)
   | None \<Rightarrow> (MessageOf 6, st))"

definition ReserveStockResponse_ProtoReflect :: "nat option \<Rightarrow> msg_infos \<Rightarrow> reflection \<times> msg_infos" where
  "ReserveStockResponse_ProtoReflect x st = (case x of
     Some p \<Rightarrow> (StateOf p, if st p = None then st(p \<mapsto> 7) else st)
   | None \<Rightarrow> (MessageOf 7, st))"

definition OrderItemInput_ProtoReflect :: "nat option \<Rightarrow> msg_infos \<Rightarrow> reflection \<times> msg_infos" where
  "OrderItemInput_ProtoReflect x st = (case x of
     Some p \<Rightarrow> (StateOf p, if st p = None then st(p \<mapsto> 8) else st)
   | None \<Rightarrow> (MessageOf 8, st))"

definition CreateOrderRequest_ProtoReflect :: "nat option \<Rightarrow> msg_infos \<Rightarrow> reflection \<times> msg_infos" where
  "CreateOrderRequest_ProtoReflect x st = (case x of
     Some p \<Rightarrow> (StateOf p, if st p = None then st(p \<mapsto> 9) else st)
   | None \<Rightarrow> (MessageOf 9, st))"

definition OrderLine_ProtoReflect :: "nat option \<Rightarrow> msg_infos \<Rightarrow> reflection \<times> msg_infos" where
  "OrderLine_ProtoReflect x st = (case x of
     Some p \<Rightarrow> (StateOf p, if st p = None then st(p \<mapsto> 10) else st)
   | None \<Rightarrow> (MessageOf 10, st))"

definition Order_ProtoReflect :: "nat option \<Rightarrow> msg_infos \<Rightarrow> reflection \<times> msg_infos" where
  "Order_ProtoReflect x st = (case x of
     Some p \<Rightarrow> (StateOf p, if st p = None then st(p \<mapsto> 11) else st)
   | None \<Rightarrow> (MessageOf 11, st))"

definition CreateOrderResponse_ProtoReflect :: "nat option \<Rightarrow> msg_infos \<Rightarrow> reflection \<times> msg_infos" where
  "CreateOrderResponse_ProtoReflect x st = (case x of
     Some p \<Rightarrow> (StateOf p, if st p = None then st(p \<mapsto> 12) else st)
   | None \<Rightarrow> (MessageOf 12, st))"

definition GetOrderRequest_ProtoReflect :: "nat option \<Rightarrow> msg_infos \<Rightarrow> reflection \<times> msg_infos" where
  "GetOrderRequest_ProtoReflect x st = (case x of
     Some p \<Rightarrow> (StateOf p, if st p = None then st(p \<mapsto> 13) else st)
   | None \<Rightarrow> (MessageOf 13, st))"

definition GetOrderResponse_ProtoReflect :: "nat option \<Rightarrow> msg_infos \<Rightarrow> reflection \<times> msg_infos" where
  "GetOrderResponse_ProtoReflect x st = (case x of
     Some p \<Rightarrow> (StateOf p, if st p = None then st(p \<mapsto> 14) else st)
   | None \<Rightarrow> (MessageOf 14, st))"

lemmas reflect_defs =
      CabinetImage_ProtoReflect_def Cabinet_ProtoReflect_def
      ListCabinetsRequest_ProtoReflect_def ListCabinetsResponse_ProtoReflect_def
      GetCabinetRequest_ProtoReflect_def GetCabinetResponse_ProtoReflect_def
      ReserveStockRequest_ProtoReflect_def ReserveStockResponse_ProtoReflect_def
      OrderItemInput_ProtoReflect_def CreateOrderRequest_ProtoReflect_def
      OrderLine_ProtoReflect_def Order_ProtoReflect_def CreateOrderResponse_ProtoReflect_def
      GetOrderRequest_ProtoReflect_def GetOrderResponse_ProtoReflect_def

text \<open>The functions of the messages in the order of their indices.\<close>

definition reflectors :: "(string \<times> (nat option \<Rightarrow> msg_infos \<Rightarrow> reflection \<times> msg_infos)) list" where
  "reflectors =
     [(''CabinetImage'', CabinetImage_ProtoReflect),
      (''Cabinet'', Cabinet_ProtoReflect),
      (''ListCabinetsRequest'', ListCabinetsRequest_ProtoReflect),
      (''ListCabinetsResponse'', ListCabinetsResponse_ProtoReflect),
      (''GetCabinetRequest'', GetCabinetRequest_ProtoReflect),
      (''GetCabinetResponse'', GetCabinetResponse_ProtoReflect),
      (''ReserveStockRequest'', ReserveStockRequest_ProtoReflect),
      (''ReserveStockResponse'', ReserveStockResponse_ProtoReflect),
      (''OrderItemInput'', OrderItemInput_ProtoReflect),
      (''CreateOrderRequest'', CreateOrderRequest_ProtoReflect),
      (''OrderLine'', OrderLine_ProtoReflect),
      (''Order'', Order_ProtoReflect),
      (''CreateOrderResponse'', CreateOrderResponse_ProtoReflect),
      (''GetOrderRequest'', GetOrderRequest_ProtoReflect),
      (''GetOrderResponse'', GetOrderResponse_ProtoReflect)]"

text \<open>Every message reports its own index, stores it at most once, and keeps what is stored.\<close>

lemma reflectors_index:
  "map (\<lambda>(m, f). f None st) reflectors = map (\<lambda>i. (MessageOf i, st)) [0..<15]"
  "st p = None \<Longrightarrow> map (\<lambda>(m, f). f (Some p) st) reflectors = map (\<lambda>i. (StateOf p, st(p \<mapsto> i))) [0..<15]"
  "st p = Some i \<Longrightarrow> (m, f) \<in> set reflectors \<Longrightarrow> f (Some p) st = (StateOf p, st)"
  by (auto simp: reflectors_def reflect_defs upt_rec)

text \<open>A message that was reset is reflected as its own type.\<close>

lemma reset_reflects:
  "snd (CabinetImage_ProtoReflect (Some p) (snd (CabinetImage_Reset p m0 st))) = snd (CabinetImage_Reset p m0 st)"
  "snd (Cabinet_ProtoReflect (Some p) (snd (Cabinet_Reset p m1 st))) = snd (Cabinet_Reset p m1 st)"
  "snd (ListCabinetsRequest_ProtoReflect (Some p) (snd (ListCabinetsRequest_Reset p m2 st))) = snd (ListCabinetsRequest_Reset p m2 st)"
  "snd (ListCabinetsResponse_ProtoReflect (Some p) (snd (ListCabinetsResponse_Reset p m3 st))) = snd (ListCabinetsResponse_Reset p m3 st)"
  "snd (GetCabinetRequest_ProtoReflect (Some p) (snd (GetCabinetRequest_Reset p m4 st))) = snd (GetCabinetRequest_Reset p m4 st)"
  "snd (GetCabinetResponse_ProtoReflect (Some p) (snd (GetCabinetResponse_Reset p m5 st))) = snd (GetCabinetResponse_Reset p m5 st)"
  "snd (ReserveStockRequest_ProtoReflect (Some p) (snd (ReserveStockRequest_Reset p m6 st))) = snd (ReserveStockRequest_Reset p m6 st)"
  "snd (ReserveStockResponse_ProtoReflect (Some p) (snd (ReserveStockResponse_Reset p m7 st))) = snd (ReserveStockResponse_Reset p m7 st)"
  "snd (OrderItemInput_ProtoReflect (Some p) (snd (OrderItemInput_Reset p m8 st))) = snd (OrderItemInput_Reset p m8 st)"
  "snd (CreateOrderRequest_ProtoReflect (Some p) (snd (CreateOrderRequest_Reset p m9 st))) = snd (CreateOrderRequest_Reset p m9 st)"
  "snd (OrderLine_ProtoReflect (Some p) (snd (OrderLine_Reset p m10 st))) = snd (OrderLine_Reset p m10 st)"
  "snd (Order_ProtoReflect (Some p) (snd (Order_Reset p m11 st))) = snd (Order_Reset p m11 st)"
  "snd (CreateOrderResponse_ProtoReflect (Some p) (snd (CreateOrderResponse_Reset p m12 st))) = snd (CreateOrderResponse_Reset p m12 st)"
  "snd (GetOrderRequest_ProtoReflect (Some p) (snd (GetOrderRequest_Reset p m13 st))) = snd (GetOrderRequest_Reset p m13 st)"
  "snd (GetOrderResponse_ProtoReflect (Some p) (snd (GetOrderResponse_Reset p m14 st))) = snd (GetOrderResponse_Reset p m14 st)"
  by (simp_all add: reflect_defs reset_defs ListCabinetsRequest_Reset_def)

section \<open>Fields\<close>

text \<open>The number of a field, its name, its name in JSON, whether it is repeated, and its type.\<close>

datatype pb_type = PbString | PbInt32 | PbInt64 | PbMessage string

datatype pb_field = PbField (pf_number: nat) (pf_name: string) (pf_json: string) (pf_repeated: bool) (pf_type: pb_type)

definition CabinetImage_fields :: "pb_field list" where
  "CabinetImage_fields =
     [PbField 1 ''id'' ''id'' False PbString,
      PbField 2 ''url'' ''url'' False PbString,
      PbField 3 ''alt'' ''alt'' False PbString,
      PbField 4 ''sort_order'' ''sortOrder'' False PbInt32]"

definition Cabinet_fields :: "pb_field list" where
  "Cabinet_fields =
     [PbField 1 ''id'' ''id'' False PbString,
      PbField 2 ''slug'' ''slug'' False PbString,
      PbField 3 ''model'' ''model'' False PbString,
      PbField 4 ''type'' ''type'' False PbString,
      PbField 5 ''display'' ''display'' False PbString,
      PbField 6 ''condition'' ''condition'' False PbString,
      PbField 7 ''quantity'' ''quantity'' False PbInt32,
      PbField 8 ''price'' ''price'' False PbInt64,
      PbField 9 ''manufacturer'' ''manufacturer'' False PbString,
      PbField 10 ''year'' ''year'' False PbString,
      PbField 11 ''images'' ''images'' True (PbMessage ''CabinetImage'')]"

definition ListCabinetsRequest_fields :: "pb_field list" where
  "ListCabinetsRequest_fields =
     []"

definition ListCabinetsResponse_fields :: "pb_field list" where
  "ListCabinetsResponse_fields =
     [PbField 1 ''cabinets'' ''cabinets'' True (PbMessage ''Cabinet'')]"

definition GetCabinetRequest_fields :: "pb_field list" where
  "GetCabinetRequest_fields =
     [PbField 1 ''id'' ''id'' False PbString]"

definition GetCabinetResponse_fields :: "pb_field list" where
  "GetCabinetResponse_fields =
     [PbField 1 ''cabinet'' ''cabinet'' False (PbMessage ''Cabinet'')]"

definition ReserveStockRequest_fields :: "pb_field list" where
  "ReserveStockRequest_fields =
     [PbField 1 ''cabinet_id'' ''cabinetId'' False PbString,
      PbField 2 ''quantity'' ''quantity'' False PbInt32,
      PbField 3 ''idempotency_key'' ''idempotencyKey'' False PbString]"

definition ReserveStockResponse_fields :: "pb_field list" where
  "ReserveStockResponse_fields =
     [PbField 1 ''cabinet'' ''cabinet'' False (PbMessage ''Cabinet''),
      PbField 2 ''idempotency_key'' ''idempotencyKey'' False PbString]"

definition OrderItemInput_fields :: "pb_field list" where
  "OrderItemInput_fields =
     [PbField 1 ''cabinet_id'' ''cabinetId'' False PbString,
      PbField 2 ''quantity'' ''quantity'' False PbInt32]"

definition CreateOrderRequest_fields :: "pb_field list" where
  "CreateOrderRequest_fields =
     [PbField 1 ''idempotency_key'' ''idempotencyKey'' False PbString,
      PbField 2 ''items'' ''items'' True (PbMessage ''OrderItemInput'')]"

definition OrderLine_fields :: "pb_field list" where
  "OrderLine_fields =
     [PbField 1 ''cabinet_id'' ''cabinetId'' False PbString,
      PbField 2 ''quantity'' ''quantity'' False PbInt32,
      PbField 3 ''unit_price_cents'' ''unitPriceCents'' False PbInt64]"

definition Order_fields :: "pb_field list" where
  "Order_fields =
     [PbField 1 ''id'' ''id'' False PbString,
      PbField 2 ''user_id'' ''userId'' False PbString,
      PbField 3 ''status'' ''status'' False PbString,
      PbField 4 ''total_cents'' ''totalCents'' False PbInt64,
      PbField 5 ''items'' ''items'' True (PbMessage ''OrderLine''),
      PbField 6 ''idempotency_key'' ''idempotencyKey'' False PbString]"

definition CreateOrderResponse_fields :: "pb_field list" where
  "CreateOrderResponse_fields =
     [PbField 1 ''order'' ''order'' False (PbMessage ''Order'')]"

definition GetOrderRequest_fields :: "pb_field list" where
  "GetOrderRequest_fields =
     [PbField 1 ''id'' ''id'' False PbString]"

definition GetOrderResponse_fields :: "pb_field list" where
  "GetOrderResponse_fields =
     [PbField 1 ''order'' ''order'' False (PbMessage ''Order'')]"

lemmas fields_defs =
      CabinetImage_fields_def Cabinet_fields_def ListCabinetsRequest_fields_def
      ListCabinetsResponse_fields_def GetCabinetRequest_fields_def
      GetCabinetResponse_fields_def ReserveStockRequest_fields_def
      ReserveStockResponse_fields_def OrderItemInput_fields_def CreateOrderRequest_fields_def
      OrderLine_fields_def Order_fields_def CreateOrderResponse_fields_def
      GetOrderRequest_fields_def GetOrderResponse_fields_def

text \<open>The messages in the order of their indices.\<close>

definition msgTypes :: "(string \<times> pb_field list) list" where
  "msgTypes =
     [(''CabinetImage'', CabinetImage_fields),
      (''Cabinet'', Cabinet_fields),
      (''ListCabinetsRequest'', ListCabinetsRequest_fields),
      (''ListCabinetsResponse'', ListCabinetsResponse_fields),
      (''GetCabinetRequest'', GetCabinetRequest_fields),
      (''GetCabinetResponse'', GetCabinetResponse_fields),
      (''ReserveStockRequest'', ReserveStockRequest_fields),
      (''ReserveStockResponse'', ReserveStockResponse_fields),
      (''OrderItemInput'', OrderItemInput_fields),
      (''CreateOrderRequest'', CreateOrderRequest_fields),
      (''OrderLine'', OrderLine_fields),
      (''Order'', Order_fields),
      (''CreateOrderResponse'', CreateOrderResponse_fields),
      (''GetOrderRequest'', GetOrderRequest_fields),
      (''GetOrderResponse'', GetOrderResponse_fields)]"

section \<open>The tables of the library\<close>

definition goTypes :: "string list" where
  "goTypes =
     [''CabinetImage'', ''Cabinet'', ''ListCabinetsRequest'', ''ListCabinetsResponse'',
      ''GetCabinetRequest'', ''GetCabinetResponse'', ''ReserveStockRequest'',
      ''ReserveStockResponse'', ''OrderItemInput'', ''CreateOrderRequest'', ''OrderLine'',
      ''Order'', ''CreateOrderResponse'', ''GetOrderRequest'', ''GetOrderResponse'']"

definition depIdxs :: "nat list" where
  "depIdxs =
     [0, 1, 1, 1, 8, 10, 11, 11, 2, 4, 6, 9, 13, 3, 5, 7, 12, 14, 13, 8, 8, 8, 0]"

text \<open>The last five entries are where the parts of the table start: outputs, inputs, extensions, fields.\<close>

definition dep_part :: "nat \<Rightarrow> nat \<Rightarrow> string list" where
  "dep_part from to = map (\<lambda>i. goTypes ! i) (take (to - from) (drop from depIdxs))"

definition field_message :: "pb_field \<Rightarrow> string option" where
  "field_message f = (case pf_type f of PbMessage m \<Rightarrow> Some m | _ \<Rightarrow> None)"

definition service_methods :: "string list" where
  "service_methods = map fst (CatalogService_ServiceDesc :: (string \<times> (unit catalog_server \<Rightarrow> incoming_md
     \<Rightarrow> rpc_request \<Rightarrow> unit interceptor \<Rightarrow> unit \<Rightarrow> (rpc_error + rpc_response) \<times> unit)) list)"

text \<open>
  The tables agree with the structs and the stubs: the types are the messages in order, every
  field of a message type refers to its type, and every method of the service to its request
  and its response.
\<close>

lemma tables_match:
  "goTypes = map fst msgTypes"
  "goTypes = map fst reflectors"
  "dep_part (depIdxs ! 22) (depIdxs ! 19) = List.map_filter field_message (concat (map snd msgTypes))"
  "dep_part (depIdxs ! 19) (depIdxs ! 18) = map (\<lambda>m. m @ ''Request'') service_methods"
  "dep_part (depIdxs ! 18) 18 = map (\<lambda>m. m @ ''Response'') service_methods"
  by (simp_all add: goTypes_def msgTypes_def dep_part_def depIdxs_def fields_defs field_message_def
      reflectors_def List.map_filter_def service_methods_def
      CatalogService_ServiceDesc_def)

text \<open>The numbers and the names of the fields of a message are distinct.\<close>

lemma fields_distinct:
  "\<forall>(m, fs) \<in> set msgTypes. distinct (map pf_number fs) \<and> distinct (map pf_name fs) \<and> distinct (map pf_json fs)"
  by (simp add: msgTypes_def fields_defs)

end
