(* ===== verification/Raw_Descriptor.thy ===== *)
theory Raw_Descriptor
  imports Proto_Descriptor
begin

text \<open>
  The descriptor that \<open>protoc-gen-go\<close> embeds as bytes, and its registration with the protobuf
  library (\<open>api/proto/catalog/v1/catalog.pb.go\<close>).  What the library builds from it, and its
  compression, are parameters.  The bytes are shown to be the wire form of the messages, fields
  and methods of the Go code.
\<close>

section \<open>The bytes\<close>

definition raw_desc :: string where
  "raw_desc = concat
     [[CHR 0x0A],
      [CHR 0x22] @ ''api/proto/catalog/v1/catalog.proto'' @ [CHR 0x12, CHR 0x0A],
      ''catalog.v1'' @ [CHR 0x22] @ ''a'' @ [CHR 0x0A],
      [CHR 0x0C] @ ''CabinetImage'' @ [CHR 0x12, CHR 0x0E, CHR 0x0A],
      [CHR 0x02] @ ''id'' @ [CHR 0x18, CHR 0x01] @ '' '' @ [CHR 0x01] @ ''('' @ [CHR 0x09] @
        ''R'' @ [CHR 0x02] @ ''id'' @ [CHR 0x12, CHR 0x10, CHR 0x0A],
      [CHR 0x03] @ ''url'' @ [CHR 0x18, CHR 0x02] @ '' '' @ [CHR 0x01] @ ''('' @ [CHR 0x09] @
        ''R'' @ [CHR 0x03] @ ''url'' @ [CHR 0x12, CHR 0x10, CHR 0x0A],
      [CHR 0x03] @ ''alt'' @ [CHR 0x18, CHR 0x03] @ '' '' @ [CHR 0x01] @ ''('' @ [CHR 0x09] @
        ''R'' @ [CHR 0x03] @ ''alt'' @ [CHR 0x12, CHR 0x1D, CHR 0x0A],
      [CHR 0x0A],
      ''sort_order'' @ [CHR 0x18, CHR 0x04] @ '' '' @ [CHR 0x01] @ ''('' @ [CHR 0x05] @ ''R'' @
        [CHR 0x09] @ ''sortOrder'' @ [CHR 0x22, CHR 0xAB, CHR 0x02, CHR 0x0A],
      [CHR 0x07] @ ''Cabinet'' @ [CHR 0x12, CHR 0x0E, CHR 0x0A],
      [CHR 0x02] @ ''id'' @ [CHR 0x18, CHR 0x01] @ '' '' @ [CHR 0x01] @ ''('' @ [CHR 0x09] @
        ''R'' @ [CHR 0x02] @ ''id'' @ [CHR 0x12, CHR 0x12, CHR 0x0A],
      [CHR 0x04] @ ''slug'' @ [CHR 0x18, CHR 0x02] @ '' '' @ [CHR 0x01] @ ''('' @ [CHR 0x09] @
        ''R'' @ [CHR 0x04] @ ''slug'' @ [CHR 0x12, CHR 0x14, CHR 0x0A],
      [CHR 0x05] @ ''model'' @ [CHR 0x18, CHR 0x03] @ '' '' @ [CHR 0x01] @ ''('' @ [CHR 0x09] @
        ''R'' @ [CHR 0x05] @ ''model'' @ [CHR 0x12, CHR 0x12, CHR 0x0A],
      [CHR 0x04] @ ''type'' @ [CHR 0x18, CHR 0x04] @ '' '' @ [CHR 0x01] @ ''('' @ [CHR 0x09] @
        ''R'' @ [CHR 0x04] @ ''type'' @ [CHR 0x12, CHR 0x18, CHR 0x0A],
      [CHR 0x07] @ ''display'' @ [CHR 0x18, CHR 0x05] @ '' '' @ [CHR 0x01] @ ''('' @ [CHR 0x09] @
        ''R'' @ [CHR 0x07] @ ''display'' @ [CHR 0x12, CHR 0x1C, CHR 0x0A],
      [CHR 0x09] @ ''condition'' @ [CHR 0x18, CHR 0x06] @ '' '' @ [CHR 0x01] @ ''('' @ [CHR 0x09] @
        ''R'' @ [CHR 0x09] @ ''condition'' @ [CHR 0x12, CHR 0x1A, CHR 0x0A],
      [CHR 0x08] @ ''quantity'' @ [CHR 0x18, CHR 0x07] @ '' '' @ [CHR 0x01] @ ''('' @ [CHR 0x05] @
        ''R'' @ [CHR 0x08] @ ''quantity'' @ [CHR 0x12, CHR 0x14, CHR 0x0A],
      [CHR 0x05] @ ''price'' @ [CHR 0x18, CHR 0x08] @ '' '' @ [CHR 0x01] @ ''('' @ [CHR 0x03] @
        ''R'' @ [CHR 0x05] @ ''price'' @ [CHR 0x12, CHR 0x22, CHR 0x0A],
      [CHR 0x0C] @ ''manufacturer'' @ [CHR 0x18, CHR 0x09] @ '' '' @ [CHR 0x01] @ ''('' @
        [CHR 0x09] @ ''R'' @ [CHR 0x0C] @ ''manufacturer'' @ [CHR 0x12, CHR 0x12, CHR 0x0A],
      [CHR 0x04] @ ''year'' @ [CHR 0x18, CHR 0x0A],
      '' '' @ [CHR 0x01] @ ''('' @ [CHR 0x09] @ ''R'' @ [CHR 0x04] @ ''year'' @ [CHR 0x12] @
        ''0'' @ [CHR 0x0A],
      [CHR 0x06] @ ''images'' @ [CHR 0x18, CHR 0x0B] @ '' '' @ [CHR 0x03] @ ''('' @ [CHR 0x0B] @
        ''2'' @ [CHR 0x18] @ ''.catalog.v1.CabinetImageR'' @ [CHR 0x06] @ ''images'' @
        [CHR 0x22, CHR 0x15, CHR 0x0A],
      [CHR 0x13] @ ''ListCabinetsRequest'' @ [CHR 0x22] @ ''G'' @ [CHR 0x0A],
      [CHR 0x14] @ ''ListCabinetsResponse'' @ [CHR 0x12] @ ''/'' @ [CHR 0x0A],
      [CHR 0x08] @ ''cabinets'' @ [CHR 0x18, CHR 0x01] @ '' '' @ [CHR 0x03] @ ''('' @ [CHR 0x0B] @
        ''2'' @ [CHR 0x13] @ ''.catalog.v1.CabinetR'' @ [CHR 0x08] @ ''cabinets'' @ [CHR 0x22] @
        ''#'' @ [CHR 0x0A],
      [CHR 0x11] @ ''GetCabinetRequest'' @ [CHR 0x12, CHR 0x0E, CHR 0x0A],
      [CHR 0x02] @ ''id'' @ [CHR 0x18, CHR 0x01] @ '' '' @ [CHR 0x01] @ ''('' @ [CHR 0x09] @
        ''R'' @ [CHR 0x02] @ ''id'' @ [CHR 0x22] @ ''C'' @ [CHR 0x0A],
      [CHR 0x12] @ ''GetCabinetResponse'' @ [CHR 0x12] @ ''-'' @ [CHR 0x0A],
      [CHR 0x07] @ ''cabinet'' @ [CHR 0x18, CHR 0x01] @ '' '' @ [CHR 0x01] @ ''('' @ [CHR 0x0B] @
        ''2'' @ [CHR 0x13] @ ''.catalog.v1.CabinetR'' @ [CHR 0x07] @ ''cabinet'' @ [CHR 0x22] @
        ''y'' @ [CHR 0x0A],
      [CHR 0x13] @ ''ReserveStockRequest'' @ [CHR 0x12, CHR 0x1D, CHR 0x0A],
      [CHR 0x0A],
      ''cabinet_id'' @ [CHR 0x18, CHR 0x01] @ '' '' @ [CHR 0x01] @ ''('' @ [CHR 0x09] @ ''R'' @
        [CHR 0x09] @ ''cabinetId'' @ [CHR 0x12, CHR 0x1A, CHR 0x0A],
      [CHR 0x08] @ ''quantity'' @ [CHR 0x18, CHR 0x02] @ '' '' @ [CHR 0x01] @ ''('' @ [CHR 0x05] @
        ''R'' @ [CHR 0x08] @ ''quantity'' @ [CHR 0x12, CHR 0x27, CHR 0x0A],
      [CHR 0x0F] @ ''idempotency_key'' @ [CHR 0x18, CHR 0x03] @ '' '' @ [CHR 0x01] @ ''('' @
        [CHR 0x09] @ ''R'' @ [CHR 0x0E] @ ''idempotencyKey'' @ [CHR 0x22] @ ''n'' @ [CHR 0x0A],
      [CHR 0x14] @ ''ReserveStockResponse'' @ [CHR 0x12] @ ''-'' @ [CHR 0x0A],
      [CHR 0x07] @ ''cabinet'' @ [CHR 0x18, CHR 0x01] @ '' '' @ [CHR 0x01] @ ''('' @ [CHR 0x0B] @
        ''2'' @ [CHR 0x13] @ ''.catalog.v1.CabinetR'' @ [CHR 0x07] @ ''cabinet'' @
        [CHR 0x12, CHR 0x27, CHR 0x0A],
      [CHR 0x0F] @ ''idempotency_key'' @ [CHR 0x18, CHR 0x02] @ '' '' @ [CHR 0x01] @ ''('' @
        [CHR 0x09] @ ''R'' @ [CHR 0x0E] @ ''idempotencyKey'' @ [CHR 0x22] @ ''K'' @ [CHR 0x0A],
      [CHR 0x0E] @ ''OrderItemInput'' @ [CHR 0x12, CHR 0x1D, CHR 0x0A],
      [CHR 0x0A],
      ''cabinet_id'' @ [CHR 0x18, CHR 0x01] @ '' '' @ [CHR 0x01] @ ''('' @ [CHR 0x09] @ ''R'' @
        [CHR 0x09] @ ''cabinetId'' @ [CHR 0x12, CHR 0x1A, CHR 0x0A],
      [CHR 0x08] @ ''quantity'' @ [CHR 0x18, CHR 0x02] @ '' '' @ [CHR 0x01] @ ''('' @ [CHR 0x05] @
        ''R'' @ [CHR 0x08] @ ''quantity'' @ [CHR 0x22] @ ''o'' @ [CHR 0x0A],
      [CHR 0x12] @ ''CreateOrderRequest'' @ [CHR 0x12, CHR 0x27, CHR 0x0A],
      [CHR 0x0F] @ ''idempotency_key'' @ [CHR 0x18, CHR 0x01] @ '' '' @ [CHR 0x01] @ ''('' @
        [CHR 0x09] @ ''R'' @ [CHR 0x0E] @ ''idempotencyKey'' @ [CHR 0x12] @ ''0'' @ [CHR 0x0A],
      [CHR 0x05] @ ''items'' @ [CHR 0x18, CHR 0x02] @ '' '' @ [CHR 0x03] @ ''('' @ [CHR 0x0B] @
        ''2'' @ [CHR 0x1A] @ ''.catalog.v1.OrderItemInputR'' @ [CHR 0x05] @ ''items'' @ [CHR 0x22] @
        ''p'' @ [CHR 0x0A],
      [CHR 0x09] @ ''OrderLine'' @ [CHR 0x12, CHR 0x1D, CHR 0x0A],
      [CHR 0x0A],
      ''cabinet_id'' @ [CHR 0x18, CHR 0x01] @ '' '' @ [CHR 0x01] @ ''('' @ [CHR 0x09] @ ''R'' @
        [CHR 0x09] @ ''cabinetId'' @ [CHR 0x12, CHR 0x1A, CHR 0x0A],
      [CHR 0x08] @ ''quantity'' @ [CHR 0x18, CHR 0x02] @ '' '' @ [CHR 0x01] @ ''('' @ [CHR 0x05] @
        ''R'' @ [CHR 0x08] @ ''quantity'' @ [CHR 0x12] @ ''('' @ [CHR 0x0A],
      [CHR 0x10] @ ''unit_price_cents'' @ [CHR 0x18, CHR 0x03] @ '' '' @ [CHR 0x01] @ ''('' @
        [CHR 0x03] @ ''R'' @ [CHR 0x0E] @ ''unitPriceCents'' @
        [CHR 0x22, CHR 0xBF, CHR 0x01, CHR 0x0A],
      [CHR 0x05] @ ''Order'' @ [CHR 0x12, CHR 0x0E, CHR 0x0A],
      [CHR 0x02] @ ''id'' @ [CHR 0x18, CHR 0x01] @ '' '' @ [CHR 0x01] @ ''('' @ [CHR 0x09] @
        ''R'' @ [CHR 0x02] @ ''id'' @ [CHR 0x12, CHR 0x17, CHR 0x0A],
      [CHR 0x07] @ ''user_id'' @ [CHR 0x18, CHR 0x02] @ '' '' @ [CHR 0x01] @ ''('' @ [CHR 0x09] @
        ''R'' @ [CHR 0x06] @ ''userId'' @ [CHR 0x12, CHR 0x16, CHR 0x0A],
      [CHR 0x06] @ ''status'' @ [CHR 0x18, CHR 0x03] @ '' '' @ [CHR 0x01] @ ''('' @ [CHR 0x09] @
        ''R'' @ [CHR 0x06] @ ''status'' @ [CHR 0x12, CHR 0x1F, CHR 0x0A],
      [CHR 0x0B] @ ''total_cents'' @ [CHR 0x18, CHR 0x04] @ '' '' @ [CHR 0x01] @ ''('' @
        [CHR 0x03] @ ''R'' @ [CHR 0x0A],
      ''totalCents'' @ [CHR 0x12] @ ''+'' @ [CHR 0x0A],
      [CHR 0x05] @ ''items'' @ [CHR 0x18, CHR 0x05] @ '' '' @ [CHR 0x03] @ ''('' @ [CHR 0x0B] @
        ''2'' @ [CHR 0x15] @ ''.catalog.v1.OrderLineR'' @ [CHR 0x05] @ ''items'' @
        [CHR 0x12, CHR 0x27, CHR 0x0A],
      [CHR 0x0F] @ ''idempotency_key'' @ [CHR 0x18, CHR 0x06] @ '' '' @ [CHR 0x01] @ ''('' @
        [CHR 0x09] @ ''R'' @ [CHR 0x0E] @ ''idempotencyKey'' @ [CHR 0x22] @ ''>'' @ [CHR 0x0A],
      [CHR 0x13] @ ''CreateOrderResponse'' @ [CHR 0x12, CHR 0x27, CHR 0x0A],
      [CHR 0x05] @ ''order'' @ [CHR 0x18, CHR 0x01] @ '' '' @ [CHR 0x01] @ ''('' @ [CHR 0x0B] @
        ''2'' @ [CHR 0x11] @ ''.catalog.v1.OrderR'' @ [CHR 0x05] @ ''order'' @ [CHR 0x22] @ ''!'' @
        [CHR 0x0A],
      [CHR 0x0F] @ ''GetOrderRequest'' @ [CHR 0x12, CHR 0x0E, CHR 0x0A],
      [CHR 0x02] @ ''id'' @ [CHR 0x18, CHR 0x01] @ '' '' @ [CHR 0x01] @ ''('' @ [CHR 0x09] @
        ''R'' @ [CHR 0x02] @ ''id'' @ [CHR 0x22] @ '';'' @ [CHR 0x0A],
      [CHR 0x10] @ ''GetOrderResponse'' @ [CHR 0x12, CHR 0x27, CHR 0x0A],
      [CHR 0x05] @ ''order'' @ [CHR 0x18, CHR 0x01] @ '' '' @ [CHR 0x01] @ ''('' @ [CHR 0x0B] @
        ''2'' @ [CHR 0x11] @ ''.catalog.v1.OrderR'' @ [CHR 0x05] @ ''order2'' @
        [CHR 0x9A, CHR 0x03, CHR 0x0A],
      [CHR 0x0E] @ ''CatalogService'' @ [CHR 0x12] @ ''Q'' @ [CHR 0x0A],
      [CHR 0x0C] @ ''ListCabinets'' @ [CHR 0x12, CHR 0x1F] @ ''.catalog.v1.ListCabinetsRequest'' @
        [CHR 0x1A] @ '' .catalog.v1.ListCabinetsResponse'' @ [CHR 0x12] @ ''K'' @ [CHR 0x0A],
      [CHR 0x0A],
      ''GetCabinet'' @ [CHR 0x12, CHR 0x1D] @ ''.catalog.v1.GetCabinetRequest'' @
        [CHR 0x1A, CHR 0x1E] @ ''.catalog.v1.GetCabinetResponse'' @ [CHR 0x12] @ ''Q'' @ [CHR 0x0A],
      [CHR 0x0C] @ ''ReserveStock'' @ [CHR 0x12, CHR 0x1F] @ ''.catalog.v1.ReserveStockRequest'' @
        [CHR 0x1A] @ '' .catalog.v1.ReserveStockResponse'' @ [CHR 0x12] @ ''N'' @ [CHR 0x0A],
      [CHR 0x0B] @ ''CreateOrder'' @ [CHR 0x12, CHR 0x1E] @ ''.catalog.v1.CreateOrderRequest'' @
        [CHR 0x1A, CHR 0x1F] @ ''.catalog.v1.CreateOrderResponse'' @ [CHR 0x12] @ ''E'' @
        [CHR 0x0A],
      [CHR 0x08] @ ''GetOrder'' @ [CHR 0x12, CHR 0x1B] @ ''.catalog.v1.GetOrderRequest'' @
        [CHR 0x1A, CHR 0x1C] @
        ''.catalog.v1.GetOrderResponseBFZDgithub.com/mateusfmfm/go-arcade-vault/api/proto/catalog/v1;catalogv1b'' @
        [CHR 0x06] @ ''proto3'']"

section \<open>Registration\<close>

record type_builder =
  GoPackagePath :: string
  RawDescriptor :: string
  NumEnums :: nat
  NumMessages :: nat
  NumExtensions :: nat
  NumServices :: nat
  GoTypes :: "string list"
  DependencyIndexes :: "nat list"
  MessageInfos :: "nat list"

text \<open>The variables of the file; a slice that is set to nil is empty.\<close>

record 'f file_vars =
  fv_File :: "'f option"
  fv_goTypes :: "string list"
  fv_depIdxs :: "nat list"

definition catalog_builder :: "string \<Rightarrow> 'f file_vars \<Rightarrow> type_builder" where
  "catalog_builder pkg v = \<lparr>GoPackagePath = pkg, RawDescriptor = raw_desc, NumEnums = 0, NumMessages = 15,
     NumExtensions = 0, NumServices = 1, GoTypes = fv_goTypes v, DependencyIndexes = fv_depIdxs v,
     MessageInfos = [0..<15]\<rparr>"

text \<open>\<open>build\<close> is the library's \<open>Build\<close> with the file it returns, \<open>pkg\<close> the package path.\<close>

definition file_init :: "(type_builder \<Rightarrow> 'f) \<Rightarrow> string \<Rightarrow> 'f file_vars \<Rightarrow> 'f file_vars" where
  "file_init build pkg v =
     (if fv_File v \<noteq> None then v
      else v\<lparr>fv_File := Some (build (catalog_builder pkg v)), fv_goTypes := [], fv_depIdxs := []\<rparr>)"

definition initial_vars :: "'f file_vars" where
  "initial_vars = \<lparr>fv_File = None, fv_goTypes = goTypes, fv_depIdxs = depIdxs\<rparr>"

text \<open>
  The first call registers the file with its tables, which agree in their lengths with the
  declared numbers; further calls change nothing.
\<close>

lemma file_init_once:
  "fv_File v = None \<Longrightarrow> fv_File (file_init build pkg v) = Some (build (catalog_builder pkg v))"
  "file_init build pkg (file_init build pkg v) = file_init build pkg v"
  by (simp_all add: file_init_def catalog_builder_def)

lemma builder_counts:
  "NumMessages (catalog_builder pkg v) = length msgTypes"
  "NumMessages (catalog_builder pkg v) = length (MessageInfos (catalog_builder pkg v))"
  "NumMessages (catalog_builder pkg initial_vars) = length (GoTypes (catalog_builder pkg initial_vars))"
  by (simp_all add: catalog_builder_def initial_vars_def msgTypes_def goTypes_def)

section \<open>The compressed descriptor\<close>

record gzip_vars =
  gz_once :: bool
  gz_data :: string

definition rawDescGZIP :: "(string \<Rightarrow> string) \<Rightarrow> gzip_vars \<Rightarrow> string \<times> gzip_vars" where
  "rawDescGZIP compress v =
     (let v1 = if gz_once v then v else v\<lparr>gz_once := True, gz_data := compress raw_desc\<rparr>
      in (gz_data v1, v1))"

definition CabinetImage_Descriptor :: "(string \<Rightarrow> string) \<Rightarrow> gzip_vars \<Rightarrow> (string \<times> nat list) \<times> gzip_vars" where
  "CabinetImage_Descriptor compress v = (case rawDescGZIP compress v of (b, v1) \<Rightarrow> ((b, [0]), v1))"

definition Cabinet_Descriptor :: "(string \<Rightarrow> string) \<Rightarrow> gzip_vars \<Rightarrow> (string \<times> nat list) \<times> gzip_vars" where
  "Cabinet_Descriptor compress v = (case rawDescGZIP compress v of (b, v1) \<Rightarrow> ((b, [1]), v1))"

definition ListCabinetsRequest_Descriptor :: "(string \<Rightarrow> string) \<Rightarrow> gzip_vars \<Rightarrow> (string \<times> nat list) \<times> gzip_vars" where
  "ListCabinetsRequest_Descriptor compress v = (case rawDescGZIP compress v of (b, v1) \<Rightarrow> ((b, [2]), v1))"

definition ListCabinetsResponse_Descriptor :: "(string \<Rightarrow> string) \<Rightarrow> gzip_vars \<Rightarrow> (string \<times> nat list) \<times> gzip_vars" where
  "ListCabinetsResponse_Descriptor compress v = (case rawDescGZIP compress v of (b, v1) \<Rightarrow> ((b, [3]), v1))"

definition GetCabinetRequest_Descriptor :: "(string \<Rightarrow> string) \<Rightarrow> gzip_vars \<Rightarrow> (string \<times> nat list) \<times> gzip_vars" where
  "GetCabinetRequest_Descriptor compress v = (case rawDescGZIP compress v of (b, v1) \<Rightarrow> ((b, [4]), v1))"

definition GetCabinetResponse_Descriptor :: "(string \<Rightarrow> string) \<Rightarrow> gzip_vars \<Rightarrow> (string \<times> nat list) \<times> gzip_vars" where
  "GetCabinetResponse_Descriptor compress v = (case rawDescGZIP compress v of (b, v1) \<Rightarrow> ((b, [5]), v1))"

definition ReserveStockRequest_Descriptor :: "(string \<Rightarrow> string) \<Rightarrow> gzip_vars \<Rightarrow> (string \<times> nat list) \<times> gzip_vars" where
  "ReserveStockRequest_Descriptor compress v = (case rawDescGZIP compress v of (b, v1) \<Rightarrow> ((b, [6]), v1))"

definition ReserveStockResponse_Descriptor :: "(string \<Rightarrow> string) \<Rightarrow> gzip_vars \<Rightarrow> (string \<times> nat list) \<times> gzip_vars" where
  "ReserveStockResponse_Descriptor compress v = (case rawDescGZIP compress v of (b, v1) \<Rightarrow> ((b, [7]), v1))"

definition OrderItemInput_Descriptor :: "(string \<Rightarrow> string) \<Rightarrow> gzip_vars \<Rightarrow> (string \<times> nat list) \<times> gzip_vars" where
  "OrderItemInput_Descriptor compress v = (case rawDescGZIP compress v of (b, v1) \<Rightarrow> ((b, [8]), v1))"

definition CreateOrderRequest_Descriptor :: "(string \<Rightarrow> string) \<Rightarrow> gzip_vars \<Rightarrow> (string \<times> nat list) \<times> gzip_vars" where
  "CreateOrderRequest_Descriptor compress v = (case rawDescGZIP compress v of (b, v1) \<Rightarrow> ((b, [9]), v1))"

definition OrderLine_Descriptor :: "(string \<Rightarrow> string) \<Rightarrow> gzip_vars \<Rightarrow> (string \<times> nat list) \<times> gzip_vars" where
  "OrderLine_Descriptor compress v = (case rawDescGZIP compress v of (b, v1) \<Rightarrow> ((b, [10]), v1))"

definition Order_Descriptor :: "(string \<Rightarrow> string) \<Rightarrow> gzip_vars \<Rightarrow> (string \<times> nat list) \<times> gzip_vars" where
  "Order_Descriptor compress v = (case rawDescGZIP compress v of (b, v1) \<Rightarrow> ((b, [11]), v1))"

definition CreateOrderResponse_Descriptor :: "(string \<Rightarrow> string) \<Rightarrow> gzip_vars \<Rightarrow> (string \<times> nat list) \<times> gzip_vars" where
  "CreateOrderResponse_Descriptor compress v = (case rawDescGZIP compress v of (b, v1) \<Rightarrow> ((b, [12]), v1))"

definition GetOrderRequest_Descriptor :: "(string \<Rightarrow> string) \<Rightarrow> gzip_vars \<Rightarrow> (string \<times> nat list) \<times> gzip_vars" where
  "GetOrderRequest_Descriptor compress v = (case rawDescGZIP compress v of (b, v1) \<Rightarrow> ((b, [13]), v1))"

definition GetOrderResponse_Descriptor :: "(string \<Rightarrow> string) \<Rightarrow> gzip_vars \<Rightarrow> (string \<times> nat list) \<times> gzip_vars" where
  "GetOrderResponse_Descriptor compress v = (case rawDescGZIP compress v of (b, v1) \<Rightarrow> ((b, [14]), v1))"

lemmas descriptor_defs =
      CabinetImage_Descriptor_def Cabinet_Descriptor_def ListCabinetsRequest_Descriptor_def
      ListCabinetsResponse_Descriptor_def GetCabinetRequest_Descriptor_def GetCabinetResponse_Descriptor_def
      ReserveStockRequest_Descriptor_def ReserveStockResponse_Descriptor_def OrderItemInput_Descriptor_def
      CreateOrderRequest_Descriptor_def OrderLine_Descriptor_def Order_Descriptor_def
      CreateOrderResponse_Descriptor_def GetOrderRequest_Descriptor_def GetOrderResponse_Descriptor_def

definition descriptors :: "((string \<Rightarrow> string) \<Rightarrow> gzip_vars \<Rightarrow> (string \<times> nat list) \<times> gzip_vars) list" where
  "descriptors =
     [CabinetImage_Descriptor, Cabinet_Descriptor, ListCabinetsRequest_Descriptor,
      ListCabinetsResponse_Descriptor, GetCabinetRequest_Descriptor, GetCabinetResponse_Descriptor,
      ReserveStockRequest_Descriptor, ReserveStockResponse_Descriptor, OrderItemInput_Descriptor,
      CreateOrderRequest_Descriptor, OrderLine_Descriptor, Order_Descriptor,
      CreateOrderResponse_Descriptor, GetOrderRequest_Descriptor, GetOrderResponse_Descriptor]"

text \<open>The descriptor is compressed once, and every message gives it with its own index.\<close>

lemma descriptors_index:
  assumes "gz_once v \<longrightarrow> gz_data v = compress raw_desc"
  shows "map (\<lambda>f. fst (f compress v)) descriptors = map (\<lambda>i. (compress raw_desc, [i])) [0..<15]"
    "f \<in> set descriptors \<Longrightarrow> snd (f compress v) = v\<lparr>gz_once := True, gz_data := compress raw_desc\<rparr>"
  using assms by (cases v; auto simp: descriptors_def descriptor_defs rawDescGZIP_def upt_rec)+

section \<open>Its wire form\<close>

text \<open>
  The wire format of protobuf, as far as \<open>descriptor.proto\<close> uses it here: numbers in groups of
  seven bits, and texts and messages with their length, each after its key.
\<close>

fun varint :: "nat \<Rightarrow> string" where
  "varint n = (if n < 128 then [char_of n] else char_of (128 + n mod 128) # varint (n div 128))"

declare varint.simps [simp del]

definition wire_int :: "nat \<Rightarrow> nat \<Rightarrow> string" where
  "wire_int k n = varint (8 * k) @ varint n"

definition wire_bytes :: "nat \<Rightarrow> string \<Rightarrow> string" where
  "wire_bytes k s = varint (8 * k + 2) @ varint (length s) @ s"

definition catalog_name :: "string \<Rightarrow> string" where
  "catalog_name m = ''.catalog.v1.'' @ m"

primrec type_code :: "pb_type \<Rightarrow> nat" where
  "type_code PbString = 9"
| "type_code PbInt32 = 5"
| "type_code PbInt64 = 3"
| "type_code (PbMessage m) = 11"

definition wire_field :: "pb_field \<Rightarrow> string" where
  "wire_field f = wire_bytes 1 (pf_name f) @ wire_int 3 (pf_number f)
     @ wire_int 4 (if pf_repeated f then 3 else 1) @ wire_int 5 (type_code (pf_type f))
     @ (case field_message f of None \<Rightarrow> [] | Some m \<Rightarrow> wire_bytes 6 (catalog_name m))
     @ wire_bytes 10 (pf_json f)"

definition wire_message :: "string \<times> pb_field list \<Rightarrow> string" where
  "wire_message m = wire_bytes 1 (fst m) @ concat (map (\<lambda>f. wire_bytes 2 (wire_field f)) (snd m))"

definition wire_method :: "string \<times> string \<times> string \<Rightarrow> string" where
  "wire_method = (\<lambda>(m, inp, out). wire_bytes 1 m @ wire_bytes 2 (catalog_name inp) @ wire_bytes 3 (catalog_name out))"

definition wire_service :: "string \<Rightarrow> (string \<times> string \<times> string) list \<Rightarrow> string" where
  "wire_service s ms = wire_bytes 1 s @ concat (map (\<lambda>m. wire_bytes 2 (wire_method m)) ms)"

text \<open>The methods of the stubs, with the inputs and outputs that \<open>depIdxs\<close> gives them.\<close>

definition catalog_methods :: "(string \<times> string \<times> string) list" where
  "catalog_methods = zip service_methods
     (zip (dep_part (depIdxs ! 19) (depIdxs ! 18)) (dep_part (depIdxs ! 18) 18))"

definition wire_file :: "(string \<times> pb_field list) list \<Rightarrow> (string \<times> string \<times> string) list \<Rightarrow> string" where
  "wire_file messages ms =
     wire_bytes 1 ''api/proto/catalog/v1/catalog.proto'' @ wire_bytes 2 ''catalog.v1''
     @ concat (map (\<lambda>m. wire_bytes 4 (wire_message m)) messages)
     @ wire_bytes 6 (wire_service ''CatalogService'' ms)
     @ wire_bytes 8 (wire_bytes 11 ''github.com/mateusfmfm/go-arcade-vault/api/proto/catalog/v1;catalogv1'')
     @ wire_bytes 12 ''proto3''"

lemma raw_desc_wire: "raw_desc = wire_file msgTypes catalog_methods"
  by code_simp

end
