(* ===== verification/Spec2Isabelle.thy ===== *)
theory Spec2Isabelle
  imports Catalog_System Race_Properties Interleaving_Properties Outbox_Properties Fleet_Properties
    Gateway_Properties Graphql_Properties Service_Properties Wiring Lifecycle End_To_End
    Raw_Descriptor
begin

text \<open>
  A verification of the arcade vault: the catalog service (cabinets, stock, orders and
  the outbox over PostgreSQL) and the GraphQL gateway in front of it.

  \<^bold>\<open>The program.\<close>  A request enters the gateway: \<open>internal/gateway/middleware\<close> copies the user
  into the metadata, the executor that gqlgen generated (\<open>graph/generated.go\<close>) calls the
  resolvers (\<open>graph/schema.resolvers.go\<close>), and these call the catalog over generated gRPC
  stubs (\<open>api/proto/catalog/v1\<close>).  There \<open>adapter/grpc/handler.go\<close> calls the use cases
  (\<open>app/usecase.go\<close>), which check the request and call the repository port
  (\<open>app/repository.go\<close>).  Its implementation (\<open>adapter/postgres/repository.go\<close>) runs the sqlc
  queries (\<open>adapter/postgres/db\<close>) in transactions over the schema of \<open>db/catalog/migrations\<close>.
  An order writes an event into the outbox in its own transaction; a worker
  (\<open>app/outbox_worker.go\<close>) publishes the waiting events and marks them.
  \<open>cmd/catalog/main.go\<close> migrates and seeds the database before it serves.

  \<^bold>\<open>The model.\<close>
  \<^item> \<open>Vault_Prelude\<close>, \<open>Go_Runtime\<close>: integers at their width (\<open>int\<close> and \<open>int64\<close> are 64 bit words,
    \<open>int32\<close> conversions truncate), lemmas on lists and tables, and what is used of Go's
    standard library (decimal printing, \<open>TrimSpace\<close>, RFC 3339, JSON strings).
  \<^item> \<open>Domain\<close>, \<open>App_Ports\<close>: the domain records and errors, with wrapping, \<open>errors.Is\<close> and
    \<open>errors.As\<close>; the ports as records of functions and their contracts as the locales
    \<open>atomic_repository\<close>, \<open>outbox_store\<close> and \<open>publisher\<close>.
  \<^item> \<open>Sql_Schema\<close>, \<open>Sql_Queries\<close>, \<open>Pg_Session\<close>: the tables as lists of rows with their
    constraints as violations, every query as a function on them, and pool and
    transactions.  Time is the tick of a counter that every statement advances; the
    environment \<open>env\<close> decides for each tick whether it fails on the server, or on the
    connection with the statement or commit applied or not, and gives clock readings,
    UUIDs and the JSON round trips.  A failed statement aborts its transaction.
  \<^item> \<open>Repository\<close>, \<open>Usecase\<close>, \<open>Outbox_Worker\<close>, \<open>Grpc_Handler\<close>: one definition per function, every
    early return a branch.  \<open>Startup\<close>: configuration, migrations and seed.
  \<^item> \<open>Race\<close>: concurrent calls of \<open>ReserveStockTx\<close>, one statement per step, under READ COMMITTED
    with row locks, with waiting on uncommitted keys, faults and lost acknowledgements.
  \<^item> \<open>Call_Tree\<close>, \<open>Interleaving\<close>: \<open>CreateOrderTx\<close> and \<open>ReserveStockTx\<close> as trees of statements, and
    concurrent requests of both kinds, one statement per step: a transaction sees the committed
    tables with its own writes replayed, an update waits for the holder of its row, an insert
    for that of its key.  \<open>Race\<close> has reservations alone, with the phases of the call spelt out.
  \<^item> \<open>Catalog_System\<close>: handlers, worker and restarts over one store, as a step relation whose
    steps are whole calls.
  \<^item> \<open>Outbox_Fleet\<close>: the workers of several processes and new orders, one call per step, with
    crashes at any point.  \<open>Lifecycle\<close>: \<open>main\<close> as the list of what it does to libraries and
    operating system, with the deferred calls, and that of the goroutine that serves, under any
    answers of theirs (\<open>host\<close>).
  \<^item> \<open>Proto\<close>, \<open>Proto_Descriptor\<close>, \<open>Raw_Descriptor\<close>,
    \<open>Rpc_Stubs\<close>, \<open>Gateway\<close>, \<open>Telemetry\<close>,
    \<open>Wiring\<close>: messages with their nil-safe getters, resets and reflection, their
    fields, type tables and embedded descriptor (which is the wire form of the rest,
    \<open>raw_desc_wire\<close>), stubs and method table, resolvers and middleware, the slog
    handler and interceptor, and the objects and handles that tie the parts together.
  \<^item> \<open>Graphql_Exec\<close>, \<open>Graphql_Context\<close>,
    \<open>Graphql_Introspection\<close>, \<open>Graphql_Operations\<close>,
    \<open>Graphql_Schema\<close>: the generated executor over the gqlgen library as the parameter
    \<open>gql_runtime\<close>: inputs, field functions and objects with null propagation;
    arguments, field contexts and the schema; introspection, over its types and methods as the
    parameter \<open>introspection\<close>; queries, whose concurrent fields complete in the order
    that a schedule gives, mutations, and the response handler; the executable schema with the cost
    of a field, and the inputs it declares.

  \<^bold>\<open>The lemmas.\<close>
  \<^item> \<open>Sql_Facts\<close>, \<open>Repository_Invariants\<close>: what every statement keeps, every function keeps, in
    every environment (locale \<open>stmt_invariant\<close>), in particular the schema.
  \<^item> \<open>Repository_Effects\<close>, \<open>Order_Effects\<close>, \<open>Order_Transaction\<close>: the exact effect of a reservation
    and of an order as one change of the tables; \<open>Ledger\<close>: what those changes keep (units,
    totals, one event per order; locale \<open>effect_invariant\<close>).
  \<^item> \<open>Error_Paths\<close>, \<open>Reserve_Outcome\<close>, \<open>Order_Success\<close>, \<open>Order_Replay\<close>: which errors occur, and
    what happens in an environment without faults (\<open>quiet\<close>): success, every refusal, replays.
  \<^item> \<open>Race_Facts\<close>, \<open>Race_Count\<close>: the invariant of interleaved calls, serial history, progress,
    and the count of successes.  \<open>Outbox_Postgres\<close>: the adapter meets the outbox contract.
  \<^item> \<open>Interleaving_Facts\<close>, \<open>Call_Logic\<close>, \<open>Order_Interleaving\<close>: writes that fit stay applicable while
    their rows and keys are held; a logic of call trees (every statement guarded, every
    ending checked); the invariant of interleaved requests.  \<open>Order_Progress\<close>: step bounds, and
    no circular waiting for sorted lines.  \<open>Order_Deadlock\<close>: the run into a deadlock without
    them.  \<open>Order_Alone\<close>: a session that nobody holds up is the
    function of \<open>Repository\<close>.
  \<^item> \<open>Outbox_Fleet\<close> also holds the invariant of interleaved workers (locales \<open>outbox_log\<close>,
    \<open>outbox_fleet\<close>) and that a batch of the source is a run of one.
  \<^item> \<open>Graphql_Facts\<close>: which selections the schema allows and when a value conforms to it, and that
    objects are executed completely.  \<open>Graphql_Schedule\<close>: calls that only read commute.
    \<open>Graphql_Typing\<close>: the invariant of a set of fields until it is complete.
    \<open>Introspection_Facts\<close>, \<open>Context_Facts\<close>: no panic below a known selection; contexts
    against the schema.  \<open>Schema_Facts\<close>: costs against the schema, and what a valid input is
    unmarshalled to.  \<open>End_To_End\<close>: the parts of an order composed.
  \<^item> \<open>Samples\<close>: a concrete environment and catalog on which the properties are instantiated.

  \<^bold>\<open>The properties\<close> stand in \<open>End_To_End\<close> (C3), \<open>Order_Properties\<close> (C4 to C12), \<open>Reserve_Properties\<close> (C13),
  \<open>Race_Properties\<close> (C14 to C16), \<open>Interleaving_Properties\<close> (C17 to C20), \<open>Rpc_Properties\<close> (C21 to
  C23), \<open>Outbox_Properties\<close> (C24, C26, C27), \<open>Fleet_Properties\<close> (C25), \<open>Gateway_Properties\<close> (C28 to
  C31), \<open>Graphql_Properties\<close> (C32 to C36), \<open>Service_Properties\<close> (C37, C39, C40) and
  \<open>Lifecycle\<close> (C38); those that span the
  catalog (C1, C2) stand here.  Most hold in every environment.  Those that promise success
  assume \<open>quiet\<close>: no faults, and images that survive their JSON encoding.  Those on GraphQL
  answers assume \<open>sound_runtime\<close> and \<open>sound_inputs\<close>, the documented behaviour of gqlgen.  Fresh identifiers
  are assumed only where success depends on them (\<open>uuid_fresh\<close>), for the ticks of the one call:
  \<open>6 * length items + 8\<close> (\<open>order_ticks\<close>) covers begin, lookup, a price, three statements and an
  identifier with its insert for each item, and the identifiers, inserts and commit of the
  order.  A batch of the worker is 25 events.  No definition uses fuel: every loop of the
  code runs over a list or, in the worker, over the signals it receives, and introspection
  follows the selection, whose size is its measure.

  \<^bold>\<open>Not modelled.\<close>  SQL is translated statement by statement; a query without \<open>ORDER BY\<close>, and rows
  that tie, come in the order of insertion; a text that is too long for its column is refused
  also when its excess is only spaces, which PostgreSQL cuts off (\<open>varchar\<close>).  Orders and reservations interleave with each
  other; the reading calls, the worker and a restart are atomic with respect to them, as one
  statement or one transaction.  Isolation levels other than the default are not modelled, and
  deadlock detection is a fault that may strike any statement.  Cancellation of a context is a
  fault of the connection.  The wire format of messages and what the protobuf library builds from the descriptor, tracing
  spans, the health and reflection services, listening and signals are left to their libraries; the embedded migrations
  (\<open>db/catalog/fs.go\<close>) are the schema.  The concurrent fields of a query are
  atomic with respect to each other; parsing and validation of a query belong to gqlgen, and
  deferred groups do not arise, as the schema has no deferred fields.  Payments and RabbitMQ
  exist in the documents only.
\<close>

section \<open>The catalog as a whole\<close>

text \<open>
  C1. Every state that the catalog can reach from empty tables, by any sequence of calls,
  worker batches and restarts and whatever the environment does, has no negative stock, for
  every order one event and no other events in the outbox, an exact total for every order,
  and has delivered every event marked as published, and nothing but events of orders.
\<close>
theorem catalog_reachable_sound:
  assumes "reachable E s"
  shows "(\<forall>c \<in> set (cabinets (w_db (wk_store s))). 0 \<le> sint (c_quantity c))
    \<and> map ob_aggregate_id (outbox (w_db (wk_store s))) = map o_id (orders (w_db (wk_store s)))
    \<and> (\<forall>o1 \<in> set (orders (w_db (wk_store s))). o_total_cents o1
         = sum_list (map line_cents (items_of (o_id o1) (w_db (wk_store s)))))
    \<and> (\<forall>e \<in> set (outbox (w_db (wk_store s))). ob_published_at e \<noteq> None \<longrightarrow>
         event_text e \<in> set (wk_publisher s))
    \<and> set (wk_publisher s) \<subseteq> event_text ` set (outbox (w_db (wk_store s)))"
  using catalog_inv_reachable [OF assms]
  by (simp add: catalog_inv_def schema_ok_def cabinets_ok_def outbox_mirrors_def totals_ok_def
      delivery_ok_def)

lemma sample_boot: "reachable sample_env (initial_state\<lparr>wk_store := snd (seedCabinets sample_env (wk_store initial_state))\<rparr>)"
proof -
  have "sys_step sample_env initial_state
      (initial_state\<lparr>wk_store := snd (seedCabinets sample_env (wk_store initial_state))\<rparr>)"
    by (rule sys_step.boot) (rule prod.collapse [symmetric])
  then show ?thesis unfolding reachable_def by (rule r_into_rtranclp)
qed

lemma catalog_reachable_sound_witness:
  "\<exists>s. reachable sample_env s \<and> wk_store s = snd (seedCabinets sample_env (wk_store initial_state))
     \<and> (\<forall>c \<in> set (cabinets (w_db (wk_store s))). 0 \<le> sint (c_quantity c))"
  using sample_boot catalog_reachable_sound [OF sample_boot]
  by (intro exI [of _ "initial_state\<lparr>wk_store := snd (seedCabinets sample_env (wk_store initial_state))\<rparr>"]) simp

text \<open>
  C2. Units are conserved: from any reachable state on, whatever happens, the stock of a
  cabinet plus the quantities of its reservations stays what it was.
\<close>
theorem units_conserved_forever:
  assumes "reachable E s" "(sys_step E)\<^sup>*\<^sup>* s s'"
    "stock_of (w_db (wk_store s)) cid = Some n"
  shows "\<exists>m. stock_of (w_db (wk_store s')) cid = Some m \<and> 0 \<le> m
    \<and> m + reserved_units (w_db (wk_store s')) cid = n + reserved_units (w_db (wk_store s)) cid"
proof -
  have "total_units (w_db (wk_store s)) cid = Some (n + reserved_units (w_db (wk_store s)) cid)"
    using assms(3) by (simp add: total_units_def)
  from units_reachable [OF assms(2) catalog_inv_reachable [OF assms(1)] this] stock_nonneg show ?thesis
    by (auto simp: total_units_def catalog_inv_def)
qed

lemma units_conserved_forever_witness:
  "\<exists>s m. reachable sample_env s \<and> stock_of (w_db (wk_store s)) ''cab-mk2-01'' = Some m \<and> 0 \<le> m
     \<and> m + reserved_units (w_db (wk_store s)) ''cab-mk2-01'' = 1"
proof -
  let ?s = "initial_state\<lparr>wk_store := snd (seedCabinets sample_env (wk_store initial_state))\<rparr>"
  have db: "w_db (wk_store ?s) = first_seed 0"
    using seedCabinets_quiet(2) [of sample_env "wk_store initial_state" "first_seed 0"] seed_first [of 0]
    by (simp add: initial_state_def)
  have st: "stock_of (w_db (wk_store ?s)) ''cab-mk2-01'' = Some 1"
    unfolding db by (rule stock_first_seed(1))
  have "reserved_units (w_db (wk_store ?s)) ''cab-mk2-01'' = 0"
    unfolding db by (simp add: reserved_units_def first_seed_def empty_db_def)
  with units_conserved_forever [OF sample_boot rtranclp.rtrancl_refl st] obtain m where
    "0 \<le> m" "m + reserved_units (w_db (wk_store ?s)) ''cab-mk2-01'' = 1" "stock_of (w_db (wk_store ?s)) ''cab-mk2-01'' = Some m"
    by auto
  with sample_boot show ?thesis by blast
qed

end
